(* ===== verification/Prelude.thy ===== *)
theory Prelude
  imports Main
begin

text \<open>
  Shared foundations of the GridFlux tooling model: the exceptions the Python code raises as a
  datatype, the result type that carries them, the sequencing combinator that stops at the
  first exception, the association-list dictionary with Python's insertion-order update, and
  the generic contracts (locales) that several components discharge for their own operations.
\<close>

named_theorems res_simps \<open>rewrite rules for results and their sequencing\<close>
named_theorems str_simps \<open>rewrite rules for the string library\<close>
named_theorems path_simps \<open>rewrite rules for paths and file systems\<close>

section \<open>Exceptions and results\<close>

datatype py_error =
    ValueError string
  | RuntimeError string
  | FileNotFoundError string
  | IsADirectoryError string
  | NotADirectoryError string
  | FileExistsError string
  | UnicodeDecodeError
  | KeyError string
  | IndexError
  | TypeError
  | AttributeError
  | AssertionError
  | SystemExit string
  | ArgumentTypeError string
  | OSError string
  | TimeoutExpired
  | OverflowError string
  | ZeroDivisionError
  | CalledProcessError

type_synonym 'a res = "py_error + 'a"

text \<open>Python statement sequencing: an exception of the first part skips the rest.\<close>

definition andthen :: "'a res \<Rightarrow> ('a \<Rightarrow> 'b res) \<Rightarrow> 'b res" where
  "andthen m f = (case m of Inl e \<Rightarrow> Inl e | Inr a \<Rightarrow> f a)"

lemma andthen_Inr [simp, res_simps]: "andthen (Inr a) f = f a"
  by (simp add: andthen_def)

lemma andthen_Inl [simp, res_simps]: "andthen (Inl e) f = Inl e"
  by (simp add: andthen_def)

lemma andthen_eq_Inr [res_simps]:
  "andthen m f = Inr b \<longleftrightarrow> (\<exists>a. m = Inr a \<and> f a = Inr b)"
  by (cases m) auto

lemma andthen_eq_Inl [res_simps]:
  "andthen m f = Inl e \<longleftrightarrow> m = Inl e \<or> (\<exists>a. m = Inr a \<and> f a = Inl e)"
  by (cases m) auto

lemma andthen_assoc [res_simps]:
  "andthen (andthen m f) g = andthen m (\<lambda>a. andthen (f a) g)"
  by (cases m) auto

definition ok :: "'a res \<Rightarrow> bool" where
  "ok r = (case r of Inl _ \<Rightarrow> False | Inr _ \<Rightarrow> True)"

lemma ok_simps [simp]: "ok (Inr a)" "\<not> ok (Inl e)"
  by (simp_all add: ok_def)

lemma ok_iff: "ok r \<longleftrightarrow> (\<exists>a. r = Inr a)"
  by (cases r) auto

text \<open>A loop that collects the results of its body and stops at the first exception.\<close>

fun collect :: "('a \<Rightarrow> 'b res) \<Rightarrow> 'a list \<Rightarrow> 'b list res" where
  "collect f [] = Inr []"
| "collect f (x # xs) = andthen (f x) (\<lambda>y. andthen (collect f xs) (\<lambda>ys. Inr (y # ys)))"

lemma collect_eq_Inr:
  "collect f xs = Inr ys \<longleftrightarrow> list_all2 (\<lambda>x y. f x = Inr y) xs ys"
proof (induction xs arbitrary: ys)
  case Nil
  then show ?case by auto
next
  case (Cons x xs)
  then show ?case by (cases ys) (auto simp: andthen_eq_Inr)
qed

lemma collect_length: "collect f xs = Inr ys \<Longrightarrow> length ys = length xs"
  by (simp add: collect_eq_Inr list_all2_lengthD)

lemma collect_memD:
  assumes "collect f xs = Inr ys" and "y \<in> set ys"
  shows "\<exists>x\<in>set xs. f x = Inr y"
  using assms by (induction xs arbitrary: ys) (auto simp: andthen_eq_Inr)

lemma collect_failsD:
  assumes "collect f xs = Inr ys" and "x \<in> set xs"
  shows "\<exists>y. f x = Inr y"
  using assms by (induction xs arbitrary: ys) (auto simp: andthen_eq_Inr)

lemma collect_total:
  assumes "\<And>x. x \<in> set xs \<Longrightarrow> f x = Inr (g x)"
  shows "collect f xs = Inr (map g xs)"
  using assms by (induction xs) auto

section \<open>Dictionaries in insertion order\<close>

text \<open>
  A Python \<open>dict\<close> keeps its keys in insertion order; an assignment to a present key keeps its
  position. The model is an association list without repeated keys.
\<close>

type_synonym ('k, 'v) pydict = "('k \<times> 'v) list"

fun dict_set :: "'k \<Rightarrow> 'v \<Rightarrow> ('k, 'v) pydict \<Rightarrow> ('k, 'v) pydict" where
  "dict_set k v [] = [(k, v)]"
| "dict_set k v ((k', v') # d) = (if k = k' then (k, v) # d else (k', v') # dict_set k v d)"

definition dict_get :: "('k, 'v) pydict \<Rightarrow> 'k \<Rightarrow> 'v \<Rightarrow> 'v" where
  "dict_get d k dflt = (case map_of d k of None \<Rightarrow> dflt | Some v \<Rightarrow> v)"

fun dict_update :: "('k, 'v) pydict \<Rightarrow> ('k, 'v) pydict \<Rightarrow> ('k, 'v) pydict" where
  "dict_update d [] = d"
| "dict_update d ((k, v) # e) = dict_update (dict_set k v d) e"

lemma map_of_dict_set [simp]: "map_of (dict_set k v d) = (map_of d)(k \<mapsto> v)"
  by (induction d) auto

lemma dict_get_set [simp]:
  "dict_get (dict_set k v d) k' dflt = (if k' = k then v else dict_get d k' dflt)"
  by (simp add: dict_get_def)

lemma fst_set_dict_set [simp]: "fst ` set (dict_set k v d) = insert k (fst ` set d)"
  by (induction k v d rule: dict_set.induct) auto

lemma distinct_dict_set: "distinct (map fst d) \<Longrightarrow> distinct (map fst (dict_set k v d))"
proof (induction k v d rule: dict_set.induct)
  case (2 k v k' v' d)
  have "fst ` set (dict_set k v d) = insert k (fst ` set d)" by simp
  with 2 show ?case by (cases "k = k'") (simp_all del: fst_set_dict_set)
qed simp

lemma map_of_dict_update: "map_of (dict_update d e) = map_of d ++ map_of (rev e)"
  by (induction d e rule: dict_update.induct) (auto simp: map_add_def fun_eq_iff split: option.splits)

lemma distinct_dict_update: "distinct (map fst d) \<Longrightarrow> distinct (map fst (dict_update d e))"
  by (induction d e rule: dict_update.induct) (auto simp: distinct_dict_set)

lemma dict_get_update_same:
  assumes "distinct (map fst e)" and "map_of e k = Some v"
  shows "dict_get (dict_update d e) k dflt = v"
proof -
  have "map_of (rev e) k = Some v"
    using assms by (metis distinct_rev map_of_eq_Some_iff rev_map set_rev)
  then show ?thesis by (simp add: dict_get_def map_of_dict_update)
qed

section \<open>Generic contracts\<close>

text \<open>
  A printer with a left inverse. Every canonical form of the tooling (paths, decimal tokens,
  replies) discharges it, and gets for free that normalisation is idempotent and that two
  well-formed values with the same text are equal.
\<close>

locale text_codec =
  fixes print :: "'a \<Rightarrow> string"
    and parse :: "string \<Rightarrow> 'a option"
    and wf :: "'a \<Rightarrow> bool"
  assumes parse_print: "wf a \<Longrightarrow> parse (print a) = Some a"
    and wf_parse: "parse s = Some a \<Longrightarrow> wf a"
begin

lemma print_inject: "wf a \<Longrightarrow> wf b \<Longrightarrow> print a = print b \<longleftrightarrow> a = b"
  by (metis parse_print option.inject)

lemma normalise_idem:
  assumes "map_option print (parse s) = Some t"
  shows "map_option print (parse t) = Some t"
proof -
  from assms obtain a where "parse s = Some a" and t: "t = print a" by auto
  then have "wf a" by (blast intro: wf_parse)
  then show ?thesis by (simp add: t parse_print)
qed

lemma parse_surj: "wf a \<Longrightarrow> \<exists>s. parse s = Some a"
  by (blast intro: parse_print)

end

text \<open>
  A store with named cells: what is read after a write. The client lemma is about copying a
  list of cells from one store into another, which is what artifact synchronisation does.
\<close>

locale cell_store =
  fixes get :: "'s \<Rightarrow> 'k \<Rightarrow> 'v option"
    and put :: "'s \<Rightarrow> 'k \<Rightarrow> 'v \<Rightarrow> 's res"
  assumes get_put_same: "put s k v = Inr s' \<Longrightarrow> get s' k = Some v"
    and get_put_other: "put s k v = Inr s' \<Longrightarrow> k' \<noteq> k \<Longrightarrow> get s' k' = get s k'"
begin

fun copy_cells :: "('k \<Rightarrow> 'v option) \<Rightarrow> 's \<Rightarrow> 'k list \<Rightarrow> 's res" where
  "copy_cells src s [] = Inr s"
| "copy_cells src s (k # ks) =
     (case src k of
        None \<Rightarrow> Inl (KeyError '''')
      | Some v \<Rightarrow> andthen (put s k v) (\<lambda>s'. copy_cells src s' ks))"

lemma copy_cells_get:
  assumes "copy_cells src s ks = Inr s'"
  shows "get s' k = (if k \<in> set ks then src k else get s k)"
  using assms
proof (induction ks arbitrary: s)
  case Nil
  then show ?case by simp
next
  case (Cons j ks)
  from Cons.prems obtain v s1 where v: "src j = Some v"
    and put: "put s j v = Inr s1" and rest: "copy_cells src s1 ks = Inr s'"
    by (auto simp: andthen_eq_Inr split: option.splits)
  show ?case
    using Cons.IH [OF rest] get_put_same [OF put] get_put_other [OF put, of k] v
    by (cases "k = j") auto
qed

lemma copy_cells_sources:
  assumes "copy_cells src s ks = Inr s'" and "k \<in> set ks"
  shows "src k \<noteq> None"
  using assms
  by (induction ks arbitrary: s) (auto simp: andthen_eq_Inr split: option.splits)

end

section \<open>Effects\<close>

text \<open>
  Code that talks to the outside: a state transformer with a result. An exception keeps the
  state reached so far, so that \<open>finally\<close> blocks and handlers see it.
\<close>

type_synonym ('s, 'a) act = "'s \<Rightarrow> 'a res \<times> 's"

definition act_ret :: "'a \<Rightarrow> ('s, 'a) act" where
  "act_ret a s = (Inr a, s)"

definition act_raise :: "py_error \<Rightarrow> ('s, 'a) act" where
  "act_raise e s = (Inl e, s)"

definition act_lift :: "'a res \<Rightarrow> ('s, 'a) act" where
  "act_lift r s = (r, s)"

definition act_bind :: "('s, 'a) act \<Rightarrow> ('a \<Rightarrow> ('s, 'b) act) \<Rightarrow> ('s, 'b) act" where
  "act_bind m f s = (case m s of (Inl e, s1) \<Rightarrow> (Inl e, s1) | (Inr a, s1) \<Rightarrow> f a s1)"

definition act_when :: "bool \<Rightarrow> ('s, unit) act \<Rightarrow> ('s, unit) act" where
  "act_when b m = (if b then m else act_ret ())"

definition act_finally :: "('s, 'a) act \<Rightarrow> ('s, unit) act \<Rightarrow> ('s, 'a) act" where
  \<comment> \<open>\<open>try: m finally: c\<close>; an exception of the cleanup wins\<close>
  "act_finally m c s =
     (case m s of (r, s1) \<Rightarrow> (case c s1 of (Inl e, s2) \<Rightarrow> (Inl e, s2) | (Inr _, s2) \<Rightarrow> (r, s2)))"

definition act_catch :: "('s, 'a) act \<Rightarrow> (py_error \<Rightarrow> ('s, 'a) act) \<Rightarrow> ('s, 'a) act" where
  "act_catch m h s = (case m s of (Inl e, s1) \<Rightarrow> h e s1 | (Inr a, s1) \<Rightarrow> (Inr a, s1))"

named_theorems act_simps \<open>rewrite rules for effects\<close>

lemma act_basic [act_simps]:
  "act_ret a s = (Inr a, s)" "act_raise e s = (Inl e, s)" "act_lift r s = (r, s)"
  by (simp_all add: act_ret_def act_raise_def act_lift_def)

lemma act_bind_ok [act_simps]:
  "act_bind m f s = (Inr b, s') \<longleftrightarrow> (\<exists>a s1. m s = (Inr a, s1) \<and> f a s1 = (Inr b, s'))"
  by (auto simp: act_bind_def split: prod.splits sum.splits)

lemma act_bind_err:
  "act_bind m f s = (Inl e, s') \<longleftrightarrow>
     m s = (Inl e, s') \<or> (\<exists>a s1. m s = (Inr a, s1) \<and> f a s1 = (Inl e, s'))"
  by (auto simp: act_bind_def split: prod.splits sum.splits)

lemma act_when_ok [act_simps]:
  "act_when b m s = (Inr u, s') \<longleftrightarrow> (if b then m s = (Inr u, s') else s' = s)"
  by (auto simp: act_when_def act_ret_def)

lemma act_finally_ok [act_simps]:
  "act_finally m c s = (Inr b, s') \<longleftrightarrow> (\<exists>s1. m s = (Inr b, s1) \<and> c s1 = (Inr (), s'))"
  by (auto simp: act_finally_def split: prod.splits sum.splits)

lemma act_raise_not_ok [simp]: "act_raise e s \<noteq> (Inr a, s')"
  by (simp add: act_raise_def)

text \<open>
  An order on states that every primitive effect respects is respected by every program built
  from them, whether it returns or raises: the client lemmas of the contract are the closure
  rules of the combinators.
\<close>

locale effect_order =
  fixes leq :: "'s \<Rightarrow> 's \<Rightarrow> bool"
  assumes leq_refl: "leq s s"
    and leq_trans: "leq s t \<Longrightarrow> leq t u \<Longrightarrow> leq s u"
begin

definition grows :: "('s, 'a) act \<Rightarrow> bool" where
  "grows m \<longleftrightarrow> (\<forall>s. leq s (snd (m s)))"

lemma growsI: "(\<And>s r s'. m s = (r, s') \<Longrightarrow> leq s s') \<Longrightarrow> grows m"
  unfolding grows_def by (metis prod.collapse)

lemma growsD: "grows m \<Longrightarrow> m s = (r, s') \<Longrightarrow> leq s s'"
  unfolding grows_def by (metis snd_conv)

lemma grows_ret: "grows (act_ret a)" and grows_raise: "grows (act_raise e)"
  and grows_lift: "grows (act_lift r)"
  by (simp_all add: grows_def act_basic leq_refl)

lemma grows_bind: "grows m \<Longrightarrow> (\<And>a. grows (f a)) \<Longrightarrow> grows (act_bind m f)"
  unfolding grows_def act_bind_def
  by (auto split: prod.split sum.split) (metis leq_trans snd_conv)+

lemma grows_when: "grows m \<Longrightarrow> grows (act_when b m)"
  by (simp add: act_when_def grows_ret)

lemma grows_finally: "grows m \<Longrightarrow> grows c \<Longrightarrow> grows (act_finally m c)"
  unfolding grows_def act_finally_def
  by (auto split: prod.split sum.split) (metis leq_trans snd_conv)+

lemma grows_catch: "grows m \<Longrightarrow> (\<And>e. grows (h e)) \<Longrightarrow> grows (act_catch m h)"
  unfolding grows_def act_catch_def
  by (auto split: prod.split sum.split) (metis leq_trans snd_conv)+

lemmas grows_rules = grows_ret grows_raise grows_lift grows_bind grows_when grows_finally grows_catch

end

end
