(* ===== verification/Py_Strings.thy ===== *)
theory Py_Strings
  imports Prelude
begin

text \<open>
  The part of Python's \<open>str\<close> and \<open>bytes\<close> the tooling uses. A \<open>str\<close> is modelled by its UTF-8
  bytes, a \<open>char list\<close>: searching, replacing, splitting and joining are the same on the bytes
  as on the code points, and so is the order of \<open>sorted\<close>. Case mapping, white space and digits are
  those of ASCII; text whose result depends on the case or the spacing class of another
  character is outside the model.
\<close>

section \<open>Character classes\<close>

definition code :: "char \<Rightarrow> nat" where
  "code c = of_char c"

definition is_space :: "char \<Rightarrow> bool" where
  "is_space c \<longleftrightarrow> 9 \<le> code c \<and> code c \<le> 13 \<or> 28 \<le> code c \<and> code c \<le> 32"

definition is_digit :: "char \<Rightarrow> bool" where
  "is_digit c \<longleftrightarrow> 48 \<le> code c \<and> code c \<le> 57"

definition is_upper :: "char \<Rightarrow> bool" where
  "is_upper c \<longleftrightarrow> 65 \<le> code c \<and> code c \<le> 90"

definition is_lower :: "char \<Rightarrow> bool" where
  "is_lower c \<longleftrightarrow> 97 \<le> code c \<and> code c \<le> 122"

definition is_word :: "char \<Rightarrow> bool" where
  \<comment> \<open>the class \<open>\w\<close>; characters beyond ASCII count as letters\<close>
  "is_word c \<longleftrightarrow> is_digit c \<or> is_upper c \<or> is_lower c \<or> c = CHR ''_'' \<or> 128 \<le> code c"

definition lower_char :: "char \<Rightarrow> char" where
  "lower_char c = (if is_upper c then char_of (code c + 32) else c)"

abbreviation newline :: char where
  "newline \<equiv> CHR 0x0A"

abbreviation carriage_return :: char where
  "carriage_return \<equiv> CHR 0x0D"


lemma code_inject [simp]: "code a = code b \<longleftrightarrow> a = b"
  by (simp add: code_def)

lemma code_less_256 [simp]: "code c < 256"
  by (simp add: code_def)

lemma code_char_of [simp]: "n < 256 \<Longrightarrow> code (char_of n) = n"
  by (simp add: code_def)

lemmas char_class_defs = code_def is_space_def is_digit_def is_upper_def is_lower_def is_word_def

lemma lower_char_not_upper [simp]: "\<not> is_upper (lower_char c)"
  by (simp add: lower_char_def is_upper_def)

lemma lower_char_idem [simp]: "lower_char (lower_char c) = lower_char c"
  using lower_char_not_upper [of c] by (simp only: lower_char_def [of "lower_char c"] if_False)

section \<open>Searching, splitting and joining\<close>

definition starts_with :: "string \<Rightarrow> string \<Rightarrow> bool" where
  "starts_with p s \<longleftrightarrow> take (length p) s = p"

definition ends_with :: "string \<Rightarrow> string \<Rightarrow> bool" where
  "ends_with p s \<longleftrightarrow> length p \<le> length s \<and> drop (length s - length p) s = p"

fun contains :: "string \<Rightarrow> string \<Rightarrow> bool" where
  \<comment> \<open>\<open>needle in haystack\<close>\<close>
  "contains n [] \<longleftrightarrow> n = []"
| "contains n (c # cs) \<longleftrightarrow> starts_with n (c # cs) \<or> contains n cs"

fun split_on :: "char \<Rightarrow> string \<Rightarrow> string list" where
  "split_on d [] = [[]]"
| "split_on d (c # cs) =
     (if c = d then [] # split_on d cs
      else (case split_on d cs of [] \<Rightarrow> [[c]] | w # ws \<Rightarrow> (c # w) # ws))"

fun join :: "string \<Rightarrow> string list \<Rightarrow> string" where
  "join sep [] = []"
| "join sep [w] = w"
| "join sep (w # ws) = w @ sep @ join sep ws"

definition strip_chars :: "(char \<Rightarrow> bool) \<Rightarrow> string \<Rightarrow> string" where
  "strip_chars P s = rev (dropWhile P (rev (dropWhile P s)))"

definition rstrip_chars :: "(char \<Rightarrow> bool) \<Rightarrow> string \<Rightarrow> string" where
  "rstrip_chars P s = rev (dropWhile P (rev s))"

definition py_strip :: "string \<Rightarrow> string" where
  "py_strip = strip_chars is_space"

definition py_lower :: "string \<Rightarrow> string" where
  "py_lower s = map lower_char s"

function py_replace :: "string \<Rightarrow> string \<Rightarrow> string \<Rightarrow> string" where
  \<comment> \<open>\<open>s.replace(old, new)\<close> for a nonempty \<open>old\<close>: leftmost, non-overlapping\<close>
  "py_replace old new s =
     (if s = [] \<or> old = [] then s
      else if starts_with old s then new @ py_replace old new (drop (length old) s)
      else hd s # py_replace old new (tl s))"
  by pat_completeness auto
termination
  by (relation "measure (\<lambda>(old, new, s). length s)") (auto simp: neq_Nil_conv)

declare py_replace.simps [simp del]

fun py_take :: "int \<Rightarrow> 'a list \<Rightarrow> 'a list" where
  \<comment> \<open>\<open>xs[:n]\<close> for a count that is not negative\<close>
  "py_take n [] = []"
| "py_take n (x # xs) = (if n \<le> 0 then [] else x # py_take (n - 1) xs)"

fun py_drop :: "int \<Rightarrow> 'a list \<Rightarrow> 'a list" where
  \<comment> \<open>\<open>xs[n:]\<close> for a count that is not negative\<close>
  "py_drop n [] = []"
| "py_drop n (x # xs) = (if n \<le> 0 then x # xs else py_drop (n - 1) xs)"

definition is_linebreak :: "char \<Rightarrow> bool" where
  "is_linebreak c \<longleftrightarrow> 10 \<le> code c \<and> code c \<le> 13 \<or> 28 \<le> code c \<and> code c \<le> 30"

fun splitlines_acc :: "string \<Rightarrow> string \<Rightarrow> string list" where
  "splitlines_acc cur [] = (if cur = [] then [] else [rev cur])"
| "splitlines_acc cur (c # cs) =
     (if c = carriage_return \<and> cs \<noteq> [] \<and> hd cs = newline then splitlines_acc cur cs
      else if is_linebreak c then rev cur # splitlines_acc [] cs
      else splitlines_acc (c # cur) cs)"

definition py_splitlines :: "string \<Rightarrow> string list" where
  "py_splitlines s = splitlines_acc [] s"

fun split_ws_acc :: "string \<Rightarrow> string \<Rightarrow> string list" where
  "split_ws_acc cur [] = (if cur = [] then [] else [rev cur])"
| "split_ws_acc cur (c # cs) =
     (if is_space c then (if cur = [] then split_ws_acc [] cs else rev cur # split_ws_acc [] cs)
      else split_ws_acc (c # cur) cs)"

definition py_split :: "string \<Rightarrow> string list" where
  \<comment> \<open>\<open>s.split()\<close>\<close>
  "py_split s = split_ws_acc [] s"

definition py_len :: "string \<Rightarrow> nat" where
  \<comment> \<open>the number of code points: continuation bytes do not count\<close>
  "py_len s = length (filter (\<lambda>c. \<not> (128 \<le> code c \<and> code c < 192)) s)"

definition py_isdigit :: "string \<Rightarrow> bool" where
  "py_isdigit s \<longleftrightarrow> s \<noteq> [] \<and> list_all is_digit s"

section \<open>Decimal numbers\<close>

definition digit_char :: "nat \<Rightarrow> char" where
  "digit_char d = char_of (48 + d)"

fun show_nat :: "nat \<Rightarrow> string" where
  "show_nat n = (if n < 10 then [digit_char n] else show_nat (n div 10) @ [digit_char (n mod 10)])"

declare show_nat.simps [simp del]

definition show_int :: "int \<Rightarrow> string" where
  "show_int i = (if i < 0 then CHR ''-'' # show_nat (nat (- i)) else show_nat (nat i))"

definition digits_value :: "string \<Rightarrow> nat" where
  "digits_value s = foldl (\<lambda>n c. 10 * n + (code c - 48)) 0 s"

fun int_digits_ok :: "bool \<Rightarrow> string \<Rightarrow> bool" where
  \<comment> \<open>digit groups separated by single underscores; the flag says a digit came before\<close>
  "int_digits_ok d [] \<longleftrightarrow> d"
| "int_digits_ok d (c # cs) \<longleftrightarrow>
     (if is_digit c then int_digits_ok True cs
      else d \<and> c = CHR ''_'' \<and> int_digits_ok False cs)"

definition py_int :: "string \<Rightarrow> int option" where
  \<comment> \<open>\<open>int(text)\<close>; \<open>None\<close> is \<open>ValueError\<close>\<close>
  "py_int s =
     (let t = py_strip s;
          neg = starts_with ''-'' t;
          body = (if neg \<or> starts_with ''+'' t then tl t else t)
      in if int_digits_ok False body
         then Some ((if neg then -1 else 1) * int (digits_value (filter is_digit body)))
         else None)"

definition int_or_raise :: "string \<Rightarrow> int res" where
  "int_or_raise s =
     (case py_int s of
        None \<Rightarrow> Inl (ValueError (''invalid literal for int() with base 10: '' @ s))
      | Some i \<Rightarrow> Inr i)"


section \<open>Laws of searching\<close>

lemma starts_with_append: "starts_with p s \<longleftrightarrow> (\<exists>t. s = p @ t)"
  unfolding starts_with_def by (metis append_eq_conv_conj append_take_drop_id)

lemma starts_with_self [simp]: "starts_with p (p @ t)"
  by (auto simp: starts_with_append)

lemma starts_with_Cons [simp]:
  "starts_with (c # p) s \<longleftrightarrow> (\<exists>t. s = c # t \<and> starts_with p t)"
  by (cases s) (auto simp: starts_with_def)

lemma starts_with_Nil [simp]: "starts_with [] s" "starts_with p [] \<longleftrightarrow> p = []"
  by (auto simp: starts_with_def)

lemma ends_with_append: "ends_with p s \<longleftrightarrow> (\<exists>t. s = t @ p)"
proof
  assume "ends_with p s"
  then show "\<exists>t. s = t @ p" unfolding ends_with_def by (metis append_take_drop_id)
next
  assume "\<exists>t. s = t @ p"
  then show "ends_with p s" by (auto simp: ends_with_def)
qed

lemma contains_iff: "contains n s \<longleftrightarrow> (\<exists>u v. s = u @ n @ v)"
proof (induction n s rule: contains.induct)
  case (1 n)
  then show ?case by auto
next
  case (2 n c cs)
  show ?case
  proof
    assume "contains n (c # cs)"
    then consider "starts_with n (c # cs)" | "contains n cs" by auto
    then show "\<exists>u v. c # cs = u @ n @ v"
    proof cases
      case 1
      then show ?thesis unfolding starts_with_append by (metis append_Nil)
    next
      case 2
      then obtain u v where "cs = u @ n @ v" using "2.IH" by auto
      then have "c # cs = (c # u) @ n @ v" by simp
      then show ?thesis by blast
    qed
  next
    assume "\<exists>u v. c # cs = u @ n @ v"
    then obtain u v where uv: "c # cs = u @ n @ v" by blast
    show "contains n (c # cs)"
    proof (cases u)
      case Nil
      then have "starts_with n (c # cs)" using uv by simp
      then show ?thesis by simp
    next
      case (Cons a u')
      then have "cs = u' @ n @ v" using uv by simp
      then have "contains n cs" using "2.IH" by auto
      then show ?thesis by simp
    qed
  qed
qed

lemma contains_empty [simp]: "contains [] s"
  by (auto simp: contains_iff)

lemma contains_trans: "contains a b \<Longrightarrow> contains b c \<Longrightarrow> contains a c"
  unfolding contains_iff by (metis append.assoc)

lemma contains_appendI1: "contains n a \<Longrightarrow> contains n (a @ b)"
  unfolding contains_iff by (metis append.assoc)

lemma contains_appendI2: "contains n b \<Longrightarrow> contains n (a @ b)"
  unfolding contains_iff by (metis append.assoc)

lemma contains_set: "contains n s \<Longrightarrow> set n \<subseteq> set s"
  by (auto simp: contains_iff)

text \<open>A needle without the character \<open>c\<close> cannot straddle an occurrence of \<open>c\<close>.\<close>

lemma contains_across:
  assumes "c \<notin> set n" and "contains n (a @ c # b)"
  shows "contains n a \<or> contains n b"
proof -
  from assms(2) obtain u v where eq: "a @ c # b = u @ n @ v" by (auto simp: contains_iff)
  then consider (left) us where "a = u @ us" "us @ c # b = n @ v"
    | (right) us where "u = a @ us" "c # b = us @ n @ v"
    by (auto simp: append_eq_append_conv2)
  then show ?thesis
  proof cases
    case left
    from left(2) consider (inside) w where "us = n @ w" | (over) w where "n = us @ w" "c # b = w @ v"
      by (auto simp: append_eq_append_conv2)
    then show ?thesis
    proof cases
      case inside
      then show ?thesis using left(1) by (auto simp: contains_iff)
    next
      case over
      then show ?thesis
      proof (cases w)
        case Nil
        with over left(1) have "a = u @ n" by simp
        then have "contains n a" unfolding contains_iff by (metis append_Nil2)
        then show ?thesis ..
      next
        case (Cons x w')
        with over assms(1) show ?thesis by auto
      qed
    qed
  next
    case right
    then show ?thesis
    proof (cases us)
      case Nil
      then show ?thesis
      proof (cases n)
        case Nil
        then show ?thesis by simp
      next
        case (Cons x n')
        with right \<open>us = []\<close> assms(1) show ?thesis by auto
      qed
    next
      case (Cons x us')
      with right(2) have "b = us' @ n @ v" by simp
      then show ?thesis by (auto simp: contains_iff)
    qed
  qed
qed

lemma contains_lower_mono: "contains n s \<Longrightarrow> contains (py_lower n) (py_lower s)"
  unfolding contains_iff py_lower_def by (metis map_append)

lemma py_lower_idem [simp]: "py_lower (py_lower s) = py_lower s"
  by (simp add: py_lower_def comp_def)

section \<open>Laws of splitting and joining\<close>

lemma split_on_nonempty [simp]: "split_on d s \<noteq> []"
  by (induction d s rule: split_on.induct) (auto split: list.splits)

lemma join_Cons_nonempty: "ws \<noteq> [] \<Longrightarrow> join sep (w # ws) = w @ sep @ join sep ws"
  by (cases ws) auto

lemma join_split_on [simp]: "join [d] (split_on d s) = s"
proof (induction d s rule: split_on.induct)
  case (1 d)
  then show ?case by simp
next
  case (2 d c cs)
  obtain w ws where ws: "split_on d cs = w # ws" by (cases "split_on d cs") auto
  show ?case
  proof (cases "c = d")
    case True
    then show ?thesis using 2 by (simp add: join_Cons_nonempty)
  next
    case False
    then show ?thesis using 2 ws by (cases ws) simp_all
  qed
qed

lemma split_on_no_sep: "w \<in> set (split_on d s) \<Longrightarrow> d \<notin> set w"
proof (induction d s arbitrary: w rule: split_on.induct)
  case (1 d)
  then show ?case by simp
next
  case (2 d c cs)
  obtain v ws where ws: "split_on d cs = v # ws" by (cases "split_on d cs") auto
  with 2 show ?case by (cases "c = d") auto
qed

lemma split_on_single: "d \<notin> set w \<Longrightarrow> split_on d w = [w]"
  by (induction w) auto

lemma split_on_append:
  "d \<notin> set w \<Longrightarrow> split_on d (w @ d # s) = w # split_on d s"
  by (induction w) auto

lemma split_on_join:
  assumes "ws \<noteq> []" and "\<And>w. w \<in> set ws \<Longrightarrow> d \<notin> set w"
  shows "split_on d (join [d] ws) = ws"
  using assms
proof (induction ws)
  case Nil
  then show ?case by simp
next
  case (Cons w ws)
  show ?case
  proof (cases "ws = []")
    case True
    with Cons.prems show ?thesis by (simp add: split_on_single)
  next
    case False
    with Cons show ?thesis by (simp add: join_Cons_nonempty split_on_append)
  qed
qed

lemma py_take_take: "py_take n xs = take (nat n) xs"
  by (induction n xs rule: py_take.induct) (auto simp: take_Cons' nat_diff_distrib)

lemma py_drop_drop: "py_drop n xs = drop (nat n) xs"
  by (induction n xs rule: py_drop.induct) (auto simp: drop_Cons' nat_diff_distrib)

section \<open>Laws of stripping\<close>

lemma strip_chars_id:
  assumes "s = [] \<or> (\<not> P (hd s) \<and> \<not> P (last s))"
  shows "strip_chars P s = s"
proof (cases "s = []")
  case True
  then show ?thesis by (simp add: strip_chars_def)
next
  case False
  with assms have "\<not> P (hd s)" and "\<not> P (last s)" by auto
  with False have "dropWhile P s = s" by (cases s) auto
  moreover have "dropWhile P (rev s) = rev s"
    using False \<open>\<not> P (last s)\<close> by (cases s rule: rev_cases) auto
  ultimately show ?thesis by (simp add: strip_chars_def)
qed

lemma set_strip_chars: "set (strip_chars P s) \<subseteq> set s"
  by (auto simp: strip_chars_def dest!: set_dropWhileD)

lemma strip_chars_contained: "contains (strip_chars P s) s"
proof -
  have "s = takeWhile P s @ dropWhile P s" by simp
  moreover have "dropWhile P s
      = strip_chars P s @ rev (takeWhile P (rev (dropWhile P s)))"
    unfolding strip_chars_def
    by (metis rev_append rev_rev_ident takeWhile_dropWhile_id)
  ultimately show ?thesis unfolding contains_iff by metis
qed

section \<open>Replacement leaves no occurrence behind\<close>

text \<open>The pieces of a text between the occurrences that \<open>replace\<close> substitutes.\<close>

function pieces :: "string \<Rightarrow> string \<Rightarrow> string list" where
  "pieces old s =
     (if s = [] \<or> old = [] then [s]
      else if starts_with old s then [] # pieces old (drop (length old) s)
      else (case pieces old (tl s) of [] \<Rightarrow> [[hd s]] | w # ws \<Rightarrow> (hd s # w) # ws))"
  by pat_completeness auto
termination
  by (relation "measure (\<lambda>(old, s). length s)") (auto simp: neq_Nil_conv)

declare pieces.simps [simp del]

lemma pieces_nonempty [simp]: "pieces old s \<noteq> []"
  by (subst pieces.simps) (auto split: list.splits)

lemma pieces_Cons_miss:
  assumes "old \<noteq> []" and "\<not> starts_with old (c # cs)"
  obtains w ws where "pieces old cs = w # ws" and "pieces old (c # cs) = (c # w) # ws"
  using assms pieces.simps [of old "c # cs"] by (cases "pieces old cs") auto

lemma pieces_replace:
  assumes "old \<noteq> []"
  shows "py_replace old new s = join new (pieces old s)"
  using assms
proof (induction old new s rule: py_replace.induct)
  case (1 old new s)
  show ?case
  proof (cases s)
    case Nil
    then show ?thesis by (simp add: py_replace.simps pieces.simps)
  next
    case (Cons c cs)
    show ?thesis
    proof (cases "starts_with old s")
      case True
      with 1 Cons show ?thesis
        by (simp add: py_replace.simps [of old new "c # cs"] pieces.simps [of old "c # cs"]
            join_Cons_nonempty)
    next
      case False
      with Cons "1.prems" obtain w ws where
        w: "pieces old cs = w # ws" "pieces old (c # cs) = (c # w) # ws"
        by (metis pieces_Cons_miss)
      from 1 Cons False have "py_replace old new s = c # join new (pieces old cs)"
        by (simp add: py_replace.simps [of old new "c # cs"])
      with w Cons show ?thesis by (cases ws) simp_all
    qed
  qed
qed

lemma pieces_join: "old \<noteq> [] \<Longrightarrow> join old (pieces old s) = s"
proof (induction old s rule: pieces.induct)
  case (1 old s)
  show ?case
  proof (cases s)
    case Nil
    then show ?thesis by (simp add: pieces.simps)
  next
    case (Cons c cs)
    show ?thesis
    proof (cases "starts_with old s")
      case True
      then have "old @ drop (length old) s = s"
        by (metis append_take_drop_id starts_with_def)
      with True 1 Cons show ?thesis
        by (simp add: pieces.simps [of old "c # cs"] join_Cons_nonempty)
    next
      case False
      with Cons "1.prems" obtain w ws where
        w: "pieces old cs = w # ws" "pieces old (c # cs) = (c # w) # ws"
        by (metis pieces_Cons_miss)
      moreover have "join old (pieces old cs) = cs" using 1 Cons False by simp
      ultimately show ?thesis using Cons by (cases ws) simp_all
    qed
  qed
qed

lemma join_member_contains: "w \<in> set ws \<Longrightarrow> contains w (join sep ws)"
proof (induction ws)
  case Nil
  then show ?case by simp
next
  case (Cons v ws)
  show ?case
  proof (cases "ws = []")
    case True
    with Cons.prems show ?thesis by (auto simp: contains_iff intro: exI [of _ "[]"])
  next
    case False
    with Cons show ?thesis
      by (auto simp: join_Cons_nonempty contains_appendI2)
        (metis append_Nil contains_iff)
  qed
qed

lemma pieces_free:
  assumes "old \<noteq> []" and "w \<in> set (pieces old s)"
  shows "\<not> contains old w"
  using assms
proof (induction old s arbitrary: w rule: pieces.induct)
  case (1 old s)
  show ?case
  proof (cases s)
    case Nil
    with 1 show ?thesis by (simp add: pieces.simps)
  next
    case (Cons c cs)
    show ?thesis
    proof (cases "starts_with old s")
      case True
      with 1 Cons show ?thesis by (auto simp: pieces.simps [of old "c # cs"])
    next
      case False
      with Cons "1.prems" obtain v vs where
        v: "pieces old cs = v # vs" "pieces old (c # cs) = (c # v) # vs"
        by (metis pieces_Cons_miss)
      have IH: "\<And>u. u \<in> set (v # vs) \<Longrightarrow> \<not> contains old u"
        using 1 Cons False v by simp
      have "cs = join old (v # vs)" using pieces_join [OF "1.prems"(1), of cs] v by simp
      then obtain rest where "cs = v @ rest" by (cases vs) auto
      with False Cons have "\<not> starts_with old (c # v)"
        unfolding starts_with_append by (metis append.assoc append_Cons)
      then have "\<not> contains old (c # v)" using IH by simp
      with IH v Cons "1.prems"(2) show ?thesis by auto
    qed
  qed
qed

text \<open>
  A text \<open>v\<close> that has neither bracket and does not lie inside the bracketed word cannot arise
  by inserting the bracketed word.
\<close>

lemma contains_join_bracketed:
  assumes "contains v (join (lb # word @ [rb]) ws)"
    and "lb \<notin> set v" and "rb \<notin> set v" and "\<not> contains v word" and "ws \<noteq> []"
  shows "\<exists>w\<in>set ws. contains v w"
  using assms(1,5)
proof (induction ws)
  case Nil
  then show ?case by simp
next
  case (Cons w ws)
  show ?case
  proof (cases "ws = []")
    case True
    with Cons.prems show ?thesis by simp
  next
    case False
    with Cons.prems have "contains v (w @ lb # (word @ rb # join (lb # word @ [rb]) ws))"
      by (simp add: join_Cons_nonempty)
    then have "contains v w \<or> contains v (join (lb # word @ [rb]) ws)"
      using contains_across [OF assms(2)] contains_across [OF assms(3)] assms(4) by blast
    then show ?thesis using Cons.IH False by auto
  qed
qed

lemma py_replace_bracketed:
  assumes "contains v (py_replace old (lb # word @ [rb]) s)" and "old \<noteq> []"
    and "lb \<notin> set v" and "rb \<notin> set v" and "\<not> contains v word"
  shows "contains v s \<and> v \<noteq> old"
proof -
  from assms have "\<exists>w\<in>set (pieces old s). contains v w"
    by (metis contains_join_bracketed pieces_nonempty pieces_replace)
  then obtain w where w: "w \<in> set (pieces old s)" and vw: "contains v w" by blast
  from w assms(2) have "contains w s" by (metis join_member_contains pieces_join)
  with vw have "contains v s" by (rule contains_trans)
  moreover from w vw assms(2) have "v \<noteq> old" using pieces_free by blast
  ultimately show ?thesis ..
qed

section \<open>Decimal numbers: printing and reading are inverse\<close>

lemma code_digit_char [simp]: "d < 10 \<Longrightarrow> code (digit_char d) = 48 + d"
  by (simp add: digit_char_def)

lemma is_digit_digit_char [simp]: "d < 10 \<Longrightarrow> is_digit (digit_char d)"
  by (simp add: is_digit_def)

lemma digits_value_snoc [simp]: "digits_value (s @ [c]) = 10 * digits_value s + (code c - 48)"
  by (simp add: digits_value_def)

lemma show_nat_digits: "list_all is_digit (show_nat n)"
  by (induction n rule: show_nat.induct) (subst show_nat.simps, auto)

lemma show_nat_nonempty [simp]: "show_nat n \<noteq> []"
  by (subst show_nat.simps) simp

lemma digits_value_show_nat [simp]: "digits_value (show_nat n) = n"
proof (induction n rule: show_nat.induct)
  case (1 n)
  show ?case
  proof (cases "n < 10")
    case True
    then show ?thesis by (simp add: show_nat.simps digits_value_def)
  next
    case False
    with 1 have IH: "digits_value (show_nat (n div 10)) = n div 10" by simp
    have "show_nat n = show_nat (n div 10) @ [digit_char (n mod 10)]"
      using False by (subst show_nat.simps) simp
    with IH show ?thesis by simp
  qed
qed

lemma int_digits_ok_all: "list_all is_digit s \<Longrightarrow> int_digits_ok d s \<longleftrightarrow> d \<or> s \<noteq> []"
  by (induction d s rule: int_digits_ok.induct) auto

lemma digit_classes:
  assumes "is_digit c"
  shows "\<not> is_space c" and "c \<noteq> CHR ''-''" and "c \<noteq> CHR ''+''" and "c \<noteq> newline"
    and "c \<noteq> CHR ''|''" and "c \<noteq> CHR ''/''" and "c \<noteq> CHR '',''"
  using assms by (auto simp: char_class_defs)

lemma py_strip_digits:
  assumes "list_all is_digit s"
  shows "py_strip s = s"
proof -
  have "s = [] \<or> \<not> is_space (hd s) \<and> \<not> is_space (last s)"
    using assms digit_classes(1) by (cases "s = []") (auto simp: list_all_iff)
  then show ?thesis unfolding py_strip_def by (rule strip_chars_id)
qed

lemma py_int_digits:
  assumes "list_all is_digit s" and "s \<noteq> []"
  shows "py_int s = Some (int (digits_value s))"
proof -
  obtain c cs where s: "s = c # cs" using assms(2) by (cases s) auto
  then have "is_digit c" using assms(1) by simp
  then have "\<not> starts_with ''-'' s" "\<not> starts_with ''+'' s"
    using s digit_classes(2,3) by auto
  moreover have "filter is_digit s = s" using assms(1) by (simp add: list_all_iff filter_id_conv)
  ultimately show ?thesis
    using assms by (simp add: py_int_def py_strip_digits int_digits_ok_all)
qed

lemma py_int_show_nat [simp]: "py_int (show_nat n) = Some (int n)"
  by (simp add: py_int_digits show_nat_digits)

lemma py_strip_minus:
  assumes "list_all is_digit s" and "s \<noteq> []"
  shows "py_strip (CHR ''-'' # s) = CHR ''-'' # s"
proof -
  have "\<not> is_space (last s)"
    using assms digit_classes(1) by (auto simp: list_all_iff)
  then show ?thesis
    unfolding py_strip_def using assms(2)
    by (intro strip_chars_id) (simp add: char_class_defs)
qed

lemma py_int_show_int [simp]: "py_int (show_int i) = Some i"
proof (cases "i < 0")
  case True
  have "filter is_digit (show_nat (nat (- i))) = show_nat (nat (- i))"
    using show_nat_digits by (simp add: list_all_iff filter_id_conv)
  then show ?thesis
    using True by (simp add: show_int_def py_int_def py_strip_minus show_nat_digits
        int_digits_ok_all)
next
  case False
  then show ?thesis by (simp add: show_int_def)
qed

interpretation int_text: text_codec show_int py_int "\<lambda>_. True"
  by unfold_locales simp_all

lemma show_int_inject [simp]: "show_int a = show_int b \<longleftrightarrow> a = b"
  by (rule int_text.print_inject) simp_all

lemma show_nat_inject [simp]: "show_nat a = show_nat b \<longleftrightarrow> a = b"
  by (metis digits_value_show_nat)

section \<open>UTF-8 decoding\<close>

text \<open>
  \<open>utf8_tail\<close> gives the byte ranges that must follow a lead byte (well-formed sequences of the
  Unicode standard), \<open>None\<close> for a byte that cannot lead. \<open>utf8_decode\<close> is the strict decoder of
  \<open>read_text(encoding="utf-8")\<close>; since a \<open>str\<close> is its UTF-8 bytes, a successful decode is the
  identity. \<open>utf8_replace\<close> is \<open>errors="replace"\<close>: every maximal ill-formed part becomes U+FFFD;
  \<open>utf8_ignore\<close> is \<open>errors="ignore"\<close>, which drops it.
\<close>

definition utf8_tail :: "nat \<Rightarrow> (nat \<times> nat) list option" where
  "utf8_tail b =
     (if b < 128 then Some []
      else if 194 \<le> b \<and> b \<le> 223 then Some [(128, 191)]
      else if b = 224 then Some [(160, 191), (128, 191)]
      else if b = 237 then Some [(128, 159), (128, 191)]
      else if 225 \<le> b \<and> b \<le> 239 then Some [(128, 191), (128, 191)]
      else if b = 240 then Some [(144, 191), (128, 191), (128, 191)]
      else if 241 \<le> b \<and> b \<le> 243 then Some [(128, 191), (128, 191), (128, 191)]
      else if b = 244 then Some [(128, 143), (128, 191), (128, 191)]
      else None)"

fun utf8_follow :: "(nat \<times> nat) list \<Rightarrow> string \<Rightarrow> nat" where
  \<comment> \<open>how many of the expected bytes are there\<close>
  "utf8_follow ((lo, hi) # rs) (c # cs) =
     (if lo \<le> code c \<and> code c \<le> hi then Suc (utf8_follow rs cs) else 0)"
| "utf8_follow rs cs = 0"

definition utf8_head :: "string \<Rightarrow> bool \<times> nat" where
  \<comment> \<open>is the sequence at the front well formed, and how many bytes it takes\<close>
  "utf8_head s =
     (case utf8_tail (code (hd s)) of
        None \<Rightarrow> (False, 1)
      | Some rs \<Rightarrow> (let k = utf8_follow rs (tl s) in (k = length rs, Suc k)))"

lemma utf8_head_pos [simp]: "0 < snd (utf8_head s)"
  by (auto simp: utf8_head_def Let_def split: option.splits)

function utf8_lossy :: "string \<Rightarrow> string \<Rightarrow> string" where
  \<comment> \<open>every maximal ill-formed part becomes \<open>sub\<close>\<close>
  "utf8_lossy sub s =
     (if s = [] then []
      else (if fst (utf8_head s) then take (snd (utf8_head s)) s else sub)
           @ utf8_lossy sub (drop (snd (utf8_head s)) s))"
  by pat_completeness auto
termination
  by (relation "measure (\<lambda>(sub, s). length s)") auto

definition utf8_replace :: "string \<Rightarrow> string" where
  "utf8_replace = utf8_lossy [CHR 0xEF, CHR 0xBF, CHR 0xBD]"

definition utf8_ignore :: "string \<Rightarrow> string" where
  "utf8_ignore = utf8_lossy []"

function utf8_valid :: "string \<Rightarrow> bool" where
  "utf8_valid s \<longleftrightarrow>
     (if s = [] then True
      else fst (utf8_head s) \<and> utf8_valid (drop (snd (utf8_head s)) s))"
  by pat_completeness auto
termination
  by (relation "measure length") auto

declare utf8_lossy.simps [simp del] utf8_valid.simps [simp del]

definition utf8_decode :: "string \<Rightarrow> string res" where
  "utf8_decode s = (if utf8_valid s then Inr s else Inl UnicodeDecodeError)"

fun universal_newlines :: "string \<Rightarrow> string" where
  \<comment> \<open>text mode reads every line ending as a newline\<close>
  "universal_newlines [] = []"
| "universal_newlines (c # cs) =
     (if c = carriage_return
      then (if cs \<noteq> [] \<and> hd cs = newline then universal_newlines cs
            else newline # universal_newlines cs)
      else c # universal_newlines cs)"

definition read_text :: "string \<Rightarrow> string res" where
  \<comment> \<open>\<open>path.read_text(encoding="utf-8")\<close> of a file with these bytes\<close>
  "read_text b = andthen (utf8_decode b) (\<lambda>s. Inr (universal_newlines s))"

lemma universal_newlines_id: "carriage_return \<notin> set s \<Longrightarrow> universal_newlines s = s"
  by (induction s) auto

lemma universal_newlines_no_cr: "carriage_return \<notin> set (universal_newlines s)"
  by (induction s rule: universal_newlines.induct) auto

lemma utf8_lossy_valid: "utf8_valid s \<Longrightarrow> utf8_lossy sub s = s"
proof (induction s rule: utf8_valid.induct)
  case (1 s)
  show ?case
  proof (cases "s = []")
    case True
    then show ?thesis by (simp add: utf8_lossy.simps)
  next
    case False
    with "1.prems" have "fst (utf8_head s)" and "utf8_valid (drop (snd (utf8_head s)) s)"
      by (simp_all add: utf8_valid.simps [of s])
    moreover from this have "utf8_lossy sub (drop (snd (utf8_head s)) s) = drop (snd (utf8_head s)) s"
      using "1.IH" False by simp
    ultimately show ?thesis
      using False by (simp add: utf8_lossy.simps [of sub s])
  qed
qed

lemma utf8_replace_valid: "utf8_valid s \<Longrightarrow> utf8_replace s = s"
  and utf8_ignore_valid: "utf8_valid s \<Longrightarrow> utf8_ignore s = s"
  by (simp_all add: utf8_replace_def utf8_ignore_def utf8_lossy_valid)

lemma utf8_valid_ascii: "list_all (\<lambda>c. code c < 128) s \<Longrightarrow> utf8_valid s"
proof (induction s)
  case Nil
  then show ?case by (simp add: utf8_valid.simps)
next
  case (Cons c cs)
  then have "utf8_head (c # cs) = (True, 1)"
    by (simp add: utf8_head_def utf8_tail_def)
  with Cons show ?case by (simp add: utf8_valid.simps [of "c # cs"])
qed

end
