(* ===== verification/Py_Paths.thy ===== *)
theory Py_Paths
  imports Py_Strings
begin

text \<open>
  \<open>pathlib\<close> paths and the file trees they address. A pure path is its anchor and its segments,
  as \<open>PurePosixPath\<close> stores them: empty segments and single dots are dropped, double dots are
  kept. A file tree maps the segments below its root to directories and files; symbolic links
  and permissions are outside the model.
\<close>

section \<open>Pure paths\<close>

record ppath =
  anchor :: string
  segs :: "string list"

definition path_anchor :: "string \<Rightarrow> string" where
  "path_anchor s =
     (if starts_with ''//'' s \<and> \<not> starts_with ''///'' s then ''//''
      else if starts_with ''/'' s then ''/'' else '''')"

definition good_seg :: "string \<Rightarrow> bool" where
  "good_seg w \<longleftrightarrow> w \<noteq> '''' \<and> w \<noteq> ''.''"

definition to_path :: "string \<Rightarrow> ppath" where
  "to_path s = \<lparr>anchor = path_anchor s, segs = filter good_seg (split_on CHR ''/'' s)\<rparr>"

definition is_absolute :: "ppath \<Rightarrow> bool" where
  "is_absolute p \<longleftrightarrow> anchor p \<noteq> ''''"

definition parts :: "ppath \<Rightarrow> string list" where
  "parts p = (if anchor p = '''' then [] else [anchor p]) @ segs p"

definition as_posix :: "ppath \<Rightarrow> string" where
  "as_posix p =
     (if anchor p = '''' \<and> segs p = [] then ''.'' else anchor p @ join ''/'' (segs p))"

definition last_seg :: "string list \<Rightarrow> string" where
  "last_seg ws = (if ws = [] then '''' else last ws)"

definition path_name :: "ppath \<Rightarrow> string" where
  "path_name p = last_seg (segs p)"

definition name_suffix :: "string \<Rightarrow> string" where
  \<comment> \<open>from the last dot, if it is neither the first nor the last character\<close>
  "name_suffix w =
     (let ext = rev (takeWhile (\<lambda>c. c \<noteq> CHR ''.'') (rev w))
      in if length ext + 1 < length w \<and> ext \<noteq> '''' then CHR ''.'' # ext else '''')"

definition path_suffix :: "ppath \<Rightarrow> string" where
  "path_suffix p = name_suffix (path_name p)"

definition path_join :: "ppath \<Rightarrow> string \<Rightarrow> ppath" where
  \<comment> \<open>\<open>p / s\<close>: an absolute right operand replaces the left one\<close>
  "path_join p s =
     (if is_absolute (to_path s) then to_path s else p\<lparr>segs := segs p @ segs (to_path s)\<rparr>)"

definition path_wf :: "ppath \<Rightarrow> bool" where
  "path_wf p \<longleftrightarrow> anchor p \<in> {'''', ''/'', ''//''} \<and>
     list_all (\<lambda>w. good_seg w \<and> CHR ''/'' \<notin> set w) (segs p)"

definition path_within :: "ppath \<Rightarrow> ppath \<Rightarrow> bool" where
  \<comment> \<open>below the root by its segments, with no step up\<close>
  "path_within root p \<longleftrightarrow>
     (\<exists>ws. anchor p = anchor root \<and> segs p = segs root @ ws \<and> ''..'' \<notin> set ws)"

lemma path_wf_to_path [simp]: "path_wf (to_path s)"
  by (auto simp: path_wf_def to_path_def path_anchor_def list_all_iff dest: split_on_no_sep)

lemma join_segs_no_slash_head:
  assumes "list_all (\<lambda>w. good_seg w \<and> CHR ''/'' \<notin> set w) ws" and "ws \<noteq> []"
  shows "\<exists>c cs. join ''/'' ws = c # cs \<and> c \<noteq> CHR ''/''"
proof -
  obtain w ws' where ws: "ws = w # ws'" using assms(2) by (cases ws) auto
  with assms(1) obtain c cs where "w = c # cs" "c \<noteq> CHR ''/''"
    by (cases w) (auto simp: good_seg_def)
  with ws show ?thesis by (cases ws') auto
qed

lemma split_join_segs:
  assumes "list_all (\<lambda>w. good_seg w \<and> CHR ''/'' \<notin> set w) ws" and "ws \<noteq> []"
  shows "filter good_seg (split_on CHR ''/'' (join ''/'' ws)) = ws"
proof -
  have "split_on CHR ''/'' (join ''/'' ws) = ws"
    using assms by (intro split_on_join) (auto simp: list_all_iff)
  moreover have "filter good_seg ws = ws"
    using assms(1) by (simp add: list_all_iff filter_id_conv)
  ultimately show ?thesis by simp
qed

lemma good_seg_Nil [simp]: "\<not> good_seg ''''"
  by (simp add: good_seg_def)

lemma split_join_segs_any:
  assumes "list_all (\<lambda>w. good_seg w \<and> CHR ''/'' \<notin> set w) ws"
  shows "filter good_seg (split_on CHR ''/'' (join ''/'' ws)) = ws"
  using assms split_join_segs [of ws] by (cases "ws = []") simp_all

lemma to_path_as_posix:
  assumes "path_wf p"
  shows "to_path (as_posix p) = p"
proof -
  let ?b = "join ''/'' (segs p)"
  have segs: "list_all (\<lambda>w. good_seg w \<and> CHR ''/'' \<notin> set w) (segs p)"
    using assms by (simp add: path_wf_def)
  have head: "\<not> starts_with ''/'' ?b"
    using join_segs_no_slash_head [OF segs] by (cases "segs p = []") auto
  from assms consider "anchor p = ''''" "segs p = []" | "anchor p = ''''" "segs p \<noteq> []"
    | "anchor p = ''/''" | "anchor p = ''//''"
    by (auto simp: path_wf_def)
  then have "path_anchor (as_posix p) = anchor p \<and>
      filter good_seg (split_on CHR ''/'' (as_posix p)) = segs p"
  proof cases
    case 1
    then show ?thesis by (simp add: as_posix_def path_anchor_def good_seg_def)
  next
    case 2
    then show ?thesis
      using head split_join_segs_any [OF segs] by (auto simp: as_posix_def path_anchor_def)
  next
    case 3
    then show ?thesis
      using head split_join_segs_any [OF segs] by (auto simp: as_posix_def path_anchor_def)
  next
    case 4
    then show ?thesis
      using head split_join_segs_any [OF segs] by (auto simp: as_posix_def path_anchor_def)
  qed
  then show ?thesis by (simp add: to_path_def)
qed

interpretation path_text: text_codec as_posix "\<lambda>s. Some (to_path s)" path_wf
  by unfold_locales (auto simp: to_path_as_posix)

lemma as_posix_normal [simp]: "as_posix (to_path (as_posix (to_path s))) = as_posix (to_path s)"
  by (simp add: to_path_as_posix)

lemma path_join_within:
  assumes "\<not> is_absolute (to_path s)" and "''..'' \<notin> set (parts (to_path s))"
  shows "path_within p (path_join p s)"
  using assms by (auto simp: path_within_def path_join_def parts_def is_absolute_def)

lemma name_suffix_ends: "ends_with (name_suffix w) w"
proof -
  let ?t = "takeWhile (\<lambda>c. c \<noteq> CHR ''.'') (rev w)"
  let ?d = "dropWhile (\<lambda>c. c \<noteq> CHR ''.'') (rev w)"
  have w: "w = rev ?d @ rev ?t" by (metis rev_append rev_rev_ident takeWhile_dropWhile_id)
  show ?thesis
  proof (cases "name_suffix w = ''''")
    case True
    then show ?thesis by (simp add: ends_with_def)
  next
    case False
    then have ns: "name_suffix w = CHR ''.'' # rev ?t" and len: "length ?t + 1 < length w"
      by (auto simp: name_suffix_def Let_def split: if_splits)
    have "?d \<noteq> []"
    proof
      assume "?d = []"
      then have "?t = rev w" by (metis append_Nil2 takeWhile_dropWhile_id)
      then have "length ?t = length (rev w)" by (rule arg_cong)
      then show False using len unfolding length_rev by linarith
    qed
    then have "\<not> hd ?d \<noteq> CHR ''.''" by (rule hd_dropWhile)
    then have "?d = CHR ''.'' # tl ?d" using \<open>?d \<noteq> []\<close> by (cases ?d) simp_all
    then obtain ds where "?d = CHR ''.'' # ds" by blast
    with w ns have "w = rev ds @ name_suffix w" by simp
    then show ?thesis unfolding ends_with_append by blast
  qed
qed

section \<open>File trees\<close>

datatype node = Dir | File string

type_synonym fs = "string list \<Rightarrow> node option"

definition path_exists :: "fs \<Rightarrow> string list \<Rightarrow> bool" where
  "path_exists t p \<longleftrightarrow> t p \<noteq> None"

definition is_file :: "fs \<Rightarrow> string list \<Rightarrow> bool" where
  "is_file t p = (case t p of Some (File _) \<Rightarrow> True | _ \<Rightarrow> False)"

definition file_content :: "fs \<Rightarrow> string list \<Rightarrow> string option" where
  "file_content t p = (case t p of Some (File b) \<Rightarrow> Some b | _ \<Rightarrow> None)"

definition read_bytes :: "fs \<Rightarrow> string list \<Rightarrow> string res" where
  "read_bytes t p =
     (case t p of
        None \<Rightarrow> Inl (FileNotFoundError (join ''/'' p))
      | Some Dir \<Rightarrow> Inl (IsADirectoryError (join ''/'' p))
      | Some (File b) \<Rightarrow> Inr b)"

definition make_dir :: "fs \<Rightarrow> string list \<Rightarrow> fs" where
  "make_dir t p = t(p \<mapsto> Dir)"

fun mkdirs :: "string list \<Rightarrow> string list \<Rightarrow> fs \<Rightarrow> fs res" where
  \<comment> \<open>\<open>mkdir(parents=True, exist_ok=True)\<close>, from the root of the tree down\<close>
  "mkdirs pre [] t =
     (case t pre of
        None \<Rightarrow> Inr (make_dir t pre)
      | Some Dir \<Rightarrow> Inr t
      | Some (File _) \<Rightarrow> Inl (FileExistsError (join ''/'' pre)))"
| "mkdirs pre (w # ws) t =
     (case t pre of
        None \<Rightarrow> mkdirs (pre @ [w]) ws (make_dir t pre)
      | Some Dir \<Rightarrow> mkdirs (pre @ [w]) ws t
      | Some (File _) \<Rightarrow> Inl (NotADirectoryError (join ''/'' pre)))"

definition write_bytes :: "fs \<Rightarrow> string list \<Rightarrow> string \<Rightarrow> fs res" where
  "write_bytes t p b =
     (case t p of
        Some Dir \<Rightarrow> Inl (IsADirectoryError (join ''/'' p))
      | Some (File _) \<Rightarrow> Inr (t(p \<mapsto> File b))
      | None \<Rightarrow>
          (if p \<noteq> [] \<and> t (butlast p) = Some Dir then Inr (t(p \<mapsto> File b))
           else Inl (FileNotFoundError (join ''/'' p))))"

definition put_file :: "fs \<Rightarrow> string list \<Rightarrow> string \<Rightarrow> fs res" where
  \<comment> \<open>create the parent directories, then write the file\<close>
  "put_file t p b = andthen (mkdirs [] (butlast p) t) (\<lambda>t'. write_bytes t' p b)"

lemma make_dir_simps [simp]:
  "make_dir t p p = Some Dir"
  "q \<noteq> p \<Longrightarrow> make_dir t p q = t q"
  "t p = None \<Longrightarrow> t q = Some n \<Longrightarrow> make_dir t p q = Some n"
  by (auto simp: make_dir_def)

lemma make_dir_content [simp]: "t p = None \<Longrightarrow> file_content (make_dir t p) q = file_content t q"
  by (simp add: file_content_def make_dir_def)

lemma is_file_content: "is_file t p \<longleftrightarrow> (\<exists>b. file_content t p = Some b)"
  by (auto simp: is_file_def file_content_def split: option.splits node.splits)

lemma read_bytes_content: "read_bytes t p = Inr b \<longleftrightarrow> file_content t p = Some b"
  by (auto simp: read_bytes_def file_content_def split: option.splits node.splits)

lemma mkdirs_content: "mkdirs pre ws t = Inr t' \<Longrightarrow> file_content t' p = file_content t p"
  by (induction pre ws t rule: mkdirs.induct) (auto split: option.splits node.splits)

lemma write_bytes_content:
  "write_bytes t p b = Inr t' \<Longrightarrow>
     file_content t' q = (if q = p then Some b else file_content t q)"
  by (auto simp: write_bytes_def file_content_def split: option.splits node.splits if_splits)

lemma put_file_content:
  "put_file t p b = Inr t' \<Longrightarrow>
     file_content t' q = (if q = p then Some b else file_content t q)"
  by (auto simp: put_file_def andthen_eq_Inr write_bytes_content mkdirs_content)

interpretation tree_store: cell_store file_content put_file
  by unfold_locales (simp_all add: put_file_content)

text \<open>Writing succeeds where no file is in the way of a directory and the target is not one.\<close>

definition path_free :: "fs \<Rightarrow> string list \<Rightarrow> bool" where
  "path_free t p \<longleftrightarrow> p \<noteq> [] \<and> t p \<noteq> Some Dir \<and> (\<forall>k<length p. \<not> is_file t (take k p))"

lemma mkdirs_ok:
  assumes "\<And>k. k \<le> length ws \<Longrightarrow> \<not> is_file t (pre @ take k ws)"
  shows "\<exists>t'. mkdirs pre ws t = Inr t' \<and> t' (pre @ ws) = Some Dir"
  using assms
proof (induction pre ws t rule: mkdirs.induct)
  case (1 pre t)
  have "\<not> is_file t pre" using "1.prems" [of 0] by simp
  then show ?case by (auto simp: is_file_def split: option.splits node.splits)
next
  case (2 pre w ws t)
  have no: "\<not> is_file t pre" using "2.prems" [of 0] by simp
  have step: "\<not> is_file t ((pre @ [w]) @ take k ws)" if "k \<le> length ws" for k
    using "2.prems" [of "Suc k"] that by simp
  show ?case
  proof (cases "t pre")
    case None
    have "\<not> is_file (make_dir t pre) ((pre @ [w]) @ take k ws)" if "k \<le> length ws" for k
      using step [OF that] by (simp add: is_file_def)
    from "2.IH"(1) [OF None this] None show ?thesis by simp
  next
    case (Some n)
    with no have n: "n = Dir" by (cases n) (auto simp: is_file_def)
    from "2.IH"(2) [OF Some n step] Some n show ?thesis by simp
  qed
qed

lemma mkdirs_other:
  "mkdirs pre ws t = Inr t' \<Longrightarrow> t p = None \<Longrightarrow> length (pre @ ws) < length p \<Longrightarrow> t' p = None"
proof (induction pre ws t rule: mkdirs.induct)
  case (1 pre t)
  then have "p \<noteq> pre" by auto
  with 1 show ?case by (auto split: option.splits node.splits)
next
  case (2 pre w ws t)
  then have "p \<noteq> pre" by auto
  with 2 show ?case by (auto split: option.splits node.splits)
qed

lemma mkdirs_file: "mkdirs pre ws t = Inr t' \<Longrightarrow> t p = Some n \<Longrightarrow> t' p = Some n"
  by (induction pre ws t rule: mkdirs.induct) (auto split: option.splits node.splits)

lemma put_file_ok:
  assumes "path_free t p"
  shows "\<exists>t'. put_file t p b = Inr t'"
proof -
  have "p \<noteq> []" using assms by (simp add: path_free_def)
  have "\<not> is_file t ([] @ take k (butlast p))" if "k \<le> length (butlast p)" for k
  proof -
    from that \<open>p \<noteq> []\<close> have "k < length p" by (cases p rule: rev_cases) simp_all
    with assms show ?thesis by (simp add: path_free_def take_butlast)
  qed
  then obtain t' where t': "mkdirs [] (butlast p) t = Inr t'" "t' (butlast p) = Some Dir"
    using mkdirs_ok [of "butlast p" t "[]"] by auto
  have "t' p \<noteq> Some Dir"
  proof (cases "t p")
    case None
    then have "t' p = None"
      using mkdirs_other [OF t'(1)] \<open>p \<noteq> []\<close> by simp
    then show ?thesis by simp
  next
    case (Some n)
    then show ?thesis using mkdirs_file [OF t'(1) Some] assms by (simp add: path_free_def)
  qed
  then show ?thesis
    using t' \<open>p \<noteq> []\<close>
    by (auto simp: put_file_def write_bytes_def split: option.splits node.splits)
qed

end
