(* ===== verification/Py_Float.thy ===== *)
theory Py_Float
  imports Py_Strings
begin

text \<open>
  Python's \<open>float\<close>, a double of IEEE 754, as far as the tooling uses it: \<open>float(text)\<close> and
  \<open>float(int)\<close> with rounding to the nearest value, comparison, arithmetic, \<open>int(value)\<close>, \<open>repr\<close> (the
  shortest decimal that is read back as the same value), rendering with a fixed number of decimals, and
  \<open>sorted\<close>, \<open>min\<close> and \<open>max\<close> of lists without NaN.
  A finite value is its sign, its significand below \<open>2 ^ 53\<close> and its exponent; all results are computed
  on exact integers.
\<close>

section \<open>Values\<close>

datatype pyfloat = NaN | Inf bool | Fin bool int int

abbreviation float_zero :: pyfloat where
  "float_zero \<equiv> Fin False 0 0"

definition round_half_even :: "int \<Rightarrow> int \<Rightarrow> int" where
  \<comment> \<open>the integer nearest to a quotient; of two, the even one\<close>
  "round_half_even n d =
     (let q = n div d; r = 2 * (n mod d) in if r < d \<or> (r = d \<and> even q) then q else q + 1)"

function bit_length :: "int \<Rightarrow> int" where
  "bit_length n = (if n \<le> 0 then 0 else 1 + bit_length (n div 2))"
  by pat_completeness auto
termination
  by (relation "measure nat") auto

declare bit_length.simps [simp del]

definition up :: "int \<Rightarrow> int \<Rightarrow> int" where
  \<comment> \<open>\<open>base ** e\<close> for a positive exponent, one otherwise\<close>
  "up base e = base ^ nat e"

definition float_exponent :: "int \<Rightarrow> int \<Rightarrow> int" where
  \<comment> \<open>for a positive quotient: the exponent that brings it below \<open>2 ^ 53\<close>, and to at least \<open>2 ^ 52\<close>
      unless the value is subnormal\<close>
  "float_exponent n d =
     (let e = bit_length n - bit_length d - 53;
          e' = (if n * up 2 (- e) < 2 ^ 53 * (d * up 2 e) then e else e + 1)
      in max e' (- 1074))"

definition make_float :: "bool \<Rightarrow> int \<Rightarrow> int \<Rightarrow> pyfloat" where
  \<comment> \<open>the double nearest to \<open>n / d\<close>\<close>
  "make_float neg n d =
     (if n = 0 then Fin neg 0 0
      else let e = float_exponent n d;
               m = round_half_even (n * up 2 (- e)) (d * up 2 e);
               (m', e') = (if m = 2 ^ 53 then (2 ^ 52, e + 1) else (m, e))
           in if e' > 971 then Inf neg else if m' = 0 then Fin neg 0 0 else Fin neg m' e')"

definition float_of_int :: "int \<Rightarrow> pyfloat res" where
  "float_of_int i =
     (case make_float (i < 0) \<bar>i\<bar> 1 of
        Inf _ \<Rightarrow> Inl (OverflowError ''int too large to convert to float'')
      | f \<Rightarrow> Inr f)"

section \<open>Reading\<close>

definition exponent_text :: "string \<Rightarrow> int option" where
  \<comment> \<open>the digits after \<open>e\<close>, with their sign\<close>
  "exponent_text s =
     (let neg = starts_with ''-'' s;
          body = (if neg \<or> starts_with ''+'' s then tl s else s)
      in if int_digits_ok False body
         then Some ((if neg then -1 else 1) * int (digits_value (filter is_digit body)))
         else None)"

definition decimal_float :: "bool \<Rightarrow> string \<Rightarrow> string \<Rightarrow> int \<Rightarrow> pyfloat" where
  \<comment> \<open>the digits before and after the point and the decimal exponent\<close>
  "decimal_float neg whole frac expo =
     (let k = expo - int (length frac)
      in make_float neg (int (digits_value (whole @ frac)) * up 10 k) (up 10 (- k)))"

definition unsigned_float :: "bool \<Rightarrow> string \<Rightarrow> pyfloat option" where
  "unsigned_float neg s =
     (let mant = takeWhile (\<lambda>c. c \<notin> {CHR ''e'', CHR ''E''}) s;
          tail = drop (length mant) s;
          whole = takeWhile (\<lambda>c. c \<noteq> CHR ''.'') mant;
          frac = drop (Suc (length whole)) mant
      in if (whole = '''' \<or> int_digits_ok False whole) \<and> (frac = '''' \<or> int_digits_ok False frac) \<and>
            (whole \<noteq> '''' \<or> frac \<noteq> '''')
         then map_option (decimal_float neg (filter is_digit whole) (filter is_digit frac))
                (if tail = '''' then Some 0 else exponent_text (tl tail))
         else None)"

definition py_float :: "string \<Rightarrow> pyfloat option" where
  \<comment> \<open>\<open>float(text)\<close>; \<open>None\<close> is \<open>ValueError\<close>\<close>
  "py_float s =
     (let t = py_strip s;
          neg = starts_with ''-'' t;
          body = (if neg \<or> starts_with ''+'' t then tl t else t)
      in if py_lower body \<in> {''inf'', ''infinity''} then Some (Inf neg)
         else if py_lower body = ''nan'' then Some NaN
         else unsigned_float neg body)"

definition float_or_raise :: "string \<Rightarrow> pyfloat res" where
  "float_or_raise s =
     (case py_float s of
        None \<Rightarrow> Inl (ValueError (''could not convert string to float: '' @ s))
      | Some f \<Rightarrow> Inr f)"

section \<open>Comparison and conversion\<close>

definition float_units :: "bool \<Rightarrow> int \<Rightarrow> int \<Rightarrow> int" where
  \<comment> \<open>a finite value in units of \<open>2 ^ -1074\<close>\<close>
  "float_units neg m e = (if neg then -1 else 1) * (m * up 2 (e + 1074))"

fun float_less :: "pyfloat \<Rightarrow> pyfloat \<Rightarrow> bool" where
  "float_less (Fin s m e) (Fin s' m' e') \<longleftrightarrow> float_units s m e < float_units s' m' e'"
| "float_less (Fin s m e) (Inf s') \<longleftrightarrow> \<not> s'"
| "float_less (Inf s) (Fin s' m' e') \<longleftrightarrow> s"
| "float_less (Inf s) (Inf s') \<longleftrightarrow> s \<and> \<not> s'"
| "float_less _ _ \<longleftrightarrow> False"

definition float_true :: "pyfloat \<Rightarrow> bool" where
  "float_true f = (case f of Fin s m e \<Rightarrow> m \<noteq> 0 | _ \<Rightarrow> True)"

definition float_trunc :: "pyfloat \<Rightarrow> int res" where
  \<comment> \<open>\<open>int(value)\<close>\<close>
  "float_trunc f =
     (case f of
        Fin s m e \<Rightarrow> Inr ((if s then -1 else 1) * (m * up 2 e div up 2 (- e)))
      | Inf _ \<Rightarrow> Inl (OverflowError ''cannot convert float infinity to integer'')
      | NaN \<Rightarrow> Inl (ValueError ''cannot convert float NaN to integer''))"

section \<open>Arithmetic\<close>

definition float_num :: "bool \<Rightarrow> int \<Rightarrow> int \<Rightarrow> int" where
  "float_num s m e = (if s then -1 else 1) * (m * up 2 e)"

definition signed_float :: "bool \<Rightarrow> int \<Rightarrow> int \<Rightarrow> pyfloat" where
  \<comment> \<open>the double nearest to \<open>n / d\<close>, and the sign of a zero\<close>
  "signed_float zero_sign n d = make_float (if n = 0 then zero_sign else n < 0) \<bar>n\<bar> d"

fun float_neg :: "pyfloat \<Rightarrow> pyfloat" where
  "float_neg NaN = NaN"
| "float_neg (Inf s) = Inf (\<not> s)"
| "float_neg (Fin s m e) = Fin (\<not> s) m e"

fun float_abs :: "pyfloat \<Rightarrow> pyfloat" where
  "float_abs NaN = NaN"
| "float_abs (Inf s) = Inf False"
| "float_abs (Fin s m e) = Fin False m e"

fun float_add :: "pyfloat \<Rightarrow> pyfloat \<Rightarrow> pyfloat" where
  "float_add (Fin s m e) (Fin s' m' e') =
     signed_float (s \<and> s') (float_num s m e * up 2 (- e') + float_num s' m' e' * up 2 (- e)) (up 2 (- e) * up 2 (- e'))"
| "float_add (Inf s) (Inf s') = (if s = s' then Inf s else NaN)"
| "float_add (Inf s) (Fin _ _ _) = Inf s"
| "float_add (Fin _ _ _) (Inf s) = Inf s"
| "float_add _ _ = NaN"

definition float_sub :: "pyfloat \<Rightarrow> pyfloat \<Rightarrow> pyfloat" where
  "float_sub a b = float_add a (float_neg b)"

fun float_mul :: "pyfloat \<Rightarrow> pyfloat \<Rightarrow> pyfloat" where
  "float_mul (Fin s m e) (Fin s' m' e') =
     make_float (s \<noteq> s') (m * m' * (up 2 e * up 2 e')) (up 2 (- e) * up 2 (- e'))"
| "float_mul (Inf s) (Inf s') = Inf (s \<noteq> s')"
| "float_mul (Inf s) (Fin s' m e) = (if m = 0 then NaN else Inf (s \<noteq> s'))"
| "float_mul (Fin s m e) (Inf s') = (if m = 0 then NaN else Inf (s \<noteq> s'))"
| "float_mul _ _ = NaN"

fun float_div :: "pyfloat \<Rightarrow> pyfloat \<Rightarrow> pyfloat res" where
  "float_div (Fin s m e) (Fin s' m' e') =
     (if m' = 0 then Inl ZeroDivisionError
      else Inr (make_float (s \<noteq> s') (m * up 2 e * up 2 (- e')) (m' * up 2 e' * up 2 (- e))))"
| "float_div a (Fin s' m' e') =
     (if m' = 0 then Inl ZeroDivisionError else Inr (case a of Inf s \<Rightarrow> Inf (s \<noteq> s') | _ \<Rightarrow> NaN))"
| "float_div (Fin s m e) (Inf s') = Inr (Fin (s \<noteq> s') 0 0)"
| "float_div _ _ = Inr NaN"

definition whole_float :: "int \<Rightarrow> pyfloat" where
  \<comment> \<open>a literal such as \<open>20.0\<close>\<close>
  "whole_float n = make_float False n 1"

section \<open>Lists\<close>

fun max_by :: "('a \<Rightarrow> pyfloat) \<Rightarrow> 'a \<Rightarrow> 'a list \<Rightarrow> 'a" where
  \<comment> \<open>\<open>max(..., key=...)\<close>: the first of the largest\<close>
  "max_by key best [] = best"
| "max_by key best (x # xs) = max_by key (if float_less (key best) (key x) then x else best) xs"

fun min_of :: "pyfloat \<Rightarrow> pyfloat list \<Rightarrow> pyfloat" where
  "min_of best [] = best"
| "min_of best (x # xs) = min_of (if float_less x best then x else best) xs"

fun float_insert :: "pyfloat \<Rightarrow> pyfloat list \<Rightarrow> pyfloat list" where
  "float_insert x [] = [x]"
| "float_insert x (y # ys) = (if float_less x y then x # y # ys else y # float_insert x ys)"

definition float_sorted :: "pyfloat list \<Rightarrow> pyfloat list" where
  \<comment> \<open>\<open>sorted(values)\<close>, equal values in their order; the order of a list with NaN is not modelled\<close>
  "float_sorted xs = foldl (\<lambda>ys x. float_insert x ys) [] xs"

section \<open>Rendering\<close>

definition decimal_magnitude :: "int \<Rightarrow> int \<Rightarrow> int" where
  \<comment> \<open>the \<open>k\<close> with \<open>10 ^ k \<le> n / d < 10 ^ (k + 1)\<close>\<close>
  "decimal_magnitude n d =
     (if d \<le> n then int (length (show_nat (nat (n div d)))) - 1
      else - int (length (show_nat (nat ((d + n - 1) div n - 1)))))"

definition reads_back :: "int \<Rightarrow> int \<Rightarrow> int \<Rightarrow> int \<Rightarrow> bool" where
  "reads_back m e c k \<longleftrightarrow> make_float False (c * up 10 k) (up 10 (- k)) = Fin False m e"

fun shortest_digits :: "nat \<Rightarrow> int \<Rightarrow> int \<Rightarrow> int \<Rightarrow> int \<times> int" where
  \<comment> \<open>the number of decimals is raised until one of the two neighbours is read back as the value; of
      two, the closer one; seventeen digits are always enough\<close>
  "shortest_digits 0 k m e =
     (let n = m * up 2 e; d = up 2 (- e) in (round_half_even (n * up 10 (- k)) (d * up 10 k), k))"
| "shortest_digits (Suc left) k m e =
     (let n = m * up 2 e * up 10 (- k); d = up 2 (- e) * up 10 k;
          near = round_half_even n d;
          other = (if near * d \<le> n then near + 1 else near - 1)
      in if reads_back m e near k then (near, k)
         else if reads_back m e other k then (other, k)
         else shortest_digits left (k - 1) m e)"

definition zeros :: "int \<Rightarrow> string" where
  "zeros n = replicate (nat n) CHR ''0''"

definition place_point :: "string \<Rightarrow> int \<Rightarrow> string" where
  \<comment> \<open>the digits and the position of the point, as \<open>repr\<close> places them\<close>
  "place_point ds point =
     (if -4 < point \<and> point \<le> 16
      then (if point \<le> 0 then ''0.'' @ zeros (- point) @ ds
            else if int (length ds) \<le> point then ds @ zeros (point - int (length ds)) @ ''.0''
            else take (nat point) ds @ ''.'' @ drop (nat point) ds)
      else take 1 ds @ (if length ds = 1 then '''' else CHR ''.'' # drop 1 ds)
           @ (if point - 1 < 0 then ''e-'' else ''e+'')
           @ (let x = show_nat (nat \<bar>point - 1\<bar>) in if length x < 2 then CHR ''0'' # x else x))"

definition float_repr :: "pyfloat \<Rightarrow> string" where
  "float_repr f =
     (case f of
        NaN \<Rightarrow> ''nan''
      | Inf s \<Rightarrow> (if s then ''-inf'' else ''inf'')
      | Fin s m e \<Rightarrow>
          (if s then ''-'' else '''')
          @ (if m = 0 then ''0.0''
             else let (c, k) = shortest_digits 16 (decimal_magnitude (m * up 2 e) (up 2 (- e))) m e;
                      ds = show_nat (nat c)
                  in place_point (rstrip_chars (\<lambda>ch. ch = CHR ''0'') ds) (int (length ds) + k)))"

definition float_fixed :: "nat \<Rightarrow> pyfloat \<Rightarrow> string" where
  \<comment> \<open>\<open>f"{value:.nf}"\<close>, for a positive number of decimals\<close>
  "float_fixed n f =
     (case f of
        Fin s m e \<Rightarrow>
          (let t = show_nat (nat (round_half_even (m * up 2 e * 10 ^ n) (up 2 (- e))));
               ds = zeros (int (Suc n) - int (length t)) @ t
           in (if s then ''-'' else '''') @ take (length ds - n) ds @ ''.'' @ drop (length ds - n) ds)
      | _ \<Rightarrow> float_repr f)"

section \<open>Integers are exact\<close>

lemma up_simps [simp]: "e \<le> 0 \<Longrightarrow> up b e = 1" "0 < b \<Longrightarrow> 0 < up b e"
  by (simp_all add: up_def)

lemma round_half_even_one [simp]: "round_half_even n 1 = n"
  by (simp add: round_half_even_def)

lemma bit_length_bounds:
  assumes "0 < n"
  shows "0 < bit_length n" and "2 ^ nat (bit_length n - 1) \<le> n" and "n < 2 ^ nat (bit_length n)"
proof -
  have "0 < bit_length n \<and> 2 ^ nat (bit_length n - 1) \<le> n \<and> n < 2 ^ nat (bit_length n)"
    using assms
  proof (induction n rule: bit_length.induct)
    case (1 n)
    show ?case
    proof (cases "n = 1")
      case True
      then show ?thesis by (simp add: bit_length.simps)
    next
      case False
      let ?b = "bit_length (n div 2)"
      have ih: "0 < ?b" "2 ^ nat (?b - 1) \<le> n div 2" "n div 2 < 2 ^ nat ?b" using 1 False by auto
      have b: "bit_length n = 1 + ?b" using "1.prems" by (simp add: bit_length.simps)
      have "nat (1 + ?b) = Suc (nat ?b)" "nat ?b = Suc (nat (?b - 1))" using ih(1) by auto
      then have "(2::int) ^ nat (1 + ?b) = 2 * 2 ^ nat ?b" "(2::int) ^ nat ?b = 2 * 2 ^ nat (?b - 1)" by simp_all
      moreover have "0 < bit_length n" "bit_length n - 1 = ?b" using ih(1) b by auto
      moreover have "2 * (n div 2) \<le> n" "n < 2 * (n div 2) + 2" by linarith+
      ultimately show ?thesis using ih b by (intro conjI) simp_all
    qed
  qed
  then show "0 < bit_length n" and "2 ^ nat (bit_length n - 1) \<le> n" and "n < 2 ^ nat (bit_length n)"
    by auto
qed

lemma bit_length_le:
  assumes "0 < n" and "n < 2 ^ k"
  shows "bit_length n \<le> int k"
proof -
  have "(2::int) ^ nat (bit_length n - 1) < 2 ^ k" using bit_length_bounds(2) [OF assms(1)] assms(2) by linarith
  then have "nat (bit_length n - 1) < k" by simp
  then show ?thesis by linarith
qed

text \<open>A whole number below \<open>2 ^ 53\<close> is its own double.\<close>

lemma make_float_whole:
  assumes "0 < n" and "n < 2 ^ 53"
  defines "e \<equiv> bit_length n - 53"
  shows "make_float neg n 1 = Fin neg (n * 2 ^ nat (- e)) e"
proof -
  have b: "0 < bit_length n" "bit_length n \<le> 53" using bit_length_bounds(1) bit_length_le [of n 53] assms by auto
  have one: "bit_length 1 = 1" by (simp add: bit_length.simps)
  have "(2::int) ^ 53 = 2 ^ nat (bit_length n - 1) * 2 ^ nat (54 - bit_length n)"
    using b by (simp flip: power_add nat_add_distrib)
  also have "\<dots> \<le> n * 2 ^ nat (54 - bit_length n)"
    using bit_length_bounds(2) [OF assms(1)] by (simp add: mult_right_mono)
  finally have x: "float_exponent n 1 = e"
    using b by (auto simp: float_exponent_def Let_def one up_def e_def)
  have "n * 2 ^ nat (- e) < 2 ^ nat (bit_length n) * 2 ^ nat (- e)"
    using bit_length_bounds(3) [OF assms(1)] by simp
  also have "\<dots> = 2 ^ 53" using b by (simp add: e_def flip: power_add nat_add_distrib)
  finally have "n * 2 ^ nat (- e) \<noteq> 2 ^ 53" by simp
  moreover have "e \<le> 0" using b by (simp add: e_def)
  ultimately show ?thesis
    using assms(1) by (simp add: make_float_def Let_def x up_def)
qed

lemma float_trunc_whole:
  assumes "0 \<le> n" and "n < 2 ^ 53"
  shows "float_trunc (make_float False n 1) = Inr n"
proof (cases "n = 0")
  case False
  then have "0 < n" "bit_length n \<le> 53" using assms bit_length_le [of n 53] by auto
  then show ?thesis
    using assms by (simp add: make_float_whole float_trunc_def up_def)
qed (simp add: make_float_def float_trunc_def)

lemma digits_have_no_mark:
  assumes "list_all is_digit s"
  shows "takeWhile (\<lambda>c. c \<noteq> CHR ''e'' \<and> c \<noteq> CHR ''E'') s = s" "takeWhile (\<lambda>c. c \<noteq> CHR ''.'') s = s"
proof -
  have "\<not> is_digit CHR ''e''" "\<not> is_digit CHR ''E''" "\<not> is_digit CHR ''.''" by code_simp+
  then show "takeWhile (\<lambda>c. c \<noteq> CHR ''e'' \<and> c \<noteq> CHR ''E'') s = s" "takeWhile (\<lambda>c. c \<noteq> CHR ''.'') s = s"
    using assms by (auto simp: list_all_iff takeWhile_eq_all_conv)
qed

text \<open>\<open>int(float(str(n))) == n\<close> for every count below \<open>2 ^ 53\<close>.\<close>

lemma py_float_digits:
  assumes "list_all is_digit s" and "s \<noteq> []"
  shows "py_float s = Some (make_float False (int (digits_value s)) 1)"
proof -
  have ds: "filter is_digit s = s" using assms(1) by (simp add: list_all_iff)
  have c: "is_digit (hd s)" using assms by (cases s) auto
  have no: "\<not> is_digit CHR ''-''" "\<not> is_digit CHR ''+''" "\<not> is_digit CHR ''i''" "\<not> is_digit CHR ''n''" by code_simp+
  have lower: "lower_char (hd s) = hd s" using c by (auto simp: lower_char_def is_upper_def is_digit_def)
  have "hd s \<noteq> CHR ''-''" "hd s \<noteq> CHR ''+''" "hd (py_lower s) \<noteq> CHR ''i''" "hd (py_lower s) \<noteq> CHR ''n''"
    using c no assms(2) lower by (auto simp: py_lower_def hd_map)
  then have "\<not> starts_with ''-'' s" "\<not> starts_with ''+'' s" "py_lower s \<notin> {''inf'', ''infinity''}" "py_lower s \<noteq> ''nan''"
    using assms(2) by (auto simp: starts_with_def neq_Nil_conv)
  then show ?thesis
    using assms
    by (simp add: py_float_def digits_have_no_mark py_strip_digits unsigned_float_def Let_def int_digits_ok_all ds decimal_float_def)
qed

lemma count_text_exact:
  assumes "n < 2 ^ 53"
  shows "py_float (show_nat n) = Some (make_float False (int n) 1)"
    and "float_trunc (make_float False (int n) 1) = Inr (int n)"
  using assms by (simp_all add: py_float_digits show_nat_digits float_trunc_whole)

section \<open>Order\<close>

lemma float_less_irrefl [simp]: "\<not> float_less a a"
  by (cases a) auto

lemma float_less_trans: "float_less a b \<Longrightarrow> float_less b c \<Longrightarrow> float_less a c"
  by (cases a; cases b; cases c) auto

lemma float_less_linear: "b \<noteq> NaN \<Longrightarrow> float_less a c \<Longrightarrow> float_less a b \<or> float_less b c"
  by (cases a; cases b; cases c) auto

lemma float_le_trans: "b \<noteq> NaN \<Longrightarrow> \<not> float_less b a \<Longrightarrow> \<not> float_less c b \<Longrightarrow> \<not> float_less c a"
  using float_less_linear by blast

lemma max_by_member: "max_by key best xs \<in> insert best (set xs)"
  by (induction xs arbitrary: best) (auto split: if_splits)

lemma max_by_keeps: "\<not> float_less (key best) c \<Longrightarrow> \<not> float_less (key (max_by key best xs)) c"
  by (induction xs arbitrary: best) (auto dest: float_less_trans)

lemma max_by_maximal: "x \<in> insert best (set xs) \<Longrightarrow> \<not> float_less (key (max_by key best xs)) (key x)"
proof (induction xs arbitrary: best)
  case (Cons y ys)
  let ?b = "if float_less (key best) (key y) then y else best"
  have "\<not> float_less (key ?b) (key best)" "\<not> float_less (key ?b) (key y)" by (auto dest: float_less_trans)
  then have "\<not> float_less (key ?b) (key x) \<or> x \<in> insert ?b (set ys)" using Cons.prems by auto
  then show ?case using Cons.IH [of ?b] max_by_keeps [of key ?b "key x" ys] unfolding max_by.simps by blast
qed simp

section \<open>Truncated quotients\<close>

lemma round_half_even_bounds:
  assumes "0 < d"
  shows "n div d \<le> round_half_even n d" and "round_half_even n d \<le> n div d + 1"
    and "2 * (n mod d) < d \<Longrightarrow> round_half_even n d = n div d"
  using assms by (auto simp: round_half_even_def Let_def)

lemma float_exponent_small:
  assumes "0 < n" and "0 < d" and "n < 2 ^ 47 * d"
  shows "float_exponent n d \<le> - 6"
proof -
  let ?e = "bit_length n - bit_length d - 53"
  have "2 ^ 47 * d < 2 ^ 47 * 2 ^ nat (bit_length d)" using bit_length_bounds(3) [OF assms(2)] by simp
  then have "(2::int) ^ nat (bit_length n - 1) < 2 ^ 47 * 2 ^ nat (bit_length d)"
    using bit_length_bounds(2) [OF assms(1)] assms(3) by linarith
  then have "(2::int) ^ nat (bit_length n - 1) < 2 ^ (47 + nat (bit_length d))" by (simp add: power_add)
  then have "nat (bit_length n - 1) < 47 + nat (bit_length d)" by simp
  then have e: "?e \<le> - 6" using bit_length_bounds(1) [OF assms(1)] bit_length_bounds(1) [OF assms(2)] by linarith
  show ?thesis
  proof (cases "?e = - 6")
    case True
    then have "n * up 2 (- ?e) < 2 ^ 53 * (d * up 2 ?e)" using assms(3) by (simp add: up_def)
    then show ?thesis using True unfolding float_exponent_def Let_def by simp
  next
    case False
    then show ?thesis using e unfolding float_exponent_def Let_def by auto
  qed
qed

text \<open>
  \<open>int(n / d)\<close> of whole numbers is the integer quotient as long as the quotient is moderate: the
  division rounds, but not up to the next whole number.
\<close>

lemma rounded_quotient:
  assumes "0 < d" and "d \<le> 100" and "6 \<le> k"
  shows "round_half_even (n * 2 ^ k) d div 2 ^ k = n div d"
proof -
  define q r p where "q = n div d" and "r = n mod d" and "p = (2::int) ^ k"
  have p: "64 \<le> p" using power_increasing [OF assms(3), of "2::int"] by (simp add: p_def)
  have r: "0 \<le> r" "r \<le> d - 1" using assms(1) by (simp_all add: r_def)
  have "n = q * d + r" by (simp add: q_def r_def)
  moreover have "(q * d + r) * p = q * p * d + r * p" by (simp add: algebra_simps)
  ultimately have n: "n * p = q * p * d + r * p" by simp
  have divs: "n * p div d = q * p + r * p div d" "n * p mod d = r * p mod d" using assms(1) by (simp_all add: n)
  define R where "R = r * p div d"
  have rp: "r * p \<le> (d - 1) * p" using r p by (intro mult_right_mono) auto
  have R0: "0 \<le> R" using r p assms(1) by (simp add: R_def pos_imp_zdiv_nonneg_iff)
  have split: "r * p = R * d + r * p mod d" by (simp add: R_def)
  have less: "r * p < p * d" using r p by (simp add: mult.commute [of p])
  have R1: "R < p"
  proof (rule ccontr)
    assume "\<not> R < p"
    then have "p * d \<le> R * d" using assms(1) by (intro mult_right_mono) auto
    then show False using less split pos_mod_sign [OF assms(1), of "r * p"] by linarith
  qed
  let ?m = "round_half_even (n * p) d"
  note b = round_half_even_bounds [OF assms(1), of "n * p"]
  have "?m < (q + 1) * p"
  proof (cases "R = p - 1")
    case True
    then have "r * p mod d = r * p - (p - 1) * d" using split by simp
    also have "\<dots> \<le> d - p" using rp by (simp add: algebra_simps)
    finally have "2 * (n * p mod d) < d" using divs p assms(2) by simp
    then show ?thesis using b(3) divs True by (simp add: algebra_simps R_def)
  next
    case False
    then have "R + 1 < p" using R1 by simp
    then show ?thesis using b(2) divs by (simp add: algebra_simps R_def)
  qed
  moreover have "q * p \<le> ?m" using b(1) divs R0 by (simp add: R_def)
  ultimately have "?m div p = q"
    by (intro int_div_pos_eq [of _ _ _ "?m - p * q"]) (simp_all add: algebra_simps)
  then show ?thesis by (simp add: p_def q_def)
qed

text \<open>
  \<open>int(n / d)\<close> of whole numbers is the integer quotient as long as the quotient is moderate: the
  division rounds, but not up to the next whole number.
\<close>

lemma float_trunc_quotient:
  assumes "0 < n" and "0 < d" and "d \<le> 100" and "n < 2 ^ 47 * d"
  shows "float_trunc (make_float False n d) = Inr (n div d)"
proof -
  define e where "e = float_exponent n d"
  define k where "k = nat (- e)"
  have "e \<le> - 6" using float_exponent_small assms by (simp add: e_def)
  then have k: "6 \<le> k" "e = - int k" by (simp_all add: k_def)
  define m where "m = round_half_even (n * 2 ^ k) d"
  have m: "m div 2 ^ k = n div d" using rounded_quotient [OF assms(2,3) k(1)] by (simp add: m_def)
  have made: "make_float False n d =
      (let (m', e') = (if m = 2 ^ 53 then (2 ^ 52, e + 1) else (m, e)) in if m' = 0 then Fin False 0 0 else Fin False m' e')"
    using assms(1) k by (simp add: make_float_def Let_def up_def m_def flip: e_def)
  consider "m = 0" | "m = 2 ^ 53" | "m \<noteq> 0" "m \<noteq> 2 ^ 53" by blast
  then show ?thesis
  proof cases
    case 1
    then show ?thesis using m made by (simp add: float_trunc_def)
  next
    case 2
    have "(2::int) ^ 53 div 2 ^ k = 2 ^ 52 div 2 ^ (k - 1)"
      using k(1) by (cases k) (simp_all add: power_Suc)
    moreover have "nat (int k - 1) = k - 1" by simp
    ultimately show ?thesis using 2 m made k by (simp add: float_trunc_def up_def)
  next
    case 3
    then show ?thesis using m made k by (simp add: float_trunc_def up_def)
  qed
qed

end
