(* ===== verification/Py_Json.thy ===== *)
theory Py_Json
  imports Py_Float
begin

text \<open>
  JSON documents as the Python values \<open>json.loads\<close> makes of them, with the conversions the
  tooling applies to a field of unknown type: \<open>str()\<close>, \<open>int()\<close>, \<open>bool()\<close>, \<open>dict.get\<close> and
  iteration. Fractional numbers are floats. The \<open>size\<close> order on documents that the
  recursive conversions need is the one the datatype package provides.
\<close>

datatype json =
    JNull
  | JBool bool
  | JInt int
  | JReal pyfloat
  | JStr string
  | JArr "json list"
  | JObj "(string \<times> json) list"

definition hex_digit :: "nat \<Rightarrow> char" where
  "hex_digit d = (if d < 10 then char_of (48 + d) else char_of (87 + d))"

definition repr_char :: "char \<Rightarrow> char \<Rightarrow> string" where
  "repr_char q c =
     (if c = q \<or> c = CHR 0x5C then [CHR 0x5C, c]
      else if c = newline then [CHR 0x5C, CHR ''n'']
      else if c = carriage_return then [CHR 0x5C, CHR ''r'']
      else if c = CHR 0x09 then [CHR 0x5C, CHR ''t'']
      else if code c < 32 \<or> code c = 127
        then [CHR 0x5C, CHR ''x'', hex_digit (code c div 16), hex_digit (code c mod 16)]
      else [c])"

definition repr_str :: "string \<Rightarrow> string" where
  "repr_str s =
     (let q = (if CHR 0x27 \<in> set s \<and> CHR 0x22 \<notin> set s then CHR 0x22 else CHR 0x27)
      in [q] @ concat (map (repr_char q) s) @ [q])"

fun py_repr :: "json \<Rightarrow> string" where
  "py_repr JNull = ''None''"
| "py_repr (JBool b) = (if b then ''True'' else ''False'')"
| "py_repr (JInt i) = show_int i"
| "py_repr (JReal f) = float_repr f"
| "py_repr (JStr s) = repr_str s"
| "py_repr (JArr xs) = ''['' @ join '', '' (map py_repr xs) @ '']''"
| "py_repr (JObj kvs) =
     ''{'' @ join '', '' (map (\<lambda>kv. repr_str (fst kv) @ '': '' @ py_repr (snd kv)) kvs) @ ''}''"

definition py_str :: "json \<Rightarrow> string" where
  "py_str j = (case j of JStr s \<Rightarrow> s | _ \<Rightarrow> py_repr j)"

definition truthy :: "json \<Rightarrow> bool" where
  "truthy j =
     (case j of
        JNull \<Rightarrow> False
      | JBool b \<Rightarrow> b
      | JInt i \<Rightarrow> i \<noteq> 0
      | JReal f \<Rightarrow> float_true f
      | JStr s \<Rightarrow> s \<noteq> ''''
      | JArr xs \<Rightarrow> xs \<noteq> []
      | JObj kvs \<Rightarrow> kvs \<noteq> [])"

definition to_int :: "json \<Rightarrow> int res" where
  \<comment> \<open>\<open>int(value)\<close>; a fraction is cut towards zero\<close>
  "to_int j =
     (case j of
        JBool b \<Rightarrow> Inr (if b then 1 else 0)
      | JInt i \<Rightarrow> Inr i
      | JReal f \<Rightarrow> float_trunc f
      | JStr s \<Rightarrow> int_or_raise s
      | _ \<Rightarrow> Inl TypeError)"

definition obj_get :: "json \<Rightarrow> string \<Rightarrow> json \<Rightarrow> json res" where
  \<comment> \<open>\<open>value.get(key, default)\<close>, which only a dictionary has\<close>
  "obj_get j k d =
     (case j of
        JObj kvs \<Rightarrow> Inr (case map_of kvs k of None \<Rightarrow> d | Some v \<Rightarrow> v)
      | _ \<Rightarrow> Inl AttributeError)"

definition field :: "(string \<times> json) list \<Rightarrow> string \<Rightarrow> json \<Rightarrow> json" where
  "field kvs k d = (case map_of kvs k of None \<Rightarrow> d | Some v \<Rightarrow> v)"

definition iterate :: "json \<Rightarrow> json list res" where
  "iterate j =
     (case j of
        JArr xs \<Rightarrow> Inr xs
      | JObj kvs \<Rightarrow> Inr (map (\<lambda>kv. JStr (fst kv)) kvs)
      | JStr s \<Rightarrow> Inr (map (\<lambda>c. JStr [c]) s)
      | _ \<Rightarrow> Inl TypeError)"

lemma obj_get_JObj [simp]: "obj_get (JObj kvs) k d = Inr (field kvs k d)"
  by (simp add: obj_get_def field_def)

lemma obj_get_ok: "obj_get j k d = Inr v \<longleftrightarrow> (\<exists>kvs. j = JObj kvs \<and> v = field kvs k d)"
  by (cases j) (auto simp: obj_get_def field_def)

lemma field_simps [simp]:
  "field [] k d = d"
  "field ((k', v) # kvs) k d = (if k = k' then v else field kvs k d)"
  by (auto simp: field_def)

lemma py_str_JStr [simp]: "py_str (JStr s) = s"
  by (simp add: py_str_def)

lemma py_str_JInt [simp]: "py_str (JInt i) = show_int i"
  by (simp add: py_str_def)

lemma to_int_simps [simp]: "to_int (JInt i) = Inr i" "to_int (JStr s) = int_or_raise s"
  by (simp_all add: to_int_def)

lemma int_or_raise_show [simp]: "int_or_raise (show_int i) = Inr i"
  by (simp add: int_or_raise_def)

lemma truthy_simps [simp]:
  "truthy (JStr s) \<longleftrightarrow> s \<noteq> ''''" "truthy (JBool b) \<longleftrightarrow> b" "\<not> truthy JNull"
  by (simp_all add: truthy_def)

text \<open>\<open>int(str(n)) = n\<close>: a count written to a report and read back is the same count.\<close>

lemma to_int_py_str: "to_int (JStr (py_str (JInt i))) = Inr i"
  by simp

end
