(* ===== verification/Artifact_Sync.thy ===== *)
theory Artifact_Sync
  imports Py_Paths Py_Json
begin

text \<open>
  Model of tools/release/sync_remote_artifacts.py: the artifact manifest, the path policy that
  keeps secrets, build products and paths outside the repository out of it, the comparison of
  the local tree with the remote one, and the synchronisation itself. SHA-256 and the two
  processes the tool starts (\<open>ssh\<close> with its batch script, \<open>rsync\<close>) are parameters.
\<close>

section \<open>Path policy\<close>

definition BUILD_LIKE_NAMES :: "string list" where
  "BUILD_LIKE_NAMES = [''build'', ''out'', ''dist'', ''.cache'', ''Testing'', ''CMakeFiles'', ''_deps'']"

definition BUILD_FILES :: "string list" where
  "BUILD_FILES =
     [''CMakeCache.txt'', ''CTestTestfile.cmake'', ''build.ninja'', ''cmake_install.cmake'',
      ''compile_commands.json'', ''install_manifest.txt'', ''.ninja_deps'', ''.ninja_log'']"

definition BLOCKED_SUFFIXES :: "string list" where
  "BLOCKED_SUFFIXES =
     [''.o'', ''.a'', ''.so'', ''.d'', ''.pyc'', ''.bin'', ''.exe'', ''.elf'', ''.pem'', ''.key'',
      ''.p12'', ''.crt'', ''.cer'']"

definition SAFE_SUFFIXES :: "string list" where
  "SAFE_SUFFIXES =
     [''.md'', ''.py'', ''.json'', ''.jsonl'', ''.csv'', ''.log'', ''.txt'', ''.sh'', ''.cmake'',
      ''.clang-tidy'', ''.gitignore'', ''.png'', ''.svg'']"

definition SENSITIVE_PARTS :: "string list" where
  "SENSITIVE_PARTS =
     [''AGENTS.md'', ''.env'', ''.env.local'', ''.envrc'', ''id_rsa'', ''id_dsa'', ''id_ed25519'']"

definition SENSITIVE_WORDS :: "string list" where
  "SENSITIVE_WORDS = [''password'', ''passwd'', ''secret'', ''token'', ''cookie'', ''credential'']"

definition is_build_like_part :: "string \<Rightarrow> bool" where
  "is_build_like_part part \<longleftrightarrow>
     part \<in> set BUILD_LIKE_NAMES \<or> starts_with ''build-'' part \<or> starts_with ''cmake-build-'' part"

definition has_sensitive_word :: "string \<Rightarrow> bool" where
  "has_sensitive_word part \<longleftrightarrow> list_ex (\<lambda>word. contains word (py_lower part)) SENSITIVE_WORDS"

fun check_parts :: "string \<Rightarrow> string list \<Rightarrow> unit res" where
  "check_parts path_text [] = Inr ()"
| "check_parts path_text (part # rest) =
     (if part \<in> set SENSITIVE_PARTS
      then Inl (ValueError (''sensitive artifact path is not allowed: '' @ path_text))
      else if is_build_like_part part
      then Inl (ValueError (''build-like artifact path is not allowed: '' @ path_text))
      else if has_sensitive_word part
      then Inl (ValueError (''sensitive artifact path is not allowed: '' @ path_text))
      else check_parts path_text rest)"

definition validate_artifact_path :: "string \<Rightarrow> string res" where
  "validate_artifact_path path_text =
     (if path_text = '''' then Inl (ValueError ''empty artifact path'')
      else
        (let path = to_path path_text in
         if is_absolute path
         then Inl (ValueError (''absolute artifact path is not allowed: '' @ path_text))
         else if ''..'' \<in> set (parts path)
         then Inl (ValueError (''path traversal is not allowed: '' @ path_text))
         else andthen (check_parts path_text (parts path)) (\<lambda>_.
           if path_name path \<in> set BUILD_FILES
           then Inl (ValueError (''build artifact file is not allowed: '' @ path_text))
           else if path_suffix path \<in> set BLOCKED_SUFFIXES
           then Inl (ValueError (''binary or credential artifact suffix is not allowed: '' @ path_text))
           else Inr (as_posix path))))"

text \<open>What an accepted path promises, over its parts.\<close>

definition clean_part :: "string \<Rightarrow> bool" where
  "clean_part part \<longleftrightarrow> part \<noteq> ''..'' \<and> part \<notin> set SENSITIVE_PARTS \<and>
     \<not> is_build_like_part part \<and> \<not> has_sensitive_word part"

definition clean_path :: "ppath \<Rightarrow> bool" where
  "clean_path p \<longleftrightarrow> anchor p = '''' \<and> list_all clean_part (segs p) \<and>
     path_name p \<notin> set BUILD_FILES \<and> path_suffix p \<notin> set BLOCKED_SUFFIXES"

lemma check_parts_ok:
  "check_parts s ps = Inr () \<longleftrightarrow>
     (\<forall>p\<in>set ps. p \<notin> set SENSITIVE_PARTS \<and> \<not> is_build_like_part p \<and> \<not> has_sensitive_word p)"
  by (induction s ps rule: check_parts.induct) auto

lemma validate_ok_iff:
  "validate_artifact_path s = Inr q \<longleftrightarrow>
     s \<noteq> '''' \<and> clean_path (to_path s) \<and> q = as_posix (to_path s)"
proof (cases "anchor (to_path s) = ''''")
  case True
  then have "parts (to_path s) = segs (to_path s)" by (simp add: parts_def)
  then show ?thesis
    using True
    by (auto simp: validate_artifact_path_def Let_def is_absolute_def andthen_eq_Inr
        check_parts_ok clean_path_def clean_part_def list_all_iff)
next
  case False
  then show ?thesis
    by (simp add: validate_artifact_path_def Let_def is_absolute_def clean_path_def)
qed

lemma as_posix_nonempty [simp]: "path_wf p \<Longrightarrow> as_posix p \<noteq> ''''"
  by (auto simp: as_posix_def path_wf_def dest: join_segs_no_slash_head)

lemma validate_clean:
  assumes "validate_artifact_path s = Inr q"
  shows "clean_path (to_path q)" and "to_path q = to_path s"
  using assms by (auto simp: validate_ok_iff to_path_as_posix)

section \<open>Files of the manifest\<close>

fun read_blocks :: "nat \<Rightarrow> int \<Rightarrow> string \<Rightarrow> string list" where
  \<comment> \<open>\<open>iter(lambda: handle.read(n), b"")\<close>; the first argument bounds the number of reads\<close>
  "read_blocks 0 n b = []"
| "read_blocks (Suc k) n b = (if b = [] then [] else py_take n b # read_blocks k n (py_drop n b))"

definition sha256_file :: "(string \<Rightarrow> string) \<Rightarrow> fs \<Rightarrow> string list \<Rightarrow> string res" where
  "sha256_file sha t p =
     andthen (read_bytes t p) (\<lambda>b. Inr (sha (concat (read_blocks (length b) (1024 * 1024) b))))"

lemma concat_read_blocks:
  assumes "0 < n" and "length b \<le> k"
  shows "concat (read_blocks k n b) = b"
  using assms
proof (induction k n b rule: read_blocks.induct)
  case (1 n b)
  then show ?case by simp
next
  case (2 k n b)
  then show ?case by (cases "b = []") (auto simp: py_take_take py_drop_drop)
qed

lemma sha256_file_content:
  "sha256_file sha t p = Inr h \<longleftrightarrow> (\<exists>b. file_content t p = Some b \<and> h = sha b)"
  by (auto simp: sha256_file_def andthen_eq_Inr read_bytes_content concat_read_blocks)

definition is_probably_binary :: "fs \<Rightarrow> string list \<Rightarrow> bool" where
  "is_probably_binary t p =
     (case read_bytes t p of Inl _ \<Rightarrow> False | Inr b \<Rightarrow> CHR 0x00 \<in> set (py_take 8192 b))"

definition validate_local_artifact_file :: "fs \<Rightarrow> string \<Rightarrow> unit res" where
  "validate_local_artifact_file t relative_path =
     (let path = to_path relative_path; p = segs path in
      if \<not> path_exists t p then Inr ()
      else if \<not> is_file t p
      then Inl (ValueError (''artifact is not a regular file: '' @ relative_path))
      else if path_suffix path \<noteq> '''' \<and> path_suffix path \<notin> set SAFE_SUFFIXES
      then Inl (ValueError (''unknown artifact suffix is not allowed: '' @ relative_path))
      else if is_probably_binary t p \<and> path_suffix path \<noteq> ''.png''
      then Inl (ValueError (''unknown binary artifact is not allowed: '' @ relative_path))
      else Inr ())"

definition artifact_type_for :: "string \<Rightarrow> string" where
  "artifact_type_for path =
     (if ends_with ''_alpha-artifacts.json'' path then ''artifact_manifest''
      else if ends_with ''_alpha-release-gate.json'' path then ''gate_json''
      else if ends_with ''.jsonl'' path then ''event_log''
      else if starts_with ''docs/release/'' path then ''release_doc''
      else if starts_with ''docs/'' path
        then (if starts_with ''docs/perf/figures/'' path then ''perf_figure'' else ''doc'')
      else if starts_with ''tools/release/'' path then ''release_tool''
      else if ends_with ''-summary.csv'' path then ''matrix_summary_csv''
      else if ends_with ''.csv'' path then ''matrix_raw_csv''
      else if ends_with ''.log'' path then ''sidecar_log''
      else ''other'')"

record manifest_artifact =
  ma_path :: string
  ma_size :: int
  ma_sha256 :: string
  ma_type :: string
  ma_required :: bool

definition manifest_entry_for ::
  "(string \<Rightarrow> string) \<Rightarrow> fs \<Rightarrow> string \<Rightarrow> bool \<Rightarrow> manifest_artifact res" where
  "manifest_entry_for sha root relative_path required =
     andthen (validate_artifact_path relative_path) (\<lambda>normalized.
     andthen (validate_local_artifact_file root normalized) (\<lambda>_.
     (case file_content root (segs (to_path normalized)) of
        None \<Rightarrow> Inl (FileNotFoundError (''required artifact does not exist: '' @ normalized))
      | Some b \<Rightarrow>
          andthen (sha256_file sha root (segs (to_path normalized))) (\<lambda>h.
          Inr \<lparr>ma_path = normalized, ma_size = int (length b), ma_sha256 = h,
               ma_type = artifact_type_for normalized, ma_required = required\<rparr>))))"

definition load_item :: "fs \<Rightarrow> json \<Rightarrow> manifest_artifact res" where
  "load_item local_root item =
     (case item of
        JObj kvs \<Rightarrow>
          andthen (validate_artifact_path (py_str (field kvs ''path'' (JStr '''')))) (\<lambda>relative.
          andthen (validate_local_artifact_file local_root relative) (\<lambda>_.
          andthen (to_int (field kvs ''size'' (JInt (-1)))) (\<lambda>size.
          Inr \<lparr>ma_path = relative, ma_size = size,
               ma_sha256 = py_str (field kvs ''sha256'' (JStr '''')),
               ma_type = py_str (field kvs ''type'' (JStr (artifact_type_for relative))),
               ma_required = truthy (field kvs ''required'' (JBool True))\<rparr>)))
      | _ \<Rightarrow> Inl (ValueError ''manifest artifact must be an object''))"

definition load_manifest ::
  "(string \<Rightarrow> string) \<Rightarrow> json \<Rightarrow> string \<Rightarrow> fs \<Rightarrow> manifest_artifact list res" where
  \<comment> \<open>\<open>data\<close> is the parsed manifest, \<open>manifest_path\<close> its place relative to the local root\<close>
  "load_manifest sha data manifest_path local_root =
     andthen (obj_get data ''artifacts'' (JArr [])) (\<lambda>listed.
     andthen (iterate listed) (\<lambda>items.
     andthen (collect (load_item local_root) items) (\<lambda>artifacts.
     andthen (validate_artifact_path manifest_path) (\<lambda>manifest_relative.
     andthen (manifest_entry_for sha local_root manifest_relative True) (\<lambda>manifest_entry.
     Inr (if list_all (\<lambda>a. ma_path a \<noteq> ma_path manifest_entry) artifacts
          then artifacts @ [manifest_entry] else artifacts))))))"

section \<open>Comparing the trees\<close>

record artifact_status =
  st_path :: string
  st_required :: bool
  st_local_exists :: bool
  st_remote_exists :: bool
  st_local_size :: int
  st_remote_size :: int
  st_local_sha256 :: string
  st_remote_sha256 :: string
  st_status :: string
  st_synced :: bool
  st_reason :: string

type_synonym file_stat = "bool \<times> int \<times> string"

definition stat_in_tree :: "(string \<Rightarrow> string) \<Rightarrow> fs \<Rightarrow> string \<Rightarrow> file_stat" where
  \<comment> \<open>existence, size and digest of a file below a local root\<close>
  "stat_in_tree sha t relative_path =
     (case file_content t (segs (to_path relative_path)) of
        None \<Rightarrow> (False, 0, '''')
      | Some b \<Rightarrow> (True, int (length b), sha (concat (read_blocks (length b) (1024 * 1024) b))))"

definition batch_script :: "(string \<Rightarrow> string) \<Rightarrow> fs \<Rightarrow> string list \<Rightarrow> json" where
  \<comment> \<open>the program that runs on the remote host: one object per requested path\<close>
  "batch_script sha t paths =
     JObj (fold (\<lambda>relative out.
       dict_set relative
         (case file_content t (segs (to_path relative)) of
            None \<Rightarrow> JObj [(''exists'', JBool False), (''size'', JInt 0), (''sha256'', JStr '''')]
          | Some b \<Rightarrow> JObj [(''exists'', JBool True), (''size'', JInt (int (length b))),
              (''sha256'', JStr (sha (concat (read_blocks (length b) (1024 * 1024) b))))]) out)
       paths [])"

record 'r ssh_ops =
  batch_run :: "'r \<Rightarrow> string list \<Rightarrow> int \<times> string \<times> json"
  rsync_run :: "fs \<Rightarrow> string list \<Rightarrow> 'r \<Rightarrow> int \<times> string \<times> 'r"

datatype 'r remote =
    RemoteTree fs
  | RemoteHost "'r ssh_ops" 'r
  | NoRemote

definition batch_item :: "json \<Rightarrow> string \<Rightarrow> (string \<times> file_stat) res" where
  "batch_item data relative =
     andthen (obj_get data relative (JObj [])) (\<lambda>item.
     andthen (obj_get item ''exists'' (JBool False)) (\<lambda>ex.
     andthen (obj_get item ''size'' (JInt 0)) (\<lambda>sz.
     andthen (to_int sz) (\<lambda>size.
     andthen (obj_get item ''sha256'' (JStr '''')) (\<lambda>h.
     Inr (relative, (truthy ex, size, py_str h)))))))"

definition remote_stats_batch ::
  "(string list \<Rightarrow> int \<times> string \<times> json) \<Rightarrow> string list \<Rightarrow> (string \<times> file_stat) list res" where
  "remote_stats_batch run relative_paths =
     (if relative_paths = [] then Inr []
      else
        (case run relative_paths of (returncode, stderr, data) \<Rightarrow>
           if returncode \<noteq> 0
           then Inl (RuntimeError (if py_strip stderr = '''' then ''remote artifact batch stat failed''
                                   else py_strip stderr))
           else collect (batch_item data) relative_paths))"

definition remote_stats ::
  "(string \<Rightarrow> string) \<Rightarrow> 'r remote \<Rightarrow> string list \<Rightarrow> (string \<Rightarrow> file_stat) res" where
  \<comment> \<open>where \<open>check_artifacts\<close> takes the remote state of a path from\<close>
  "remote_stats sha r paths =
     (case r of
        RemoteTree t \<Rightarrow> Inr (stat_in_tree sha t)
      | RemoteHost ops s \<Rightarrow>
          andthen (remote_stats_batch (batch_run ops s) paths)
            (\<lambda>batch. Inr (\<lambda>path. dict_get (rev batch) path (False, 0, '''')))
      | NoRemote \<Rightarrow> Inr (\<lambda>_. (False, 0, '''')))"

definition check_artifact ::
  "(string \<Rightarrow> string) \<Rightarrow> fs \<Rightarrow> (string \<Rightarrow> file_stat) \<Rightarrow> manifest_artifact \<Rightarrow> artifact_status" where
  "check_artifact sha local_root remote_of artifact =
     (case stat_in_tree sha local_root (ma_path artifact) of (local_exists, local_size, local_hash) \<Rightarrow>
      (case remote_of (ma_path artifact) of (remote_exists, remote_size, remote_hash) \<Rightarrow>
        \<lparr>st_path = ma_path artifact, st_required = ma_required artifact,
         st_local_exists = local_exists, st_remote_exists = remote_exists,
         st_local_size = local_size, st_remote_size = remote_size,
         st_local_sha256 = local_hash, st_remote_sha256 = remote_hash,
         st_status =
           (if \<not> local_exists then ''missing_local''
            else if \<not> remote_exists then ''missing''
            else if local_size \<noteq> remote_size \<or> local_hash \<noteq> remote_hash
                    \<or> ma_sha256 artifact \<noteq> local_hash then ''mismatch''
            else ''match''),
         st_synced = False, st_reason = ''''\<rparr>))"

definition check_artifacts ::
  "(string \<Rightarrow> string) \<Rightarrow> manifest_artifact list \<Rightarrow> fs \<Rightarrow> 'r remote \<Rightarrow> artifact_status list res" where
  "check_artifacts sha artifacts local_root r =
     andthen (remote_stats sha r (map ma_path artifacts))
       (\<lambda>remote_of. Inr (map (check_artifact sha local_root remote_of) artifacts))"

section \<open>Synchronising\<close>

fun copy_local_artifacts :: "fs \<Rightarrow> fs \<Rightarrow> string list \<Rightarrow> nat \<Rightarrow> (nat \<times> fs) res" where
  "copy_local_artifacts local_root t [] count = Inr (count, t)"
| "copy_local_artifacts local_root t (relative # rest) count =
     (let p = segs (to_path relative) in
      andthen (mkdirs [] (butlast p) t) (\<lambda>t1.
      andthen (read_bytes local_root p) (\<lambda>b.
      andthen (write_bytes t1 p b) (\<lambda>t2.
      copy_local_artifacts local_root t2 rest (count + 1)))))"

definition rsync_artifacts ::
  "'r ssh_ops \<Rightarrow> fs \<Rightarrow> 'r \<Rightarrow> string list \<Rightarrow> int \<times> string \<times> 'r" where
  "rsync_artifacts ops local_root s paths =
     (if paths = [] then (0, ''no artifacts to sync'' @ [newline], s)
      else rsync_run ops local_root paths s)"

record sync_summary =
  sm_mode :: string
  sm_checked :: nat
  sm_synced :: nat
  sm_missing :: nat
  sm_mismatch :: nat
  sm_skipped :: nat
  sm_status :: string
  sm_artifacts :: "artifact_status list"
  sm_rsync_log :: "string option"
  sm_pre_missing :: nat
  sm_pre_mismatch :: nat
  sm_post_missing :: nat
  sm_post_mismatch :: nat
  sm_post_status :: string

definition count_missing :: "artifact_status list \<Rightarrow> nat" where
  "count_missing statuses = length (filter (\<lambda>s. st_status s \<in> {''missing'', ''missing_local''}) statuses)"

definition count_mismatch :: "artifact_status list \<Rightarrow> nat" where
  "count_mismatch statuses = length (filter (\<lambda>s. st_status s = ''mismatch'') statuses)"

definition summarize :: "artifact_status list \<Rightarrow> string \<Rightarrow> nat \<Rightarrow> string \<Rightarrow> sync_summary" where
  "summarize statuses mode synced rsync_log =
     (let missing = length (filter (\<lambda>s. st_status s \<in> {''missing'', ''missing_local''}) statuses);
          mismatch = length (filter (\<lambda>s. st_status s = ''mismatch'') statuses)
      in \<lparr>sm_mode = mode, sm_checked = length statuses, sm_synced = synced,
          sm_missing = missing, sm_mismatch = mismatch,
          sm_skipped = length (filter (\<lambda>s. \<not> st_required s) statuses),
          sm_status = (if missing = 0 \<and> mismatch = 0 then ''pass''
                       else if mode = ''dry-run'' then ''would_sync'' else ''fail''),
          sm_artifacts = statuses,
          sm_rsync_log = (if rsync_log = '''' then None else Some rsync_log),
          sm_pre_missing = 0, sm_pre_mismatch = 0, sm_post_missing = 0, sm_post_mismatch = 0,
          sm_post_status = ''''\<rparr>)"

definition add_pre_post_summary ::
  "sync_summary \<Rightarrow> artifact_status list \<Rightarrow> artifact_status list \<Rightarrow> sync_summary" where
  "add_pre_post_summary summary initial final =
     (let post_missing = count_missing final; post_mismatch = count_mismatch final in
      summary\<lparr>sm_pre_missing := count_missing initial, sm_pre_mismatch := count_mismatch initial,
        sm_post_missing := post_missing, sm_post_mismatch := post_mismatch,
        sm_post_status := (if post_missing = 0 \<and> post_mismatch = 0 then ''pass'' else ''fail'')\<rparr>)"

definition paths_to_sync :: "artifact_status list \<Rightarrow> string list" where
  "paths_to_sync initial =
     map st_path (filter (\<lambda>s. st_required s \<and> st_local_exists s
       \<and> st_status s \<in> {''missing'', ''mismatch''}) initial)"

definition finish_sync ::
  "(string \<Rightarrow> string) \<Rightarrow> manifest_artifact list \<Rightarrow> fs \<Rightarrow> 'r remote \<Rightarrow> artifact_status list
     \<Rightarrow> string list \<Rightarrow> nat \<Rightarrow> string \<Rightarrow> (sync_summary \<times> 'r remote) res" where
  \<comment> \<open>the second comparison and the report, after the files were transferred\<close>
  "finish_sync sha artifacts local_root r initial to_sync synced rsync_log =
     andthen (check_artifacts sha artifacts local_root r) (\<lambda>checked.
     (let final = map (\<lambda>s. s\<lparr>st_synced := st_path s \<in> set to_sync\<rparr>) checked in
      Inr (add_pre_post_summary (summarize final ''sync'' synced rsync_log) initial final, r)))"

definition sync_transfer ::
  "(string \<Rightarrow> string) \<Rightarrow> manifest_artifact list \<Rightarrow> fs \<Rightarrow> 'r remote \<Rightarrow> artifact_status list
     \<Rightarrow> string list \<Rightarrow> (sync_summary \<times> 'r remote) res" where
  \<comment> \<open>the transfer of mode \<open>sync\<close>: a copy into a tree, or \<open>rsync\<close> to a host\<close>
  "sync_transfer sha artifacts local_root r initial to_sync =
     (case r of
        RemoteTree t \<Rightarrow>
          andthen (copy_local_artifacts local_root t to_sync 0) (\<lambda>(synced, t').
          finish_sync sha artifacts local_root (RemoteTree t') initial to_sync synced '''')
      | NoRemote \<Rightarrow> Inl (ValueError ''remote is required for sync'')
      | RemoteHost ops s \<Rightarrow>
          (case rsync_artifacts ops local_root s to_sync of (returncode, rsync_log, s') \<Rightarrow>
             if returncode \<noteq> 0
             then Inr (add_pre_post_summary
                    ((summarize initial ''sync'' 0 rsync_log)\<lparr>sm_status := ''fail''\<rparr>) initial initial,
                  RemoteHost ops s')
             else finish_sync sha artifacts local_root (RemoteHost ops s') initial to_sync
                    (length to_sync) rsync_log))"

definition sync_from_manifest ::
  "(string \<Rightarrow> string) \<Rightarrow> json \<Rightarrow> string \<Rightarrow> fs \<Rightarrow> 'r remote \<Rightarrow> string
     \<Rightarrow> (sync_summary \<times> 'r remote) res" where
  "sync_from_manifest sha data manifest_path local_root r mode =
     andthen (load_manifest sha data manifest_path local_root) (\<lambda>artifacts.
     andthen (check_artifacts sha artifacts local_root r) (\<lambda>initial.
     (let to_sync = paths_to_sync initial in
      if mode = ''verify-only''
      then Inr (add_pre_post_summary (summarize initial mode 0 '''') initial initial, r)
      else if mode = ''dry-run''
      then Inr (add_pre_post_summary (summarize initial mode (length to_sync) '''') initial initial, r)
      else if mode \<noteq> ''sync'' then Inl (ValueError (''unsupported mode: '' @ mode))
      else sync_transfer sha artifacts local_root r initial to_sync)))"

definition failed_summary :: "string \<Rightarrow> sync_summary" where
  "failed_summary mode =
     (summarize [] mode 0 '''')\<lparr>sm_status := ''fail''\<rparr>"

definition sync_main ::
  "(string \<Rightarrow> string) \<Rightarrow> json \<Rightarrow> string \<Rightarrow> fs \<Rightarrow> 'r remote \<Rightarrow> bool \<Rightarrow> bool \<Rightarrow> sync_summary \<times> int" where
  "sync_main sha data manifest_path local_root r sync dry_run =
     (let mode = (if sync then ''sync'' else if dry_run then ''dry-run'' else ''verify-only'');
          summary = (case sync_from_manifest sha data manifest_path local_root r mode of
             Inl e \<Rightarrow> failed_summary mode | Inr (s, _) \<Rightarrow> s)
      in (summary, if sm_status summary \<notin> {''pass'', ''would_sync''} then 1 else 0))"

section \<open>What the tool guarantees\<close>

text \<open>The segments an artifact occupies in a tree.\<close>

abbreviation akey :: "string \<Rightarrow> string list" where
  "akey s \<equiv> segs (to_path s)"

lemma stat_in_tree_eq:
  "stat_in_tree sha t s =
     (case file_content t (akey s) of
        None \<Rightarrow> (False, 0, '''') | Some b \<Rightarrow> (True, int (length b), sha b))"
  by (auto simp: stat_in_tree_def concat_read_blocks split: option.splits)

text \<open>Statuses: which of the four values a comparison gives.\<close>

lemma check_artifact_fields [simp]:
  "st_path (check_artifact sha l f a) = ma_path a"
  "st_required (check_artifact sha l f a) = ma_required a"
  "st_local_exists (check_artifact sha l f a) \<longleftrightarrow> file_content l (akey (ma_path a)) \<noteq> None"
  by (auto simp: check_artifact_def stat_in_tree_eq split: prod.splits option.splits)

lemma check_artifact_match:
  "st_status (check_artifact sha l f a) = ''match'' \<longleftrightarrow>
     (\<exists>b. file_content l (akey (ma_path a)) = Some b \<and> ma_sha256 a = sha b \<and>
        f (ma_path a) = (True, int (length b), sha b))"
  by (auto simp: check_artifact_def stat_in_tree_eq split: prod.splits option.splits)

lemma check_artifact_range:
  "st_status (check_artifact sha l f a) \<in> {''match'', ''mismatch'', ''missing'', ''missing_local''}"
  by (auto simp: check_artifact_def split: prod.splits)

lemma check_artifact_missing_local:
  "st_status (check_artifact sha l f a) = ''missing_local'' \<longleftrightarrow>
     file_content l (akey (ma_path a)) = None"
  by (auto simp: check_artifact_def stat_in_tree_eq split: prod.splits option.splits)

lemma summarize_pass_iff:
  assumes "\<forall>x\<in>set xs. st_status x \<in> {''match'', ''mismatch'', ''missing'', ''missing_local''}"
  shows "sm_status (summarize xs mode n lg) = ''pass'' \<longleftrightarrow> (\<forall>x\<in>set xs. st_status x = ''match'')"
proof -
  have "sm_status (summarize xs mode n lg) = ''pass'' \<longleftrightarrow>
      (\<forall>x\<in>set xs. st_status x \<notin> {''mismatch'', ''missing'', ''missing_local''})"
    by (auto simp: summarize_def Let_def filter_empty_conv)
  also have "\<dots> \<longleftrightarrow> (\<forall>x\<in>set xs. st_status x = ''match'')"
  proof (rule ball_cong [OF refl])
    fix x assume "x \<in> set xs"
    with assms have "st_status x \<in> {''match'', ''mismatch'', ''missing'', ''missing_local''}"
      by (rule bspec)
    then show "st_status x \<notin> {''mismatch'', ''missing'', ''missing_local''} \<longleftrightarrow>
        st_status x = ''match''" by auto
  qed
  finally show ?thesis .
qed

lemma add_pre_post_status [simp]:
  "sm_status (add_pre_post_summary sm i f) = sm_status sm"
  "sm_post_status (add_pre_post_summary sm i f) =
     (if count_missing f = 0 \<and> count_mismatch f = 0 then ''pass'' else ''fail'')"
  by (simp_all add: add_pre_post_summary_def Let_def)

lemma copy_local_artifacts_cells:
  "copy_local_artifacts l t ps n = Inr (m, t') \<Longrightarrow>
     tree_store.copy_cells (file_content l) t (map akey ps) = Inr t' \<and> m = n + length ps"
proof (induction l t ps n rule: copy_local_artifacts.induct)
  case (1 l t n)
  then show ?case by simp
next
  case (2 l t p ps n)
  from "2.prems" obtain t1 b t2 where steps: "mkdirs [] (butlast (akey p)) t = Inr t1"
    "read_bytes l (akey p) = Inr b" "write_bytes t1 (akey p) b = Inr t2"
    and rest: "copy_local_artifacts l t2 ps (n + 1) = Inr (m, t')"
    by (auto simp: Let_def andthen_eq_Inr)
  have "tree_store.copy_cells (file_content l) t2 (map akey ps) = Inr t' \<and> m = n + 1 + length ps"
    using "2.IH" [OF refl rest] .
  moreover have "put_file t (akey p) b = Inr t2" using steps by (simp add: put_file_def)
  moreover have "file_content l (akey p) = Some b" using steps by (simp add: read_bytes_content)
  ultimately show ?case by simp
qed

lemma copy_local_artifacts_content:
  assumes "copy_local_artifacts l t ps n = Inr (m, t')"
  shows "file_content t' p = (if p \<in> akey ` set ps then file_content l p else file_content t p)"
  using tree_store.copy_cells_get [OF conjunct1 [OF copy_local_artifacts_cells [OF assms]], of p]
  by simp

lemma load_manifest_paths:
  assumes "load_manifest sha data mp l = Inr arts" and "a \<in> set arts"
  shows "\<exists>s. validate_artifact_path s = Inr (ma_path a)"
proof -
  have item: "\<exists>s. validate_artifact_path s = Inr (ma_path x)" if "load_item l it = Inr x" for it x
    using that by (auto simp: load_item_def andthen_eq_Inr split: json.splits)
  have entry: "\<exists>s. validate_artifact_path s = Inr (ma_path x)"
    if "manifest_entry_for sha l s req = Inr x" for s req x
  proof -
    from that obtain q where "validate_artifact_path s = Inr q" and "ma_path x = q"
      by (auto simp: manifest_entry_for_def andthen_eq_Inr split: option.splits)
    then show ?thesis by blast
  qed
  from assms show ?thesis
    by (auto simp: load_manifest_def andthen_eq_Inr split: if_splits
        dest!: collect_memD intro: item entry)
qed

lemma akey_normal_inject:
  assumes "validate_artifact_path s = Inr p" and "validate_artifact_path s' = Inr p'"
    and "akey p = akey p'"
  shows "p = p'"
proof -
  have "to_path p = to_path p'"
    using assms validate_clean(1) [OF assms(1)] validate_clean(1) [OF assms(2)]
    by (simp add: clean_path_def)
  then show ?thesis
    using assms by (metis validate_clean(2) validate_ok_iff)
qed

lemma validate_idem: "validate_artifact_path s = Inr q \<Longrightarrow> validate_artifact_path q = Inr q"
  by (auto simp: validate_ok_iff to_path_as_posix)

lemma load_manifest_valid:
  assumes "load_manifest sha data mp l = Inr arts" and "a \<in> set arts"
  shows "validate_artifact_path (ma_path a) = Inr (ma_path a)"
proof -
  obtain s where "validate_artifact_path s = Inr (ma_path a)"
    using load_manifest_paths [OF assms] by blast
  then show ?thesis by (rule validate_idem)
qed

text \<open>The files a synchronisation transfers.\<close>

definition needs_sync :: "(string \<Rightarrow> string) \<Rightarrow> fs \<Rightarrow> (string \<Rightarrow> file_stat) \<Rightarrow> manifest_artifact \<Rightarrow> bool" where
  "needs_sync sha l f a \<longleftrightarrow> ma_required a \<and> file_content l (akey (ma_path a)) \<noteq> None \<and>
     st_status (check_artifact sha l f a) \<noteq> ''match''"

lemma paths_to_sync_check:
  "paths_to_sync (map (check_artifact sha l f) arts) = map ma_path (filter (needs_sync sha l f) arts)"
proof -
  have "st_required (check_artifact sha l f a) \<and> st_local_exists (check_artifact sha l f a)
        \<and> st_status (check_artifact sha l f a) \<in> {''missing'', ''mismatch''}
      \<longleftrightarrow> needs_sync sha l f a" for a
    using check_artifact_range [of sha l f a] check_artifact_missing_local [of sha l f a]
    by (auto simp: needs_sync_def)
  then show ?thesis by (simp add: paths_to_sync_def filter_map comp_def)
qed

lemma sync_tree_steps:
  assumes "sync_from_manifest sha data mp l (RemoteTree t) ''sync'' = Inr (sm, r')"
  obtains arts t' where "load_manifest sha data mp l = Inr arts" and "r' = RemoteTree t'"
    and "copy_local_artifacts l t
           (map ma_path (filter (needs_sync sha l (stat_in_tree sha t)) arts)) 0
         = Inr (length (filter (needs_sync sha l (stat_in_tree sha t)) arts), t')"
    and "sm_status sm = ''pass'' \<longleftrightarrow>
           (\<forall>a\<in>set arts. st_status (check_artifact sha l (stat_in_tree sha t') a) = ''match'')"
    and "sm_synced sm = length (filter (needs_sync sha l (stat_in_tree sha t)) arts)"
proof -
  let ?chk = "\<lambda>u. check_artifact sha l (stat_in_tree sha u)"
  from assms obtain arts n t' where arts: "load_manifest sha data mp l = Inr arts"
    and copy: "copy_local_artifacts l t (paths_to_sync (map (?chk t) arts)) 0 = Inr (n, t')"
    and fin: "finish_sync sha arts l (RemoteTree t' :: 'a remote) (map (?chk t) arts)
                (paths_to_sync (map (?chk t) arts)) n '''' = Inr (sm, r')"
    by (auto simp: sync_from_manifest_def sync_transfer_def check_artifacts_def remote_stats_def
        andthen_eq_Inr Let_def)
  define ps where "ps = paths_to_sync (map (?chk t) arts)"
  have n: "n = length ps"
    using copy_local_artifacts_cells [OF copy] by (simp add: ps_def)
  let ?f = "map (\<lambda>s. s\<lparr>st_synced := st_path s \<in> set ps\<rparr>) (map (?chk t') arts)"
  from fin have sm: "sm = add_pre_post_summary (summarize ?f ''sync'' n '''') (map (?chk t) arts) ?f"
    and r': "r' = RemoteTree t'"
    by (auto simp: finish_sync_def check_artifacts_def remote_stats_def Let_def ps_def)
  have "sm_status sm = ''pass'' \<longleftrightarrow> (\<forall>s\<in>set ?f. st_status s = ''match'')"
    unfolding sm add_pre_post_status
    by (rule summarize_pass_iff) (use check_artifact_range in fastforce)
  moreover have "sm_synced sm = n"
    by (simp add: sm add_pre_post_summary_def summarize_def Let_def)
  ultimately show thesis
    using that [OF arts r'] copy n by (simp add: ps_def paths_to_sync_check)
qed

text \<open>A concrete release tree: a document, a non-required log and the manifest itself.\<close>

definition demo_sha :: "string \<Rightarrow> string" where
  "demo_sha b = CHR ''h'' # b"

definition demo_local :: fs where
  "demo_local = [[] \<mapsto> Dir, [''docs''] \<mapsto> Dir, [''docs'', ''a.md''] \<mapsto> File ''hello'',
     [''run.log''] \<mapsto> File ''ok'', [''m.json''] \<mapsto> File ''M'']"

definition demo_remote :: fs where
  "demo_remote = [[] \<mapsto> Dir, [''run.log''] \<mapsto> File ''ok'', [''m.json''] \<mapsto> File ''old'']"

definition demo_manifest :: json where
  "demo_manifest = JObj [(''artifacts'', JArr
     [JObj [(''path'', JStr ''docs/a.md''), (''size'', JInt 5), (''sha256'', JStr ''hhello'')],
      JObj [(''path'', JStr ''run.log''), (''size'', JInt 2), (''sha256'', JStr ''hok''),
            (''required'', JBool False)]])]"

abbreviation demo_arts :: "manifest_artifact list" where
  "demo_arts \<equiv>
     [\<lparr>ma_path = ''docs/a.md'', ma_size = 5, ma_sha256 = ''hhello'', ma_type = ''doc'', ma_required = True\<rparr>,
      \<lparr>ma_path = ''run.log'', ma_size = 2, ma_sha256 = ''hok'', ma_type = ''sidecar_log'', ma_required = False\<rparr>,
      \<lparr>ma_path = ''m.json'', ma_size = 1, ma_sha256 = ''hM'', ma_type = ''other'', ma_required = True\<rparr>]"

lemma demo_load: "load_manifest demo_sha demo_manifest ''m.json'' demo_local = Inr demo_arts"
  by code_simp

definition demo_sync_status :: "string \<times> nat \<times> string option" where
  "demo_sync_status =
     (case sync_from_manifest demo_sha demo_manifest ''m.json'' demo_local
             (RemoteTree demo_remote :: unit remote) ''sync'' of
        Inr (sm, RemoteTree t) \<Rightarrow> (sm_status sm, sm_synced sm, file_content t [''docs'', ''a.md''])
      | _ \<Rightarrow> ('''', 0, None))"

lemma demo_sync_status: "demo_sync_status = (''pass'', 2, Some ''hello'')"
  by code_simp

lemma demo_sync_ok:
  "\<exists>sm t'. sync_from_manifest demo_sha demo_manifest ''m.json'' demo_local
       (RemoteTree demo_remote :: unit remote) ''sync'' = Inr (sm, RemoteTree t') \<and>
     sm_status sm = ''pass'' \<and> sm_synced sm = 2"
  using demo_sync_status unfolding demo_sync_status_def
  by (auto split: sum.splits prod.splits remote.splits)

section \<open>Properties\<close>

text \<open>
  C1: a path that the artifact policy accepts stays below any root it is joined to, has no
  sensitive, build-like or upward segment, no blocked suffix, and is in normal form: validating
  it again returns it unchanged.
\<close>

theorem validate_path_safe:
  assumes "validate_artifact_path s = Inr q"
  shows "path_within root (path_join root q) \<and> list_all clean_part (segs (to_path q)) \<and>
    path_suffix (to_path q) \<notin> set BLOCKED_SUFFIXES \<and> validate_artifact_path q = Inr q"
proof -
  have clean: "clean_path (to_path q)" using validate_clean [OF assms] by auto
  then have "path_within root (path_join root q)"
    by (intro path_join_within)
      (auto simp: clean_path_def is_absolute_def parts_def clean_part_def list_all_iff)
  with clean validate_idem [OF assms] show ?thesis by (auto simp: clean_path_def)
qed

theorem validate_path_safe_witness:
  "validate_artifact_path ''docs/./release//README.md'' = Inr ''docs/release/README.md''
   \<and> path_within (to_path ''/root/repo'') (path_join (to_path ''/root/repo'') ''docs/release/README.md'')
   \<and> list_all clean_part (segs (to_path ''docs/release/README.md''))
   \<and> validate_artifact_path ''docs/release/README.md'' = Inr ''docs/release/README.md''"
proof -
  have v: "validate_artifact_path ''docs/./release//README.md'' = Inr ''docs/release/README.md''"
    by code_simp
  show ?thesis using v validate_path_safe [OF v] by blast
qed

text \<open>
  Every artifact of a loaded manifest has a policy-conforming normal path, and the manifest
  itself is among the artifacts.
\<close>

theorem load_manifest_sound:
  assumes "load_manifest sha data mp l = Inr arts"
  shows "(\<forall>a\<in>set arts. validate_artifact_path (ma_path a) = Inr (ma_path a)) \<and>
    (\<exists>a\<in>set arts. validate_artifact_path mp = Inr (ma_path a))"
proof -
  from assms obtain q entry where q: "validate_artifact_path mp = Inr q"
    and entry: "manifest_entry_for sha l q True = Inr entry"
    and mem: "ma_path entry \<in> ma_path ` set arts"
    by (auto simp: load_manifest_def andthen_eq_Inr list_all_iff split: if_splits)
      (metis image_eqI)
  have "ma_path entry = q"
    using entry validate_idem [OF q]
    by (auto simp: manifest_entry_for_def andthen_eq_Inr split: option.splits)
  with q mem load_manifest_valid [OF assms] show ?thesis by auto
qed

theorem load_manifest_sound_witness:
  "validate_artifact_path ''docs/a.md'' = Inr ''docs/a.md'' \<and>
   (\<exists>a\<in>set demo_arts. validate_artifact_path ''m.json'' = Inr (ma_path a))"
  using load_manifest_sound [OF demo_load] by simp

text \<open>
  C17: synchronising into a tree changes nothing but the transferred artifacts, each of which
  ends with the local content; every transferred path is a policy-conforming path of a required
  artifact of the manifest.
\<close>

theorem sync_tree_writes_only:
  assumes "sync_from_manifest sha data mp l (RemoteTree t) ''sync'' = Inr (sm, r')"
  shows "\<exists>arts t' ps. load_manifest sha data mp l = Inr arts \<and> r' = RemoteTree t' \<and>
     sm_synced sm = length ps \<and>
     (\<forall>p\<in>set ps. validate_artifact_path p = Inr p \<and> (\<exists>a\<in>set arts. ma_path a = p \<and> ma_required a)) \<and>
     (\<forall>k. file_content t' k =
        (if k \<in> (\<lambda>p. segs (to_path p)) ` set ps then file_content l k else file_content t k))"
proof -
  from assms obtain arts t' where arts: "load_manifest sha data mp l = Inr arts"
    and r': "r' = RemoteTree t'"
    and copy: "copy_local_artifacts l t
        (map ma_path (filter (needs_sync sha l (stat_in_tree sha t)) arts)) 0
      = Inr (length (filter (needs_sync sha l (stat_in_tree sha t)) arts), t')"
    and n: "sm_synced sm = length (filter (needs_sync sha l (stat_in_tree sha t)) arts)"
    by (rule sync_tree_steps)
  let ?ps = "map ma_path (filter (needs_sync sha l (stat_in_tree sha t)) arts)"
  have "\<forall>p\<in>set ?ps. validate_artifact_path p = Inr p"
    using load_manifest_valid [OF arts] by auto
  moreover have "\<forall>p\<in>set ?ps. \<exists>a\<in>set arts. ma_path a = p \<and> ma_required a"
    by (auto simp: needs_sync_def)
  ultimately show ?thesis
    using arts r' n copy_local_artifacts_content [OF copy]
    by (intro exI [of _ arts] exI [of _ t'] exI [of _ ?ps]) auto
qed

theorem sync_tree_writes_only_witness:
  "\<exists>t'. sync_from_manifest demo_sha demo_manifest ''m.json'' demo_local
      (RemoteTree demo_remote :: unit remote) ''sync'' \<noteq> Inl TypeError \<and>
     (\<forall>k. file_content t' k \<in> {file_content demo_local k, file_content demo_remote k})"
proof -
  obtain sm t' where run: "sync_from_manifest demo_sha demo_manifest ''m.json'' demo_local
      (RemoteTree demo_remote :: unit remote) ''sync'' = Inr (sm, RemoteTree t')"
    using demo_sync_ok by blast
  have "file_content t' k \<in> {file_content demo_local k, file_content demo_remote k}" for k
    using sync_tree_writes_only [OF run] by auto
  with run show ?thesis by auto
qed

text \<open>Two artifacts of a manifest occupy the same file only if their paths are equal.\<close>

lemma manifest_keys:
  assumes "load_manifest sha data mp l = Inr arts" and "a \<in> set arts"
  shows "akey (ma_path a) \<in> akey ` set (map ma_path (filter P arts)) \<longleftrightarrow>
    (\<exists>a'\<in>set arts. ma_path a' = ma_path a \<and> P a')"
proof
  assume "akey (ma_path a) \<in> akey ` set (map ma_path (filter P arts))"
  then obtain a' where a': "a' \<in> set arts" "P a'" "akey (ma_path a) = akey (ma_path a')"
    by auto
  then have "ma_path a = ma_path a'"
    using akey_normal_inject [OF load_manifest_valid [OF assms] load_manifest_valid [OF assms(1) a'(1)]]
    by simp
  with a' show "\<exists>a'\<in>set arts. ma_path a' = ma_path a \<and> P a'" by auto
next
  assume "\<exists>a'\<in>set arts. ma_path a' = ma_path a \<and> P a'"
  then have "ma_path a \<in> set (map ma_path (filter P arts))" by (auto simp: image_iff)
  then show "akey (ma_path a) \<in> akey ` set (map ma_path (filter P arts))" by (rule imageI)
qed

lemma needs_sync_match:
  assumes "\<not> needs_sync sha l (stat_in_tree sha t) a" and "ma_required a"
    and "file_content l (akey (ma_path a)) = Some b"
  shows "\<exists>b'. file_content t (akey (ma_path a)) = Some b' \<and> length b' = length b \<and> sha b' = sha b"
  using assms by (auto simp: needs_sync_def check_artifact_match stat_in_tree_eq split: option.splits)

lemma match_after_copy:
  assumes arts: "load_manifest sha data mp l = Inr arts" and a: "a \<in> set arts"
    and copy: "copy_local_artifacts l t
      (map ma_path (filter (needs_sync sha l (stat_in_tree sha t)) arts)) 0 = Inr (n, t')"
  shows "st_status (check_artifact sha l (stat_in_tree sha t') a) = ''match'' \<longleftrightarrow>
     (\<exists>b. file_content l (akey (ma_path a)) = Some b \<and> ma_sha256 a = sha b \<and>
        ((\<exists>a'\<in>set arts. ma_path a' = ma_path a \<and> ma_required a') \<or>
         (\<exists>b'. file_content t (akey (ma_path a)) = Some b' \<and> length b' = length b \<and> sha b' = sha b)))"
proof -
  let ?syn = "\<exists>a'\<in>set arts. ma_path a' = ma_path a \<and> needs_sync sha l (stat_in_tree sha t) a'"
  have t': "file_content t' (akey (ma_path a)) =
      (if ?syn then file_content l (akey (ma_path a)) else file_content t (akey (ma_path a)))"
    using copy_local_artifacts_content [OF copy, of "akey (ma_path a)"]
    unfolding manifest_keys [OF arts a] .
  show ?thesis
  proof (cases ?syn)
    case True
    then have "file_content t' (akey (ma_path a)) = file_content l (akey (ma_path a))"
      unfolding t' by (simp only: if_True)
    moreover from True have "\<exists>a'\<in>set arts. ma_path a' = ma_path a \<and> ma_required a'"
      by (auto simp: needs_sync_def)
    ultimately show ?thesis by (auto simp: check_artifact_match stat_in_tree_eq)
  next
    case False
    then have same: "file_content t' (akey (ma_path a)) = file_content t (akey (ma_path a))"
      unfolding t' by (simp only: if_False)
    have "\<exists>b'. file_content t (akey (ma_path a)) = Some b' \<and> length b' = length b \<and> sha b' = sha b"
      if "a' \<in> set arts" "ma_path a' = ma_path a" "ma_required a'"
        "file_content l (akey (ma_path a)) = Some b" for a' b
      using False that needs_sync_match [of sha l t a' b] by auto
    then show ?thesis
      by (auto simp: same check_artifact_match stat_in_tree_eq split: option.splits) blast
  qed
qed



text \<open>What a reported status means, over the counts of the report.\<close>

definition verdict_ok :: "string \<Rightarrow> sync_summary \<Rightarrow> bool" where
  "verdict_ok mode s \<longleftrightarrow> sm_status s = ''fail'' \<or>
     sm_status s = ''pass'' \<and> sm_missing s = 0 \<and> sm_mismatch s = 0 \<or>
     sm_status s = ''would_sync'' \<and> mode = ''dry-run''"

lemma add_pre_post_counts [simp]:
  "sm_missing (add_pre_post_summary sm i f) = sm_missing sm"
  "sm_mismatch (add_pre_post_summary sm i f) = sm_mismatch sm"
  by (simp_all add: add_pre_post_summary_def Let_def)

lemma verdict_summarize [simp]: "verdict_ok mode (add_pre_post_summary (summarize xs mode n lg) i f)"
  by (auto simp: verdict_ok_def summarize_def Let_def)

lemma verdict_fail [simp]:
  "verdict_ok mode (add_pre_post_summary (sm\<lparr>sm_status := ''fail''\<rparr>) i f)"
  by (simp add: verdict_ok_def)

lemma verdict_finish:
  "finish_sync sha arts l r ini ps n lg = Inr (s, u) \<Longrightarrow> verdict_ok ''sync'' s"
  by (auto simp: finish_sync_def andthen_eq_Inr Let_def)

lemma verdict_transfer:
  assumes "sync_transfer sha arts l r ini ps = Inr (s, u)"
  shows "verdict_ok ''sync'' s"
proof (cases r)
  case (RemoteHost ops st)
  obtain rc lg st' where "rsync_artifacts ops l st ps = (rc, lg, st')"
    by (metis prod_cases3)
  with assms RemoteHost show ?thesis
    by (auto simp: sync_transfer_def dest: verdict_finish split: if_splits)
qed (use assms in \<open>auto simp: sync_transfer_def andthen_eq_Inr dest: verdict_finish\<close>)

lemma verdict_sync:
  "sync_from_manifest sha data mp l r mode = Inr (s, u) \<Longrightarrow> verdict_ok mode s"
  by (auto simp: sync_from_manifest_def andthen_eq_Inr Let_def dest: verdict_transfer
      split: if_splits)

text \<open>
  C34: the verdict and the exit code. Verification and dry runs leave the remote side as it was,
  whatever it is; a run exits with 0 only if the reported counts of missing and mismatching
  artifacts are both zero or the run was a dry run.
\<close>

theorem sync_modes_and_exit:
  "(mode \<noteq> ''sync'' \<longrightarrow> sync_from_manifest sha data mp l r mode = Inr (sm, r') \<longrightarrow> r' = r) \<and>
   (snd (sync_main sha data mp l r sync dry) = 0 \<longrightarrow>
      (sm_missing (fst (sync_main sha data mp l r sync dry)) = 0 \<and>
       sm_mismatch (fst (sync_main sha data mp l r sync dry)) = 0) \<or> (\<not> sync \<and> dry))"
proof
  show "mode \<noteq> ''sync'' \<longrightarrow> sync_from_manifest sha data mp l r mode = Inr (sm, r') \<longrightarrow> r' = r"
    by (auto simp: sync_from_manifest_def andthen_eq_Inr Let_def split: if_splits)
next
  let ?mode = "if sync then ''sync'' else if dry then ''dry-run'' else ''verify-only''"
  show "snd (sync_main sha data mp l r sync dry) = 0 \<longrightarrow>
      (sm_missing (fst (sync_main sha data mp l r sync dry)) = 0 \<and>
       sm_mismatch (fst (sync_main sha data mp l r sync dry)) = 0) \<or> (\<not> sync \<and> dry)"
  proof (cases "sync_from_manifest sha data mp l r ?mode")
    case (Inl e)
    then show ?thesis by (simp add: sync_main_def failed_summary_def Let_def)
  next
    case (Inr x)
    obtain s u where x: "x = (s, u)" by (cases x)
    with Inr have "verdict_ok ?mode s" by (intro verdict_sync [of sha data mp l r _ s u]) simp
    with Inr x show ?thesis
      by (auto simp: sync_main_def Let_def verdict_ok_def split: if_splits)
  qed
qed

theorem sync_modes_and_exit_witness:
  "snd (sync_main demo_sha demo_manifest ''m.json'' demo_local
      (RemoteTree demo_remote :: unit remote) True False) = 0 \<and>
   sm_missing (fst (sync_main demo_sha demo_manifest ''m.json'' demo_local
      (RemoteTree demo_remote :: unit remote) True False)) = 0"
proof -
  have "snd (sync_main demo_sha demo_manifest ''m.json'' demo_local
      (RemoteTree demo_remote :: unit remote) True False) = 0"
    using demo_sync_ok by (auto simp: sync_main_def Let_def)
  then show ?thesis
    using sync_modes_and_exit [where sync = True and dry = False and sha = demo_sha
        and data = demo_manifest and mp = "''m.json''" and l = demo_local
        and r = "RemoteTree demo_remote :: unit remote"] by simp
qed

text \<open>The answers of the batch script, read back, are the state of the tree it ran on.\<close>

lemma batch_script_fold:
  "map_of (fold (\<lambda>p out. dict_set p (g p) out) ps d) q =
     (if q \<in> set ps then Some (g q) else map_of d q)"
  by (induction ps arbitrary: d) auto

lemma batch_item_script:
  assumes "p \<in> set ps"
  shows "batch_item (batch_script sha t ps) p = Inr (p, stat_in_tree sha t p)"
  using assms
  by (simp add: batch_item_def batch_script_def field_def batch_script_fold stat_in_tree_def
      split: option.splits)

text \<open>
  C22: comparing through the remote batch script gives the same statuses as comparing with the
  remote tree directly, provided the remote call succeeds and prints what the script computes.
\<close>

theorem batch_check_equiv:
  assumes "\<And>ps. batch_run ops s ps = (0, err, batch_script sha t ps)"
  shows "check_artifacts sha arts l (RemoteHost ops s) = check_artifacts sha arts l (RemoteTree t)"
proof (cases "arts = []")
  case True
  then show ?thesis by (simp add: check_artifacts_def remote_stats_def remote_stats_batch_def)
next
  case False
  let ?ps = "map ma_path arts"
  have batch: "remote_stats_batch (batch_run ops s) ?ps = Inr (map (\<lambda>p. (p, stat_in_tree sha t p)) ?ps)"
    using False collect_total [of ?ps "batch_item (batch_script sha t ?ps)"
        "\<lambda>p. (p, stat_in_tree sha t p)"]
    by (simp add: remote_stats_batch_def assms batch_item_script)
  have "dict_get (rev (map (\<lambda>p. (p, stat_in_tree sha t p)) ?ps)) (ma_path a) (False, 0, '''')
      = stat_in_tree sha t (ma_path a)" if "a \<in> set arts" for a
  proof -
    have "map_of (map (\<lambda>p. (p, stat_in_tree sha t p)) (rev ?ps)) (ma_path a)
        = Some (stat_in_tree sha t (ma_path a))"
      using that by (simp add: map_of_map_restrict restrict_map_def)
    then show ?thesis by (simp add: dict_get_def rev_map)
  qed
  then have "map (check_artifact sha l (\<lambda>path.
        dict_get (rev (map (\<lambda>p. (p, stat_in_tree sha t p)) ?ps)) path (False, 0, ''''))) arts
      = map (check_artifact sha l (stat_in_tree sha t)) arts"
    by (intro map_cong) (simp_all add: check_artifact_def)
  then show ?thesis by (simp add: check_artifacts_def remote_stats_def batch)
qed

theorem batch_check_equiv_witness:
  "check_artifacts demo_sha demo_arts demo_local
     (RemoteHost \<lparr>batch_run = \<lambda>t ps. (0, '''', batch_script demo_sha t ps),
        rsync_run = \<lambda>l ps t. (0, '''', t)\<rparr> demo_remote)
   = check_artifacts demo_sha demo_arts demo_local (RemoteTree demo_remote)"
  by (rule batch_check_equiv) simp

end
