(* ===== verification/Py_Regex.thy ===== *)
theory Py_Regex
  imports Py_Strings
begin

text \<open>
  The regular expressions of Python's \<open>re\<close> module that the tooling uses: character classes,
  sequence, ordered choice, greedy repetition, groups, word boundaries and negative lookahead.
  \<open>rx_run\<close> lists the ways to match at a position in the order a backtracking matcher finds them,
  so its first element is the match that \<open>re.search\<close> returns and an empty list is no match.
  Positions are byte offsets; a match carries the texts of its groups, latest first.
\<close>

datatype rx =
    Eps
  | Cls "char \<Rightarrow> bool"
  | Seq rx rx
  | Alt rx rx
  | Star rx
  | Grp nat rx
  | WordB
  | NotAhead rx
  | LazyStar rx

type_synonym caps = "(nat \<times> string) list"

fun star_run :: "(nat \<times> caps \<Rightarrow> (nat \<times> caps) list) \<Rightarrow> nat \<Rightarrow> nat \<times> caps \<Rightarrow> (nat \<times> caps) list" where
  "star_run f 0 st = [st]"
| "star_run f (Suc n) st =
     concat (map (star_run f n) (filter (\<lambda>st'. fst st < fst st') (f st))) @ [st]"

fun lazy_run :: "(nat \<times> caps \<Rightarrow> (nat \<times> caps) list) \<Rightarrow> nat \<Rightarrow> nat \<times> caps \<Rightarrow> (nat \<times> caps) list" where
  \<comment> \<open>\<open>*?\<close>: as few repetitions as possible first\<close>
  "lazy_run f 0 st = [st]"
| "lazy_run f (Suc n) st =
     [st] @ concat (map (lazy_run f n) (filter (\<lambda>st'. fst st < fst st') (f st)))"

definition char_at :: "string \<Rightarrow> nat \<Rightarrow> (char \<Rightarrow> bool) \<Rightarrow> bool" where
  "char_at s i P \<longleftrightarrow> i < length s \<and> P (s ! i)"

definition word_boundary :: "string \<Rightarrow> nat \<Rightarrow> bool" where
  "word_boundary s i \<longleftrightarrow> (0 < i \<and> char_at s (i - 1) is_word) \<noteq> char_at s i is_word"

primrec rx_run :: "rx \<Rightarrow> string \<Rightarrow> nat \<times> caps \<Rightarrow> (nat \<times> caps) list" where
  "rx_run Eps s st = [st]"
| "rx_run (Cls P) s st = (if char_at s (fst st) P then [(Suc (fst st), snd st)] else [])"
| "rx_run (Seq r q) s st = concat (map (rx_run q s) (rx_run r s st))"
| "rx_run (Alt r q) s st = rx_run r s st @ rx_run q s st"
| "rx_run (Star r) s st = star_run (rx_run r s) (length s - fst st) st"
| "rx_run (Grp k r) s st =
     map (\<lambda>(j, cs). (j, (k, take (j - fst st) (drop (fst st) s)) # cs)) (rx_run r s st)"
| "rx_run WordB s st = (if word_boundary s (fst st) then [st] else [])"
| "rx_run (NotAhead r) s st = (if rx_run r s st = [] then [st] else [])"
| "rx_run (LazyStar r) s st = lazy_run (rx_run r s) (length s - fst st) st"

definition rx_plus :: "rx \<Rightarrow> rx" where
  "rx_plus r = Seq r (Star r)"

definition rx_opt :: "rx \<Rightarrow> rx" where
  "rx_opt r = Alt r Eps"

fun rx_lit :: "string \<Rightarrow> rx" where
  "rx_lit [] = Eps"
| "rx_lit (c # cs) = Seq (Cls (\<lambda>d. d = c)) (rx_lit cs)"

fun rx_ilit :: "string \<Rightarrow> rx" where
  \<comment> \<open>a literal under \<open>re.IGNORECASE\<close>\<close>
  "rx_ilit [] = Eps"
| "rx_ilit (c # cs) = Seq (Cls (\<lambda>d. lower_char d = lower_char c)) (rx_ilit cs)"

fun rx_seq :: "rx list \<Rightarrow> rx" where
  "rx_seq [] = Eps"
| "rx_seq (r # rs) = Seq r (rx_seq rs)"

fun rx_alts :: "rx list \<Rightarrow> rx" where
  "rx_alts [] = NotAhead Eps"
| "rx_alts [r] = r"
| "rx_alts (r # rs) = Alt r (rx_alts rs)"

fun rx_times :: "nat \<Rightarrow> rx \<Rightarrow> rx" where
  "rx_times 0 r = Eps"
| "rx_times (Suc n) r = Seq r (rx_times n r)"

fun rx_upto :: "nat \<Rightarrow> rx \<Rightarrow> rx" where
  \<comment> \<open>greedy \<open>{0,n}\<close>\<close>
  "rx_upto 0 r = Eps"
| "rx_upto (Suc n) r = Alt (Seq r (rx_upto n r)) Eps"

fun first_match :: "rx \<Rightarrow> string \<Rightarrow> nat list \<Rightarrow> (nat \<times> nat \<times> caps) option" where
  "first_match r s [] = None"
| "first_match r s (i # is) =
     (case rx_run r s (i, []) of
        [] \<Rightarrow> first_match r s is
      | (j, cs) # _ \<Rightarrow> Some (i, j, cs))"

definition re_search :: "rx \<Rightarrow> string \<Rightarrow> (nat \<times> nat \<times> caps) option" where
  "re_search r s = first_match r s [0..<Suc (length s)]"

definition re_found :: "rx \<Rightarrow> string \<Rightarrow> bool" where
  "re_found r s \<longleftrightarrow> re_search r s \<noteq> None"

definition re_group :: "rx \<Rightarrow> nat \<Rightarrow> string \<Rightarrow> string option" where
  "re_group r k s = (case re_search r s of None \<Rightarrow> None | Some (i, j, cs) \<Rightarrow> map_of cs k)"

definition re_findall_fuel :: "rx \<Rightarrow> string \<Rightarrow> nat \<Rightarrow> nat \<Rightarrow> string list" where
  \<comment> \<open>non-overlapping matches of a pattern that never matches the empty text\<close>
  "re_findall_fuel r s n i =
     snd (((\<lambda>(k, out).
        (case first_match r s [k..<Suc (length s)] of
           None \<Rightarrow> (Suc (length s), out)
         | Some (a, b, _) \<Rightarrow> (max b (Suc a), out @ [take (b - a) (drop a s)]))) ^^ n) (i, []))"

definition re_findall :: "rx \<Rightarrow> string \<Rightarrow> string list" where
  "re_findall r s = re_findall_fuel r s (Suc (length s)) 0"

section \<open>Where a match can be\<close>

lemma star_run_bounds:
  assumes "\<And>st st'. fst st \<le> m \<Longrightarrow> st' \<in> set (f st) \<Longrightarrow> fst st \<le> fst st' \<and> fst st' \<le> m"
    and "st' \<in> set (star_run f n st)" and "fst st \<le> m"
  shows "fst st \<le> fst st' \<and> fst st' \<le> m"
  using assms(2,3)
proof (induction n arbitrary: st)
  case 0
  then show ?case by simp
next
  case (Suc n)
  from Suc.prems(1) consider "st' = st"
    | st1 where "st1 \<in> set (f st)" "st' \<in> set (star_run f n st1)"
    by auto
  then show ?case
  proof cases
    case 1
    then show ?thesis using Suc.prems(2) by simp
  next
    case 2
    then show ?thesis
      using assms(1) [OF Suc.prems(2) 2(1)] Suc.IH [OF 2(2)] by auto
  qed
qed

lemma lazy_star_members: "set (lazy_run f n st) = set (star_run f n st)"
  by (induction n arbitrary: st) auto

lemma rx_run_bounds:
  "st' \<in> set (rx_run r s st) \<Longrightarrow> fst st \<le> length s \<Longrightarrow>
     fst st \<le> fst st' \<and> fst st' \<le> length s"
proof (induction r arbitrary: st st')
  case (Seq r q)
  then obtain st1 where "st1 \<in> set (rx_run r s st)" "st' \<in> set (rx_run q s st1)" by auto
  then show ?case using Seq.IH Seq.prems(2) by (meson order_trans)
next
  case (Star r)
  have "st' \<in> set (star_run (rx_run r s) (length s - fst st) st)"
    using Star.prems(1) by simp
  then show ?case
    by (rule star_run_bounds [rotated]) (use Star in auto)
next
  case (LazyStar r)
  have "st' \<in> set (star_run (rx_run r s) (length s - fst st) st)"
    using LazyStar.prems(1) by (simp add: lazy_star_members)
  then show ?case
    by (rule star_run_bounds [rotated]) (use LazyStar in auto)
qed (auto simp: char_at_def split: if_splits)

lemma first_match_Some:
  "first_match r s is = Some (i, j, cs) \<Longrightarrow> i \<in> set is \<and> (j, cs) \<in> set (rx_run r s (i, []))"
  by (induction r s "is" rule: first_match.induct) (auto split: list.splits)

lemma re_search_bounds:
  assumes "re_search r s = Some (i, j, cs)"
  shows "i \<le> j \<and> j \<le> length s"
proof -
  have "i \<in> set [0..<Suc (length s)]" and "(j, cs) \<in> set (rx_run r s (i, []))"
    using assms first_match_Some unfolding re_search_def by blast+
  then show ?thesis using rx_run_bounds by fastforce
qed

lemma first_match_skip:
  assumes "\<And>i. i \<in> set is \<Longrightarrow> rx_run r s (i, []) = []"
  shows "first_match r s (is @ js) = first_match r s js"
  using assms by (induction "is") auto

lemma re_search_at:
  assumes "k \<le> length s" and "\<And>i. i < k \<Longrightarrow> rx_run r s (i, []) = []"
    and "rx_run r s (k, []) = (j, cs) # rest"
  shows "re_search r s = Some (k, j, cs)"
proof -
  have "[0..<Suc (length s)] = [0..<k] @ k # [Suc k..<Suc (length s)]"
    using assms(1) by (metis le_imp_less_Suc upt_conv_Cons upt_add_eq_append le_add_diff_inverse
        less_imp_le_nat zero_le)
  moreover have "first_match r s ([0..<k] @ k # [Suc k..<Suc (length s)])
      = first_match r s (k # [Suc k..<Suc (length s)])"
    by (rule first_match_skip) (simp add: assms(2))
  ultimately show ?thesis
    unfolding re_search_def using assms(3) by simp
qed

lemma re_found_iff:
  "re_found r s \<longleftrightarrow> (\<exists>i\<le>length s. rx_run r s (i, []) \<noteq> [])"
proof -
  have "first_match r s is \<noteq> None \<longleftrightarrow> (\<exists>i\<in>set is. rx_run r s (i, []) \<noteq> [])" for "is"
    by (induction r s "is" rule: first_match.induct) (auto split: list.splits)
  then have "re_found r s \<longleftrightarrow> (\<exists>i\<in>set [0..<Suc (length s)]. rx_run r s (i, []) \<noteq> [])"
    unfolding re_found_def re_search_def by blast
  then show ?thesis by (simp add: Bex_def less_Suc_eq_le del: upt_Suc)
qed

section \<open>Literals and greedy classes\<close>

lemma rx_run_lit:
  "i \<le> length s \<Longrightarrow> rx_run (rx_lit w) s (i, cs) =
     (if starts_with w (drop i s) then [(i + length w, cs)] else [])"
proof (induction w arbitrary: i)
  case Nil
  then show ?case by simp
next
  case (Cons c w)
  show ?case
  proof (cases "i < length s")
    case True
    then have "drop i s = s ! i # drop (Suc i) s" by (simp add: Cons_nth_drop_Suc)
    with Cons True show ?thesis by (simp add: char_at_def)
  next
    case False
    with Cons.prems show ?thesis by (simp add: char_at_def)
  qed
qed

lemma re_found_lit: "re_found (rx_lit w) s \<longleftrightarrow> contains w s"
proof -
  have "contains w s \<longleftrightarrow> (\<exists>i\<le>length s. starts_with w (drop i s))"
  proof
    assume "contains w s"
    then obtain u v where "s = u @ w @ v" by (auto simp: contains_iff)
    then have "length u \<le> length s \<and> starts_with w (drop (length u) s)" by simp
    then show "\<exists>i\<le>length s. starts_with w (drop i s)" by blast
  next
    assume "\<exists>i\<le>length s. starts_with w (drop i s)"
    then obtain i t where "drop i s = w @ t" by (auto simp: starts_with_append)
    then have "s = take i s @ w @ t" by (metis append_take_drop_id)
    then show "contains w s" by (auto simp: contains_iff)
  qed
  then show ?thesis by (auto simp: re_found_iff rx_run_lit)
qed

text \<open>A greedy class run lists the ends from the longest run down to the empty one.\<close>

lemma star_class_run:
  assumes "\<And>k. k < m \<Longrightarrow> char_at s (i + k) P" and "\<not> char_at s (i + m) P" and "m \<le> n"
  shows "star_run (rx_run (Cls P) s) n (i, cs) = map (\<lambda>k. (i + k, cs)) (rev [0..<Suc m])"
  using assms
proof (induction n arbitrary: i m)
  case 0
  then show ?case by simp
next
  case (Suc n)
  show ?case
  proof (cases m)
    case 0
    with Suc.prems(2) show ?thesis by simp
  next
    case (Suc m')
    have "rx_run (Cls P) s (i, cs) = [(Suc i, cs)]" using Suc.prems(1) [of 0] Suc by simp
    moreover have "star_run (rx_run (Cls P) s) n (Suc i, cs)
        = map (\<lambda>k. (Suc i + k, cs)) (rev [0..<Suc m'])"
    proof (rule Suc.IH)
      fix k assume "k < m'"
      then show "char_at s (Suc i + k) P" using Suc.prems(1) [of "Suc k"] Suc by simp
    next
      show "\<not> char_at s (Suc i + m') P" using Suc.prems(2) Suc by simp
      show "m' \<le> n" using Suc.prems(3) Suc by simp
    qed
    moreover have "[0..<Suc m] = 0 # map Suc [0..<Suc m']"
      unfolding Suc map_Suc_upt by (rule upt_conv_Cons) simp
    ultimately show ?thesis by (simp add: rev_map comp_def del: upt_Suc rx_run.simps)
  qed
qed

text \<open>A delimited class run: the text between a literal and the first character outside the class.\<close>

lemma plus_class_run:
  assumes "\<And>k. k < m \<Longrightarrow> char_at s (i + k) P" and "\<not> char_at s (i + m) P" and "0 < m"
  shows "\<exists>rest. rx_run (rx_plus (Cls P)) s (i, cs) = (i + m, cs) # rest"
proof -
  obtain n where m: "m = Suc n" using assms(3) by (cases m) auto
  have "rx_run (Cls P) s (i, cs) = [(Suc i, cs)]" using assms(1) [of 0] m by simp
  moreover have "n \<le> length s - Suc i"
  proof -
    have "char_at s (i + n) P" using assms(1) m by simp
    then show ?thesis by (auto simp: char_at_def)
  qed
  then have "star_run (rx_run (Cls P) s) (length s - Suc i) (Suc i, cs)
      = map (\<lambda>k. (Suc i + k, cs)) (rev [0..<Suc n])"
    using assms(1) [of "Suc _"] assms(2) m by (intro star_class_run) simp_all
  ultimately show ?thesis by (simp add: rx_plus_def m)
qed

lemma re_group_delimited:
  assumes s: "s = u @ p @ w @ v" and w: "w \<noteq> []" "list_all P w" and v: "v = [] \<or> \<not> P (hd v)"
    and first: "\<And>i. i < length u \<Longrightarrow> \<not> starts_with p (drop i s)"
    and tail: "\<And>cs. \<exists>j rest. rx_run r s (length u + length p + length w, cs) = (j, cs) # rest"
  shows "re_group (Seq (rx_lit p) (Seq (Grp k (rx_plus (Cls P))) r)) k s = Some w"
proof -
  let ?i = "length u + length p"
  have at: "char_at s (?i + m) P" if "m < length w" for m
    using that w(2) by (simp add: char_at_def s nth_append list_all_length)
  have end_at: "\<not> char_at s (?i + length w) P"
    using v by (cases v) (auto simp: char_at_def s nth_append)
  obtain rest where plus: "rx_run (rx_plus (Cls P)) s (?i, []) = (?i + length w, []) # rest"
    using plus_class_run [OF at end_at, of "[]"] w(1) by auto
  have "take (length w) (drop ?i s) = w" by (simp add: s)
  with plus have g: "\<exists>rest. rx_run (Grp k (rx_plus (Cls P))) s (?i, []) = (?i + length w, [(k, w)]) # rest"
    by simp
  obtain j rest2 where "rx_run r s (?i + length w, [(k, w)]) = (j, [(k, w)]) # rest2"
    using tail by blast
  with g have "\<exists>rest. rx_run (Seq (Grp k (rx_plus (Cls P))) r) s (?i, []) = (j, [(k, w)]) # rest"
    by (auto simp del: rx_run.simps(6))
  moreover have "rx_run (rx_lit p) s (length u, []) = [(?i, [])]"
    by (simp add: rx_run_lit s)
  ultimately obtain rest3 where whole:
    "rx_run (Seq (rx_lit p) (Seq (Grp k (rx_plus (Cls P))) r)) s (length u, []) = (j, [(k, w)]) # rest3"
    by (auto simp only: rx_run.simps(3) list.map concat.simps append_Nil2)
  have "rx_run (Seq (rx_lit p) (Seq (Grp k (rx_plus (Cls P))) r)) s (i, []) = []" if "i < length u" for i
    using first [OF that] that by (simp add: rx_run_lit s)
  from re_search_at [OF _ this whole] show ?thesis
    by (simp add: re_group_def s)
qed

end
