(* ===== verification/Public_Export.thy ===== *)
theory Public_Export
  imports Py_Paths Py_Regex
begin

text \<open>
  Model of tools/release/export_public_repo.py and tools/release/check_public_hygiene.py: the
  sanitising copy of the repository that leaves out private files and rewrites private values,
  and the scanner that the export runs on its own result. A source tree is a directory with its
  subdirectories and files in the order \<open>os.walk\<close> lists them; a file is its bytes.
\<close>

datatype dtree = DNode "(string \<times> dtree) list" "(string \<times> string) list"

text \<open>Every file of a tree with its segments, in the order of a top-down walk.\<close>

fun tree_files :: "string list \<Rightarrow> dtree \<Rightarrow> (string list \<times> string) list" where
  "tree_files rel (DNode dirs files) =
     map (\<lambda>f. (rel @ [fst f], snd f)) files
     @ concat (map (\<lambda>d. tree_files (rel @ [fst d]) (snd d)) dirs)"

fun tree_dirs :: "string list \<Rightarrow> dtree \<Rightarrow> string list list" where
  "tree_dirs rel (DNode dirs files) =
     map (\<lambda>d. rel @ [fst d]) dirs
     @ concat (map (\<lambda>d. tree_dirs (rel @ [fst d]) (snd d)) dirs)"

section \<open>Names both tools know\<close>

definition BUILD_DIR_NAMES :: "string list" where
  "BUILD_DIR_NAMES = [''build'', ''CMakeFiles'', ''Testing'', ''_deps'', ''.cache'', ''out'', ''dist'']"

definition is_build_dir_name :: "string \<Rightarrow> bool" where
  "is_build_dir_name name \<longleftrightarrow>
     name \<in> set BUILD_DIR_NAMES \<or> starts_with ''build-'' name \<or> starts_with ''cmake-build-'' name"

definition is_elf_file :: "string \<Rightarrow> bool" where
  "is_elf_file b \<longleftrightarrow> take 4 b = [CHR 0x7F, CHR ''E'', CHR ''L'', CHR ''F'']"

definition seg_suffix_lower :: "string list \<Rightarrow> string" where
  \<comment> \<open>\<open>path.suffix.lower()\<close> of a file given by its segments\<close>
  "seg_suffix_lower rel = py_lower (name_suffix (last_seg rel))"

section \<open>Hygiene scanner\<close>

definition SKIP_DIRS :: "string list" where
  "SKIP_DIRS = [''.git'', ''__pycache__'', ''.pytest_cache'']"

definition SKIP_PARTS :: "string list list" where
  "SKIP_PARTS = [[''tools'', ''perf'', ''results'']]"

definition BINARY_SUFFIXES :: "string list" where
  "BINARY_SUFFIXES =
     [''.a'', ''.bin'', ''.d'', ''.dst'', ''.gz'', ''.jpg'', ''.jpeg'', ''.o'', ''.png'', ''.so'',
      ''.src'', ''.tar'', ''.xz'', ''.zip'']"

definition BUILD_ARTIFACT_NAMES :: "string list" where
  "BUILD_ARTIFACT_NAMES =
     [''CMakeCache.txt'', ''CTestTestfile.cmake'', ''build.ninja'', ''cmake_install.cmake'',
      ''compile_commands.json'', ''install_manifest.txt'', ''.ninja_deps'', ''.ninja_log'']"

definition ALLOWED_BINARY_SUFFIXES :: "string list" where
  "ALLOWED_BINARY_SUFFIXES = [''.jpg'', ''.jpeg'', ''.png'']"

definition quote_cls :: rx where
  "quote_cls = Cls (\<lambda>c. c = CHR 0x27 \<or> c = CHR 0x22)"

definition space_cls :: rx where
  "space_cls = Cls is_space"

definition no_quote_space :: rx where
  "no_quote_space = Cls (\<lambda>c. c \<noteq> CHR 0x27 \<and> c \<noteq> CHR 0x22 \<and> \<not> is_space c)"

definition colon_or_equals :: rx where
  "colon_or_equals = Cls (\<lambda>c. c = CHR '':'' \<or> c = CHR ''='')"

definition dash_opt :: rx where
  "dash_opt = rx_opt (Cls (\<lambda>c. c = CHR ''_'' \<or> c = CHR ''-''))"

definition PLACEHOLDER_RE :: rx where
  "PLACEHOLDER_RE = Grp 1 (rx_alts
     [rx_seq [rx_lit ''<'', rx_plus (Cls (\<lambda>c. c \<noteq> CHR ''>'' \<and> c \<noteq> newline)), rx_lit ''>''],
      rx_seq [rx_lit ''***'', Star (rx_lit ''*'')],
      rx_ilit ''REDACTED'', rx_ilit ''CHANGEME'', rx_ilit ''placeholder''])"

definition PATTERNS :: "(string \<times> rx) list" where
  "PATTERNS =
    [(''private key block'', rx_seq [rx_lit ''-----BEGIN '',
        Star (Cls (\<lambda>c. is_upper c \<or> is_digit c \<or> c = CHR '' '')), rx_lit ''PRIVATE KEY-----'']),
     (''sshpass inline password'', rx_seq [WordB, rx_lit ''sshpass'', rx_plus space_cls, rx_lit ''-p'',
        rx_plus space_cls, rx_plus (Cls (\<lambda>c. \<not> is_space c))]),
     (''GRIDFLUX_SSH_PASSWORD assignment'', rx_seq [WordB, rx_lit ''GRIDFLUX_SSH_PASSWORD'',
        Star space_cls, rx_lit ''='', Star space_cls, rx_opt quote_cls, rx_plus no_quote_space]),
     (''SSHPASS direct assignment'', rx_seq [WordB, rx_lit ''SSHPASS'', Star space_cls, rx_lit ''='',
        Star space_cls, rx_opt quote_cls,
        NotAhead (rx_seq [rx_lit ''$GRIDFLUX_SSH_PASSWORD'', WordB]), rx_plus no_quote_space]),
     (''password assignment'', rx_seq [WordB,
        Grp 1 (rx_alts [rx_ilit ''password'', rx_ilit ''passwd'', rx_ilit ''pwd'']), Star space_cls,
        colon_or_equals, Star space_cls, quote_cls, NotAhead (rx_seq [rx_ilit ''gridflux'', WordB]),
        NotAhead (rx_lit ''***''), NotAhead (rx_lit ''<''),
        rx_plus (Cls (\<lambda>c. c \<noteq> CHR 0x27 \<and> c \<noteq> CHR 0x22 \<and> \<not> is_space c \<and> c \<noteq> CHR ''|'')),
        rx_opt quote_cls]),
     (''secret/token assignment'', rx_seq [WordB,
        Grp 1 (rx_alts [rx_seq [rx_ilit ''api'', dash_opt, rx_ilit ''key''],
          rx_seq [rx_ilit ''access'', dash_opt, rx_ilit ''token''],
          rx_seq [rx_ilit ''secret'', dash_opt, rx_ilit ''key'']]), Star space_cls,
        colon_or_equals, Star space_cls, rx_opt quote_cls, NotAhead (rx_lit ''***''),
        NotAhead (rx_lit ''<''), rx_plus no_quote_space]),
     (''auth token literal'', rx_seq [WordB,
        Grp 1 (rx_alts [rx_seq [rx_ilit ''auth'', dash_opt, rx_ilit ''token''], rx_ilit ''token'']),
        Star space_cls, colon_or_equals, Star space_cls, rx_opt quote_cls, NotAhead (rx_lit ''***''),
        NotAhead (rx_lit ''<''), NotAhead (rx_seq [rx_ilit ''REDACTED'', WordB]),
        NotAhead (rx_seq [rx_ilit ''CHANGEME'', WordB]),
        rx_times 20 (Cls (\<lambda>c. is_upper c \<or> is_lower c \<or> is_digit c \<or> c \<in> set ''._+/=-'')),
        Star (Cls (\<lambda>c. is_upper c \<or> is_lower c \<or> is_digit c \<or> c \<in> set ''._+/=-''))]),
     (''known private password'', rx_lit ''609@scst''),
     (''known public IP'', rx_seq [WordB,
        Grp 1 (rx_alts [rx_lit ''120.79.11.149'', rx_lit ''119.23.73.206'']), WordB]),
     (''known private IP'', rx_seq [WordB, rx_lit ''192.168.10.'',
        Cls (\<lambda>c. c = CHR ''1'' \<or> c = CHR ''2''), WordB]),
     (''server login table'', rx_seq [rx_lit ''|'', Star space_cls, rx_lit ''<redacted>'',
        rx_alts [rx_lit [CHR 0xE4, CHR 0xB8, CHR 0x80], rx_lit [CHR 0xE4, CHR 0xBA, CHR 0x8C]],
        Star space_cls, rx_lit ''|''])]"

definition BINARY_SECRET_PATTERNS :: "(string \<times> string) list" where
  "BINARY_SECRET_PATTERNS =
     [(''known private password'', ''609@scst''),
      (''known public IP'', ''<redacted>''), (''known public IP'', ''<redacted>''),
      (''known private IP'', ''<redacted>''), (''known private IP'', ''<redacted>'')]"

definition should_skip :: "string list \<Rightarrow> bool \<Rightarrow> bool" where
  "should_skip rel strict \<longleftrightarrow>
     (if list_ex (\<lambda>part. part \<in> set SKIP_DIRS) rel then True
      else if \<not> strict \<and> list_ex is_build_dir_name rel then True
      else if list_ex (\<lambda>skip. take (length skip) rel = skip) SKIP_PARTS then True
      else \<not> strict \<and> seg_suffix_lower rel \<in> set BINARY_SUFFIXES)"

definition is_placeholder :: "string \<Rightarrow> bool" where
  "is_placeholder line \<longleftrightarrow> re_found PLACEHOLDER_RE line"

definition scan_line :: "string \<Rightarrow> nat \<times> string \<Rightarrow> string list" where
  "scan_line relative nl =
     (if is_placeholder (snd nl) then []
      else map (\<lambda>np. relative @ '':'' @ show_nat (fst nl) @ '': '' @ fst np)
             (filter (\<lambda>np. re_found (snd np) (snd nl)) PATTERNS))"

definition scan_text :: "string list \<Rightarrow> bool \<Rightarrow> string \<Rightarrow> string list" where
  "scan_text rel strict text =
     (let relative = join ''/'' rel; lines = py_splitlines text in
      concat (map (scan_line relative) (zip [1..<Suc (length lines)] lines))
      @ (if strict \<and> take 2 rel = [''tools'', ''perf''] \<and> ''results'' \<in> set rel
         then [relative @ '': perf result artifact present in strict export''] else []))"

definition scan_binary :: "string list \<Rightarrow> bool \<Rightarrow> string \<Rightarrow> string list" where
  "scan_binary rel strict data =
     (let relative = join ''/'' rel in
      if \<not> strict then []
      else (if seg_suffix_lower rel \<notin> set ALLOWED_BINARY_SUFFIXES
            then [relative @ '': unknown binary file present in strict export''] else [])
           @ map (\<lambda>nn. relative @ '': '' @ fst nn @ '' embedded in binary'')
               (filter (\<lambda>nn. contains (snd nn) data) BINARY_SECRET_PATTERNS))"

definition scan_file :: "string list \<Rightarrow> bool \<Rightarrow> string \<Rightarrow> string list" where
  "scan_file rel strict data =
     (let relative = join ''/'' rel in
      if rel = [''AGENTS.md'']
      then [relative @ '': private AGENTS.md must not be in public export'']
      else if strict \<and> last_seg rel \<in> set BUILD_ARTIFACT_NAMES
      then [relative @ '': build artifact present in strict export'']
      else if strict \<and> seg_suffix_lower rel \<in> set BINARY_SUFFIXES
              \<and> seg_suffix_lower rel \<notin> set ALLOWED_BINARY_SUFFIXES
      then [relative @ '': binary/build artifact present in strict export'']
      else if strict \<and> is_elf_file data
      then [relative @ '': ELF executable/library present in strict export'']
      else (case read_text data of
              Inl _ \<Rightarrow> scan_binary rel strict data
            | Inr text \<Rightarrow> scan_text rel strict text))"

fun scan :: "string list \<Rightarrow> bool \<Rightarrow> dtree \<Rightarrow> string list" where
  "scan rel strict (DNode dirs files) =
     concat (map (\<lambda>d.
        if fst d \<in> set SKIP_DIRS then []
        else if is_build_dir_name (fst d) \<and> strict
        then [join ''/'' (rel @ [fst d]) @ '': build-like directory present in strict export'']
        else []) dirs)
     @ concat (map (\<lambda>f.
        if should_skip (rel @ [fst f]) strict then [] else scan_file (rel @ [fst f]) strict (snd f)) files)
     @ concat (map (\<lambda>d.
        if fst d \<in> set SKIP_DIRS \<or> is_build_dir_name (fst d) \<and> \<not> strict then []
        else scan (rel @ [fst d]) strict (snd d)) dirs)"

definition hygiene_main :: "bool \<Rightarrow> dtree \<Rightarrow> int" where
  "hygiene_main strict root = (if scan [] strict root \<noteq> [] then 1 else 0)"

section \<open>Sanitised export\<close>

definition EXCLUDE_DIR_NAMES :: "string list" where
  "EXCLUDE_DIR_NAMES = [''.git'', ''__pycache__'', ''.pytest_cache'']"

definition EXCLUDE_NAMES :: "string list" where
  "EXCLUDE_NAMES =
     [''AGENTS.md'', ''CMakeCache.txt'', ''CTestTestfile.cmake'', ''build.ninja'',
      ''cmake_install.cmake'', ''compile_commands.json'', ''install_manifest.txt'', ''.env'',
      ''.env.local'', ''.ninja_deps'', ''.ninja_log'']"

definition EXCLUDE_SUFFIXES :: "string list" where
  "EXCLUDE_SUFFIXES =
     [''.a'', ''.bin'', ''.cookie'', ''.crt'', ''.csr'', ''.d'', ''.dst'', ''.key'', ''.log'', ''.o'',
      ''.p12'', ''.pem'', ''.pfx'', ''.pyc'', ''.so'', ''.src'', ''.tmp'']"

definition EXCLUDE_PREFIX_PARTS :: "string list list" where
  "EXCLUDE_PREFIX_PARTS = [[''tools'', ''perf'', ''results'']]"

record export_stats =
  copied_files :: nat
  skipped_files :: nat
  skipped_dirs :: nat
  skipped_build_dirs :: "string list"

definition no_stats :: export_stats where
  "no_stats = \<lparr>copied_files = 0, skipped_files = 0, skipped_dirs = 0, skipped_build_dirs = []\<rparr>"

definition IPV4_RE :: rx where
  "IPV4_RE =
     (let octet = Seq (Cls is_digit) (rx_upto 2 (Cls is_digit)) in
      rx_seq [WordB, rx_times 3 (Seq octet (rx_lit ''.'')), octet, WordB])"

definition server_one :: string where
  "server_one = ''<redacted>'' @ [CHR 0xE4, CHR 0xB8, CHR 0x80]"

definition server_two :: string where
  "server_two = ''<redacted>'' @ [CHR 0xE4, CHR 0xBA, CHR 0x8C]"

definition header_words :: "string list" where
  \<comment> \<open>the column titles of the topology table\<close>
  "header_words =
     [[CHR 0xE5, CHR 0x85, CHR 0xAC, CHR 0xE7, CHR 0xBD, CHR 0x91] @ '' IP'',
      [CHR 0xE7, CHR 0xA7, CHR 0x81, CHR 0xE7, CHR 0xBD, CHR 0x91] @ '' IP'',
      [CHR 0xE7, CHR 0x94, CHR 0xA8, CHR 0xE6, CHR 0x88, CHR 0xB7],
      [CHR 0xE5, CHR 0xAF, CHR 0x86, CHR 0xE7, CHR 0xA0, CHR 0x81]]"

definition row_values :: "string \<Rightarrow> string list" where
  "row_values row =
     (if \<not> contains ''|'' row \<or> \<not> contains ''<redacted>'' row then []
      else filter (\<lambda>w. w \<noteq> '''' \<and> w \<notin> {server_one, server_two, ''root''})
             (map py_strip (split_on CHR ''|'' row)))"

definition read_private_values :: "string option \<Rightarrow> string list" where
  \<comment> \<open>the text of AGENTS.md, if there is one; a Python set as a list without repetitions\<close>
  "read_private_values agents =
     (case agents of
        None \<Rightarrow> []
      | Some text \<Rightarrow>
          filter (\<lambda>v. v \<noteq> '''' \<and> v \<notin> set header_words)
            (remdups (re_findall IPV4_RE text @ concat (map row_values (py_splitlines text))
              @ [''609@scst''])))"

definition should_exclude :: "string list \<Rightarrow> string option \<Rightarrow> bool" where
  \<comment> \<open>the segments below the root, and the content if the path is a file\<close>
  "should_exclude rel content \<longleftrightarrow>
     (if list_ex (\<lambda>part. part \<in> set EXCLUDE_DIR_NAMES \<or> is_build_dir_name part) rel then True
      else if last_seg rel \<in> set EXCLUDE_NAMES then True
      else if seg_suffix_lower rel \<in> set EXCLUDE_SUFFIXES then True
      else if contains ''token'' (py_lower (last_seg rel)) \<or> contains ''secret'' (py_lower (last_seg rel))
      then True
      else if (case content of None \<Rightarrow> False | Some b \<Rightarrow> is_elf_file b) then True
      else list_ex (\<lambda>pre. take (length pre) rel = pre) EXCLUDE_PREFIX_PARTS)"

definition sanitize_text :: "string \<Rightarrow> string list \<Rightarrow> string" where
  "sanitize_text text private_values =
     fold (\<lambda>value sanitized. py_replace value ''<redacted>'' sanitized)
       (sort_key (\<lambda>v. - int (py_len v)) private_values) text"

definition export_file :: "string list \<Rightarrow> string \<Rightarrow> string" where
  \<comment> \<open>what is written for a file: sanitised text, or the bytes of a file that is not UTF-8\<close>
  "export_file private_values b =
     (case read_text b of Inl _ \<Rightarrow> b | Inr text \<Rightarrow> sanitize_text text private_values)"

definition add_stats :: "export_stats \<Rightarrow> export_stats \<Rightarrow> export_stats" where
  "add_stats a b =
     \<lparr>copied_files = copied_files a + copied_files b, skipped_files = skipped_files a + skipped_files b,
      skipped_dirs = skipped_dirs a + skipped_dirs b,
      skipped_build_dirs = skipped_build_dirs a @ skipped_build_dirs b\<rparr>"

fun copy_tree :: "string list \<Rightarrow> string list \<Rightarrow> dtree \<Rightarrow> dtree \<times> export_stats" where
  "copy_tree private_values rel (DNode dirs files) =
     (let dropped = filter (\<lambda>d. should_exclude (rel @ [fst d]) None) dirs;
          kept_files = filter (\<lambda>f. \<not> should_exclude (rel @ [fst f]) (Some (snd f))) files;
          subs = map (\<lambda>d. (fst d, copy_tree private_values (rel @ [fst d]) (snd d)))
                   (filter (\<lambda>d. \<not> should_exclude (rel @ [fst d]) None) dirs);
          here = \<lparr>copied_files = length kept_files,
                  skipped_files = length files - length kept_files,
                  skipped_dirs = length dropped,
                  skipped_build_dirs =
                    map (\<lambda>d. join ''/'' (rel @ [fst d])) (filter (\<lambda>d. is_build_dir_name (fst d)) dropped)\<rparr>
      in (DNode (map (\<lambda>s. (fst s, fst (snd s))) subs)
            (map (\<lambda>f. (fst f, export_file private_values (snd f))) kept_files),
          fold (\<lambda>s acc. add_stats acc (snd (snd s))) subs here))"

definition agents_text :: "dtree \<Rightarrow> string option res" where
  "agents_text root =
     (case root of DNode dirs files \<Rightarrow>
        (case map_of files ''AGENTS.md'' of
           None \<Rightarrow> Inr None
         | Some b \<Rightarrow> andthen (read_text b) (\<lambda>text. Inr (Some text))))"

definition export_main :: "dtree \<Rightarrow> bool \<Rightarrow> bool \<Rightarrow> ((dtree \<times> export_stats) option \<times> int) res" where
  \<comment> \<open>\<open>existing\<close>: the output directory is there; \<open>force\<close>: remove it first\<close>
  "export_main source existing force =
     (if existing \<and> \<not> force then Inr (None, 1)
      else
        andthen (agents_text source) (\<lambda>agents.
        (let result = copy_tree (read_private_values agents) [] source
         in Inr (Some result, hygiene_main True (fst result)))))"

section \<open>Sanitising removes the private values\<close>

definition redactable :: "string \<Rightarrow> bool" where
  \<comment> \<open>a value that inserting the replacement word cannot bring back\<close>
  "redactable v \<longleftrightarrow> CHR ''<'' \<notin> set v \<and> CHR ''>'' \<notin> set v \<and> \<not> contains v ''redacted''"

lemma redacted_word: "''<redacted>'' = CHR ''<'' # ''redacted'' @ [CHR ''>'']"
  by simp

lemma redactable_nonempty: "redactable v \<Longrightarrow> v \<noteq> ''''"
  by (auto simp: redactable_def)

lemma sanitize_fold:
  assumes "redactable v" and "contains v (fold (\<lambda>value t. py_replace value ''<redacted>'' t) vs doc)"
    and "'''' \<notin> set vs"
  shows "contains v doc \<and> v \<notin> set vs"
  using assms(2,3)
proof (induction vs arbitrary: doc)
  case Nil
  then show ?case by simp
next
  case (Cons w vs)
  then have *: "contains v (py_replace w (CHR ''<'' # ''redacted'' @ [CHR ''>'']) doc)" and "v \<notin> set vs"
    by auto
  from Cons.prems have "w \<noteq> ''''" by auto
  then have "contains v doc \<and> v \<noteq> w"
    by (rule py_replace_bracketed [OF *]) (use assms(1) in \<open>auto simp: redactable_def\<close>)
  with \<open>v \<notin> set vs\<close> show ?case by simp
qed

text \<open>Every value the export collects is a nonempty text.\<close>

lemma read_private_values_nonempty: "'''' \<notin> set (read_private_values agents)"
  by (auto simp: read_private_values_def split: option.splits)

lemma known_password_private: "read_private_values (Some text) \<noteq> []"
  and known_password_member: "''609@scst'' \<in> set (read_private_values (Some text))"
proof -
  show "''609@scst'' \<in> set (read_private_values (Some text))"
    by (simp add: read_private_values_def header_words_def)
  then show "read_private_values (Some text) \<noteq> []" by auto
qed

section \<open>What the export keeps\<close>

definition dirs_kept :: "nat \<Rightarrow> string list \<Rightarrow> bool" where
  \<comment> \<open>no directory on the way below the first \<open>n\<close> segments is excluded\<close>
  "dirs_kept n p \<longleftrightarrow> (\<forall>k. n < k \<and> k < length p \<longrightarrow> \<not> should_exclude (take k p) None)"

lemma tree_files_below: "(p, c) \<in> set (tree_files rel t) \<Longrightarrow> \<exists>w ws. p = rel @ w # ws"
  by (induction rel t arbitrary: p c rule: tree_files.induct) fastforce

lemma dirs_kept_step:
  assumes "p = rel @ d # w # ws"
  shows "dirs_kept (length rel) p \<longleftrightarrow> \<not> should_exclude (rel @ [d]) None \<and> dirs_kept (Suc (length rel)) p"
proof -
  have "take (Suc (length rel)) p = rel @ [d]" using assms by simp
  moreover have "Suc (length rel) < length p" using assms by simp
  ultimately show ?thesis
    unfolding dirs_kept_def by (metis Suc_lessI lessI less_SucI Suc_lessD)
qed

definition exported :: "nat \<Rightarrow> string list \<times> string \<Rightarrow> bool" where
  "exported n f \<longleftrightarrow> dirs_kept n (fst f) \<and> \<not> should_exclude (fst f) (Some (snd f))"

lemma exported_sub:
  "filter (exported (length rel)) (tree_files (rel @ [d]) t) =
     (if should_exclude (rel @ [d]) None then []
      else filter (exported (length (rel @ [d]))) (tree_files (rel @ [d]) t))"
proof -
  have "exported (length rel) f \<longleftrightarrow>
      \<not> should_exclude (rel @ [d]) None \<and> exported (length (rel @ [d])) f"
    if f: "f \<in> set (tree_files (rel @ [d]) t)" for f
  proof -
    obtain w ws where "fst f = rel @ d # w # ws"
      using tree_files_below [of "fst f" "snd f" "rel @ [d]" t] f by auto
    then show ?thesis using dirs_kept_step by (simp add: exported_def)
  qed
  then show ?thesis by (auto simp: filter_empty_conv intro: filter_cong)
qed

lemma exported_here: "exported (length rel) (rel @ [x], c) \<longleftrightarrow> \<not> should_exclude (rel @ [x]) (Some c)"
  by (auto simp: exported_def dirs_kept_def)

lemma copy_tree_files:
  "tree_files rel (fst (copy_tree V rel t)) =
     map (\<lambda>f. (fst f, export_file V (snd f))) (filter (exported (length rel)) (tree_files rel t))"
proof (induction V rel t rule: copy_tree.induct)
  case (1 V rel dirs files)
  let ?keep = "\<lambda>d. \<not> should_exclude (rel @ [fst d]) None"
  let ?m = "map (\<lambda>f. (fst f, export_file V (snd f)))"
  have sub: "tree_files (rel @ [fst d]) (fst (copy_tree V (rel @ [fst d]) (snd d)))
      = ?m (filter (exported (length (rel @ [fst d]))) (tree_files (rel @ [fst d]) (snd d)))"
    if "d \<in> set (filter ?keep dirs)" for d
    using "1.IH" that by auto
  have "concat (map (\<lambda>d. tree_files (rel @ [fst d]) (fst (copy_tree V (rel @ [fst d]) (snd d))))
          (filter ?keep dirs))
      = concat (map (\<lambda>d. ?m (filter (exported (length rel)) (tree_files (rel @ [fst d]) (snd d)))) dirs)"
    using sub by (induction dirs) (auto simp: exported_sub)
  then show ?case
    by (simp add: Let_def comp_def exported_here filter_map filter_concat map_concat)
qed

lemma copy_tree_count:
  "copied_files (snd (copy_tree V rel t)) = length (tree_files rel (fst (copy_tree V rel t)))"
proof (induction V rel t rule: copy_tree.induct)
  case (1 V rel dirs files)
  let ?subs = "\<lambda>ds. map (\<lambda>d. (fst d, copy_tree V (rel @ [fst d]) (snd d))) ds"
  have fold: "copied_files (fold (\<lambda>s acc. add_stats acc (snd (snd s))) xs st)
      = copied_files st + sum_list (map (\<lambda>s. copied_files (snd (snd s))) xs)"
    for xs :: "(string \<times> dtree \<times> export_stats) list" and st
    by (induction xs arbitrary: st) (simp_all add: add_stats_def)
  have IH: "copied_files (snd (copy_tree V (rel @ [fst d]) (snd d)))
      = length (tree_files (rel @ [fst d]) (fst (copy_tree V (rel @ [fst d]) (snd d))))"
    if "d \<in> set (filter (\<lambda>d. \<not> should_exclude (rel @ [fst d]) None) dirs)" for d
    using "1.IH" that by auto
  show ?case
    using IH by (auto simp: Let_def fold comp_def length_concat intro!: arg_cong [of _ _ sum_list])
qed

section \<open>What a clean scan means\<close>

text \<open>Directories a strict scan descends into and the files it looks at.\<close>

fun visited_files :: "string list \<Rightarrow> dtree \<Rightarrow> (string list \<times> string) list" where
  "visited_files rel (DNode dirs files) =
     map (\<lambda>f. (rel @ [fst f], snd f)) files
     @ concat (map (\<lambda>d. if fst d \<in> set SKIP_DIRS then []
                         else visited_files (rel @ [fst d]) (snd d)) dirs)"

lemma concat_map_nil: "concat (map f xs) = [] \<Longrightarrow> x \<in> set xs \<Longrightarrow> f x = []"
  by auto

lemma scan_clean_files:
  "scan rel True t = [] \<Longrightarrow> (p, c) \<in> set (visited_files rel t) \<Longrightarrow> \<not> should_skip p True \<Longrightarrow>
     scan_file p True c = []"
proof (induction rel True t arbitrary: p c rule: scan.induct)
  case (1 rel dirs files)
  from "1.prems"(1) have parts:
    "concat (map (\<lambda>f. if should_skip (rel @ [fst f]) True then []
       else scan_file (rel @ [fst f]) True (snd f)) files) = []"
    "concat (map (\<lambda>d. if fst d \<in> set SKIP_DIRS \<or> is_build_dir_name (fst d) \<and> \<not> True then []
       else scan (rel @ [fst d]) True (snd d)) dirs) = []"
    by (simp_all only: scan.simps append_is_Nil_conv)
  have files: "(if should_skip (rel @ [fst f]) True then []
      else scan_file (rel @ [fst f]) True (snd f)) = []" if "f \<in> set files" for f
    using parts(1) that by (rule concat_map_nil)
  have subs: "scan (rel @ [fst d]) True (snd d) = []" if "d \<in> set dirs" "fst d \<notin> set SKIP_DIRS" for d
    using concat_map_nil [OF parts(2) that(1)] that(2) by simp
  from "1.prems"(2) consider (here) f where "f \<in> set files" "p = rel @ [fst f]" "c = snd f"
    | (below) d where "d \<in> set dirs" "fst d \<notin> set SKIP_DIRS"
        "(p, c) \<in> set (visited_files (rel @ [fst d]) (snd d))"
    by (auto split: if_splits)
  then show ?case
  proof cases
    case here
    then show ?thesis using files [of f] "1.prems"(3) by simp
  next
    case below
    then show ?thesis using subs [of d] "1.hyps" [of d] "1.prems"(3) by auto
  qed
qed

lemma visited_files_all:
  assumes "\<And>p c. (p, c) \<in> set (tree_files rel t) \<Longrightarrow> \<not> list_ex (\<lambda>w. w \<in> set SKIP_DIRS) p"
    and "f \<in> set (tree_files rel t)"
  shows "f \<in> set (visited_files rel t)"
  using assms
proof (induction rel t arbitrary: f rule: tree_files.induct)
  case (1 rel dirs files)
  from "1.prems"(2) consider (here) "f \<in> set (map (\<lambda>f. (rel @ [fst f], snd f)) files)"
    | (below) d where "d \<in> set dirs" "f \<in> set (tree_files (rel @ [fst d]) (snd d))"
    by auto
  then show ?case
  proof cases
    case here
    then show ?thesis by auto
  next
    case below
    have sub: "\<not> list_ex (\<lambda>w. w \<in> set SKIP_DIRS) p"
      if "(p, c) \<in> set (tree_files (rel @ [fst d]) (snd d))" for p c
      using "1.prems"(1) [of p c] that below(1) by auto
    obtain w ws where "fst f = (rel @ [fst d]) @ w # ws"
      using tree_files_below [of "fst f" "snd f" "rel @ [fst d]" "snd d"] below(2) by auto
    moreover have "\<not> list_ex (\<lambda>w. w \<in> set SKIP_DIRS) (fst f)"
      using sub [of "fst f" "snd f"] below(2) by simp
    ultimately have "fst d \<notin> set SKIP_DIRS" by (simp add: list_ex_iff)
    with "1.IH" [OF below(1)] sub below show ?thesis by fastforce
  qed
qed

lemma not_excluded_not_skipped:
  assumes "\<not> should_exclude p (Some c)"
  shows "\<not> should_skip p True"
  using assms
  by (simp add: should_exclude_def should_skip_def SKIP_DIRS_def EXCLUDE_DIR_NAMES_def
      SKIP_PARTS_def EXCLUDE_PREFIX_PARTS_def list_ex_iff split: if_splits)

lemma copy_tree_not_skipped:
  assumes "(p, c') \<in> set (tree_files [] (fst (copy_tree V [] t)))"
  shows "\<not> should_skip p True" and "\<exists>c. (p, c) \<in> set (tree_files [] t) \<and> c' = export_file V c
    \<and> \<not> should_exclude p (Some c)"
proof -
  from assms obtain c where c: "(p, c) \<in> set (tree_files [] t)" "c' = export_file V c"
    "\<not> should_exclude p (Some c)"
    by (auto simp: copy_tree_files exported_def)
  then show "\<exists>c. (p, c) \<in> set (tree_files [] t) \<and> c' = export_file V c
    \<and> \<not> should_exclude p (Some c)" by blast
  from c(3) show "\<not> should_skip p True" by (rule not_excluded_not_skipped)
qed

lemma scan_text_line:
  assumes "scan_text rel True text = []" and "i < length (py_splitlines text)"
    and "\<not> is_placeholder (py_splitlines text ! i)" and "(name, pat) \<in> set PATTERNS"
  shows "\<not> re_found pat (py_splitlines text ! i)"
proof -
  let ?ls = "py_splitlines text"
  have "(Suc i, ?ls ! i) \<in> set (zip [1..<Suc (length ?ls)] ?ls)"
    using assms(2) unfolding set_zip mem_Collect_eq
    by (intro exI [of _ i]) (simp del: upt_Suc)
  then have "scan_line (join ''/'' rel) (Suc i, ?ls ! i) = []"
    using assms(1) by (auto simp: scan_text_def Let_def split: if_splits)
  then show ?thesis
    using assms(3,4) by (force simp: scan_line_def filter_empty_conv)
qed

section \<open>Properties\<close>

text \<open>
  C20: after sanitising, no private value occurs in the text, for every collected value that has
  no angle bracket and is not part of the word \<open>redacted\<close>, whatever the other values are.
\<close>

theorem sanitize_text_removes:
  assumes "v \<in> set values" and "redactable v" and "'''' \<notin> set values"
  shows "\<not> contains v (sanitize_text doc values)"
proof
  assume "contains v (sanitize_text doc values)"
  then have "contains v doc \<and> v \<notin> set (sort_key (\<lambda>v. - int (py_len v)) values)"
    unfolding sanitize_text_def using assms(2,3) by (intro sanitize_fold) auto
  with assms(1) show False by simp
qed

theorem sanitize_text_removes_witness:
  "\<not> contains ''10.0.0.7'' (sanitize_text ''ssh root@10.0.0.7 10.0.0.70'' [''10.0.0.7'', ''root''])"
  by (rule sanitize_text_removes) (simp_all add: redactable_def starts_with_def)

text \<open>
  C21: the export is exact. The exported tree holds, in the same order, precisely the files none
  of whose directories is excluded and that are not excluded themselves, each with its sanitised
  content, and the report counts them.
\<close>

theorem copy_tree_exact:
  "tree_files [] (fst (copy_tree V [] src)) =
     map (\<lambda>f. (fst f, export_file V (snd f)))
       (filter (\<lambda>f. dirs_kept 0 (fst f) \<and> \<not> should_exclude (fst f) (Some (snd f))) (tree_files [] src)) \<and>
   copied_files (snd (copy_tree V [] src)) = length (tree_files [] (fst (copy_tree V [] src)))"
  using copy_tree_files [of "[]" V src] copy_tree_count [of V "[]" src]
  by (simp add: exported_def [abs_def])

text \<open>
  C6: an export that exits with 0 is clean. Every exported file stems from a source file that the
  exclusion rules admit, was scanned, and produced no finding; no text line of it matches a
  secret pattern unless the line holds a placeholder.
\<close>

theorem export_main_clean:
  assumes "export_main src existing force = Inr (Some (t, stats), 0)"
    and "(p, c') \<in> set (tree_files [] t)"
  shows "scan_file p True c' = [] \<and>
     (\<exists>c V. (p, c) \<in> set (tree_files [] src) \<and> \<not> should_exclude p (Some c) \<and> c' = export_file V c) \<and>
     (\<forall>doc i name pat. read_text c' = Inr doc \<and> i < length (py_splitlines doc) \<and>
        (name, pat) \<in> set PATTERNS \<and> re_found pat (py_splitlines doc ! i) \<longrightarrow>
        is_placeholder (py_splitlines doc ! i))"
proof -
  from assms(1) obtain V where t: "t = fst (copy_tree V [] src)" and clean: "scan [] True t = []"
    by (auto simp: export_main_def hygiene_main_def andthen_eq_Inr Let_def split: if_splits)
      (metis fst_conv)+
  have ns: "\<not> should_skip q True" if "(q, d) \<in> set (tree_files [] t)" for q d
    using copy_tree_not_skipped(1) that unfolding t by blast
  have "(p, c') \<in> set (visited_files [] t)"
  proof (rule visited_files_all [OF _ assms(2)])
    fix q d assume "(q, d) \<in> set (tree_files [] t)"
    then have "\<not> should_skip q True" by (rule ns)
    then show "\<not> list_ex (\<lambda>w. w \<in> set SKIP_DIRS) q" by (auto simp: should_skip_def)
  qed
  then have ok: "scan_file p True c' = []"
    using scan_clean_files [OF clean] ns [OF assms(2)] by blast
  then have lines: "scan_text p True doc = []" if "read_text c' = Inr doc" for doc
    using that by (auto simp: scan_file_def Let_def split: if_splits)
  have "\<exists>c V. (p, c) \<in> set (tree_files [] src) \<and> \<not> should_exclude p (Some c) \<and> c' = export_file V c"
    using copy_tree_not_skipped(2) assms(2) unfolding t by blast
  with ok lines scan_text_line show ?thesis by blast
qed

definition demo_repo :: dtree where
  "demo_repo = DNode
     [(''build'', DNode [] [(''x.txt'', ''x'')]), (''src'', DNode [] [(''a.c'', ''int a;'')])]
     [(''AGENTS.md'', ''| <redacted>1 | 10.0.0.7 |'')]"

lemma demo_export:
  "export_main demo_repo False False =
     Inr (Some (DNode [(''src'', DNode [] [(''a.c'', ''int a;'')])] [],
       \<lparr>copied_files = 1, skipped_files = 1, skipped_dirs = 1, skipped_build_dirs = [''build'']\<rparr>), 0)"
  by code_simp

theorem export_main_clean_witness:
  "scan_file [''src'', ''a.c''] True ''int a;'' = []"
  using export_main_clean [OF demo_export, of "[''src'', ''a.c'']" "''int a;''"] by simp

section \<open>What the scan does not look at\<close>

text \<open>The repository with all files below tools/perf/results removed, its directories kept.\<close>

fun empty_results :: "string list \<Rightarrow> dtree \<Rightarrow> dtree" where
  "empty_results rel (DNode dirs files) =
     DNode (map (\<lambda>d. (fst d, empty_results (rel @ [fst d]) (snd d))) dirs)
       (if take 3 rel = [''tools'', ''perf'', ''results''] then [] else files)"

lemma below_results:
  assumes "take 3 rel = [''tools'', ''perf'', ''results'']"
  obtains r where "rel = [''tools'', ''perf'', ''results''] @ r"
  using assms append_take_drop_id [of 3 rel] by metis

lemma skipped_below_results:
  "take 3 rel = [''tools'', ''perf'', ''results''] \<Longrightarrow> should_skip (rel @ rest) strict"
  by (erule below_results) (simp add: should_skip_def SKIP_PARTS_def)

lemma scan_empty_results: "scan rel strict (empty_results rel t) = scan rel strict t"
proof (induction rel strict t rule: scan.induct)
  case (1 rel strict dirs files)
  have "concat (map (\<lambda>d. if fst d \<in> set SKIP_DIRS \<or> is_build_dir_name (fst d) \<and> \<not> strict then []
      else scan (rel @ [fst d]) strict (empty_results (rel @ [fst d]) (snd d))) dirs) =
    concat (map (\<lambda>d. if fst d \<in> set SKIP_DIRS \<or> is_build_dir_name (fst d) \<and> \<not> strict then []
      else scan (rel @ [fst d]) strict (snd d)) dirs)"
    using "1.IH" by (intro arg_cong [of _ _ concat] map_cong) auto
  then show ?case using skipped_below_results [of rel] by (simp add: comp_def cong: if_cong)
qed

lemma scan_below_results:
  assumes "take 3 rel = [''tools'', ''perf'', ''results'']" and "s \<in> set (scan rel strict t)"
  shows "\<exists>path. take 3 path = [''tools'', ''perf'', ''results''] \<and> is_build_dir_name (last path) \<and>
    s = join ''/'' path @ '': build-like directory present in strict export''"
  using assms
proof (induction rel strict t rule: scan.induct)
  case (1 rel strict dirs files)
  have below: "take 3 (rel @ [x]) = [''tools'', ''perf'', ''results'']" for x
    using "1.prems"(1) by (elim below_results) simp
  have "(\<exists>d \<in> set dirs. is_build_dir_name (fst d) \<and>
        s = join ''/'' (rel @ [fst d]) @ '': build-like directory present in strict export'') \<or>
     (\<exists>d \<in> set dirs. \<not> (fst d \<in> set SKIP_DIRS \<or> is_build_dir_name (fst d) \<and> \<not> strict) \<and>
        s \<in> set (scan (rel @ [fst d]) strict (snd d)))"
    using "1.prems"(2) skipped_below_results [OF "1.prems"(1)] by (auto split: if_splits)
  then show ?case
  proof
    assume "\<exists>d \<in> set dirs. is_build_dir_name (fst d) \<and>
        s = join ''/'' (rel @ [fst d]) @ '': build-like directory present in strict export''"
    then show ?case using below by (metis last_snoc)
  next
    assume "\<exists>d \<in> set dirs. \<not> (fst d \<in> set SKIP_DIRS \<or> is_build_dir_name (fst d) \<and> \<not> strict) \<and>
        s \<in> set (scan (rel @ [fst d]) strict (snd d))"
    then show ?case using "1.IH" below by blast
  qed
qed

text \<open>
  C39: A limit of the scan. In strict mode as in the other, its findings do not depend on any file
  below tools/perf/results: with all of them removed, however many there were, whatever their names
  and whatever secrets in them, the findings are the same. The one thing it reports below that
  directory is the name of a build-like directory.
\<close>

theorem strict_scan_skips_results:
  "scan [] strict (empty_results [] t) = scan [] strict t \<and>
   (\<forall>rest u s. s \<in> set (scan ([''tools'', ''perf'', ''results''] @ rest) strict u) \<longrightarrow>
      (\<exists>path. take 3 path = [''tools'', ''perf'', ''results''] \<and> is_build_dir_name (last path) \<and>
         s = join ''/'' path @ '': build-like directory present in strict export''))"
proof (intro conjI allI impI)
  show "scan [] strict (empty_results [] t) = scan [] strict t" by (rule scan_empty_results)
  fix rest u s
  assume "s \<in> set (scan ([''tools'', ''perf'', ''results''] @ rest) strict u)"
  then show "\<exists>path. take 3 path = [''tools'', ''perf'', ''results''] \<and> is_build_dir_name (last path) \<and>
      s = join ''/'' path @ '': build-like directory present in strict export''"
    by (intro scan_below_results) simp_all
qed

lemma demo_results_finding:
  "scan [''tools'', ''perf'', ''results''] True (DNode [(''build'', DNode [] [])] [(''key.txt'', ''x'')]) =
     [''tools/perf/results/build: build-like directory present in strict export'']"
  by code_simp

definition demo_results :: dtree where
  "demo_results = DNode [(''tools'', DNode [(''perf'', DNode [(''results'', DNode [] [(''k.txt'', ''k'')])] [])] [])] []"

theorem strict_scan_skips_results_witness:
  "scan [] True (empty_results [] demo_results) = scan [] True demo_results \<and>
   (\<exists>path. take 3 path = [''tools'', ''perf'', ''results''] \<and> is_build_dir_name (last path) \<and>
      ''tools/perf/results/build: build-like directory present in strict export'' =
        join ''/'' path @ '': build-like directory present in strict export'')"
proof
  show "scan [] True (empty_results [] demo_results) = scan [] True demo_results"
    by (rule conjunct1 [OF strict_scan_skips_results])
  have "''tools/perf/results/build: build-like directory present in strict export''
      \<in> set (scan ([''tools'', ''perf'', ''results''] @ []) True (DNode [(''build'', DNode [] [])] [(''key.txt'', ''x'')]))"
    using demo_results_finding by simp
  then show "\<exists>path. take 3 path = [''tools'', ''perf'', ''results''] \<and> is_build_dir_name (last path) \<and>
      ''tools/perf/results/build: build-like directory present in strict export'' =
        join ''/'' path @ '': build-like directory present in strict export''"
    by (rule conjunct2 [OF strict_scan_skips_results, rule_format])
qed

end
