(* ===== verification/Remote_Auth.thy ===== *)
theory Remote_Auth
  imports Py_Strings
begin

text \<open>
  Model of tools/release/remote_auth.py: where the password for a remote host comes from (two
  environment variables, then the private topology table), and the command lines and process
  environments built with it. The process environment and the text of AGENTS.md are arguments,
  as is whether \<open>sshpass\<close> is installed.
\<close>

record remote_auth =
  password :: string
  auth_source :: string

type_synonym environ = "string \<Rightarrow> string option"

definition parse_remote :: "string \<Rightarrow> string \<times> string" where
  "parse_remote remote =
     (if contains ''@'' remote
      then (let host = rev (takeWhile (\<lambda>c. c \<noteq> CHR ''@'') (rev remote))
            in (take (length remote - length host - 1) remote, host))
      else ('''', remote))"

definition markdown_cells :: "string \<Rightarrow> string list" where
  "markdown_cells line =
     (if \<not> contains ''|'' line then []
      else
        (let cells = map py_strip (split_on CHR ''|'' (strip_chars (\<lambda>c. c = CHR ''|'') (py_strip line)))
         in if cells = [] \<or> list_all (\<lambda>cell. set cell \<subseteq> {CHR ''-''}) (filter (\<lambda>cell. cell \<noteq> '''') cells)
            then [] else cells))"

definition word_password :: string where
  "word_password = [CHR 0xE5, CHR 0xAF, CHR 0x86, CHR 0xE7, CHR 0xA0, CHR 0x81]"

definition word_user :: string where
  "word_user = [CHR 0xE7, CHR 0x94, CHR 0xA8, CHR 0xE6, CHR 0x88, CHR 0xB7]"

definition is_header_row :: "string list \<Rightarrow> bool" where
  "is_header_row cells \<longleftrightarrow>
     (let header = py_lower (concat (take 5 cells)) in
      contains ''password'' header \<or> contains word_password header
      \<or> contains ''<redacted>'' header \<and> contains word_user header)"

definition row_auth :: "string \<Rightarrow> string \<Rightarrow> string list \<Rightarrow> remote_auth option" where
  \<comment> \<open>one iteration of the loop over the lines: \<open>None\<close> is \<open>continue\<close>\<close>
  "row_auth user host cells =
     (case cells of
        machine # public_ip # private_ip # row_user # pw # _ \<Rightarrow>
          (if is_header_row cells then None
           else if pw = '''' then None
           else if host \<notin> {public_ip, private_ip} then None
           else if user \<noteq> '''' \<and> row_user \<noteq> '''' \<and> user \<noteq> row_user then None
           else Some \<lparr>password = pw, auth_source = ''AGENTS.md''\<rparr>)
      | _ \<Rightarrow> None)"

fun first_auth :: "string \<Rightarrow> string \<Rightarrow> string list \<Rightarrow> remote_auth option" where
  "first_auth user host [] = None"
| "first_auth user host (line # rest) =
     (case row_auth user host (markdown_cells line) of
        None \<Rightarrow> first_auth user host rest
      | Some a \<Rightarrow> Some a)"

definition password_from_agents :: "string \<Rightarrow> string option \<Rightarrow> remote_auth option" where
  \<comment> \<open>the bytes of AGENTS.md, if it is a readable file\<close>
  "password_from_agents remote agents =
     (case agents of
        None \<Rightarrow> None
      | Some b \<Rightarrow>
          (case parse_remote remote of (user, host) \<Rightarrow>
             first_auth user host (py_splitlines (universal_newlines (utf8_ignore b)))))"

definition env_set :: "environ \<Rightarrow> string \<Rightarrow> bool" where
  "env_set env k \<longleftrightarrow> (case env k of None \<Rightarrow> False | Some v \<Rightarrow> v \<noteq> '''')"

definition resolve_auth :: "environ \<Rightarrow> string \<Rightarrow> string option \<Rightarrow> remote_auth option" where
  "resolve_auth env remote agents =
     (if env_set env ''GRIDFLUX_SSH_PASSWORD''
      then Some \<lparr>password = the (env ''GRIDFLUX_SSH_PASSWORD''), auth_source = ''GRIDFLUX_SSH_PASSWORD''\<rparr>
      else if env_set env ''SSHPASS''
      then Some \<lparr>password = the (env ''SSHPASS''), auth_source = ''SSHPASS''\<rparr>
      else password_from_agents remote agents)"

definition command_env :: "environ \<Rightarrow> string \<Rightarrow> string option \<Rightarrow> environ" where
  "command_env env remote agents =
     (case resolve_auth env remote agents of
        None \<Rightarrow> env
      | Some a \<Rightarrow> env(''SSHPASS'' \<mapsto> password a))"

definition has_password :: "environ \<Rightarrow> string \<Rightarrow> string option \<Rightarrow> bool" where
  "has_password env remote agents \<longleftrightarrow> resolve_auth env remote agents \<noteq> None"

definition require_sshpass_if_needed :: "bool \<Rightarrow> environ \<Rightarrow> string \<Rightarrow> string option \<Rightarrow> unit res" where
  "require_sshpass_if_needed sshpass env remote agents =
     (if has_password env remote agents \<and> \<not> sshpass
      then Inl (RuntimeError ''sshpass is required for password-based remote access'')
      else Inr ())"

definition ssh_prefix ::
  "bool \<Rightarrow> environ \<Rightarrow> string \<Rightarrow> string option \<Rightarrow> nat \<Rightarrow> string list res" where
  "ssh_prefix sshpass env remote agents connect_timeout =
     (let base = [''ssh'', ''-o'', ''StrictHostKeyChecking=no'', ''-o'',
                  ''ConnectTimeout='' @ show_nat connect_timeout, remote] in
      if has_password env remote agents
      then andthen (require_sshpass_if_needed sshpass env remote agents)
             (\<lambda>_. Inr ([''sshpass'', ''-e''] @ base))
      else Inr [''ssh'', ''-o'', ''StrictHostKeyChecking=no'', ''-o'', ''BatchMode=yes'', ''-o'',
                ''ConnectTimeout='' @ show_nat connect_timeout, remote])"

definition wrap_with_sshpass ::
  "bool \<Rightarrow> environ \<Rightarrow> string \<Rightarrow> string list \<Rightarrow> string option \<Rightarrow> (string list \<times> environ) res" where
  "wrap_with_sshpass sshpass env remote command agents =
     (let env' = command_env env remote agents in
      if has_password env remote agents
      then andthen (require_sshpass_if_needed sshpass env remote agents)
             (\<lambda>_. Inr ([''sshpass'', ''-e''] @ command, env'))
      else Inr (command, env'))"

definition auth_status ::
  "bool \<Rightarrow> environ \<Rightarrow> string \<Rightarrow> string option \<Rightarrow> (string \<times> string) list" where
  "auth_status sshpass env remote agents =
     (let auth = resolve_auth env remote agents in
      [(''remote'', remote),
       (''auth'', if auth \<noteq> None then ''password'' else ''none''),
       (''source'', case auth of None \<Rightarrow> '''' | Some a \<Rightarrow> auth_source a),
       (''sshpass'', if sshpass then ''available'' else ''missing'')])"

datatype auth_outcome =
    StatusPrinted string
  | UsageError
  | AuthFailed string
  | RunCommand "string list" environ

definition remote_auth_main ::
  "bool \<Rightarrow> environ \<Rightarrow> string option \<Rightarrow> string \<Rightarrow> bool \<Rightarrow> bool \<Rightarrow> string list \<Rightarrow> auth_outcome" where
  "remote_auth_main sshpass env agents remote status sshpass_prefix command =
     (if status
      then StatusPrinted (''remote_auth '' @ join '' ''
             (map (\<lambda>kv. fst kv @ ''='' @ snd kv) (auth_status sshpass env remote agents)))
      else
        (let command' = (if command \<noteq> [] \<and> hd command = ''--'' then tl command else command) in
         if command' = [] then UsageError
         else if sshpass_prefix
         then (case wrap_with_sshpass sshpass env remote command' agents of
                 Inl (RuntimeError m) \<Rightarrow> AuthFailed m
               | Inl _ \<Rightarrow> AuthFailed ''''
               | Inr (cmd, env') \<Rightarrow> RunCommand cmd env')
         else RunCommand command' (command_env env remote agents)))"

section \<open>Laws\<close>

lemma last_at_split: "contains ''@'' s \<longleftrightarrow> CHR ''@'' \<in> set s"
proof
  assume "contains ''@'' s"
  then show "CHR ''@'' \<in> set s" using contains_set [of "''@''" s] by simp
next
  assume "CHR ''@'' \<in> set s"
  then obtain u v where "s = u @ ''@'' @ v" by (metis append_Cons append_Nil split_list)
  then show "contains ''@'' s" unfolding contains_iff by blast
qed

lemma parse_remote_join:
  assumes "CHR ''@'' \<notin> set host"
  shows "parse_remote (user @ ''@'' @ host) = (user, host)"
proof -
  have "takeWhile (\<lambda>c. c \<noteq> CHR ''@'') (rev host @ CHR ''@'' # rev user) = rev host"
    using assms by (subst takeWhile_append2) auto
  then show ?thesis by (simp add: parse_remote_def last_at_split)
qed

lemma first_auth_row:
  "first_auth user host lines = Some a \<Longrightarrow>
     \<exists>line\<in>set lines. row_auth user host (markdown_cells line) = Some a"
  by (induction user host lines rule: first_auth.induct) (auto split: option.splits)

lemma row_auth_sound:
  assumes "row_auth user host cells = Some a"
  shows "5 \<le> length cells \<and> password a = cells ! 4 \<and> password a \<noteq> '''' \<and>
     host \<in> {cells ! 1, cells ! 2} \<and> (user = '''' \<or> cells ! 3 = '''' \<or> cells ! 3 = user)"
  using assms by (auto simp: row_auth_def split: list.splits if_splits)

section \<open>Properties\<close>

text \<open>
  A password taken from the topology table stands in the fifth cell of a row whose public or
  private address is the requested host and whose user, if both name one, is the requested user.
\<close>

theorem password_from_agents_sound:
  assumes "password_from_agents remote (Some b) = Some a" and "parse_remote remote = (user, host)"
  shows "\<exists>line\<in>set (py_splitlines (universal_newlines (utf8_ignore b))).
     5 \<le> length (markdown_cells line) \<and> password a = markdown_cells line ! 4 \<and>
     host \<in> {markdown_cells line ! 1, markdown_cells line ! 2} \<and>
     (user = '''' \<or> markdown_cells line ! 3 = '''' \<or> markdown_cells line ! 3 = user) \<and>
     password a \<noteq> '''' \<and> auth_source a = ''AGENTS.md''"
proof -
  from assms obtain line where "line \<in> set (py_splitlines (universal_newlines (utf8_ignore b)))"
    and row: "row_auth user host (markdown_cells line) = Some a"
    using first_auth_row by (fastforce simp: password_from_agents_def)
  moreover have "auth_source a = ''AGENTS.md''"
    using row by (auto simp: row_auth_def split: list.splits if_splits)
  ultimately show ?thesis using row_auth_sound [OF row] by blast
qed

theorem password_from_agents_sound_witness:
  "\<exists>line\<in>set (py_splitlines (universal_newlines (utf8_ignore ''| m | 8.8.8.8 | 10.0.0.7 | root | pw |''))).
     password \<lparr>password = ''pw'', auth_source = ''AGENTS.md''\<rparr> = markdown_cells line ! 4"
proof -
  have "password_from_agents ''root@10.0.0.7'' (Some ''| m | 8.8.8.8 | 10.0.0.7 | root | pw |'')
      = Some \<lparr>password = ''pw'', auth_source = ''AGENTS.md''\<rparr>" by code_simp
  moreover have "parse_remote ''root@10.0.0.7'' = (''root'', ''10.0.0.7'')" by code_simp
  ultimately show ?thesis using password_from_agents_sound by blast
qed

text \<open>
  The order of the password sources, and that a started process differs from the caller's
  environment at most in \<open>SSHPASS\<close>, which then holds the resolved password.
\<close>

theorem resolve_auth_order:
  "(env_set env ''GRIDFLUX_SSH_PASSWORD'' \<longrightarrow>
      map_option password (resolve_auth env remote agents) = env ''GRIDFLUX_SSH_PASSWORD'') \<and>
   (\<not> env_set env ''GRIDFLUX_SSH_PASSWORD'' \<and> env_set env ''SSHPASS'' \<longrightarrow>
      map_option password (resolve_auth env remote agents) = env ''SSHPASS'') \<and>
   (\<not> env_set env ''GRIDFLUX_SSH_PASSWORD'' \<and> \<not> env_set env ''SSHPASS'' \<longrightarrow>
      resolve_auth env remote agents = password_from_agents remote agents) \<and>
   command_env env remote agents =
     (\<lambda>k. if k = ''SSHPASS'' \<and> has_password env remote agents
          then map_option password (resolve_auth env remote agents) else env k)"
proof -
  have "the (env k) = v" if "env k = Some v" for k v using that by simp
  then show ?thesis
    by (auto simp: resolve_auth_def env_set_def command_env_def has_password_def fun_eq_iff
        split: option.splits)
qed

theorem resolve_auth_order_witness:
  "map_option password (resolve_auth [''GRIDFLUX_SSH_PASSWORD'' \<mapsto> ''a'', ''SSHPASS'' \<mapsto> ''b''] ''h'' None)
     = Some ''a''"
  using resolve_auth_order [of "[''GRIDFLUX_SSH_PASSWORD'' \<mapsto> ''a'', ''SSHPASS'' \<mapsto> ''b'']" "''h''" None]
  by (simp add: env_set_def)

text \<open>
  No command line depends on the password. Two settings that agree on whether a password is
  known build the same \<open>ssh\<close> command, the same wrapped command and the same status line up to the
  name of the source, so the password itself travels in the environment only.
\<close>

theorem command_lines_password_free:
  assumes "has_password env remote agents \<longleftrightarrow> has_password env' remote agents'"
  shows "ssh_prefix sp env remote agents n = ssh_prefix sp env' remote agents' n \<and>
     map_sum id fst (wrap_with_sshpass sp env remote command agents) =
       map_sum id fst (wrap_with_sshpass sp env' remote command agents') \<and>
     (map_option auth_source (resolve_auth env remote agents) =
        map_option auth_source (resolve_auth env' remote agents') \<longrightarrow>
      auth_status sp env remote agents = auth_status sp env' remote agents')"
  using assms
  by (auto simp: ssh_prefix_def wrap_with_sshpass_def require_sshpass_if_needed_def auth_status_def
      Let_def has_password_def split: option.splits)

theorem command_lines_password_free_witness:
  "ssh_prefix True [''SSHPASS'' \<mapsto> ''one''] ''root@h'' None 10
     = ssh_prefix True [''SSHPASS'' \<mapsto> ''two''] ''root@h'' None 10"
proof -
  have "has_password [''SSHPASS'' \<mapsto> ''one''] ''root@h'' None
      \<longleftrightarrow> has_password [''SSHPASS'' \<mapsto> ''two''] ''root@h'' None"
    by (simp add: has_password_def resolve_auth_def env_set_def)
  then show ?thesis using command_lines_password_free by blast
qed

end
