(* ===== verification/Matrix_Cases.thy ===== *)
theory Matrix_Cases
  imports Py_Strings
begin

text \<open>
  Model of the case generation of tools/perf/run_gridftp_private_matrix.py: the size and list
  tokens of the command line, the \<open>Case\<close> record, the filtered cross product of all dimensions,
  and the ports of a case. An option that was not given is the empty text.
\<close>

section \<open>Command-line tokens\<close>

definition size_multipliers :: "(string \<times> int) list" where
  "size_multipliers =
     [(''gib'', 1073741824), (''gb'', 1000000000), (''g'', 1073741824),
      (''mib'', 1048576), (''mb'', 1000000), (''m'', 1048576),
      (''kib'', 1024), (''kb'', 1000), (''k'', 1024)]"

fun scan_multipliers :: "string \<Rightarrow> string \<Rightarrow> (string \<times> int) list \<Rightarrow> int res" where
  "scan_multipliers token normalized [] = int_or_raise normalized"
| "scan_multipliers token normalized ((suffix, multiplier) # rest) =
     (if ends_with suffix normalized
      then (let number = take (length normalized - length suffix) normalized in
            if number = '''' then Inl (ValueError (''invalid size: '' @ token))
            else andthen (int_or_raise number) (\<lambda>n. Inr (n * multiplier)))
      else scan_multipliers token normalized rest)"

definition parse_size_token :: "string \<Rightarrow> int res" where
  "parse_size_token token = scan_multipliers token (py_lower (py_strip token)) size_multipliers"

definition list_parts :: "string \<Rightarrow> string list" where
  \<comment> \<open>\<open>[part for part in text.split(",") if part.strip()]\<close>\<close>
  "list_parts s = filter (\<lambda>part. py_strip part \<noteq> '''') (split_on CHR '','' s)"

definition parse_int_list :: "string \<Rightarrow> int list res" where
  "parse_int_list s = collect parse_size_token (list_parts s)"

definition parse_choice_list :: "string \<Rightarrow> string list \<Rightarrow> string \<Rightarrow> string list res" where
  "parse_choice_list s choices name =
     (let result = map (\<lambda>part. py_lower (py_strip part)) (list_parts s);
          invalid = filter (\<lambda>part. part \<notin> set choices) result
      in if invalid \<noteq> [] then Inl (ArgumentTypeError (''invalid '' @ name @ '': '' @ join '','' invalid))
         else Inr result)"

definition case_token :: "string \<Rightarrow> string" where
  "case_token value =
     dict_get [(''crc32c'', ''crc32c''), (''none'', ''n''), (''off'', ''off''), (''required'', ''req''),
       (''full'', ''full''), (''verified_chunks'', ''vc''), (''every_n_chunks'', ''enc''),
       (''final_only'', ''fo''), (''fsync_file'', ''fsf''), (''fsync_file_and_dir'', ''fsfd''),
       (''posix'', ''posix''), (''io_uring'', ''uring''), (''sequential'', ''seq''), (''random'', ''rnd''),
       (''auto'', ''auto''), (''direct'', ''dir''), (''coalesced'', ''coal''), (''default'', ''def''),
       (''bounded'', ''bnd''), (''dirty_poll'', ''dp'')] value value"

definition budget_token :: "int \<Rightarrow> string" where
  "budget_token value =
     (if value = 0 then ''0''
      else if value mod (1024 * 1024) = 0 then show_int (value div (1024 * 1024)) @ ''m''
      else show_int value)"

section \<open>Cases\<close>

record mcase =
  index :: int
  direction :: string
  total_bytes :: int
  connections :: int
  chunk_size :: int
  buffer_size :: int
  checksum :: string
  preallocate :: string
  manifest_flush_policy :: string
  manifest_flush_interval_chunks :: int
  commit_sync_policy :: string
  final_verify_policy :: string
  file_io_backend :: string
  file_io_buffer_size :: int
  file_io_queue_depth :: int
  file_io_batch_size :: int
  file_io_advice :: string
  posix_write_strategy :: string
  receiver_write_profile :: string
  receiver_max_pending_bytes :: int
  receiver_write_yield_policy :: string
  tls_mode :: string
  data_tls_mode :: string
  repeat_index :: int

record margs =
  a_smoke :: bool
  a_directions :: string
  a_bytes :: string
  a_connections :: string
  a_chunk_sizes :: string
  a_buffer_sizes :: string
  a_checksums :: string
  a_preallocates :: string
  a_manifest_flush_policies :: string
  a_manifest_flush_policy :: string
  a_manifest_flush_interval_chunks_list :: string
  a_manifest_flush_interval_chunks :: int
  a_commit_sync_policies :: string
  a_commit_sync_policy :: string
  a_file_io_backends :: string
  a_file_io_buffer_sizes :: string
  a_file_io_queue_depths :: string
  a_file_io_batch_sizes :: string
  a_file_io_advices :: string
  a_posix_write_strategies :: string
  a_receiver_write_profiles :: string
  a_receiver_max_pending_bytes_list :: string
  a_receiver_write_yield_policies :: string
  a_final_verify_policies :: string
  a_final_verify_policy :: string
  a_tls_modes :: string
  a_data_tls_modes :: string
  a_repeat :: int
  a_control_port_base :: int
  a_data_port_base :: int
  a_port_stride :: int

definition is_valid_write_strategy_case :: "string \<Rightarrow> int \<Rightarrow> bool" where
  "is_valid_write_strategy_case strategy io_buffer \<longleftrightarrow>
     \<not> (strategy = ''coalesced'' \<and> io_buffer = 0)"

definition is_valid_receiver_writeback_case :: "string \<Rightarrow> int \<Rightarrow> string \<Rightarrow> bool" where
  "is_valid_receiver_writeback_case profile max_pending_bytes yield_policy \<longleftrightarrow>
     (if profile = ''default'' then max_pending_bytes = 0 \<and> yield_policy = ''none''
      else profile = ''bounded'' \<and> max_pending_bytes > 0)"

text \<open>The parsed dimensions of a run, one list each.\<close>

record dims =
  d_directions :: "string list"
  d_bytes :: "int list"
  d_connections :: "int list"
  d_chunk_sizes :: "int list"
  d_buffer_sizes :: "int list"
  d_checksums :: "string list"
  d_preallocates :: "string list"
  d_flush_policies :: "string list"
  d_flush_intervals :: "int list"
  d_commit_policies :: "string list"
  d_backends :: "string list"
  d_io_buffer_sizes :: "int list"
  d_strategies :: "string list"
  d_profiles :: "string list"
  d_pending :: "int list"
  d_yields :: "string list"
  d_queue_depths :: "int list"
  d_advices :: "string list"
  d_verifies :: "string list"
  d_tls :: "string list"
  d_data_tls :: "string list"
  d_batches :: "int list option"
  d_repeat :: int

definition or_text :: "string \<Rightarrow> string \<Rightarrow> string" where
  "or_text s d = (if s = '''' then d else s)"

definition check_range :: "int \<Rightarrow> int \<Rightarrow> string \<Rightarrow> int list \<Rightarrow> unit res" where
  "check_range lo hi message values =
     (if list_ex (\<lambda>v. v < lo \<or> v > hi) values then Inl (SystemExit message) else Inr ())"

definition parse_dims :: "'a margs_scheme \<Rightarrow> dims res" where
  "parse_dims args =
     (let full = \<not> a_smoke args;
          dflt_directions = (if full then ''stor,retr,stor-resume,retr-resume'' else ''stor,retr'');
          dflt_bytes = (if full then ''256MiB,1GiB'' else ''64MiB,128MiB'');
          dflt_connections = (if full then ''1,2,4,8,16'' else ''1,4'');
          dflt_chunk_sizes = (if full then ''1MiB,4MiB,16MiB'' else ''1MiB'');
          dflt_buffer_sizes = (if full then ''64KiB,256KiB,1MiB'' else ''64KiB'');
          dflt_checksums = ''crc32c,none''
      in
      andthen (parse_choice_list (or_text (a_directions args) dflt_directions)
                [''stor'', ''retr'', ''stor-resume'', ''retr-resume''] ''direction'') (\<lambda>directions.
      andthen (parse_int_list (or_text (a_bytes args) dflt_bytes)) (\<lambda>byte_values.
      andthen (parse_int_list (or_text (a_connections args) dflt_connections)) (\<lambda>conns.
      andthen (parse_int_list (or_text (a_chunk_sizes args) dflt_chunk_sizes)) (\<lambda>chunk_sizes.
      andthen (parse_int_list (or_text (a_buffer_sizes args) dflt_buffer_sizes)) (\<lambda>buffer_sizes.
      andthen (parse_choice_list (or_text (a_checksums args) dflt_checksums)
                [''crc32c'', ''none''] ''checksum'') (\<lambda>checksums.
      andthen (parse_choice_list (a_preallocates args) [''off'', ''full''] ''preallocate'') (\<lambda>preallocates.
      andthen (parse_choice_list (or_text (a_manifest_flush_policies args) (a_manifest_flush_policy args))
                [''every_n_chunks'', ''final_only''] ''manifest flush policy'') (\<lambda>flush_policies.
      andthen (parse_int_list (or_text (a_manifest_flush_interval_chunks_list args)
                (show_int (a_manifest_flush_interval_chunks args)))) (\<lambda>flush_intervals.
      andthen (check_range 1 65536
                ''--manifest-flush-interval-chunks values must be in range 1..65536'' flush_intervals) (\<lambda>_.
      andthen (parse_choice_list (or_text (a_commit_sync_policies args) (a_commit_sync_policy args))
                [''none'', ''fsync_file'', ''fsync_file_and_dir''] ''commit sync policy'') (\<lambda>commits.
      andthen (parse_choice_list (a_file_io_backends args) [''posix'', ''io_uring'']
                ''file IO backend'') (\<lambda>backends.
      andthen (parse_int_list (a_file_io_buffer_sizes args)) (\<lambda>io_buffers.
      andthen (parse_int_list (a_file_io_queue_depths args)) (\<lambda>depths.
      andthen (check_range 1 256 ''--file-io-queue-depths values must be in range 1..256'' depths) (\<lambda>_.
      andthen (if a_file_io_batch_sizes args = '''' then Inr None
               else andthen (parse_int_list (a_file_io_batch_sizes args)) (\<lambda>bs. Inr (Some bs))) (\<lambda>batches.
      andthen (case batches of None \<Rightarrow> Inr ()
               | Some bs \<Rightarrow> check_range 1 256 ''--file-io-batch-sizes values must be in range 1..256'' bs) (\<lambda>_.
      andthen (parse_choice_list (a_file_io_advices args)
                [''off'', ''sequential'', ''noreuse'', ''dontneed'', ''sequential_dontneed'']
                ''file IO advice'') (\<lambda>advices.
      andthen (parse_choice_list (a_posix_write_strategies args) [''auto'', ''direct'', ''coalesced'']
                ''posix write strategy'') (\<lambda>strategies.
      andthen (parse_choice_list (a_receiver_write_profiles args) [''default'', ''bounded'']
                ''receiver write profile'') (\<lambda>profiles.
      andthen (parse_int_list (a_receiver_max_pending_bytes_list args)) (\<lambda>pending.
      andthen (check_range 0 1099511627776
                ''--receiver-max-pending-bytes-list values must be in range 0..1099511627776'' pending) (\<lambda>_.
      andthen (parse_choice_list (a_receiver_write_yield_policies args) [''none'', ''dirty_poll'']
                ''receiver write yield policy'') (\<lambda>yields.
      andthen (parse_choice_list (or_text (a_final_verify_policies args) (a_final_verify_policy args))
                [''full'', ''verified_chunks''] ''final verify policy'') (\<lambda>verifies.
      andthen (parse_choice_list (a_tls_modes args) [''off'', ''required''] ''TLS mode'') (\<lambda>tls.
      andthen (parse_choice_list (a_data_tls_modes args) [''off'', ''required''] ''data TLS mode'') (\<lambda>data_tls.
      Inr \<lparr>d_directions = directions, d_bytes = byte_values, d_connections = conns,
           d_chunk_sizes = chunk_sizes, d_buffer_sizes = buffer_sizes, d_checksums = checksums,
           d_preallocates = preallocates, d_flush_policies = flush_policies,
           d_flush_intervals = flush_intervals, d_commit_policies = commits, d_backends = backends,
           d_io_buffer_sizes = io_buffers, d_strategies = strategies, d_profiles = profiles,
           d_pending = pending, d_yields = yields, d_queue_depths = depths, d_advices = advices,
           d_verifies = verifies, d_tls = tls, d_data_tls = data_tls, d_batches = batches,
           d_repeat = a_repeat args\<rparr>)))))))))))))))))))))))))))"

text \<open>The cross product, the last dimension varying fastest; batch size and repeat are filled in later.\<close>

definition combos :: "dims \<Rightarrow> mcase list" where
  "combos d =
     [\<lparr>index = 0, direction = dir, total_bytes = tb, connections = cn, chunk_size = ck, buffer_size = bf,
       checksum = cs, preallocate = pa, manifest_flush_policy = fp, manifest_flush_interval_chunks = fi,
       commit_sync_policy = cm, final_verify_policy = fv, file_io_backend = be, file_io_buffer_size = ib,
       file_io_queue_depth = qd, file_io_batch_size = qd, file_io_advice = ad, posix_write_strategy = ws,
       receiver_write_profile = rp, receiver_max_pending_bytes = mp, receiver_write_yield_policy = yp,
       tls_mode = tm, data_tls_mode = dt, repeat_index = 0\<rparr>.
      dir \<leftarrow> d_directions d, tb \<leftarrow> d_bytes d, cn \<leftarrow> d_connections d, ck \<leftarrow> d_chunk_sizes d,
      bf \<leftarrow> d_buffer_sizes d, cs \<leftarrow> d_checksums d, pa \<leftarrow> d_preallocates d, fp \<leftarrow> d_flush_policies d,
      fi \<leftarrow> d_flush_intervals d, cm \<leftarrow> d_commit_policies d, be \<leftarrow> d_backends d, ib \<leftarrow> d_io_buffer_sizes d,
      ws \<leftarrow> d_strategies d, rp \<leftarrow> d_profiles d, mp \<leftarrow> d_pending d, yp \<leftarrow> d_yields d,
      qd \<leftarrow> d_queue_depths d, ad \<leftarrow> d_advices d, fv \<leftarrow> d_verifies d, tm \<leftarrow> d_tls d, dt \<leftarrow> d_data_tls d]"

definition keep_combo :: "mcase \<Rightarrow> bool" where
  "keep_combo c \<longleftrightarrow>
     (if \<not> is_valid_write_strategy_case (posix_write_strategy c) (file_io_buffer_size c) then False
      else if \<not> is_valid_receiver_writeback_case (receiver_write_profile c)
                 (receiver_max_pending_bytes c) (receiver_write_yield_policy c) then False
      else \<not> (tls_mode c = ''off'' \<and> data_tls_mode c = ''required''))"

definition batch_of :: "dims \<Rightarrow> mcase \<Rightarrow> int list" where
  "batch_of d c = (case d_batches d of None \<Rightarrow> [file_io_queue_depth c] | Some xs \<Rightarrow> xs)"

definition expand_combo :: "dims \<Rightarrow> mcase \<Rightarrow> mcase list" where
  "expand_combo d c =
     [c\<lparr>file_io_batch_size := bs, repeat_index := ri\<rparr>.
      bs \<leftarrow> batch_of d c,
      ri \<leftarrow> [0..d_repeat d - 1]]"

fun number_cases :: "int \<Rightarrow> mcase list \<Rightarrow> mcase list" where
  "number_cases i [] = []"
| "number_cases i (c # cs) = c\<lparr>index := i\<rparr> # number_cases (i + 1) cs"

definition cases_of :: "dims \<Rightarrow> mcase list" where
  "cases_of d = number_cases 0 (concat (map (expand_combo d) (filter keep_combo (combos d))))"

definition generate_cases :: "'a margs_scheme \<Rightarrow> mcase list res" where
  "generate_cases args = andthen (parse_dims args) (\<lambda>d. Inr (cases_of d))"

section \<open>Ports\<close>

definition control_port :: "'a margs_scheme \<Rightarrow> int \<Rightarrow> int" where
  "control_port args case_index = a_control_port_base args + case_index * a_port_stride args"

definition data_port_base :: "'a margs_scheme \<Rightarrow> int \<Rightarrow> int" where
  "data_port_base args case_index = a_data_port_base args + case_index * a_port_stride args"

fun validate_ports :: "'a margs_scheme \<Rightarrow> mcase list \<Rightarrow> unit res" where
  "validate_ports args [] = Inr ()"
| "validate_ports args (c # cs) =
     (if control_port args (index c) > 65535
      then Inl (RuntimeError ''control port range exceeds 65535'')
      else if data_port_base args (index c) + connections c > 65535
      then Inl (RuntimeError ''data port range exceeds 65535'')
      else validate_ports args cs)"

section \<open>Laws\<close>

lemma number_cases_length [simp]: "length (number_cases i cs) = length cs"
  by (induction i cs rule: number_cases.induct) auto

lemma number_cases_nth:
  "k < length cs \<Longrightarrow> number_cases i cs ! k = (cs ! k)\<lparr>index := i + int k\<rparr>"
proof (induction i cs arbitrary: k rule: number_cases.induct)
  case (2 i c cs)
  then show ?case by (cases k) (auto simp: algebra_simps)
qed simp

lemma number_cases_mem:
  assumes "c \<in> set (number_cases i cs)"
  shows "\<exists>c0\<in>set cs. \<exists>k. c = c0\<lparr>index := k\<rparr>"
proof -
  from assms obtain k where "k < length cs" "number_cases i cs ! k = c"
    by (auto simp: in_set_conv_nth)
  then show ?thesis using number_cases_nth nth_mem by metis
qed

lemma check_range_ok:
  "check_range lo hi msg vs = Inr () \<longleftrightarrow> (\<forall>v\<in>set vs. lo \<le> v \<and> v \<le> hi)"
  by (force simp: check_range_def list_ex_iff)

lemma parse_choice_list_sub:
  "parse_choice_list s choices name = Inr xs \<Longrightarrow> set xs \<subseteq> set choices"
  by (auto simp: parse_choice_list_def Let_def filter_empty_conv split: if_splits)

lemma parse_dims_ok:
  assumes "parse_dims args = Inr d"
  shows "set (d_directions d) \<subseteq> {''stor'', ''retr'', ''stor-resume'', ''retr-resume''} \<and>
    set (d_checksums d) \<subseteq> {''crc32c'', ''none''} \<and>
    (\<forall>v\<in>set (d_flush_intervals d). 1 \<le> v \<and> v \<le> 65536) \<and>
    (\<forall>v\<in>set (d_queue_depths d). 1 \<le> v \<and> v \<le> 256) \<and>
    (\<forall>bs. d_batches d = Some bs \<longrightarrow> (\<forall>v\<in>set bs. 1 \<le> v \<and> v \<le> 256)) \<and>
    (\<forall>v\<in>set (d_pending d). 0 \<le> v \<and> v \<le> 1099511627776) \<and> d_repeat d = a_repeat args"
  using assms unfolding parse_dims_def Let_def andthen_eq_Inr
  by (elim exE conjE) (auto simp: check_range_ok dest!: parse_choice_list_sub split: option.splits)

section \<open>Size tokens\<close>

lemma ends_with_rev: "ends_with p s \<longleftrightarrow> starts_with (rev p) (rev s)"
  by (metis ends_with_append rev_append rev_rev_ident starts_with_append)

lemma show_int_snoc: "\<exists>u c. show_int n = u @ [c] \<and> is_digit c"
proof -
  have "\<exists>u c. show_nat k = u @ [c] \<and> is_digit c" for k
    using show_nat_digits [of k] by (cases "show_nat k" rule: rev_cases) auto
  then show ?thesis unfolding show_int_def by (metis append_Cons)
qed

lemma show_int_hd: "\<not> is_space (hd (show_int n)) \<and> show_int n \<noteq> ''''"
  using show_nat_digits [of "nat n"] show_nat_digits [of "nat (- n)"] digit_classes(1)
  by (cases "show_nat (nat n)") (auto simp: show_int_def char_class_defs)

lemma show_int_lower: "py_lower (show_int n) = show_int n"
proof -
  have "list_all is_digit s \<Longrightarrow> map lower_char s = s" for s
    by (induction s) (auto simp: lower_char_def char_class_defs)
  with show_nat_digits show ?thesis
    by (simp add: show_int_def py_lower_def lower_char_def char_class_defs)
qed

lemma size_suffix_normal:
  assumes "(suffix, m) \<in> set size_multipliers"
  shows "py_lower (py_strip (show_int n @ suffix)) = show_int n @ suffix"
proof -
  have "suffix \<noteq> '''' \<and> \<not> is_space (last suffix) \<and> py_lower suffix = suffix"
    using assms by (auto simp: size_multipliers_def py_lower_def lower_char_def char_class_defs)
  moreover from this have "py_strip (show_int n @ suffix) = show_int n @ suffix"
    unfolding py_strip_def by (intro strip_chars_id) (simp add: show_int_hd)
  ultimately show ?thesis using show_int_lower by (simp add: py_lower_def)
qed

lemma ends_with_digit_suffix:
  assumes "is_digit c" and "\<forall>x\<in>set p. \<not> is_digit x"
  shows "ends_with p (u @ c # s) \<longleftrightarrow> ends_with p s"
proof
  assume "ends_with p (u @ c # s)"
  then obtain t where t: "u @ c # s = t @ p" by (auto simp: ends_with_append)
  then have "length p \<le> length s"
    using assms by (auto simp: append_eq_append_conv2 Cons_eq_append_conv)
  with t show "ends_with p s"
    by (auto simp: ends_with_append append_eq_append_conv2 Cons_eq_append_conv)
qed (auto simp: ends_with_append)

lemma scan_size_suffix:
  assumes "(suffix, m) \<in> set size_multipliers"
  shows "scan_multipliers token (show_int n @ suffix) size_multipliers = Inr (n * m)"
proof -
  obtain u c where s: "show_int n = u @ [c]" and c: "is_digit c" using show_int_snoc by blast
  have n: "int_or_raise (u @ [c]) = Inr n"
    using py_int_show_int [of n] by (simp add: int_or_raise_def s)
  have e: "ends_with p (u @ c # x) = ends_with p x" if "\<forall>z\<in>set p. \<not> is_digit z" for p x
    using c that by (rule ends_with_digit_suffix)
  have "\<not> is_digit CHR ''g'' \<and> \<not> is_digit CHR ''i'' \<and> \<not> is_digit CHR ''b'' \<and>
      \<not> is_digit CHR ''m'' \<and> \<not> is_digit CHR ''k''"
    by (simp add: char_class_defs)
  with n assms show ?thesis
    unfolding size_multipliers_def s list.set
    by (elim insertE emptyE; simp add: e ends_with_def)
qed

lemma scan_plain:
  "scan_multipliers token (show_int n) size_multipliers = Inr n"
proof -
  obtain u c where s: "show_int n = u @ [c]" and c: "is_digit c" using show_int_snoc by blast
  have n: "int_or_raise (u @ [c]) = Inr n"
    using py_int_show_int [of n] by (simp add: int_or_raise_def s)
  have e: "\<not> ends_with (x # p) (u @ [c])" if "\<forall>z\<in>set (x # p). \<not> is_digit z" for x p
    using ends_with_digit_suffix [OF c that, of u "[]"] by (simp add: ends_with_append)
  have "\<not> is_digit CHR ''g'' \<and> \<not> is_digit CHR ''i'' \<and> \<not> is_digit CHR ''b'' \<and>
      \<not> is_digit CHR ''m'' \<and> \<not> is_digit CHR ''k''"
    by (simp add: char_class_defs)
  with n show ?thesis unfolding size_multipliers_def s by (simp add: e)
qed

lemma parse_size_show: "parse_size_token (show_int n) = Inr n"
proof -
  obtain u c where s: "show_int n = u @ [c]" and c: "is_digit c" using show_int_snoc by blast
  have "py_strip (show_int n) = show_int n"
    using show_int_hd [of n] digit_classes(1) [OF c] s
    unfolding py_strip_def by (intro strip_chars_id) simp
  then show ?thesis by (simp add: parse_size_token_def scan_plain show_int_lower)
qed

lemma parse_size_suffix:
  "(suffix, m) \<in> set size_multipliers \<Longrightarrow> parse_size_token (show_int n @ suffix) = Inr (n * m)"
  by (simp add: parse_size_token_def size_suffix_normal scan_size_suffix)

text \<open>
  Size tokens read back as what they print. A decimal number followed by one of the nine
  suffixes is that number of units, binary for \<open>k\<close>, \<open>kib\<close>, \<open>m\<close>, \<open>mib\<close>, \<open>g\<close>, \<open>gib\<close> and decimal for \<open>kb\<close>,
  \<open>mb\<close>, \<open>gb\<close>, although the table is scanned by suffix and \<open>"gib"\<close> must not be taken for \<open>"b"\<close>
  of another unit; and the token that names a receiver budget in a case's file names stands for
  exactly that budget, so that two cases with different budgets never share a file name.
\<close>

theorem size_tokens_roundtrip:
  "parse_size_token (budget_token v) = Inr v \<and>
   list_all (\<lambda>(suffix, m). parse_size_token (show_int n @ suffix) = Inr (n * m)) size_multipliers \<and>
   (budget_token v = budget_token w \<longleftrightarrow> v = w)"
proof -
  have b: "parse_size_token (budget_token x) = Inr x" for x
  proof -
    have "(''m'', 1048576) \<in> set size_multipliers" by (simp add: size_multipliers_def)
    note m = parse_size_suffix [OF this, of "x div 1048576"]
    have zero: "show_int 0 = ''0''" by code_simp
    consider "x = 0" | "x \<noteq> 0" "x mod (1024 * 1024) = 0" | "x \<noteq> 0" "x mod (1024 * 1024) \<noteq> 0"
      by blast
    then show ?thesis
    proof cases
      case 1
      with zero parse_size_show [of 0] show ?thesis by (simp add: budget_token_def)
    next
      case 2
      then have "x div 1048576 * 1048576 = x" by (simp add: mod_eq_0_iff_dvd)
      with m 2 show ?thesis by (simp add: budget_token_def)
    next
      case 3
      then have "budget_token x = show_int x" by (simp only: budget_token_def if_False)
      with parse_size_show show ?thesis by (simp only:)
    qed
  qed
  moreover have "budget_token v = budget_token w \<longleftrightarrow> v = w"
    using b by (metis sum.inject(2))
  moreover have "list_all (\<lambda>(suffix, m). parse_size_token (show_int n @ suffix) = Inr (n * m))
      size_multipliers"
    unfolding list_all_iff using parse_size_suffix by blast
  ultimately show ?thesis by blast
qed

section \<open>The generated cases\<close>

definition legal_case :: "mcase \<Rightarrow> bool" where
  "legal_case c \<longleftrightarrow>
     \<not> (posix_write_strategy c = ''coalesced'' \<and> file_io_buffer_size c = 0) \<and>
     (receiver_write_profile c = ''default'' \<and> receiver_max_pending_bytes c = 0 \<and>
        receiver_write_yield_policy c = ''none'' \<or>
      receiver_write_profile c = ''bounded'' \<and> receiver_max_pending_bytes c > 0) \<and>
     (data_tls_mode c = ''required'' \<longrightarrow> tls_mode c \<noteq> ''off'')"

definition in_dims :: "dims \<Rightarrow> mcase \<Rightarrow> bool" where
  "in_dims d c \<longleftrightarrow>
     direction c \<in> set (d_directions d) \<and> total_bytes c \<in> set (d_bytes d) \<and>
     connections c \<in> set (d_connections d) \<and> chunk_size c \<in> set (d_chunk_sizes d) \<and>
     buffer_size c \<in> set (d_buffer_sizes d) \<and> checksum c \<in> set (d_checksums d) \<and>
     preallocate c \<in> set (d_preallocates d) \<and> manifest_flush_policy c \<in> set (d_flush_policies d) \<and>
     manifest_flush_interval_chunks c \<in> set (d_flush_intervals d) \<and>
     commit_sync_policy c \<in> set (d_commit_policies d) \<and> file_io_backend c \<in> set (d_backends d) \<and>
     file_io_buffer_size c \<in> set (d_io_buffer_sizes d) \<and>
     posix_write_strategy c \<in> set (d_strategies d) \<and> receiver_write_profile c \<in> set (d_profiles d) \<and>
     receiver_max_pending_bytes c \<in> set (d_pending d) \<and>
     receiver_write_yield_policy c \<in> set (d_yields d) \<and>
     file_io_queue_depth c \<in> set (d_queue_depths d) \<and> file_io_advice c \<in> set (d_advices d) \<and>
     final_verify_policy c \<in> set (d_verifies d) \<and> tls_mode c \<in> set (d_tls d) \<and>
     data_tls_mode c \<in> set (d_data_tls d)"

lemma concat_map_I: "x \<in> set xs \<Longrightarrow> y \<in> set (f x) \<Longrightarrow> y \<in> set (concat (map f xs))"
  by auto

lemma map_I: "x \<in> set xs \<Longrightarrow> y = f x \<Longrightarrow> y \<in> set (map f xs)"
  by auto

lemma combos_set:
  "c \<in> set (combos d) \<longleftrightarrow>
     in_dims d c \<and> index c = 0 \<and> repeat_index c = 0 \<and> file_io_batch_size c = file_io_queue_depth c"
proof
  assume "c \<in> set (combos d)"
  then show "in_dims d c \<and> index c = 0 \<and> repeat_index c = 0 \<and>
      file_io_batch_size c = file_io_queue_depth c"
    unfolding combos_def set_concat set_map in_dims_def by auto
next
  assume a: "in_dims d c \<and> index c = 0 \<and> repeat_index c = 0 \<and>
      file_io_batch_size c = file_io_queue_depth c"
  obtain r0 r1 r2 r3 r4 r5 r6 r7 r8 r9 r10 r11 r12 r13 r14 r15 r16 r17 r18 r19 r20 r21 r22 r23
    where c: "c = \<lparr>index = r0, direction = r1, total_bytes = r2, connections = r3, chunk_size = r4,
      buffer_size = r5, checksum = r6, preallocate = r7, manifest_flush_policy = r8,
      manifest_flush_interval_chunks = r9, commit_sync_policy = r10, final_verify_policy = r11,
      file_io_backend = r12, file_io_buffer_size = r13, file_io_queue_depth = r14,
      file_io_batch_size = r15, file_io_advice = r16, posix_write_strategy = r17,
      receiver_write_profile = r18, receiver_max_pending_bytes = r19,
      receiver_write_yield_policy = r20, tls_mode = r21, data_tls_mode = r22, repeat_index = r23\<rparr>"
    by (cases c)
  show "c \<in> set (combos d)"
    using a unfolding c in_dims_def combos_def mcase.simps
    by (elim conjE) ((rule concat_map_I, assumption)+, rule map_I, assumption, simp)
qed

lemma keep_combo_legal: "keep_combo c \<longleftrightarrow> legal_case c"
  by (auto simp: keep_combo_def legal_case_def is_valid_write_strategy_case_def
      is_valid_receiver_writeback_case_def)

lemma expand_combo_mem:
  "c' \<in> set (expand_combo d c) \<longleftrightarrow>
     (\<exists>bs\<in>set (batch_of d c). \<exists>ri. 0 \<le> ri \<and> ri < d_repeat d \<and>
        c' = c\<lparr>file_io_batch_size := bs, repeat_index := ri\<rparr>)"
  unfolding expand_combo_def set_concat set_map set_upto image_image by fastforce

lemma update_invariant:
  "in_dims d (c\<lparr>file_io_batch_size := bs\<rparr>) = in_dims d c"
  "legal_case (c\<lparr>file_io_batch_size := bs\<rparr>) = legal_case c"
  "batch_of d (c\<lparr>file_io_batch_size := bs\<rparr>) = batch_of d c"
  "in_dims d (c\<lparr>repeat_index := ri\<rparr>) = in_dims d c"
  "legal_case (c\<lparr>repeat_index := ri\<rparr>) = legal_case c"
  "batch_of d (c\<lparr>repeat_index := ri\<rparr>) = batch_of d c"
  "in_dims d (c\<lparr>index := k\<rparr>) = in_dims d c"
  "legal_case (c\<lparr>index := k\<rparr>) = legal_case c"
  "batch_of d (c\<lparr>index := k\<rparr>) = batch_of d c"
  by (simp_all add: in_dims_def legal_case_def batch_of_def split: option.split)

lemma number_cases_mem_iff:
  "(\<exists>k. c\<lparr>index := k\<rparr> \<in> set (number_cases i cs)) \<longleftrightarrow> (\<exists>c0\<in>set cs. \<exists>k. c\<lparr>index := k\<rparr> = c0)"
proof
  assume "\<exists>k. c\<lparr>index := k\<rparr> \<in> set (number_cases i cs)"
  then obtain k j where j: "j < length cs" "c\<lparr>index := k\<rparr> = (cs ! j)\<lparr>index := i + int j\<rparr>"
    by (metis in_set_conv_nth number_cases_length number_cases_nth)
  then have "c\<lparr>index := index (cs ! j)\<rparr> = cs ! j" by (cases c; cases "cs ! j") simp
  with j show "\<exists>c0\<in>set cs. \<exists>k. c\<lparr>index := k\<rparr> = c0" by (metis nth_mem)
next
  assume "\<exists>c0\<in>set cs. \<exists>k. c\<lparr>index := k\<rparr> = c0"
  then obtain k j where j: "j < length cs" "c\<lparr>index := k\<rparr> = cs ! j" by (metis in_set_conv_nth)
  then have "c\<lparr>index := i + int j\<rparr> = number_cases i cs ! j"
    by (simp add: number_cases_nth flip: j(2))
  with j show "\<exists>k. c\<lparr>index := k\<rparr> \<in> set (number_cases i cs)"
    by (metis nth_mem number_cases_length)
qed

definition admitted :: "dims \<Rightarrow> mcase \<Rightarrow> bool" where
  "admitted d c \<longleftrightarrow> in_dims d c \<and> legal_case c \<and> file_io_batch_size c \<in> set (batch_of d c) \<and>
     0 \<le> repeat_index c \<and> repeat_index c < d_repeat d"

lemma cases_of_mem:
  "(\<exists>k. c\<lparr>index := k\<rparr> \<in> set (cases_of d)) \<longleftrightarrow> admitted d c"
proof
  assume "\<exists>k. c\<lparr>index := k\<rparr> \<in> set (cases_of d)"
  then obtain k c0 bs ri where c0: "in_dims d c0" "legal_case c0" "bs \<in> set (batch_of d c0)"
    and ri: "0 \<le> ri" "ri < d_repeat d"
    and "c\<lparr>index := k\<rparr> = c0\<lparr>file_io_batch_size := bs, repeat_index := ri\<rparr>"
    unfolding cases_of_def number_cases_mem_iff
    by (auto simp: expand_combo_mem keep_combo_legal combos_set)
  then have "c = c0\<lparr>file_io_batch_size := bs, repeat_index := ri, index := index c\<rparr>"
    by (cases c; cases c0) simp
  moreover from c0 ri
  have "admitted d (c0\<lparr>file_io_batch_size := bs, repeat_index := ri, index := index c\<rparr>)"
    by (simp add: admitted_def update_invariant)
  ultimately show "admitted d c" by simp
next
  assume a: "admitted d c"
  define c0 where "c0 = c\<lparr>index := 0, repeat_index := 0, file_io_batch_size := file_io_queue_depth c\<rparr>"
  have "c0 \<in> set (filter keep_combo (combos d))"
    using a by (simp add: admitted_def c0_def keep_combo_legal combos_set in_dims_def legal_case_def)
  moreover have "c\<lparr>index := 0\<rparr> \<in> set (expand_combo d c0)"
  proof -
    have "c\<lparr>index := 0\<rparr> = c0\<lparr>file_io_batch_size := file_io_batch_size c, repeat_index := repeat_index c\<rparr>"
      by (cases c) (simp add: c0_def)
    moreover have "batch_of d c0 = batch_of d c"
      by (simp add: batch_of_def c0_def split: option.split)
    ultimately show ?thesis unfolding expand_combo_mem using a by (auto simp: admitted_def)
  qed
  ultimately show "\<exists>k. c\<lparr>index := k\<rparr> \<in> set (cases_of d)"
    unfolding cases_of_def number_cases_mem_iff by auto
qed

text \<open>
  C25: The case generator produces every admitted combination and nothing else. The case at
  position \<open>i\<close> carries index \<open>i\<close> (the ports of a case are derived from it); up to its index, a case
  is in the list exactly when each of its settings is among the values asked for, coalesced writes have a
  buffer, the receiver budget fits the profile, data TLS is only required together with
  control TLS, the batch size is an asked one (the queue depth when none was asked for) and the repeat
  counter is below \<open>--repeat\<close>. All values are in the ranges and choices the server accepts.
\<close>

theorem generated_cases_exact:
  assumes "parse_dims args = Inr d" and "generate_cases args = Inr cs"
  shows "(\<forall>i<length cs. index (cs ! i) = int i) \<and>
    (\<forall>c. (\<exists>k. c\<lparr>index := k\<rparr> \<in> set cs) \<longleftrightarrow> admitted d c) \<and> d_repeat d = a_repeat args \<and>
    (\<forall>c\<in>set cs. direction c \<in> {''stor'', ''retr'', ''stor-resume'', ''retr-resume''} \<and>
       checksum c \<in> {''crc32c'', ''none''} \<and>
       1 \<le> manifest_flush_interval_chunks c \<and> manifest_flush_interval_chunks c \<le> 65536 \<and>
       1 \<le> file_io_queue_depth c \<and> file_io_queue_depth c \<le> 256 \<and>
       1 \<le> file_io_batch_size c \<and> file_io_batch_size c \<le> 256 \<and>
       0 \<le> receiver_max_pending_bytes c \<and> receiver_max_pending_bytes c \<le> 1099511627776)"
proof -
  from assms have cs: "cs = cases_of d" by (simp add: generate_cases_def)
  note ranges = parse_dims_ok [OF assms(1)]
  have "index (cs ! i) = int i" if "i < length cs" for i
    using that by (simp add: cs cases_of_def number_cases_nth)
  moreover have "direction c \<in> {''stor'', ''retr'', ''stor-resume'', ''retr-resume''} \<and>
       checksum c \<in> {''crc32c'', ''none''} \<and>
       1 \<le> manifest_flush_interval_chunks c \<and> manifest_flush_interval_chunks c \<le> 65536 \<and>
       1 \<le> file_io_queue_depth c \<and> file_io_queue_depth c \<le> 256 \<and>
       1 \<le> file_io_batch_size c \<and> file_io_batch_size c \<le> 256 \<and>
       0 \<le> receiver_max_pending_bytes c \<and> receiver_max_pending_bytes c \<le> 1099511627776"
    if "c \<in> set cs" for c
  proof -
    from that have "\<exists>k. c\<lparr>index := k\<rparr> \<in> set (cases_of d)" by (intro exI [of _ "index c"]) (simp add: cs)
    then have "in_dims d c" and "file_io_batch_size c \<in> set (batch_of d c)"
      by (auto simp: cases_of_mem admitted_def)
    with ranges show ?thesis
      by (auto simp: in_dims_def batch_of_def split: option.splits)
  qed
  ultimately show ?thesis using ranges by (auto simp: cs cases_of_mem)
qed

definition smoke_args :: margs where
  "smoke_args = \<lparr>a_smoke = True, a_directions = '''', a_bytes = ''64MiB'', a_connections = '''',
     a_chunk_sizes = '''', a_buffer_sizes = '''', a_checksums = ''CRC32C '', a_preallocates = ''off'',
     a_manifest_flush_policies = '''', a_manifest_flush_policy = ''every_n_chunks'',
     a_manifest_flush_interval_chunks_list = '''', a_manifest_flush_interval_chunks = 256,
     a_commit_sync_policies = '''', a_commit_sync_policy = ''none'', a_file_io_backends = ''posix'',
     a_file_io_buffer_sizes = ''0'', a_file_io_queue_depths = ''1'', a_file_io_batch_sizes = '''',
     a_file_io_advices = ''off'', a_posix_write_strategies = ''auto,coalesced'',
     a_receiver_write_profiles = ''default,bounded'', a_receiver_max_pending_bytes_list = ''0'',
     a_receiver_write_yield_policies = ''none'', a_final_verify_policies = '''',
     a_final_verify_policy = ''full'', a_tls_modes = ''off'', a_data_tls_modes = ''off'', a_repeat = 1,
     a_control_port_base = 21210, a_data_port_base = 20400, a_port_stride = 20\<rparr>"

theorem generated_cases_exact_witness:
  "(\<exists>cs. generate_cases smoke_args = Inr cs \<and> length cs = 4 \<and> index (cs ! 3) = 3 \<and>
      direction (cs ! 3) = ''retr'' \<and> connections (cs ! 3) = 4)"
proof -
  have d: "parse_dims smoke_args = Inr (projr (parse_dims smoke_args))" by code_simp
  have g: "generate_cases smoke_args = Inr (projr (generate_cases smoke_args))" by code_simp
  have l: "length (projr (generate_cases smoke_args)) = 4" by code_simp
  have "direction (projr (generate_cases smoke_args) ! 3) = ''retr'' \<and>
      connections (projr (generate_cases smoke_args) ! 3) = 4" by code_simp
  with generated_cases_exact [OF d g] g l show ?thesis by auto
qed

end
