(* ===== verification/Py_Shell.thy ===== *)
theory Py_Shell
  imports Py_Strings
begin

text \<open>
  Shell quoting, \<open>shlex.quote\<close>, which the matrix client and the release gates apply to what they
  send to a shell on the other machine. That the shell reads the quoted text back is shown with
  the command lines of the matrix client.
\<close>

definition shell_safe :: "char \<Rightarrow> bool" where
  \<comment> \<open>the characters \<open>shlex.quote\<close> leaves alone: \<open>[a-zA-Z0-9_@%+=:,./-]\<close>\<close>
  "shell_safe c \<longleftrightarrow> is_digit c \<or> is_upper c \<or> is_lower c \<or> c \<in> set ''_@%+=:,./-''"

definition single_quote :: char where "single_quote = CHR 0x27"

definition double_quote :: char where "double_quote = CHR 0x22"

definition shlex_quote :: "string \<Rightarrow> string" where
  "shlex_quote s =
     (if s = '''' then [single_quote, single_quote]
      else if list_all shell_safe s then s
      else [single_quote]
           @ py_replace [single_quote]
               [single_quote, double_quote, single_quote, double_quote, single_quote] s
           @ [single_quote])"

end
