(* ===== verification/Control_Client.thy ===== *)
theory Control_Client
  imports Matrix_Cases Py_Regex Py_Json Py_Shell
begin

text \<open>
  Model of the control-channel client of tools/perf/run_gridftp_private_matrix.py (the demo,
  tools/demo/run_alpha_demo.py, has the same reply reader): reading lines and multi-line replies
  from a TCP stream that arrives in arbitrary pieces, the login, \<open>EPSV\<close>, \<open>STOR\<close>, \<open>RETR\<close> and
  \<open>REST\<close> dialogues, the command lines of the data clients on the other machine, and the shell
  quoting they rely on. The outside world is a state: what the socket will deliver, how the
  next commands on the other machine end, and the trace of everything done so far.
\<close>

section \<open>The world\<close>

datatype recv_item = Data string | Stall

datatype attempt = Expired | Refused string | Accepted bool "recv_item list"

datatype event =
    Connected string int
  | Sent string
  | Reply "string list"
  | Ran "string list" "(string \<times> string) list" string
  | Closed

type_synonym completed = "int \<times> string \<times> string"

text \<open>
  \<open>attempts\<close>: how the next connection attempts end (the flag of an accepted one says whether a
  TLS handshake would succeed); \<open>send_results\<close>: whether the next \<open>sendall\<close> calls succeed;
  \<open>run_results\<close>: return code, stdout and stderr of the next remote commands, \<open>None\<close> for one
  that exceeds its time limit.
\<close>

record world =
  environ :: "(string, string) pydict"
  attempts :: "attempt list"
  send_results :: "bool list"
  run_results :: "completed option list"
  inbox :: "recv_item list"
  pending :: string
  events :: "event list"

record rargs = margs +
  a_server_host :: string
  a_remote :: string
  a_local_build_dir :: string
  a_remote_build_dir :: string
  a_checksum_backend :: string
  a_tls_cert_file :: string
  a_tls_key_file :: string
  a_tls_ca_file :: string
  a_remote_tls_ca_file :: string
  a_max_chunks :: int

definition log_event :: "event \<Rightarrow> (world, unit) act" where
  "log_event e w = (Inr (), w\<lparr>events := events w @ [e]\<rparr>)"

section \<open>Lines and replies\<close>

definition closed_error :: py_error where
  "closed_error = RuntimeError ''control connection closed''"

definition split_line :: "string \<Rightarrow> string \<times> string" where
  "split_line buf =
     (takeWhile (\<lambda>c. c \<noteq> newline) buf, tl (dropWhile (\<lambda>c. c \<noteq> newline) buf))"

definition line_text :: "string \<Rightarrow> string" where
  "line_text raw = rstrip_chars (\<lambda>c. c = carriage_return \<or> c = newline) (utf8_replace (raw @ [newline]))"

fun read_line :: "recv_item list \<Rightarrow> string \<Rightarrow> string res \<times> recv_item list \<times> string" where
  "read_line items buf =
     (if newline \<in> set buf
      then (let (raw, rest) = split_line buf in (Inr (line_text raw), items, rest))
      else (case items of
              [] \<Rightarrow> (Inl closed_error, [], buf)
            | Stall # later \<Rightarrow> (Inl (OSError ''timed out''), later, buf)
            | Data chunk # later \<Rightarrow>
                (if chunk = '''' then (Inl closed_error, later, buf)
                 else read_line later (buf @ chunk))))"

declare read_line.simps [simp del]

fun item_size :: "recv_item \<Rightarrow> nat" where
  "item_size (Data chunk) = length chunk"
| "item_size Stall = 0"

definition stream_size :: "recv_item list \<Rightarrow> string \<Rightarrow> nat" where
  "stream_size items buf = length buf + sum_list (map item_size items)"

lemma split_line_size:
  "newline \<in> set buf \<Longrightarrow> length (snd (split_line buf)) < length buf"
proof -
  assume "newline \<in> set buf"
  then have "dropWhile (\<lambda>c. c \<noteq> newline) buf \<noteq> []" by (auto simp: dropWhile_eq_Nil_conv)
  then have "length (tl (dropWhile (\<lambda>c. c \<noteq> newline) buf)) < length (dropWhile (\<lambda>c. c \<noteq> newline) buf)"
    by simp
  also have "\<dots> \<le> length buf" by (rule length_dropWhile_le)
  finally show ?thesis by (simp add: split_line_def)
qed

lemma read_line_smaller:
  "read_line items buf = (Inr l, items', buf') \<Longrightarrow> stream_size items' buf' < stream_size items buf"
proof (induction items buf rule: read_line.induct)
  case (1 items buf)
  then show ?case
    using split_line_size [of buf]
    by (subst (asm) read_line.simps)
      (fastforce simp: stream_size_def split: if_splits list.splits recv_item.splits prod.splits)
qed

function read_continued :: "string \<Rightarrow> recv_item list \<Rightarrow> string \<Rightarrow> string list res \<times> recv_item list \<times> string" where
  "read_continued expected items buf =
     (case read_line items buf of
        (Inl e, items', buf') \<Rightarrow> (Inl e, items', buf')
      | (Inr l, items', buf') \<Rightarrow>
          (if starts_with expected l then (Inr [l], items', buf')
           else (case read_continued expected items' buf' of
                   (Inl e, st) \<Rightarrow> (Inl e, st)
                 | (Inr ls, st) \<Rightarrow> (Inr (l # ls), st))))"
  by pat_completeness auto
termination
  by (relation "measure (\<lambda>(_, items, buf). stream_size items buf)") (auto intro: read_line_smaller [OF sym])

declare read_continued.simps [simp del]

definition is_multiline :: "string \<Rightarrow> bool" where
  "is_multiline first \<longleftrightarrow> length first \<ge> 4 \<and> py_isdigit (take 3 first) \<and> first ! 3 = CHR ''-''"

definition read_reply :: "recv_item list \<Rightarrow> string \<Rightarrow> string list res \<times> recv_item list \<times> string" where
  "read_reply items buf =
     (case read_line items buf of
        (Inl e, st) \<Rightarrow> (Inl e, st)
      | (Inr first, items', buf') \<Rightarrow>
          (if is_multiline first
           then (case read_continued (take 3 first @ '' '') items' buf' of
                   (Inl e, st) \<Rightarrow> (Inl e, st)
                 | (Inr ls, st) \<Rightarrow> (Inr (first # ls), st))
           else (Inr [first], items', buf')))"

definition reply_code :: "string list \<Rightarrow> int" where
  "reply_code lines =
     (case lines of
        [] \<Rightarrow> 0
      | first # _ \<Rightarrow> (if length first \<ge> 3 \<and> py_isdigit (take 3 first)
                     then int (digits_value (take 3 first)) else 0))"

definition repr_lines :: "string list \<Rightarrow> string" where
  "repr_lines lines = py_repr (JArr (map JStr lines))"

definition epsv_rx :: rx where
  "epsv_rx = Seq (rx_lit ''(|||'') (Seq (Grp 1 (rx_plus (Cls is_digit))) (rx_lit ''|)''))"

definition parse_epsv_port :: "string list \<Rightarrow> int res" where
  "parse_epsv_port lines =
     (case re_group epsv_rx 1 (join [newline] lines) of
        None \<Rightarrow> Inl (RuntimeError (''failed to parse EPSV port from '' @ repr_lines lines))
      | Some digits \<Rightarrow> int_or_raise digits)"

definition id_char :: "char \<Rightarrow> bool" where
  "id_char c \<longleftrightarrow> is_digit c \<or> is_upper c \<or> is_lower c \<or> c \<in> set ''._-''"

definition transfer_id_rx :: rx where
  "transfer_id_rx = Seq (rx_lit ''transfer_id=GFID:'') (Seq (Grp 1 (rx_plus (Cls id_char))) Eps)"

definition parse_transfer_id :: "string list \<Rightarrow> string res" where
  "parse_transfer_id lines =
     (case re_group transfer_id_rx 1 (join [newline] lines) of
        None \<Rightarrow> Inl (RuntimeError (''failed to parse transfer id from '' @ repr_lines lines))
      | Some tid \<Rightarrow> Inr tid)"

section \<open>Connections\<close>

definition recv_reply :: "(world, string list) act" where
  "recv_reply w =
     (case read_reply (inbox w) (pending w) of
        (Inl e, items, buf) \<Rightarrow> (Inl e, w\<lparr>inbox := items, pending := buf\<rparr>)
      | (Inr ls, items, buf) \<Rightarrow>
          (Inr ls, w\<lparr>inbox := items, pending := buf, events := events w @ [Reply ls]\<rparr>))"

definition sendall :: "string \<Rightarrow> (world, unit) act" where
  "sendall data w =
     (case send_results w of
        False # later \<Rightarrow> (Inl (OSError ''Broken pipe''), w\<lparr>send_results := later\<rparr>)
      | True # later \<Rightarrow> (Inr (), w\<lparr>send_results := later, events := events w @ [Sent data]\<rparr>)
      | [] \<Rightarrow> (Inr (), w\<lparr>events := events w @ [Sent data]\<rparr>))"

definition send :: "string \<Rightarrow> (world, string list) act" where
  "send command =
     act_bind (sendall (command @ [carriage_return, newline])) (\<lambda>_. recv_reply)"

fun take_attempts :: "string \<Rightarrow> attempt list \<Rightarrow> (py_error + bool \<times> recv_item list) \<times> attempt list" where
  \<comment> \<open>the retry loop; \<open>Expired\<close> is the deadline\<close>
  "take_attempts last_error [] = (Inl (RuntimeError (''failed to connect control server: '' @ last_error)), [])"
| "take_attempts last_error (Expired # as) =
     (Inl (RuntimeError (''failed to connect control server: '' @ last_error)), as)"
| "take_attempts last_error (Refused message # as) = take_attempts message as"
| "take_attempts last_error (Accepted tls_ok items # as) = (Inr (tls_ok, items), as)"

definition connect_control :: "string \<Rightarrow> int \<Rightarrow> (world, bool) act" where
  "connect_control host port w =
     (case take_attempts ''None'' (attempts w) of
        (Inl e, as) \<Rightarrow> (Inl e, w\<lparr>attempts := as\<rparr>)
      | (Inr (tls_ok, items), as) \<Rightarrow>
          (Inr tls_ok, w\<lparr>attempts := as, inbox := items, pending := '''',
                         events := events w @ [Connected host port]\<rparr>))"

definition expect_reply :: "int \<Rightarrow> string \<Rightarrow> string list \<Rightarrow> (world, unit) act" where
  \<comment> \<open>\<open>if reply_code(reply) != expected: raise RuntimeError(f"...: {reply!r}")\<close>\<close>
  "expect_reply expected message reply =
     act_when (reply_code reply \<noteq> expected) (act_raise (RuntimeError (message @ '': '' @ repr_lines reply)))"

definition open_control :: "string \<Rightarrow> int \<Rightarrow> string \<Rightarrow> (world, unit) act" where
  "open_control host port tls =
     act_bind (connect_control host port) (\<lambda>tls_ok.
     act_bind (act_when (tls = ''required'' \<and> \<not> tls_ok) (act_raise (OSError ''TLS handshake''))) (\<lambda>_.
     act_bind recv_reply (\<lambda>greeting.
     expect_reply 220 ''unexpected greeting'' greeting)))"

definition close_control :: "(world, unit) act" where
  "close_control = log_event Closed"

definition login_type_i :: "(world, unit) act" where
  "login_type_i =
     act_bind (send ''USER gridflux'') (\<lambda>user.
     act_bind (expect_reply 331 ''USER failed'' user) (\<lambda>_.
     act_bind (send ''PASS gridflux'') (\<lambda>password.
     act_bind (expect_reply 230 ''PASS failed'' password) (\<lambda>_.
     act_bind (send ''TYPE I'') (\<lambda>type_i.
     expect_reply 200 ''TYPE I failed'' type_i)))))"

definition quit :: "(world, unit) act" where
  "quit =
     act_catch (act_bind (send ''QUIT'') (\<lambda>_. act_ret ()))
       (\<lambda>e. case e of RuntimeError _ \<Rightarrow> act_ret () | _ \<Rightarrow> act_raise e)"

definition login_control :: "'a rargs_scheme \<Rightarrow> mcase \<Rightarrow> (world, unit) act" where
  "login_control args c =
     act_bind (open_control (a_server_host args) (control_port args (index c)) (tls_mode c)) (\<lambda>_.
     login_type_i)"

definition open_epsv :: "(world, int) act" where
  "open_epsv =
     act_bind (send ''EPSV'') (\<lambda>epsv.
     act_bind (expect_reply 229 ''EPSV failed'' epsv) (\<lambda>_.
     act_lift (parse_epsv_port epsv)))"

section \<open>Commands on the other machine\<close>

definition env_value :: "(string, string) pydict \<Rightarrow> string \<Rightarrow> string" where
  "env_value env name = dict_get env name ''''"

definition ssh_prefix :: "(string, string) pydict \<Rightarrow> string \<Rightarrow> string list" where
  "ssh_prefix env remote =
     (if env_value env ''GRIDFLUX_SSH_PASSWORD'' \<noteq> ''''
      then [''sshpass'', ''-e'', ''ssh'', ''-o'', ''StrictHostKeyChecking=no'', remote]
      else [''ssh'', ''-o'', ''StrictHostKeyChecking=no'', remote])"

definition remote_env :: "(string, string) pydict \<Rightarrow> (string, string) pydict" where
  "remote_env env =
     (if env_value env ''GRIDFLUX_SSH_PASSWORD'' \<noteq> '''' \<and> env_value env ''SSHPASS'' = ''''
      then dict_set ''SSHPASS'' (env_value env ''GRIDFLUX_SSH_PASSWORD'') env else env)"

definition run_remote :: "string \<Rightarrow> string \<Rightarrow> string \<Rightarrow> bool \<Rightarrow> (world, completed) act" where
  \<comment> \<open>command, standard input and \<open>check\<close>\<close>
  "run_remote remote command input_text check w =
     (let w1 = w\<lparr>events := events w @ [Ran (ssh_prefix (environ w) remote @ [command]) (remote_env (environ w)) input_text],
                 run_results := tl (run_results w)\<rparr>
      in case run_results w of
           Some (rc, out, err) # _ \<Rightarrow>
             (if check \<and> rc \<noteq> 0 then (Inl (RuntimeError (out @ err)), w1) else (Inr (rc, out, err), w1))
         | _ \<Rightarrow> (Inl TimeoutExpired, w1))"

definition upload_pieces ::
  "'a rargs_scheme \<Rightarrow> mcase \<Rightarrow> string \<Rightarrow> int \<Rightarrow> string \<Rightarrow> string \<Rightarrow> bool \<Rightarrow> int option \<Rightarrow> string list" where
  "upload_pieces args c source data_port transfer_id event_log resume max_chunks =
     [shlex_quote (rstrip_chars (\<lambda>x. x = CHR ''/'') (a_remote_build_dir args) @ ''/gridflux-file-client''),
      ''--host'', shlex_quote (a_server_host args), ''--port'', show_int data_port,
      ''--input'', shlex_quote source, ''--connections'', show_int (connections c),
      ''--chunk-size'', show_int (chunk_size c), ''--buffer-size'', show_int (buffer_size c),
      ''--checksum'', shlex_quote (checksum c),
      ''--checksum-backend'', shlex_quote (a_checksum_backend args),
      ''--transfer-id'', shlex_quote transfer_id,
      ''--file-io-backend'', shlex_quote (file_io_backend c),
      ''--file-io-buffer-size'', show_int (file_io_buffer_size c),
      ''--file-io-queue-depth'', show_int (file_io_queue_depth c),
      ''--file-io-batch-size'', show_int (file_io_batch_size c),
      ''--file-io-advice'', shlex_quote (file_io_advice c),
      ''--posix-write-strategy'', shlex_quote (posix_write_strategy c),
      ''--event-log'', shlex_quote event_log]
     @ (if data_tls_mode c = ''required''
        then [''--data-tls-mode'', ''required'', ''--tls-ca-file'', shlex_quote (a_remote_tls_ca_file args)]
        else [])
     @ (if resume then [''--resume''] else [])
     @ (case max_chunks of None \<Rightarrow> [] | Some n \<Rightarrow> [''--max-chunks'', show_int n])"

definition download_pieces ::
  "'a rargs_scheme \<Rightarrow> mcase \<Rightarrow> string \<Rightarrow> int \<Rightarrow> string \<Rightarrow> string \<Rightarrow> bool \<Rightarrow> int option \<Rightarrow> string list" where
  "download_pieces args c output data_port transfer_id event_log resume max_chunks =
     [shlex_quote (rstrip_chars (\<lambda>x. x = CHR ''/'') (a_remote_build_dir args)
        @ ''/gridflux-file-download-client''),
      ''--host'', shlex_quote (a_server_host args), ''--port'', show_int data_port,
      ''--output'', shlex_quote output, ''--connections'', show_int (connections c),
      ''--buffer-size'', show_int (buffer_size c), ''--checksum'', shlex_quote (checksum c),
      ''--checksum-backend'', shlex_quote (a_checksum_backend args),
      ''--transfer-id'', shlex_quote transfer_id,
      ''--manifest-flush-policy'', shlex_quote (manifest_flush_policy c),
      ''--manifest-flush-interval-chunks'', show_int (manifest_flush_interval_chunks c),
      ''--commit-sync-policy'', shlex_quote (commit_sync_policy c),
      ''--final-verify-policy'', shlex_quote (final_verify_policy c),
      ''--preallocate'', shlex_quote (preallocate c),
      ''--file-io-backend'', shlex_quote (file_io_backend c),
      ''--file-io-buffer-size'', show_int (file_io_buffer_size c),
      ''--file-io-queue-depth'', show_int (file_io_queue_depth c),
      ''--file-io-batch-size'', show_int (file_io_batch_size c),
      ''--file-io-advice'', shlex_quote (file_io_advice c),
      ''--posix-write-strategy'', shlex_quote (posix_write_strategy c),
      ''--event-log'', shlex_quote event_log]
     @ (if data_tls_mode c = ''required''
        then [''--data-tls-mode'', ''required'', ''--tls-ca-file'', shlex_quote (a_remote_tls_ca_file args)]
        else [])
     @ (if resume then [''--resume''] else [])
     @ (case max_chunks of None \<Rightarrow> [] | Some n \<Rightarrow> [''--max-chunks'', show_int n])"

definition run_upload_client ::
  "'a rargs_scheme \<Rightarrow> mcase \<Rightarrow> string \<Rightarrow> int \<Rightarrow> string \<Rightarrow> string \<Rightarrow> bool \<Rightarrow> int option \<Rightarrow> (world, completed) act" where
  "run_upload_client args c source data_port transfer_id event_log resume max_chunks =
     run_remote (a_remote args)
       (join '' '' (upload_pieces args c source data_port transfer_id event_log resume max_chunks)) '''' False"

definition run_download_client ::
  "'a rargs_scheme \<Rightarrow> mcase \<Rightarrow> string \<Rightarrow> int \<Rightarrow> string \<Rightarrow> string \<Rightarrow> bool \<Rightarrow> int option \<Rightarrow> (world, completed) act" where
  "run_download_client args c output data_port transfer_id event_log resume max_chunks =
     run_remote (a_remote args)
       (join '' '' (download_pieces args c output data_port transfer_id event_log resume max_chunks)) '''' False"

definition cleanup_command :: "string \<Rightarrow> string" where
  "cleanup_command path =
     (let quoted = shlex_quote path in
      ''rm -rf '' @ quoted @ '' '' @ quoted @ ''.part.* '' @ quoted @ ''.gridflux.download.manifest ''
      @ quoted @ ''.gridflux.manifest'')"

definition cleanup_remote_paths :: "'a rargs_scheme \<Rightarrow> string list \<Rightarrow> (world, unit) act" where
  "cleanup_remote_paths args paths =
     (let commands = map cleanup_command (filter (\<lambda>path. path \<noteq> '''') paths) in
      act_when (commands \<noteq> [])
        (act_bind (run_remote (a_remote args) (join '' ; '' commands) '''' False) (\<lambda>_. act_ret ())))"

section \<open>Transfers\<close>

text \<open>
  The four dialogues of the source are two pairs of textually parallel functions; \<open>verb\<close> is
  \<open>STOR\<close> or \<open>RETR\<close> and \<open>client\<close> the data client of that direction.
\<close>

type_synonym data_client =
  "int \<Rightarrow> string \<Rightarrow> bool \<Rightarrow> int option \<Rightarrow> (world, completed) act"

definition start_transfer :: "string \<Rightarrow> string \<Rightarrow> (world, int \<times> string) act" where
  "start_transfer verb name =
     act_bind open_epsv (\<lambda>data_port.
     act_bind (send (verb @ '' '' @ name)) (\<lambda>reply.
     act_bind (expect_reply 150 (verb @ '' failed'') reply) (\<lambda>_.
     act_bind (act_lift (parse_transfer_id reply)) (\<lambda>transfer_id.
     act_ret (data_port, transfer_id)))))"

definition transfer_once ::
  "'a rargs_scheme \<Rightarrow> mcase \<Rightarrow> string \<Rightarrow> string \<Rightarrow> data_client \<Rightarrow> (world, string \<times> string) act" where
  "transfer_once args c verb name client =
     act_bind (login_control args c) (\<lambda>_.
     act_finally
       (act_bind (start_transfer verb name) (\<lambda>(data_port, transfer_id).
        act_bind (client data_port transfer_id False None) (\<lambda>(rc, out, err).
        act_bind (act_when (rc \<noteq> 0) (act_raise (RuntimeError (out @ err)))) (\<lambda>_.
        act_bind recv_reply (\<lambda>final.
        act_bind (expect_reply 226 (verb @ '' completion failed'') final) (\<lambda>_.
        act_bind quit (\<lambda>_.
        act_ret (transfer_id, out @ err))))))))
       close_control)"

definition partial_transfer ::
  "'a rargs_scheme \<Rightarrow> mcase \<Rightarrow> string \<Rightarrow> string \<Rightarrow> data_client \<Rightarrow> (world, string \<times> string) act" where
  \<comment> \<open>the first half of a resume: a run cut off after \<open>--max-chunks\<close>\<close>
  "partial_transfer args c verb name client =
     act_bind (login_control args c) (\<lambda>_.
     act_finally
       (act_bind (start_transfer verb name) (\<lambda>(data_port, transfer_id).
        act_bind (client data_port transfer_id False (Some (a_max_chunks args))) (\<lambda>(rc, out, err).
        act_bind (act_when (rc = 0)
          (act_raise (RuntimeError (''partial '' @ verb @ '' unexpectedly succeeded'')))) (\<lambda>_.
        act_bind recv_reply (\<lambda>failed.
        act_bind (expect_reply 550 (''partial '' @ verb @ '' expected 550'') failed) (\<lambda>_.
        act_ret (transfer_id, out @ err)))))))
       close_control)"

definition resume_error :: "string \<Rightarrow> string list \<Rightarrow> py_error" where
  "resume_error verb reply = RuntimeError (''resume '' @ verb @ '' failed: '' @ repr_lines reply)"

definition restart_transfer :: "string \<Rightarrow> string \<Rightarrow> string \<Rightarrow> (world, int) act" where
  "restart_transfer verb name transfer_id =
     act_bind (send (''REST GFID:'' @ transfer_id)) (\<lambda>rest.
     act_bind (expect_reply 350 ''REST failed'' rest) (\<lambda>_.
     act_bind open_epsv (\<lambda>data_port.
     act_bind (send (verb @ '' '' @ name)) (\<lambda>reply.
     act_bind (if reply_code reply \<noteq> 150 then act_raise (resume_error verb reply)
               else act_bind (act_lift (parse_transfer_id reply)) (\<lambda>again.
                 act_when (again \<noteq> transfer_id) (act_raise (resume_error verb reply)))) (\<lambda>_.
     act_ret data_port)))))"

definition resumed_transfer ::
  "'a rargs_scheme \<Rightarrow> mcase \<Rightarrow> string \<Rightarrow> string \<Rightarrow> data_client \<Rightarrow> string \<Rightarrow> string \<Rightarrow> (world, string \<times> string) act" where
  "resumed_transfer args c verb name client transfer_id client_text =
     act_bind (login_control args c) (\<lambda>_.
     act_finally
       (act_bind (restart_transfer verb name transfer_id) (\<lambda>data_port.
        act_bind (client data_port transfer_id True None) (\<lambda>(rc, out, err).
        act_bind (act_when (rc \<noteq> 0) (act_raise (RuntimeError (out @ err)))) (\<lambda>_.
        act_bind recv_reply (\<lambda>final.
        act_bind (expect_reply 226 (''resume '' @ verb @ '' completion failed'') final) (\<lambda>_.
        act_bind quit (\<lambda>_.
        act_ret (transfer_id, client_text @ out @ err))))))))
       close_control)"

definition transfer_resume ::
  "'a rargs_scheme \<Rightarrow> mcase \<Rightarrow> string \<Rightarrow> string \<Rightarrow> data_client \<Rightarrow> (world, string \<times> string) act" where
  "transfer_resume args c verb name client =
     act_bind (partial_transfer args c verb name client) (\<lambda>(transfer_id, client_text).
     resumed_transfer args c verb name client transfer_id client_text)"

definition run_stor_once ::
  "'a rargs_scheme \<Rightarrow> mcase \<Rightarrow> string \<Rightarrow> string \<Rightarrow> string \<Rightarrow> (world, string \<times> string) act" where
  "run_stor_once args c remote_source output_name client_event_log =
     transfer_once args c ''STOR'' output_name
       (\<lambda>port tid. run_upload_client args c remote_source port tid client_event_log)"

definition run_stor_resume ::
  "'a rargs_scheme \<Rightarrow> mcase \<Rightarrow> string \<Rightarrow> string \<Rightarrow> string \<Rightarrow> (world, string \<times> string) act" where
  "run_stor_resume args c remote_source output_name client_event_log =
     transfer_resume args c ''STOR'' output_name
       (\<lambda>port tid. run_upload_client args c remote_source port tid client_event_log)"

definition run_retr_once ::
  "'a rargs_scheme \<Rightarrow> mcase \<Rightarrow> string \<Rightarrow> string \<Rightarrow> string \<Rightarrow> (world, string \<times> string) act" where
  "run_retr_once args c source_name remote_output client_event_log =
     transfer_once args c ''RETR'' source_name
       (\<lambda>port tid. run_download_client args c remote_output port tid client_event_log)"

definition run_retr_resume ::
  "'a rargs_scheme \<Rightarrow> mcase \<Rightarrow> string \<Rightarrow> string \<Rightarrow> string \<Rightarrow> (world, string \<times> string) act" where
  "run_retr_resume args c source_name remote_output client_event_log =
     transfer_resume args c ''RETR'' source_name
       (\<lambda>port tid. run_download_client args c remote_output port tid client_event_log)"

definition server_command :: "'a rargs_scheme \<Rightarrow> mcase \<Rightarrow> string \<Rightarrow> string \<Rightarrow> string \<Rightarrow> string list" where
  \<comment> \<open>the argument vector \<open>start_control_server\<close> spawns\<close>
  "server_command args c server_bin root server_event_log =
     [server_bin, ''--host'', a_server_host args, ''--port'', show_int (control_port args (index c)),
      ''--root'', root, ''--data-port-base'', show_int (data_port_base args (index c)),
      ''--connections'', show_int (connections c), ''--chunk-size'', show_int (chunk_size c),
      ''--buffer-size'', show_int (buffer_size c), ''--checksum'', checksum c,
      ''--checksum-backend'', a_checksum_backend args,
      ''--manifest-flush-policy'', manifest_flush_policy c,
      ''--manifest-flush-interval-chunks'', show_int (manifest_flush_interval_chunks c),
      ''--commit-sync-policy'', commit_sync_policy c, ''--final-verify-policy'', final_verify_policy c,
      ''--preallocate'', preallocate c, ''--file-io-backend'', file_io_backend c,
      ''--file-io-buffer-size'', show_int (file_io_buffer_size c),
      ''--file-io-queue-depth'', show_int (file_io_queue_depth c),
      ''--file-io-batch-size'', show_int (file_io_batch_size c),
      ''--file-io-advice'', file_io_advice c, ''--posix-write-strategy'', posix_write_strategy c,
      ''--receiver-write-profile'', receiver_write_profile c,
      ''--receiver-max-pending-bytes'', show_int (receiver_max_pending_bytes c),
      ''--receiver-write-yield-policy'', receiver_write_yield_policy c,
      ''--event-log'', server_event_log]
     @ (if tls_mode c = ''required''
        then [''--tls-mode'', ''required'', ''--tls-cert-file'', a_tls_cert_file args,
              ''--tls-key-file'', a_tls_key_file args] else [])
     @ (if data_tls_mode c = ''required'' then [''--data-tls-mode'', ''required''] else [])"

section \<open>The shell reads back what was quoted\<close>

text \<open>
  The part of the POSIX shell grammar a quoted command line uses: words separated by blanks,
  made of safe characters, single quotes and double quotes without expansions. Anything the
  shell would interpret (operators, globs, variables, comments) has no reading here. Neither has a
  line whose first word starts with an unquoted name and an equals sign: the shell takes it for an
  assignment and the next word for the command. The shell is not part of the repository; the
  reader stands for what the POSIX standard says of it.
\<close>

datatype quoting = Plain | InSingle | InDouble

fun sh_scan :: "quoting \<Rightarrow> string option \<Rightarrow> string \<Rightarrow> string list option" where
  \<comment> \<open>the word begun so far, if any\<close>
  "sh_scan Plain word [] = Some (case word of None \<Rightarrow> [] | Some w \<Rightarrow> [w])"
| "sh_scan Plain word (c # cs) =
     (if c = CHR '' ''
      then map_option (\<lambda>ws. (case word of None \<Rightarrow> [] | Some w \<Rightarrow> [w]) @ ws) (sh_scan Plain None cs)
      else if c = single_quote then sh_scan InSingle (Some (case word of None \<Rightarrow> '''' | Some w \<Rightarrow> w)) cs
      else if c = double_quote then sh_scan InDouble (Some (case word of None \<Rightarrow> '''' | Some w \<Rightarrow> w)) cs
      else if shell_safe c then sh_scan Plain (Some ((case word of None \<Rightarrow> '''' | Some w \<Rightarrow> w) @ [c])) cs
      else None)"
| "sh_scan InSingle word [] = None"
| "sh_scan InSingle word (c # cs) =
     (if c = single_quote then sh_scan Plain word cs
      else sh_scan InSingle (map_option (\<lambda>w. w @ [c]) word) cs)"
| "sh_scan InDouble word [] = None"
| "sh_scan InDouble word (c # cs) =
     (if c = double_quote then sh_scan Plain word cs
      else if c \<in> {CHR ''$'', CHR 0x60, CHR 0x5C} then None
      else sh_scan InDouble (map_option (\<lambda>w. w @ [c]) word) cs)"

definition sh_words :: "string \<Rightarrow> string list option" where
  "sh_words s = sh_scan Plain None s"

definition name_char :: "char \<Rightarrow> bool" where
  "name_char c \<longleftrightarrow> is_digit c \<or> is_upper c \<or> is_lower c \<or> c = CHR ''_''"

definition assignment_prefix :: "string \<Rightarrow> bool" where
  \<comment> \<open>the text starts with \<open>NAME=\<close>; the characters of a name are unquoted ones\<close>
  "assignment_prefix s \<longleftrightarrow>
     (let name = takeWhile (\<lambda>c. c \<noteq> CHR ''='') s in
      name \<noteq> '''' \<and> list_all name_char name \<and> \<not> is_digit (hd name) \<and> length name < length s)"

definition sh_command :: "string \<Rightarrow> string list option" where
  \<comment> \<open>the command and the arguments a command line without redirections or assignments starts\<close>
  "sh_command s = (if assignment_prefix (dropWhile (\<lambda>c. c = CHR '' '') s) then None else sh_words s)"

lemma quote_chars_not_safe:
  "\<not> shell_safe single_quote" "\<not> shell_safe double_quote" "\<not> shell_safe CHR '' ''"
  "single_quote \<noteq> CHR '' ''" "double_quote \<noteq> CHR '' ''" "double_quote \<noteq> single_quote"
  by (simp_all add: shell_safe_def char_class_defs single_quote_def double_quote_def)

lemma sh_scan_safe:
  "list_all shell_safe s \<Longrightarrow> sh_scan Plain (Some w) (s @ rest) = sh_scan Plain (Some (w @ s)) rest"
proof (induction s arbitrary: w)
  case (Cons c s)
  then have "shell_safe c" by simp
  then have "c \<noteq> CHR '' ''" "c \<noteq> single_quote" "c \<noteq> double_quote"
    using quote_chars_not_safe by auto
  with Cons show ?case by simp
qed simp

lemma sh_scan_safe_start:
  assumes "list_all shell_safe s" and "s \<noteq> ''''"
  shows "sh_scan Plain None (s @ rest) = sh_scan Plain (Some s) rest"
proof -
  obtain c t where s: "s = c # t" using assms(2) by (cases s) auto
  then have "c \<noteq> CHR '' ''" "c \<noteq> single_quote" "c \<noteq> double_quote" "shell_safe c"
    using assms quote_chars_not_safe by auto
  then show ?thesis using assms sh_scan_safe [of t "[c]" rest] by (simp add: s)
qed

lemma sh_scan_escaped:
  "sh_scan InSingle (Some w)
     (py_replace [single_quote] [single_quote, double_quote, single_quote, double_quote, single_quote] s
      @ single_quote # rest) = sh_scan Plain (Some (w @ s)) rest"
proof (induction s arbitrary: w)
  case Nil
  then show ?case by (simp add: py_replace.simps)
next
  case (Cons c s)
  show ?case
  proof (cases "c = single_quote")
    case True
    then show ?thesis
      using Cons [of "w @ [single_quote]"] quote_chars_not_safe
      by (subst py_replace.simps) (simp add: double_quote_def single_quote_def)
  next
    case False
    then show ?thesis
      using Cons [of "w @ [c]"] by (subst py_replace.simps) simp
  qed
qed

lemma sh_scan_quote: "sh_scan Plain None (shlex_quote s @ rest) = sh_scan Plain (Some s) rest"
proof (cases "s = ''''")
  case True
  then show ?thesis using quote_chars_not_safe by (simp add: shlex_quote_def)
next
  case False
  then show ?thesis
    using sh_scan_safe_start [of s rest] sh_scan_escaped [of "''''" s rest] quote_chars_not_safe
    by (simp add: shlex_quote_def)
qed

lemma sh_words_quote: "sh_words (join '' '' (map shlex_quote ws)) = Some ws"
proof (induction ws)
  case Nil
  then show ?case by (simp add: sh_words_def)
next
  case (Cons w ws)
  show ?case
  proof (cases ws)
    case Nil
    then show ?thesis using sh_scan_quote [of w "''''"] by (simp add: sh_words_def)
  next
    case (Cons v vs)
    then show ?thesis
      using Cons.IH sh_scan_quote [of w "'' '' @ join '' '' (map shlex_quote ws)"]
      by (simp add: sh_words_def)
  qed
qed

lemma quoted_head: "\<exists>c t. shlex_quote w = c # t \<and> c \<noteq> CHR '' ''"
proof (cases "w \<noteq> '''' \<and> list_all shell_safe w")
  case True
  then obtain c t where "w = c # t" "shell_safe c" by (cases w) auto
  then show ?thesis using True quote_chars_not_safe by (auto simp: shlex_quote_def)
next
  case False
  then show ?thesis using quote_chars_not_safe by (auto simp: shlex_quote_def)
qed

lemma assignment_quoted: "assignment_prefix (shlex_quote w) \<longleftrightarrow> list_all shell_safe w \<and> assignment_prefix w"
proof -
  have "\<not> assignment_prefix (single_quote # t)" for t
    by (simp add: assignment_prefix_def name_char_def single_quote_def char_class_defs)
  moreover have "\<not> assignment_prefix ''''" by (simp add: assignment_prefix_def)
  ultimately show ?thesis by (auto simp: shlex_quote_def)
qed

lemma assignment_first_word:
  assumes "rest = '''' \<or> hd rest = CHR '' ''"
  shows "assignment_prefix (w @ rest) \<longleftrightarrow> assignment_prefix w"
proof (cases "CHR ''='' \<in> set w")
  case True
  have "takeWhile (\<lambda>c. c \<noteq> CHR ''='') (w @ rest) = takeWhile (\<lambda>c. c \<noteq> CHR ''='') w"
    using True by (rule takeWhile_append1) simp
  moreover have "length (takeWhile (\<lambda>c. c \<noteq> CHR ''='') w) < length w"
    using True by (induction w) auto
  ultimately show ?thesis by (simp add: assignment_prefix_def)
next
  case False
  then have all: "takeWhile (\<lambda>c. c \<noteq> CHR ''='') w = w" by (intro takeWhile_eq_all_conv [THEN iffD2]) auto
  have "\<not> assignment_prefix w" unfolding assignment_prefix_def Let_def all by simp
  moreover have "\<not> assignment_prefix (w @ rest)"
  proof (cases rest)
    case Nil
    then show ?thesis using \<open>\<not> assignment_prefix w\<close> by simp
  next
    case (Cons c t)
    have "takeWhile (\<lambda>c. c \<noteq> CHR ''='') (w @ rest) = w @ takeWhile (\<lambda>c. c \<noteq> CHR ''='') rest"
      using False by (intro takeWhile_append2) auto
    then show ?thesis
      using assms Cons by (simp add: assignment_prefix_def name_char_def char_class_defs)
  qed
  ultimately show ?thesis by simp
qed

lemma sh_command_quote:
  "sh_command (join '' '' (map shlex_quote (w # ws))) =
     (if list_all shell_safe w \<and> assignment_prefix w then None else Some (w # ws))"
proof -
  obtain rest where line: "join '' '' (map shlex_quote (w # ws)) = shlex_quote w @ rest"
    and rest: "rest = '''' \<or> hd rest = CHR '' ''"
    by (cases ws) auto
  have "dropWhile (\<lambda>c. c = CHR '' '') (shlex_quote w @ rest) = shlex_quote w @ rest"
    using quoted_head [of w] by auto
  then show ?thesis
    using assignment_first_word [OF rest, of "shlex_quote w"] assignment_quoted [of w] sh_words_quote [of "w # ws"]
    unfolding sh_command_def line by simp
qed

interpretation shell_text: text_codec "\<lambda>ws. join '' '' (map shlex_quote ws)" sh_words "\<lambda>_. True"
  by unfold_locales (simp_all add: sh_words_quote)

lemma shlex_quote_safe [simp]: "s \<noteq> '''' \<Longrightarrow> list_all shell_safe s \<Longrightarrow> shlex_quote s = s"
  by (simp add: shlex_quote_def)

lemma show_int_safe: "list_all shell_safe (show_int n) \<and> show_int n \<noteq> ''''"
proof -
  have "list_all is_digit s \<Longrightarrow> list_all shell_safe s" for s
    by (simp add: list_all_iff shell_safe_def)
  then show ?thesis
    using show_nat_digits by (simp add: show_int_def shell_safe_def)
qed

section \<open>Command lines\<close>

definition upload_argv ::
  "'a rargs_scheme \<Rightarrow> mcase \<Rightarrow> string \<Rightarrow> int \<Rightarrow> string \<Rightarrow> string \<Rightarrow> bool \<Rightarrow> int option \<Rightarrow> string list" where
  "upload_argv args c source data_port transfer_id event_log resume max_chunks =
     [rstrip_chars (\<lambda>x. x = CHR ''/'') (a_remote_build_dir args) @ ''/gridflux-file-client'',
      ''--host'', a_server_host args, ''--port'', show_int data_port,
      ''--input'', source, ''--connections'', show_int (connections c),
      ''--chunk-size'', show_int (chunk_size c), ''--buffer-size'', show_int (buffer_size c),
      ''--checksum'', checksum c, ''--checksum-backend'', a_checksum_backend args,
      ''--transfer-id'', transfer_id, ''--file-io-backend'', file_io_backend c,
      ''--file-io-buffer-size'', show_int (file_io_buffer_size c),
      ''--file-io-queue-depth'', show_int (file_io_queue_depth c),
      ''--file-io-batch-size'', show_int (file_io_batch_size c),
      ''--file-io-advice'', file_io_advice c, ''--posix-write-strategy'', posix_write_strategy c,
      ''--event-log'', event_log]
     @ (if data_tls_mode c = ''required''
        then [''--data-tls-mode'', ''required'', ''--tls-ca-file'', a_remote_tls_ca_file args] else [])
     @ (if resume then [''--resume''] else [])
     @ (case max_chunks of None \<Rightarrow> [] | Some n \<Rightarrow> [''--max-chunks'', show_int n])"

definition download_argv ::
  "'a rargs_scheme \<Rightarrow> mcase \<Rightarrow> string \<Rightarrow> int \<Rightarrow> string \<Rightarrow> string \<Rightarrow> bool \<Rightarrow> int option \<Rightarrow> string list" where
  "download_argv args c output data_port transfer_id event_log resume max_chunks =
     [rstrip_chars (\<lambda>x. x = CHR ''/'') (a_remote_build_dir args) @ ''/gridflux-file-download-client'',
      ''--host'', a_server_host args, ''--port'', show_int data_port,
      ''--output'', output, ''--connections'', show_int (connections c),
      ''--buffer-size'', show_int (buffer_size c), ''--checksum'', checksum c,
      ''--checksum-backend'', a_checksum_backend args, ''--transfer-id'', transfer_id,
      ''--manifest-flush-policy'', manifest_flush_policy c,
      ''--manifest-flush-interval-chunks'', show_int (manifest_flush_interval_chunks c),
      ''--commit-sync-policy'', commit_sync_policy c, ''--final-verify-policy'', final_verify_policy c,
      ''--preallocate'', preallocate c, ''--file-io-backend'', file_io_backend c,
      ''--file-io-buffer-size'', show_int (file_io_buffer_size c),
      ''--file-io-queue-depth'', show_int (file_io_queue_depth c),
      ''--file-io-batch-size'', show_int (file_io_batch_size c),
      ''--file-io-advice'', file_io_advice c, ''--posix-write-strategy'', posix_write_strategy c,
      ''--event-log'', event_log]
     @ (if data_tls_mode c = ''required''
        then [''--data-tls-mode'', ''required'', ''--tls-ca-file'', a_remote_tls_ca_file args] else [])
     @ (if resume then [''--resume''] else [])
     @ (case max_chunks of None \<Rightarrow> [] | Some n \<Rightarrow> [''--max-chunks'', show_int n])"

fun flag_values :: "string \<Rightarrow> string list \<Rightarrow> string list" where
  \<comment> \<open>all values of an option, as the loops of src/src/config/*.cpp take the arguments apart: pairs, \<open>--resume\<close> alone\<close>
  "flag_values f (k # v # argv) =
     (if k = ''--resume'' then flag_values f (v # argv)
      else if k = f then v # flag_values f argv else flag_values f argv)"
| "flag_values f _ = []"

lemma upload_pieces_quoted:
  "upload_pieces args c source port tid elog resume max_chunks
     = map shlex_quote (upload_argv args c source port tid elog resume max_chunks)"
proof -
  have n: "shlex_quote (show_int n) = show_int n" for n
    using show_int_safe [of n] by (simp add: shlex_quote_def)
  have "\<forall>f\<in>set [''--host'', ''--port'', ''--input'', ''--connections'', ''--chunk-size'', ''--buffer-size'',
      ''--checksum'', ''--checksum-backend'', ''--transfer-id'', ''--file-io-backend'',
      ''--file-io-buffer-size'', ''--file-io-queue-depth'', ''--file-io-batch-size'', ''--file-io-advice'',
      ''--posix-write-strategy'', ''--event-log'', ''--data-tls-mode'', ''required'', ''--tls-ca-file'',
      ''--resume'', ''--max-chunks'']. shlex_quote f = f"
    by code_simp
  with n show ?thesis
    by (simp add: upload_pieces_def upload_argv_def split: option.split)
qed

lemma download_pieces_quoted:
  "download_pieces args c output port tid elog resume max_chunks
     = map shlex_quote (download_argv args c output port tid elog resume max_chunks)"
proof -
  have n: "shlex_quote (show_int n) = show_int n" for n
    using show_int_safe [of n] by (simp add: shlex_quote_def)
  have "\<forall>f\<in>set [''--host'', ''--port'', ''--output'', ''--connections'', ''--buffer-size'',
      ''--checksum'', ''--checksum-backend'', ''--transfer-id'', ''--manifest-flush-policy'',
      ''--manifest-flush-interval-chunks'', ''--commit-sync-policy'', ''--final-verify-policy'',
      ''--preallocate'', ''--file-io-backend'',
      ''--file-io-buffer-size'', ''--file-io-queue-depth'', ''--file-io-batch-size'', ''--file-io-advice'',
      ''--posix-write-strategy'', ''--event-log'', ''--data-tls-mode'', ''required'', ''--tls-ca-file'',
      ''--resume'', ''--max-chunks'']. shlex_quote f = f"
    by code_simp
  with n show ?thesis
    by (simp add: download_pieces_def download_argv_def split: option.split)
qed

text \<open>
  C32: The data client gets exactly the intended arguments. The command line that is handed to
  the shell of the other machine reads back, under the shell's grammar, as the list of words with
  the case's values in their places, whatever characters the paths, hosts and the server-supplied
  transfer id contain: nothing in them can add an argument or start another command. The one
  exception is the path of the client itself: where it starts with \<open>NAME=\<close> and needs no quotes, the
  shell takes it for an assignment. Read as options, every option that the client shares with the
  server, but for the ports and the event logs, has the same values at both ends, in both
  directions; data TLS is thus requested by the client exactly when the server requires it.
\<close>

theorem client_command_lines:
  "sh_command (join '' '' (upload_pieces args c source port tid elog resume max_chunks))
     = (let argv = upload_argv args c source port tid elog resume max_chunks in
        if list_all shell_safe (hd argv) \<and> assignment_prefix (hd argv) then None else Some argv) \<and>
   sh_command (join '' '' (download_pieces args c output port tid elog resume max_chunks))
     = (let argv = download_argv args c output port tid elog resume max_chunks in
        if list_all shell_safe (hd argv) \<and> assignment_prefix (hd argv) then None else Some argv) \<and>
   list_all (\<lambda>f. flag_values f (tl (upload_argv args c source port tid elog resume max_chunks))
       = flag_values f (tl (server_command args c bin root slog)))
     [''--host'', ''--connections'', ''--chunk-size'', ''--buffer-size'', ''--checksum'',
      ''--checksum-backend'', ''--file-io-backend'', ''--file-io-buffer-size'', ''--file-io-queue-depth'',
      ''--file-io-batch-size'', ''--file-io-advice'', ''--posix-write-strategy'', ''--data-tls-mode''] \<and>
   list_all (\<lambda>f. flag_values f (tl (download_argv args c output port tid elog resume max_chunks))
       = flag_values f (tl (server_command args c bin root slog)))
     [''--host'', ''--connections'', ''--buffer-size'', ''--checksum'', ''--checksum-backend'',
      ''--manifest-flush-policy'', ''--manifest-flush-interval-chunks'', ''--commit-sync-policy'',
      ''--final-verify-policy'', ''--preallocate'', ''--file-io-backend'', ''--file-io-buffer-size'',
      ''--file-io-queue-depth'', ''--file-io-batch-size'', ''--file-io-advice'', ''--posix-write-strategy'',
      ''--data-tls-mode''] \<and>
   flag_values ''--transfer-id'' (tl (upload_argv args c source port tid elog resume max_chunks)) = [tid] \<and>
   flag_values ''--port'' (tl (upload_argv args c source port tid elog resume max_chunks)) = [show_int port] \<and>
   flag_values ''--transfer-id'' (tl (download_argv args c output port tid elog resume max_chunks)) = [tid] \<and>
   flag_values ''--port'' (tl (download_argv args c output port tid elog resume max_chunks)) = [show_int port]"
proof -
  have words: "sh_command (join '' '' (map shlex_quote argv)) =
      (if list_all shell_safe (hd argv) \<and> assignment_prefix (hd argv) then None else Some argv)" if "argv \<noteq> []" for argv
    using sh_command_quote [of "hd argv" "tl argv"] that by simp
  have "upload_argv args c source port tid elog resume max_chunks \<noteq> []"
    "download_argv args c output port tid elog resume max_chunks \<noteq> []"
    by (simp_all add: upload_argv_def download_argv_def)
  note lines = this [THEN words]
  show ?thesis
    unfolding upload_pieces_quoted download_pieces_quoted lines Let_def
    by (intro conjI refl) (simp_all add: upload_argv_def download_argv_def server_command_def split: option.split)
qed

section \<open>Replies do not depend on how the stream is cut\<close>

definition wire_line :: "string \<Rightarrow> string" where
  "wire_line l = l @ [carriage_return, newline]"

definition wire_ok :: "string \<Rightarrow> bool" where
  "wire_ok l \<longleftrightarrow> utf8_valid (wire_line l) \<and> newline \<notin> set l \<and> (l = '''' \<or> last l \<noteq> carriage_return)"

definition reply_ok :: "string list \<Rightarrow> bool" where
  "reply_ok lines \<longleftrightarrow>
     lines \<noteq> [] \<and> list_all wire_ok lines \<and>
     (if is_multiline (hd lines)
      then tl lines \<noteq> [] \<and> starts_with (take 3 (hd lines) @ '' '') (last (tl lines)) \<and>
           list_all (\<lambda>l. \<not> starts_with (take 3 (hd lines) @ '' '') l) (butlast (tl lines))
      else tl lines = [])"

lemma line_text_wire: "wire_ok l \<Longrightarrow> line_text (l @ [carriage_return]) = l"
proof -
  assume ok: "wire_ok l"
  then have "utf8_replace (l @ [carriage_return, newline]) = l @ [carriage_return, newline]"
    by (simp add: wire_ok_def wire_line_def utf8_replace_valid)
  moreover have "rstrip_chars (\<lambda>c. c = carriage_return \<or> c = newline) (l @ [carriage_return, newline]) = l"
    using ok by (cases l rule: rev_cases) (auto simp: wire_ok_def rstrip_chars_def)
  ultimately show ?thesis by (simp add: line_text_def)
qed

lemma split_line_at:
  assumes "newline \<notin> set raw"
  shows "split_line (raw @ newline # rest) = (raw, rest)"
proof -
  have "\<forall>x\<in>set raw. x \<noteq> newline" using assms by metis
  then show ?thesis by (simp add: split_line_def)
qed

lemma read_line_segments:
  assumes "buf @ concat chunks = raw @ newline # rest" and "newline \<notin> set raw" and "'''' \<notin> set chunks"
  shows "\<exists>chunks' buf'. read_line (map Data chunks @ later) buf
      = (Inr (line_text raw), map Data chunks' @ later, buf') \<and>
    buf' @ concat chunks' = rest \<and> '''' \<notin> set chunks'"
  using assms
proof (induction chunks arbitrary: buf)
  case Nil
  then show ?case
    by (intro exI [of _ "[]"] exI [of _ rest]) (simp add: read_line.simps split_line_at)
next
  case (Cons c cs)
  show ?case
  proof (cases "newline \<in> set buf")
    case True
    then obtain raw' rest' where buf: "buf = raw' @ newline # rest'" and n: "newline \<notin> set raw'"
      by (metis split_list_first)
    have "raw' = takeWhile (\<lambda>x. x \<noteq> newline) (buf @ concat (c # cs))"
      using n by (simp add: buf takeWhile_append)
    also have "\<dots> = takeWhile (\<lambda>x. x \<noteq> newline) (raw @ newline # rest)"
      by (simp only: Cons.prems(1))
    also have "\<dots> = raw" using Cons.prems(2) by (simp add: takeWhile_append)
    finally have "raw' = raw" .
    with Cons.prems buf n show ?thesis
      by (intro exI [of _ "c # cs"] exI [of _ rest']) (simp add: read_line.simps split_line_at)
  next
    case False
    have "(buf @ c) @ concat cs = raw @ newline # rest" using Cons.prems(1) by simp
    from Cons.IH [OF this Cons.prems(2)] Cons.prems(3) False show ?thesis
      by (subst read_line.simps) auto
  qed
qed

lemma read_wire_line:
  assumes "buf @ concat chunks = wire_line l @ rest" and "wire_ok l" and "'''' \<notin> set chunks"
  shows "\<exists>chunks' buf'. read_line (map Data chunks @ later) buf
      = (Inr l, map Data chunks' @ later, buf') \<and> buf' @ concat chunks' = rest \<and> '''' \<notin> set chunks'"
proof -
  have "buf @ concat chunks = (l @ [carriage_return]) @ newline # rest"
    using assms(1) by (simp add: wire_line_def)
  moreover have "newline \<notin> set (l @ [carriage_return])" using assms(2) by (simp add: wire_ok_def)
  ultimately show ?thesis
    using read_line_segments [of buf chunks "l @ [carriage_return]" rest] assms(3) line_text_wire [OF assms(2)]
    by metis
qed

lemma read_continued_segments:
  assumes "ls \<noteq> []" and "list_all wire_ok ls" and "starts_with expected (last ls)"
    and "list_all (\<lambda>l. \<not> starts_with expected l) (butlast ls)"
    and "buf @ concat chunks = concat (map wire_line ls) @ rest" and "'''' \<notin> set chunks"
  shows "\<exists>chunks' buf'. read_continued expected (map Data chunks @ later) buf
      = (Inr ls, map Data chunks' @ later, buf') \<and> buf' @ concat chunks' = rest \<and> '''' \<notin> set chunks'"
  using assms
proof (induction ls arbitrary: buf chunks)
  case (Cons l ls)
  have b: "buf @ concat chunks = wire_line l @ (concat (map wire_line ls) @ rest)"
    using Cons.prems(5) by simp
  have "wire_ok l" using Cons.prems(2) by simp
  from read_wire_line [OF b this Cons.prems(6)] obtain chunks1 buf1
    where r: "read_line (map Data chunks @ later) buf = (Inr l, map Data chunks1 @ later, buf1)"
      and b1: "buf1 @ concat chunks1 = concat (map wire_line ls) @ rest" and n1: "'''' \<notin> set chunks1"
    by blast
  show ?case
  proof (cases "ls = []")
    case True
    with Cons.prems(3) r b1 n1 show ?thesis
      by (intro exI [of _ chunks1] exI [of _ buf1]) (simp add: read_continued.simps [of expected "map Data chunks @ later"])
  next
    case False
    with Cons.prems have "\<not> starts_with expected l" by simp
    moreover obtain chunks' buf'
      where "read_continued expected (map Data chunks1 @ later) buf1
          = (Inr ls, map Data chunks' @ later, buf')"
        and "buf' @ concat chunks' = rest \<and> '''' \<notin> set chunks'"
      using Cons.IH [OF False _ _ _ b1 n1] Cons.prems False by auto
    ultimately show ?thesis
      using r by (subst read_continued.simps) auto
  qed
qed simp

text \<open>
  C12: A reply is read whole and exactly, however TCP cuts the stream. For every well-formed
  reply, single-line or multi-line, already partly buffered or not, and whatever follows it on
  the connection, \<open>read_reply\<close> returns precisely its lines and leaves precisely the
  bytes after it, in the buffer and on the wire, for the next call. The code of the reply is
  the number its first line starts with.
\<close>

theorem read_reply_any_segmentation:
  assumes "reply_ok lines" and "buf @ concat chunks = concat (map wire_line lines) @ rest"
    and "'''' \<notin> set chunks"
  shows "\<exists>chunks' buf'. read_reply (map Data chunks @ later) buf
      = (Inr lines, map Data chunks' @ later, buf') \<and> buf' @ concat chunks' = rest \<and> '''' \<notin> set chunks'"
proof -
  obtain first ls where l: "lines = first # ls" using assms(1) by (cases lines) (auto simp: reply_ok_def)
  have b: "buf @ concat chunks = wire_line first @ (concat (map wire_line ls) @ rest)"
    using assms(2) by (simp add: l)
  have "wire_ok first" using assms(1) by (simp add: l reply_ok_def)
  from read_wire_line [OF b this assms(3)] obtain chunks1 buf1
    where r: "read_line (map Data chunks @ later) buf = (Inr first, map Data chunks1 @ later, buf1)"
      and b1: "buf1 @ concat chunks1 = concat (map wire_line ls) @ rest" and n1: "'''' \<notin> set chunks1"
    by blast
  show ?thesis
  proof (cases "is_multiline first")
    case False
    with assms(1) r b1 n1 show ?thesis
      by (intro exI [of _ chunks1] exI [of _ buf1]) (simp add: read_reply_def l reply_ok_def)
  next
    case True
    with assms(1) have "ls \<noteq> []" "list_all wire_ok ls" "starts_with (take 3 first @ '' '') (last ls)"
      "list_all (\<lambda>l. \<not> starts_with (take 3 first @ '' '') l) (butlast ls)"
      by (auto simp: reply_ok_def l)
    from read_continued_segments [OF this b1 n1, of later] True r show ?thesis
      by (auto simp: read_reply_def l)
  qed
qed

definition epsv_reply :: "string list" where
  "epsv_reply = [''229-ready'', ''229 Entering Extended Passive Mode (|||204|)'']"

theorem read_reply_any_segmentation_witness:
  "\<exists>chunks' buf'. read_reply (map Data [''9-ready'', [carriage_return], newline # ''229 Entering Exten'',
        ''ded Passive Mode (|||204|)'' @ [carriage_return, newline] @ ''15''] @ [Stall]) ''22''
      = (Inr epsv_reply, map Data chunks' @ [Stall], buf') \<and> buf' @ concat chunks' = ''15'' \<and> '''' \<notin> set chunks'"
proof (rule read_reply_any_segmentation)
  show "reply_ok epsv_reply" by code_simp
qed (code_simp)+

section \<open>What the client takes from a reply\<close>

lemma first_occurrence:
  assumes "p \<noteq> []" and "hd p \<notin> set (tl p)" and "\<not> contains p u" and "i < length u"
  shows "\<not> starts_with p (drop i (u @ p @ x))"
proof
  assume a: "starts_with p (drop i (u @ p @ x))"
  then obtain t where t: "drop i u @ p @ x = p @ t"
    using assms(4) by (auto simp: starts_with_append)
  show False
  proof (cases "length p \<le> length (drop i u)")
    case True
    with arg_cong [OF t, of "take (length p)"] have "starts_with p (drop i u)"
      by (simp add: starts_with_def)
    then have "contains p (drop i u)" by (cases "drop i u") auto
    then obtain a b where "drop i u = a @ p @ b" by (auto simp: contains_iff)
    then have "u = (take i u @ a) @ p @ b" by (metis append.assoc append_take_drop_id)
    with assms(3) show False unfolding contains_iff by blast
  next
    case False
    define q where "q = drop (length (drop i u)) p"
    from False arg_cong [OF t, of "take (length (drop i u))"] have "drop i u = take (length (drop i u)) p"
      by simp
    then have p: "p = drop i u @ q" unfolding q_def by (metis append_take_drop_id)
    with False have "q \<noteq> []" by auto
    have "drop i u @ (p @ x) = drop i u @ (q @ t)" using t p by (metis append.assoc)
    then have "q @ t = p @ x" by simp
    with \<open>q \<noteq> []\<close> assms(1) have "hd q = hd p" by (metis hd_append2)
    moreover have "hd q \<in> set (tl p)"
      using p \<open>q \<noteq> []\<close> assms(4) by (cases "drop i u") auto
    ultimately show False using assms(2) by simp
  qed
qed

text \<open>
  The data port and the transfer id are read back from the replies that carry them. Any
  reply whose text has \<open>(|||n|)\<close> at its first opening bracket group gives port \<open>n\<close>; any reply with
  \<open>transfer_id=GFID:\<close> followed by an id of letters, digits, dots, underscores and dashes
  gives that whole id, not a prefix of it; and a reply without the marker is an error that quotes the reply.
\<close>

theorem passive_port_and_id:
  assumes "join [newline] port_lines = u @ ''(|||'' @ show_nat n @ ''|)'' @ v" and "\<not> contains ''(|||'' u"
    and "join [newline] id_lines = u' @ ''transfer_id=GFID:'' @ tid @ v'"
    and "\<not> contains ''transfer_id=GFID:'' u'"
    and "tid \<noteq> ''''" and "list_all id_char tid" and "v' = '''' \<or> \<not> id_char (hd v')"
    and "\<not> contains ''transfer_id=GFID:'' (join [newline] no_lines)"
  shows "parse_epsv_port port_lines = Inr (int n) \<and> parse_transfer_id id_lines = Inr tid \<and>
    parse_transfer_id no_lines
      = Inl (RuntimeError (''failed to parse transfer id from '' @ repr_lines no_lines))"
proof (intro conjI)
  have "re_group epsv_rx 1 (join [newline] port_lines) = Some (show_nat n)"
    unfolding epsv_rx_def
  proof (rule re_group_delimited)
    show "join [newline] port_lines = u @ ''(|||'' @ show_nat n @ (''|)'' @ v)" using assms(1) by simp
    show "\<And>i. i < length u \<Longrightarrow> \<not> starts_with ''(|||'' (drop i (join [newline] port_lines))"
      unfolding assms(1) by (rule first_occurrence) (use assms(2) in auto)
    have "drop (length u + length ''(|||'' + length (show_nat n)) (join [newline] port_lines) = ''|)'' @ v"
      using assms(1) by (metis append.assoc append_eq_conv_conj length_append)
    then show "\<exists>j rest. rx_run (rx_lit ''|)'') (join [newline] port_lines)
        (length u + length ''(|||'' + length (show_nat n), cs) = (j, cs) # rest" for cs
      by (subst rx_run_lit) (auto simp: assms(1))
  qed (simp_all add: show_nat_digits char_class_defs)
  then show "parse_epsv_port port_lines = Inr (int n)"
    by (simp add: parse_epsv_port_def int_or_raise_def)
  have "re_group transfer_id_rx 1 (join [newline] id_lines) = Some tid"
    unfolding transfer_id_rx_def
  proof (rule re_group_delimited)
    show "\<And>i. i < length u' \<Longrightarrow> \<not> starts_with ''transfer_id=GFID:'' (drop i (join [newline] id_lines))"
      unfolding assms(3) by (rule first_occurrence) (use assms(4) in auto)
  qed (use assms in simp_all)
  then show "parse_transfer_id id_lines = Inr tid" by (simp add: parse_transfer_id_def)
  have "rx_run (rx_lit ''transfer_id=GFID:'') (join [newline] no_lines) (i, []) = []"
    if "i \<le> length (join [newline] no_lines)" for i
    using re_found_lit [of "''transfer_id=GFID:''" "join [newline] no_lines"] assms(8) that
    unfolding re_found_iff by blast
  then have "\<not> re_found transfer_id_rx (join [newline] no_lines)"
    unfolding re_found_iff transfer_id_rx_def by (simp del: rx_lit.simps)
  then have "re_search transfer_id_rx (join [newline] no_lines) = None"
    unfolding re_found_def by blast
  then show "parse_transfer_id no_lines
      = Inl (RuntimeError (''failed to parse transfer id from '' @ repr_lines no_lines))"
    by (simp add: parse_transfer_id_def re_group_def)
qed

theorem passive_port_and_id_witness:
  "parse_epsv_port epsv_reply = Inr (int 204) \<and>
   parse_transfer_id [''150 Opening data connection transfer_id=GFID:ab-1.2_Z;'', ''x''] = Inr ''ab-1.2_Z'' \<and>
   parse_transfer_id [''150 ok''] = Inl (RuntimeError (''failed to parse transfer id from '' @ repr_lines [''150 ok'']))"
proof (rule passive_port_and_id)
  show "join [newline] epsv_reply = (''229-ready'' @ [newline] @ ''229 Entering Extended Passive Mode '')
      @ ''(|||'' @ show_nat 204 @ ''|)'' @ ''''"
    by code_simp
  show "join [newline] [''150 Opening data connection transfer_id=GFID:ab-1.2_Z;'', ''x'']
      = ''150 Opening data connection '' @ ''transfer_id=GFID:'' @ ''ab-1.2_Z'' @ ('';'' @ [newline] @ ''x'')"
    by code_simp
qed (code_simp)+

section \<open>The order of a dialogue\<close>

text \<open>Everything the client does is appended to the trace, and the environment stays as it is.\<close>

definition world_leq :: "world \<Rightarrow> world \<Rightarrow> bool" where
  "world_leq w w' \<longleftrightarrow> environ w' = environ w \<and> (\<exists>es. events w' = events w @ es)"

interpretation world_order: effect_order world_leq
  by unfold_locales (auto simp: world_leq_def)

lemma log_event_ok [act_simps]: "log_event e w = (r, w') \<longleftrightarrow> r = Inr () \<and> w' = w\<lparr>events := events w @ [e]\<rparr>"
  by (auto simp: log_event_def)

lemma recv_reply_ok:
  "recv_reply w = (Inr ls, w') \<Longrightarrow> events w' = events w @ [Reply ls] \<and> environ w' = environ w"
  by (auto simp: recv_reply_def split: prod.splits sum.splits)

lemma sendall_ok:
  "sendall data w = (Inr u, w') \<Longrightarrow> events w' = events w @ [Sent data] \<and> environ w' = environ w"
  by (auto simp: sendall_def split: list.splits bool.splits)

lemma send_ok:
  "send command w = (Inr ls, w') \<Longrightarrow>
     events w' = events w @ [Sent (wire_line command), Reply ls] \<and> environ w' = environ w"
  by (auto simp: send_def wire_line_def act_bind_ok dest!: sendall_ok recv_reply_ok)

lemma expect_reply_ok [act_simps]:
  "expect_reply expected message reply w = (Inr u, w') \<longleftrightarrow> reply_code reply = expected \<and> w' = w"
  by (auto simp: expect_reply_def act_when_ok)

lemma connect_control_ok:
  "connect_control host port w = (Inr b, w') \<Longrightarrow>
     events w' = events w @ [Connected host port] \<and> environ w' = environ w"
  by (auto simp: connect_control_def split: prod.splits sum.splits)

definition ask :: "string \<Rightarrow> string list \<Rightarrow> event list" where
  "ask command reply = [Sent (wire_line command), Reply reply]"

lemma login_control_ok:
  assumes "login_control args c w = (Inr u, w')"
  shows "\<exists>g r1 r2 r3. events w' = events w
      @ [Connected (a_server_host args) (control_port args (index c)), Reply g]
      @ ask ''USER gridflux'' r1 @ ask ''PASS gridflux'' r2 @ ask ''TYPE I'' r3 \<and>
    map reply_code [g, r1, r2, r3] = [220, 331, 230, 200] \<and> environ w' = environ w"
  using assms unfolding login_control_def open_control_def login_type_i_def act_simps ask_def
  by (elim exE conjE) (auto dest!: connect_control_ok recv_reply_ok send_ok split: if_splits)

lemma open_epsv_ok:
  assumes "open_epsv w = (Inr port, w')"
  shows "\<exists>r. events w' = events w @ ask ''EPSV'' r \<and> reply_code r = 229 \<and>
    parse_epsv_port r = Inr port \<and> environ w' = environ w"
  using assms unfolding open_epsv_def act_simps ask_def by (auto simp: act_simps dest!: send_ok)

lemma start_transfer_ok:
  assumes "start_transfer verb name w = (Inr (port, tid), w')"
  shows "\<exists>e r. events w' = events w @ ask ''EPSV'' e @ ask (verb @ '' '' @ name) r \<and>
    reply_code e = 229 \<and> parse_epsv_port e = Inr port \<and> reply_code r = 150 \<and>
    parse_transfer_id r = Inr tid \<and> environ w' = environ w"
  using assms unfolding start_transfer_def act_simps
  by (elim exE conjE) (force simp: act_simps ask_def dest!: open_epsv_ok send_ok)

lemma restart_transfer_ok:
  assumes "restart_transfer verb name tid w = (Inr port, w')"
  shows "\<exists>k e r. events w' = events w @ ask (''REST GFID:'' @ tid) k @ ask ''EPSV'' e
      @ ask (verb @ '' '' @ name) r \<and>
    reply_code k = 350 \<and> reply_code e = 229 \<and> parse_epsv_port e = Inr port \<and> reply_code r = 150 \<and>
    parse_transfer_id r = Inr tid \<and> environ w' = environ w"
proof -
  from assms obtain w1 w2 w3 k s where 1: "send (''REST GFID:'' @ tid) w = (Inr k, w1)" "reply_code k = 350"
      and 2: "open_epsv w1 = (Inr port, w2)"
      and 3: "send (verb @ '' '' @ name) w2 = (Inr s, w3)" "reply_code s = 150"
        "parse_transfer_id s = Inr tid" "w' = w3"
    unfolding restart_transfer_def act_simps
    by (elim exE conjE) (auto simp: act_simps split: if_splits)
  from open_epsv_ok [OF 2] obtain e where "events w2 = events w1 @ ask ''EPSV'' e" "reply_code e = 229"
    "parse_epsv_port e = Inr port" "environ w2 = environ w1" by blast
  with send_ok [OF 1(1)] send_ok [OF 3(1)] 1 3 show ?thesis
    by (intro exI [of _ k] exI [of _ e] exI [of _ s]) (simp add: ask_def)
qed

lemma quit_ok:
  assumes "quit w = (Inr u, w')"
  shows "(\<exists>q. events w' = events w @ Sent (wire_line ''QUIT'') # q \<and> (q = [] \<or> (\<exists>r. q = [Reply r]))) \<and>
    environ w' = environ w"
proof -
  have "(\<exists>q. events w1 = events w @ Sent (wire_line ''QUIT'') # q \<and> (q = [] \<or> (\<exists>r. q = [Reply r]))) \<and>
      environ w1 = environ w" if "send ''QUIT'' w = (r, w1)" "\<forall>m. r \<noteq> Inl (OSError m)" for r w1
    using that
    by (auto simp: send_def act_bind_def wire_line_def sendall_def recv_reply_def
        split: prod.splits sum.splits list.splits bool.splits)
  with assms show ?thesis
    by (fastforce simp: quit_def act_catch_def act_bind_def act_basic
        split: prod.splits sum.splits py_error.splits)
qed

lemma resumed_transfer_steps:
  assumes "resumed_transfer args c verb name client tid0 before w = (Inr (tid, result), w')"
  shows "\<exists>w1 w2 w3 w4 w5 port rc out err f.
    login_control args c w = (Inr (), w1) \<and> restart_transfer verb name tid0 w1 = (Inr port, w2) \<and>
    client port tid0 True None w2 = (Inr (rc, out, err), w3) \<and> recv_reply w3 = (Inr f, w4) \<and>
    reply_code f = 226 \<and> quit w4 = (Inr (), w5) \<and> w' = w5\<lparr>events := events w5 @ [Closed]\<rparr> \<and>
    tid = tid0"
  using assms unfolding resumed_transfer_def close_control_def act_bind_ok act_finally_ok
  apply (elim exE conjE)
  apply (simp only: split_paired_all prod.case act_bind_ok)
  apply (elim exE conjE)
  apply (simp only: act_when_ok act_raise_not_ok act_basic expect_reply_ok log_event_ok)
  apply (simp split: if_splits)
  done

text \<open>
  What a dialogue relies on from the data client it starts: one remote command, with a command
  line determined by the port, the transfer id and the resume settings, is all it does to the
  world. Both clients provide it.
\<close>

definition ran :: "world \<Rightarrow> string \<Rightarrow> string \<Rightarrow> event" where
  "ran w remote command = Ran (ssh_prefix (environ w) remote @ [command]) (remote_env (environ w)) ''''"

locale logged_client =
  fixes client :: data_client
    and remote :: string
    and command_line :: "int \<Rightarrow> string \<Rightarrow> bool \<Rightarrow> int option \<Rightarrow> string"
  assumes client_logs: "client port tid resume limit w = (r, w') \<Longrightarrow>
      events w' = events w @ [ran w remote (command_line port tid resume limit)] \<and> environ w' = environ w"
begin

lemma transfer_once_order:
  assumes "transfer_once args c verb name client w = (Inr (tid, output), w')"
  shows "\<exists>g r1 r2 r3 e s f q port.
    events w' = events w
      @ [Connected (a_server_host args) (control_port args (index c)), Reply g]
      @ ask ''USER gridflux'' r1 @ ask ''PASS gridflux'' r2 @ ask ''TYPE I'' r3
      @ ask ''EPSV'' e @ ask (verb @ '' '' @ name) s
      @ [ran w remote (command_line port tid False None), Reply f, Sent (wire_line ''QUIT'')]
      @ q @ [Closed] \<and>
    map reply_code [g, r1, r2, r3, e, s, f] = [220, 331, 230, 200, 229, 150, 226] \<and>
    parse_epsv_port e = Inr port \<and> parse_transfer_id s = Inr tid \<and> (q = [] \<or> (\<exists>r. q = [Reply r]))"
proof -
  from assms obtain w1 w2 w3 w4 w5 port rc out err f
    where 1: "login_control args c w = (Inr (), w1)"
      and 2: "start_transfer verb name w1 = (Inr (port, tid), w2)"
      and 3: "client port tid False None w2 = (Inr (rc, out, err), w3)"
      and 4: "recv_reply w3 = (Inr f, w4)" and 5: "reply_code f = 226"
      and 6: "quit w4 = (Inr (), w5)" and 7: "w' = w5\<lparr>events := events w5 @ [Closed]\<rparr>"
    unfolding transfer_once_def close_control_def
    by (auto simp: act_simps split: prod.splits if_splits)
  from login_control_ok [OF 1] start_transfer_ok [OF 2] client_logs [OF 3] recv_reply_ok [OF 4]
    quit_ok [OF 6] 5 7 show ?thesis
    by (elim exE conjE) (simp add: ran_def, blast)
qed

lemma partial_transfer_order:
  assumes "partial_transfer args c verb name client w = (Inr (tid, output), w')"
  shows "\<exists>g r1 r2 r3 e s f port.
    events w' = events w
      @ [Connected (a_server_host args) (control_port args (index c)), Reply g]
      @ ask ''USER gridflux'' r1 @ ask ''PASS gridflux'' r2 @ ask ''TYPE I'' r3
      @ ask ''EPSV'' e @ ask (verb @ '' '' @ name) s
      @ [ran w remote (command_line port tid False (Some (a_max_chunks args))), Reply f, Closed] \<and>
    map reply_code [g, r1, r2, r3, e, s, f] = [220, 331, 230, 200, 229, 150, 550] \<and>
    parse_epsv_port e = Inr port \<and> parse_transfer_id s = Inr tid \<and> environ w' = environ w"
proof -
  from assms obtain w1 w2 w3 w4 port rc out err f
    where 1: "login_control args c w = (Inr (), w1)"
      and 2: "start_transfer verb name w1 = (Inr (port, tid), w2)"
      and 3: "client port tid False (Some (a_max_chunks args)) w2 = (Inr (rc, out, err), w3)"
      and 4: "recv_reply w3 = (Inr f, w4)" and 5: "reply_code f = 550"
      and 7: "w' = w4\<lparr>events := events w4 @ [Closed]\<rparr>"
    unfolding partial_transfer_def close_control_def
    by (auto simp: act_simps split: prod.splits if_splits)
  from login_control_ok [OF 1] start_transfer_ok [OF 2] client_logs [OF 3] recv_reply_ok [OF 4]
    5 7 show ?thesis
    by (elim exE conjE) (simp add: ran_def, blast)
qed

lemma resumed_transfer_order:
  assumes "resumed_transfer args c verb name client tid0 before w = (Inr (tid, output), w')"
  shows "tid = tid0 \<and> (\<exists>g r1 r2 r3 k e s f q port.
    events w' = events w
      @ [Connected (a_server_host args) (control_port args (index c)), Reply g]
      @ ask ''USER gridflux'' r1 @ ask ''PASS gridflux'' r2 @ ask ''TYPE I'' r3
      @ ask (''REST GFID:'' @ tid) k @ ask ''EPSV'' e @ ask (verb @ '' '' @ name) s
      @ [ran w remote (command_line port tid True None), Reply f, Sent (wire_line ''QUIT'')]
      @ q @ [Closed] \<and>
    map reply_code [g, r1, r2, r3, k, e, s, f] = [220, 331, 230, 200, 350, 229, 150, 226] \<and>
    parse_epsv_port e = Inr port \<and> parse_transfer_id s = Inr tid \<and> (q = [] \<or> (\<exists>r. q = [Reply r])))"
proof -
  from resumed_transfer_steps [OF assms] obtain w1 w2 w3 w4 w5 port rc out err f
    where 1: "login_control args c w = (Inr (), w1)"
      and 2: "restart_transfer verb name tid0 w1 = (Inr port, w2)"
      and 3: "client port tid0 True None w2 = (Inr (rc, out, err), w3)"
      and 4: "recv_reply w3 = (Inr f, w4)" "reply_code f = 226"
      and 5: "quit w4 = (Inr (), w5)" "w' = w5\<lparr>events := events w5 @ [Closed]\<rparr>" "tid = tid0"
    by blast
  from login_control_ok [OF 1] obtain g r1 r2 r3 where l: "events w1 = events w
      @ [Connected (a_server_host args) (control_port args (index c)), Reply g]
      @ ask ''USER gridflux'' r1 @ ask ''PASS gridflux'' r2 @ ask ''TYPE I'' r3"
    "map reply_code [g, r1, r2, r3] = [220, 331, 230, 200]" "environ w1 = environ w"
    by (elim exE conjE) (rule that)
  from restart_transfer_ok [OF 2] obtain k e s where r: "events w2 = events w1
      @ ask (''REST GFID:'' @ tid0) k @ ask ''EPSV'' e @ ask (verb @ '' '' @ name) s"
    "reply_code k = 350" "reply_code e = 229" "parse_epsv_port e = Inr port" "reply_code s = 150"
    "parse_transfer_id s = Inr tid0" "environ w2 = environ w1" by blast
  from quit_ok [OF 5(1)] obtain q where q: "events w5 = events w4 @ Sent (wire_line ''QUIT'') # q"
    "q = [] \<or> (\<exists>x. q = [Reply x])" by blast
  from client_logs [OF 3] recv_reply_ok [OF 4(1)] l(3) r(7)
  have m: "events w3 = events w2 @ [ran w remote (command_line port tid0 True None)]"
    "events w4 = events w3 @ [Reply f]"
    by (simp_all add: ran_def)
  have ev': "events w' = events w5 @ [Closed]" using 5(2) by simp
  have "events w' = events w
      @ [Connected (a_server_host args) (control_port args (index c)), Reply g]
      @ ask ''USER gridflux'' r1 @ ask ''PASS gridflux'' r2 @ ask ''TYPE I'' r3
      @ ask (''REST GFID:'' @ tid) k @ ask ''EPSV'' e @ ask (verb @ '' '' @ name) s
      @ [ran w remote (command_line port tid True None), Reply f, Sent (wire_line ''QUIT'')]
      @ q @ [Closed]"
    unfolding ev' 5(3) q(1) m r(1) l(1) by (simp only: append_assoc append_Cons append_Nil)
  moreover have "map reply_code [g, r1, r2, r3, k, e, s, f] = [220, 331, 230, 200, 350, 229, 150, 226]"
    using l(2) r(2,3,5) 4(2) by simp
  moreover have "parse_transfer_id s = Inr tid" using r(6) 5(3) by (simp only:)
  ultimately show ?thesis
    using r(4) q(2) 5(3) by - (intro conjI exI, assumption+)
qed

end

lemma run_remote_logs:
  "run_remote remote command '''' check w = (r, w') \<Longrightarrow>
     events w' = events w @ [ran w remote command] \<and> environ w' = environ w"
  by (auto simp: run_remote_def ran_def Let_def split: list.splits option.splits if_splits prod.splits)

interpretation upload: logged_client
  "\<lambda>port tid. run_upload_client args c source port tid elog" "a_remote args"
  "\<lambda>port tid resume limit. join '' '' (upload_pieces args c source port tid elog resume limit)"
  for args :: "'a rargs_scheme" and c source elog
  by unfold_locales (simp add: run_upload_client_def run_remote_logs)

interpretation download: logged_client
  "\<lambda>port tid. run_download_client args c target port tid elog" "a_remote args"
  "\<lambda>port tid resume limit. join '' '' (download_pieces args c target port tid elog resume limit)"
  for args :: "'a rargs_scheme" and c target elog
  by unfold_locales (simp add: run_download_client_def run_remote_logs)

text \<open>
  C19: A transfer is reported only after the whole dialogue. When \<open>run_stor_once\<close> or \<open>run_retr_once\<close>
  returns, the trace of the run is exactly: connect to the case's control port, greeting
  220, \<open>USER\<close> 331, \<open>PASS\<close> 230, \<open>TYPE I\<close> 200, \<open>EPSV\<close> 229, \<open>STOR\<close> or \<open>RETR\<close> 150, one data client run with the port
  of the \<open>EPSV\<close> reply and the transfer id of the 150 reply and without resume options, completion
  reply 226, \<open>QUIT\<close>, close; nothing else is sent or run, and the returned id is the server's.
\<close>

theorem single_transfer_order:
  assumes "run_stor_once args c source name elog w = (Inr (tid, out), w')"
    and "run_retr_once args c name' target elog v = (Inr (tid', out'), v')"
  shows "(\<exists>g r1 r2 r3 e s f q port.
      events w' = events w
        @ [Connected (a_server_host args) (control_port args (index c)), Reply g]
        @ ask ''USER gridflux'' r1 @ ask ''PASS gridflux'' r2 @ ask ''TYPE I'' r3
        @ ask ''EPSV'' e @ ask (''STOR'' @ '' '' @ name) s
        @ [ran w (a_remote args) (join '' '' (upload_pieces args c source port tid elog False None)),
           Reply f, Sent (wire_line ''QUIT'')] @ q @ [Closed] \<and>
      map reply_code [g, r1, r2, r3, e, s, f] = [220, 331, 230, 200, 229, 150, 226] \<and>
      parse_epsv_port e = Inr port \<and> parse_transfer_id s = Inr tid \<and> (q = [] \<or> (\<exists>r. q = [Reply r]))) \<and>
    (\<exists>g r1 r2 r3 e s f q port.
      events v' = events v
        @ [Connected (a_server_host args) (control_port args (index c)), Reply g]
        @ ask ''USER gridflux'' r1 @ ask ''PASS gridflux'' r2 @ ask ''TYPE I'' r3
        @ ask ''EPSV'' e @ ask (''RETR'' @ '' '' @ name') s
        @ [ran v (a_remote args) (join '' '' (download_pieces args c target port tid' elog False None)),
           Reply f, Sent (wire_line ''QUIT'')] @ q @ [Closed] \<and>
      map reply_code [g, r1, r2, r3, e, s, f] = [220, 331, 230, 200, 229, 150, 226] \<and>
      parse_epsv_port e = Inr port \<and> parse_transfer_id s = Inr tid' \<and> (q = [] \<or> (\<exists>r. q = [Reply r])))"
  using upload.transfer_once_order [OF assms(1) [unfolded run_stor_once_def]]
    download.transfer_once_order [OF assms(2) [unfolded run_retr_once_def]]
  by (rule conjI)

definition reply_bytes :: "string \<Rightarrow> recv_item" where
  "reply_bytes l = Data (wire_line l)"

definition good_stream :: "recv_item list" where
  "good_stream = map reply_bytes [''220 ready'', ''331 user'', ''230 in'', ''200 binary'',
     ''229 passive (|||31|)'', ''150 go transfer_id=GFID:t-7'', ''226 done'', ''221 bye'']"

definition sample_case :: mcase where
  "sample_case = \<lparr>index = 2, direction = ''stor'', total_bytes = 64, connections = 2, chunk_size = 8,
     buffer_size = 4, checksum = ''crc32c'', preallocate = ''off'', manifest_flush_policy = ''final_only'',
     manifest_flush_interval_chunks = 4, commit_sync_policy = ''none'', final_verify_policy = ''full'',
     file_io_backend = ''posix'', file_io_buffer_size = 0, file_io_queue_depth = 1, file_io_batch_size = 1,
     file_io_advice = ''off'', posix_write_strategy = ''auto'', receiver_write_profile = ''default'',
     receiver_max_pending_bytes = 0, receiver_write_yield_policy = ''none'', tls_mode = ''off'',
     data_tls_mode = ''off'', repeat_index = 0\<rparr>"

definition sample_args :: rargs where
  "sample_args = margs.extend smoke_args (rargs.fields ''10.0.0.1'' ''root@host'' ''build'' ''/opt/b/''
     ''auto'' '''' '''' '''' '''' 3)"

definition sample_world :: "recv_item list list \<Rightarrow> completed option list \<Rightarrow> world" where
  "sample_world streams results = \<lparr>environ = [], attempts = map (Accepted True) streams, send_results = [],
     run_results = results, inbox = [], pending = '''', events = []\<rparr>"

theorem single_transfer_order_witness:
  "fst (run_stor_once sample_args sample_case ''/tmp/a b'' ''x.bin'' ''/tmp/e''
      (sample_world [good_stream] [Some (0, ''ok'', '''')])) = Inr (''t-7'', ''ok'') \<and>
   last (events (snd (run_stor_once sample_args sample_case ''/tmp/a b'' ''x.bin'' ''/tmp/e''
      (sample_world [good_stream] [Some (0, ''ok'', '''')])))) = Closed \<and>
   last (events (snd (run_retr_once sample_args sample_case ''x.bin'' ''/tmp/o'' ''/tmp/e''
      (sample_world [good_stream] [Some (0, '''', ''fine'')])))) = Closed"
proof -
  let ?s = "run_stor_once sample_args sample_case ''/tmp/a b'' ''x.bin'' ''/tmp/e''
      (sample_world [good_stream] [Some (0, ''ok'', '''')])"
  let ?r = "run_retr_once sample_args sample_case ''x.bin'' ''/tmp/o'' ''/tmp/e''
      (sample_world [good_stream] [Some (0, '''', ''fine'')])"
  have s: "fst ?s = Inr (''t-7'', ''ok'')" by code_simp
  then have s': "?s = (Inr (''t-7'', ''ok''), snd ?s)" by (metis prod.collapse)
  have "fst ?r = Inr (''t-7'', ''fine'')" by code_simp
  then have r': "?r = (Inr (''t-7'', ''fine''), snd ?r)" by (metis prod.collapse)
  have "last (events (snd ?s)) = Closed" "last (events (snd ?r)) = Closed"
    using single_transfer_order [OF s' r'] by (elim conjE exE, simp)+
  with s show ?thesis by blast
qed

definition resumed_run ::
  "'a rargs_scheme \<Rightarrow> mcase \<Rightarrow> string \<Rightarrow> string \<Rightarrow> (int \<Rightarrow> bool \<Rightarrow> int option \<Rightarrow> event) \<Rightarrow> string \<Rightarrow> event list \<Rightarrow> bool" where
  "resumed_run args c verb name client_run tid trace \<longleftrightarrow>
     (\<exists>g r1 r2 r3 e s f port g' r1' r2' r3' k e' s' f' q port'.
        trace =
          [Connected (a_server_host args) (control_port args (index c)), Reply g]
          @ ask ''USER gridflux'' r1 @ ask ''PASS gridflux'' r2 @ ask ''TYPE I'' r3
          @ ask ''EPSV'' e @ ask (verb @ '' '' @ name) s
          @ [client_run port False (Some (a_max_chunks args)), Reply f, Closed]
          @ [Connected (a_server_host args) (control_port args (index c)), Reply g']
          @ ask ''USER gridflux'' r1' @ ask ''PASS gridflux'' r2' @ ask ''TYPE I'' r3'
          @ ask (''REST GFID:'' @ tid) k @ ask ''EPSV'' e' @ ask (verb @ '' '' @ name) s'
          @ [client_run port' True None, Reply f', Sent (wire_line ''QUIT'')] @ q @ [Closed] \<and>
        map reply_code [g, r1, r2, r3, e, s, f] = [220, 331, 230, 200, 229, 150, 550] \<and>
        map reply_code [g', r1', r2', r3', k, e', s', f'] = [220, 331, 230, 200, 350, 229, 150, 226] \<and>
        parse_epsv_port e = Inr port \<and> parse_epsv_port e' = Inr port' \<and>
        parse_transfer_id s = Inr tid \<and> parse_transfer_id s' = Inr tid \<and>
        (q = [] \<or> (\<exists>r. q = [Reply r])))"

context logged_client
begin

lemma transfer_resume_order:
  assumes "transfer_resume args c verb name client w = (Inr (tid, output), w')"
  shows "\<exists>trace. events w' = events w @ trace \<and>
    resumed_run args c verb name (\<lambda>port resume limit. ran w remote (command_line port tid resume limit)) tid trace"
proof -
  from assms obtain tid1 before w1 where 1: "partial_transfer args c verb name client w = (Inr (tid1, before), w1)"
    and 2: "resumed_transfer args c verb name client tid1 before w1 = (Inr (tid, output), w')"
    unfolding transfer_resume_def act_bind_ok by auto
  from resumed_transfer_order [OF 2] have t: "tid1 = tid" by blast
  from partial_transfer_order [OF 1] have "environ w1 = environ w" by blast
  then have n: "ran w1 = ran w" by (simp add: ran_def fun_eq_iff)
  from partial_transfer_order [OF 1] obtain g r1 r2 r3 e s f port where p: "events w1 = events w
      @ [Connected (a_server_host args) (control_port args (index c)), Reply g]
      @ ask ''USER gridflux'' r1 @ ask ''PASS gridflux'' r2 @ ask ''TYPE I'' r3
      @ ask ''EPSV'' e @ ask (verb @ '' '' @ name) s
      @ [ran w remote (command_line port tid1 False (Some (a_max_chunks args))), Reply f, Closed]"
    "map reply_code [g, r1, r2, r3, e, s, f] = [220, 331, 230, 200, 229, 150, 550]"
    "parse_epsv_port e = Inr port" "parse_transfer_id s = Inr tid1"
    by (elim exE conjE) (rule that)
  from resumed_transfer_order [OF 2, THEN conjunct2] obtain g' r1' r2' r3' k e' s' f' q port'
    where r: "events w' = events w1
      @ [Connected (a_server_host args) (control_port args (index c)), Reply g']
      @ ask ''USER gridflux'' r1' @ ask ''PASS gridflux'' r2' @ ask ''TYPE I'' r3'
      @ ask (''REST GFID:'' @ tid) k @ ask ''EPSV'' e' @ ask (verb @ '' '' @ name) s'
      @ [ran w1 remote (command_line port' tid True None), Reply f', Sent (wire_line ''QUIT'')]
      @ q @ [Closed]"
    "map reply_code [g', r1', r2', r3', k, e', s', f'] = [220, 331, 230, 200, 350, 229, 150, 226]"
    "parse_epsv_port e' = Inr port'" "parse_transfer_id s' = Inr tid" "q = [] \<or> (\<exists>r. q = [Reply r])"
    by (elim exE conjE) (rule that)
  show ?thesis
    unfolding resumed_run_def
    by (rule exI, rule conjI [OF r(1) [unfolded p(1) append_assoc n t]], intro exI conjI, rule refl,
        rule p(2), rule r(2), rule p(3), rule r(3), rule p(4) [unfolded t], rule r(4), rule r(5))
qed

end

text \<open>
  C18: A resumed transfer continues the interrupted one. When \<open>run_stor_resume\<close> or
  \<open>run_retr_resume\<close> returns, its trace is: a full login, \<open>EPSV\<close>, \<open>STOR\<close>/\<open>RETR\<close>, a data client limited to
  \<open>--max-chunks\<close>, the server's 550 and a close; then a second full login, \<open>REST\<close> with the transfer id of
  the first part, \<open>EPSV\<close>, the same \<open>STOR\<close>/\<open>RETR\<close>, an unlimited data client with \<open>--resume\<close>, 226, \<open>QUIT\<close>
  and close. Both client runs and both server replies carry the same transfer id, which is the
  one returned.
\<close>

theorem resume_continues:
  assumes "run_stor_resume args c source name elog w = (Inr (tid, out), w')"
    and "run_retr_resume args c name' target elog v = (Inr (tid', out'), v')"
  shows "(\<exists>trace. events w' = events w @ trace \<and>
      resumed_run args c ''STOR'' name (\<lambda>port resume limit. ran w (a_remote args)
        (join '' '' (upload_pieces args c source port tid elog resume limit))) tid trace) \<and>
    (\<exists>trace. events v' = events v @ trace \<and>
      resumed_run args c ''RETR'' name' (\<lambda>port resume limit. ran v (a_remote args)
        (join '' '' (download_pieces args c target port tid' elog resume limit))) tid' trace)"
  using upload.transfer_resume_order [OF assms(1) [unfolded run_stor_resume_def]]
    download.transfer_resume_order [OF assms(2) [unfolded run_retr_resume_def]]
  by (rule conjI)

definition cut_stream :: "recv_item list" where
  "cut_stream = map reply_bytes [''220 ready'', ''331 user'', ''230 in'', ''200 binary'',
     ''229 passive (|||31|)'', ''150 go transfer_id=GFID:t-7'', ''550 cut'']"

definition rest_stream :: "recv_item list" where
  "rest_stream = map reply_bytes [''220 ready'', ''331 user'', ''230 in'', ''200 binary'', ''350 rest'',
     ''229 passive (|||31|)'', ''150 go transfer_id=GFID:t-7'', ''226 done'']"

theorem resume_continues_witness:
  "fst (run_stor_resume sample_args sample_case ''/tmp/s'' ''x.bin'' ''/tmp/e''
      (sample_world [cut_stream, rest_stream] [Some (1, ''a'', ''''), Some (0, ''b'', '''')]))
    = Inr (''t-7'', ''ab'') \<and>
   last (events (snd (run_stor_resume sample_args sample_case ''/tmp/s'' ''x.bin'' ''/tmp/e''
      (sample_world [cut_stream, rest_stream] [Some (1, ''a'', ''''), Some (0, ''b'', '''')])))) = Closed"
proof -
  let ?s = "run_stor_resume sample_args sample_case ''/tmp/s'' ''x.bin'' ''/tmp/e''
      (sample_world [cut_stream, rest_stream] [Some (1, ''a'', ''''), Some (0, ''b'', '''')])"
  let ?r = "run_retr_resume sample_args sample_case ''x.bin'' ''/tmp/o'' ''/tmp/e''
      (sample_world [cut_stream, rest_stream] [Some (1, ''a'', ''''), Some (0, ''b'', '''')])"
  have s: "fst ?s = Inr (''t-7'', ''ab'')" by code_simp
  then have s': "?s = (Inr (''t-7'', ''ab''), snd ?s)" by (metis prod.collapse)
  have "fst ?r = Inr (''t-7'', ''ab'')" by code_simp
  then have r': "?r = (Inr (''t-7'', ''ab''), snd ?r)" by (metis prod.collapse)
  have "last (events (snd ?s)) = Closed"
    using resume_continues [OF s' r', THEN conjunct1] unfolding resumed_run_def
    by (elim conjE exE) simp
  with s show ?thesis by blast
qed

section \<open>Connections are closed\<close>

fun open_count :: "event list \<Rightarrow> int" where
  "open_count [] = 0"
| "open_count (Connected _ _ # es) = open_count es + 1"
| "open_count (Closed # es) = open_count es - 1"
| "open_count (_ # es) = open_count es"

lemma open_count_append [simp]: "open_count (xs @ ys) = open_count xs + open_count ys"
  by (induction xs rule: open_count.induct) auto

definition same_open :: "world \<Rightarrow> world \<Rightarrow> bool" where
  "same_open w w' \<longleftrightarrow> open_count (events w') = open_count (events w)"

interpretation keeps_open: effect_order same_open
  by unfold_locales (auto simp: same_open_def)

lemma recv_reply_keeps: "keeps_open.grows recv_reply"
  by (rule keeps_open.growsI) (auto simp: recv_reply_def same_open_def split: prod.splits sum.splits)

lemma send_keeps: "keeps_open.grows (send command)"
proof -
  have "keeps_open.grows (sendall data)" for data
    by (rule keeps_open.growsI) (auto simp: sendall_def same_open_def split: list.splits bool.splits)
  then show ?thesis unfolding send_def by (intro keeps_open.grows_rules recv_reply_keeps)
qed

lemmas session_keeps = keeps_open.grows_rules recv_reply_keeps send_keeps

lemma expect_reply_keeps: "keeps_open.grows (expect_reply n m r)"
  unfolding expect_reply_def by (intro session_keeps)

lemma open_epsv_keeps: "keeps_open.grows open_epsv"
  unfolding open_epsv_def by (intro session_keeps expect_reply_keeps)

lemma start_transfer_keeps: "keeps_open.grows (start_transfer verb name)"
  unfolding start_transfer_def by (intro session_keeps expect_reply_keeps open_epsv_keeps)

lemma quit_keeps: "keeps_open.grows quit"
  unfolding quit_def by (intro session_keeps) (auto split: py_error.split intro: session_keeps)

lemma login_opens:
  "login_control args c w = (Inr u, w1) \<Longrightarrow> open_count (events w1) = open_count (events w) + 1"
  by (drule login_control_ok) (auto simp: ask_def)

lemma session_end:
  assumes "login w = (Inr u, w1)" and "body w1 = (b, w2)"
    and "act_bind login (\<lambda>_. act_finally body close_control) w = (r, w')"
  shows "w' = w2\<lparr>events := events w2 @ [Closed]\<rparr>"
  using assms by (simp add: act_bind_def act_finally_def close_control_def log_event_def)

context logged_client
begin

lemma client_keeps: "keeps_open.grows (client port tid resume limit)"
  by (rule keeps_open.growsI) (auto simp: same_open_def ran_def dest!: client_logs)

lemma once_closes:
  assumes "login_control args c w = (Inr u, w1)" and "transfer_once args c verb name client w = (r, w')"
  shows "open_count (events w') = open_count (events w)"
proof -
  let ?body = "act_bind (start_transfer verb name) (\<lambda>(data_port, transfer_id).
        act_bind (client data_port transfer_id False None) (\<lambda>(rc, out, err).
        act_bind (act_when (rc \<noteq> 0) (act_raise (RuntimeError (out @ err)))) (\<lambda>_.
        act_bind recv_reply (\<lambda>final.
        act_bind (expect_reply 226 (verb @ '' completion failed'') final) (\<lambda>_.
        act_bind quit (\<lambda>_.
        act_ret (transfer_id, out @ err)))))))"
  have k: "keeps_open.grows ?body"
    unfolding split_def
    by (intro session_keeps expect_reply_keeps start_transfer_keeps client_keeps quit_keeps)
  obtain b w2 where b: "?body w1 = (b, w2)" by (cases "?body w1")
  from keeps_open.growsD [OF k b] have "open_count (events w2) = open_count (events w1)"
    by (simp only: same_open_def)
  moreover have "w' = w2\<lparr>events := events w2 @ [Closed]\<rparr>"
    by (rule session_end [OF assms(1) b assms(2) [unfolded transfer_once_def]])
  ultimately show ?thesis using login_opens [OF assms(1)] by simp
qed

end

text \<open>
  C33: No connection is left open by a transfer that got past its login: whatever happens
  after it, an unexpected reply, a failing or timed-out data client, a broken stream or an
  exception in \<open>QUIT\<close>, the control connection is closed again when the function returns or raises.
\<close>

theorem transfer_closes_connection:
  assumes "login_control args c w = (Inr u, w1)"
  shows "open_count (events (snd (run_stor_once args c source name elog w))) = open_count (events w) \<and>
    open_count (events (snd (run_retr_once args c name' target elog w))) = open_count (events w)"
proof
  show "open_count (events (snd (run_stor_once args c source name elog w))) = open_count (events w)"
    unfolding run_stor_once_def
    by (rule upload.once_closes [OF assms prod.collapse [symmetric]])
  show "open_count (events (snd (run_retr_once args c name' target elog w))) = open_count (events w)"
    unfolding run_retr_once_def
    by (rule download.once_closes [OF assms prod.collapse [symmetric]])
qed

theorem transfer_closes_connection_witness:
  "fst (run_stor_once sample_args sample_case ''/tmp/s'' ''x.bin'' ''/tmp/e''
      (sample_world [take 6 good_stream @ [Stall]] [Some (0, '''', '''')])) = Inl (OSError ''timed out'') \<and>
   open_count (events (snd (run_stor_once sample_args sample_case ''/tmp/s'' ''x.bin'' ''/tmp/e''
      (sample_world [take 6 good_stream @ [Stall]] [Some (0, '''', '''')])))) = 0"
proof -
  let ?w = "sample_world [take 6 good_stream @ [Stall]] [Some (0, '''', '''')]"
  have "fst (login_control sample_args sample_case ?w) = Inr ()" by code_simp
  then have l: "login_control sample_args sample_case ?w
      = (Inr (), snd (login_control sample_args sample_case ?w))" by (metis prod.collapse)
  have "events ?w = []" by code_simp
  moreover have "fst (run_stor_once sample_args sample_case ''/tmp/s'' ''x.bin'' ''/tmp/e'' ?w)
      = Inl (OSError ''timed out'')" by code_simp
  ultimately show ?thesis using transfer_closes_connection [OF l] by simp
qed

end
