(* ===== verification/Py_Csv.thy ===== *)
theory Py_Csv
  imports Py_Strings
begin

text \<open>
  The part of Python's \<open>csv\<close> module the tooling uses, with the default dialect: the reader as the
  state machine of its specification, \<open>DictReader\<close>, and the row writer with minimal quoting.
  Files are opened with \<open>newline=""\<close>, so line ends reach the reader untranslated.
\<close>

section \<open>Reader\<close>

definition quote_char :: char where "quote_char = CHR 0x22"

definition comma :: char where "comma = CHR '',''"

datatype csv_state = StartRecord | StartField | InField | InQuoted | QuoteInQuoted

function csv_scan :: "csv_state \<Rightarrow> string \<Rightarrow> string list \<Rightarrow> string \<Rightarrow> string list list" where
  \<comment> \<open>the field and the record read so far, then the rest of the input\<close>
  "csv_scan st fld rec [] = (if st = StartRecord then [] else [rec @ [fld]])"
| "csv_scan st fld rec (c # cs) =
     (if st = InQuoted
      then (if c = quote_char then csv_scan QuoteInQuoted fld rec cs
            else csv_scan InQuoted (fld @ [c]) rec cs)
      else if st = QuoteInQuoted \<and> c = quote_char then csv_scan InQuoted (fld @ [c]) rec cs
      else if c = newline
      then (if st = StartRecord then [] else rec @ [fld]) # csv_scan StartRecord [] [] cs
      else if c = carriage_return
      then (if st = StartRecord then [] else rec @ [fld])
           # csv_scan StartRecord [] [] (if cs \<noteq> [] \<and> hd cs = newline then tl cs else cs)
      else if c = comma then csv_scan StartField [] (rec @ [fld]) cs
      else if c = quote_char \<and> (st = StartRecord \<or> st = StartField) then csv_scan InQuoted [] rec cs
      else csv_scan InField (fld @ [c]) rec cs)"
  by pat_completeness auto
termination
  by (relation "measure (\<lambda>(st, fld, rec, cs). length cs)") auto

definition csv_records :: "string \<Rightarrow> string list list" where
  "csv_records s = csv_scan StartRecord [] [] s"

text \<open>
  A row of \<open>DictReader\<close>: a header without a value has \<open>None\<close>; the values beyond the header are
  under the key \<open>None\<close>.
\<close>

record csv_row =
  cells :: "(string, string option) pydict"
  extra :: "string list"

fun zip_row :: "string list \<Rightarrow> string list \<Rightarrow> csv_row" where
  "zip_row (k # ks) (v # vs) =
     (zip_row ks vs)\<lparr>cells := (case map_of (cells (zip_row ks vs)) k of
        None \<Rightarrow> (k, Some v) # cells (zip_row ks vs) | Some _ \<Rightarrow> cells (zip_row ks vs))\<rparr>"
| "zip_row [] vs = \<lparr>cells = [], extra = vs\<rparr>"
| "zip_row ks [] = \<lparr>cells = map (\<lambda>k. (k, None)) ks, extra = []\<rparr>"

definition dict_rows :: "string \<Rightarrow> csv_row list" where
  "dict_rows s =
     (case csv_records s of
        [] \<Rightarrow> []
      | header # records \<Rightarrow> map (zip_row header) (filter (\<lambda>r. r \<noteq> []) records))"

definition cell_get :: "csv_row \<Rightarrow> string \<Rightarrow> string option" where
  \<comment> \<open>\<open>row.get(field)\<close>\<close>
  "cell_get row field = (case map_of (cells row) field of None \<Rightarrow> None | Some v \<Rightarrow> v)"

section \<open>Writer\<close>

definition csv_special :: "char \<Rightarrow> bool" where
  "csv_special c \<longleftrightarrow> c = comma \<or> c = quote_char \<or> c = carriage_return \<or> c = newline"

definition double_quotes :: "string \<Rightarrow> string" where
  "double_quotes f = concat (map (\<lambda>c. if c = quote_char then [c, c] else [c]) f)"

definition csv_quoted :: "string \<Rightarrow> string" where
  "csv_quoted f = [quote_char] @ double_quotes f @ [quote_char]"

definition csv_field :: "string \<Rightarrow> string" where
  "csv_field f = (if list_ex csv_special f then csv_quoted f else f)"

definition csv_line :: "string list \<Rightarrow> string" where
  \<comment> \<open>a single empty field is quoted, so that the row is not taken for an empty one\<close>
  "csv_line row =
     (if row = [''''] then csv_quoted '''' else join [comma] (map csv_field row))
     @ [carriage_return, newline]"

definition csv_text :: "string list list \<Rightarrow> string" where
  "csv_text rows = concat (map csv_line rows)"

section \<open>What was written is read back\<close>

lemma special_chars:
  "comma \<noteq> newline" "comma \<noteq> carriage_return" "comma \<noteq> quote_char"
  "quote_char \<noteq> newline" "quote_char \<noteq> carriage_return" "carriage_return \<noteq> newline"
  by (simp_all add: comma_def quote_char_def)

lemma scan_plain_run:
  "\<not> list_ex csv_special f \<Longrightarrow> csv_scan InField fld rec (f @ rest) = csv_scan InField (fld @ f) rec rest"
  by (induction f arbitrary: fld) (auto simp: csv_special_def)

lemma scan_quoted_run:
  "csv_scan InQuoted fld rec (double_quotes f @ quote_char # rest) = csv_scan QuoteInQuoted (fld @ f) rec rest"
  by (induction f arbitrary: fld) (auto simp: double_quotes_def)

text \<open>After a written field the scanner holds it, in a state where a comma or a line end closes it.\<close>

lemma scan_field:
  assumes "st = StartRecord \<or> st = StartField" and "sep = comma \<or> sep = carriage_return"
    and "st = StartRecord \<and> f = '''' \<longrightarrow> sep = comma"
  shows "csv_scan st [] rec (csv_field f @ sep # rest) =
    (if sep = comma then csv_scan StartField [] (rec @ [f]) rest
     else (rec @ [f]) # csv_scan StartRecord [] [] (if rest \<noteq> [] \<and> hd rest = newline then tl rest else rest))"
proof (cases "list_ex csv_special f")
  case True
  then show ?thesis
    using assms special_chars scan_quoted_run [of "[]" rec f "sep # rest"]
    by (auto simp: csv_field_def csv_quoted_def)
next
  case False
  show ?thesis
  proof (cases f)
    case Nil
    then show ?thesis using assms special_chars by (auto simp: csv_field_def)
  next
    case (Cons c cs)
    with False have "\<not> csv_special c" "\<not> list_ex csv_special cs" by auto
    then have "csv_scan st [] rec (f @ sep # rest) = csv_scan InField f rec (sep # rest)"
      using assms(1) scan_plain_run [of cs "[c]" rec "sep # rest"]
      by (auto simp: Cons csv_special_def simp del: csv_scan.simps)
        (simp_all add: csv_scan.simps(2) [of _ _ _ c])
    then show ?thesis using False assms(2) special_chars by (auto simp: csv_field_def)
  qed
qed

lemma scan_fields:
  assumes "fs \<noteq> []" and "st = StartRecord \<or> st = StartField" and "st = StartRecord \<longrightarrow> fs \<noteq> ['''']"
  shows "csv_scan st [] rec (join [comma] (map csv_field fs) @ [carriage_return, newline] @ rest)
    = (rec @ fs) # csv_scan StartRecord [] [] rest"
  using assms
proof (induction fs arbitrary: st rec)
  case (Cons f fs)
  show ?case
  proof (cases fs)
    case Nil
    with Cons.prems special_chars scan_field [of st carriage_return f rec "newline # rest"]
    show ?thesis by auto
  next
    case (Cons g gs)
    then have "csv_scan st [] rec (join [comma] (map csv_field (f # fs)) @ [carriage_return, newline] @ rest)
        = csv_scan StartField [] (rec @ [f]) (join [comma] (map csv_field fs) @ [carriage_return, newline] @ rest)"
      using Cons.prems(2) scan_field [of st comma f rec] by simp
    also have "\<dots> = (rec @ f # fs) # csv_scan StartRecord [] [] rest"
      using Cons.IH [of StartField "rec @ [f]"] Cons by simp
    finally show ?thesis .
  qed
qed simp

lemma scan_line:
  "csv_scan StartRecord [] [] (csv_line row @ rest) = row # csv_scan StartRecord [] [] rest"
proof -
  consider "row = []" | "row = ['''']" | "row \<noteq> []" "row \<noteq> ['''']" by blast
  then show ?thesis
  proof cases
    case 1
    then show ?thesis using special_chars by (simp add: csv_line_def)
  next
    case 2
    then show ?thesis using special_chars by (simp add: csv_line_def csv_quoted_def double_quotes_def)
  next
    case 3
    then show ?thesis using scan_fields [of row StartRecord "[]" rest] by (simp add: csv_line_def)
  qed
qed

lemma csv_records_text: "csv_records (csv_text rows) = rows"
proof -
  have "csv_scan StartRecord [] [] (csv_text rows @ []) = rows"
    by (induction rows) (simp_all add: csv_text_def scan_line)
  then show ?thesis by (simp add: csv_records_def)
qed

lemma zip_row_cells:
  assumes "length vs = length ks" and "distinct ks"
  shows "cells (zip_row ks vs) = zip ks (map Some vs) \<and> extra (zip_row ks vs) = []"
  using assms
proof (induction vs ks rule: list_induct2)
  case (Cons v vs k ks)
  then have IH: "cells (zip_row ks vs) = zip ks (map Some vs)" "extra (zip_row ks vs) = []" by auto
  have "map_of (zip ks (map Some vs)) k = None" using Cons by (simp add: map_of_zip_is_None)
  then show ?case by (simp add: IH)
qed simp

lemma zip_row_get:
  assumes "distinct ks" and "length vs = length ks"
  shows "cell_get (zip_row ks vs) k = map_of (zip ks vs) k"
proof -
  have "map_of (zip ks (map Some vs)) k = map_option Some (map_of (zip ks vs) k)"
    using assms(2) by (induction vs ks rule: list_induct2) auto
  then show ?thesis
    using zip_row_cells [OF assms(2,1)]
    by (cases "map_of (zip ks vs) k") (simp_all add: cell_get_def)
qed

end
