(* ===== verification/Py_Json_Text.thy ===== *)
theory Py_Json_Text
  imports Py_Json "HOL-Library.List_Lexorder" "HOL-Library.Char_ord"
begin

text \<open>
  \<open>json.loads\<close> and \<open>json.dumps(value, indent=2, sort_keys=True)\<close> on the text of a file. The parser
  carries a bound on the nesting depth; the length of the text is enough, since every level
  consumes a character.
\<close>

section \<open>Strings\<close>

definition byte_of :: "int \<Rightarrow> char" where
  "byte_of n = char_of (nat n)"

definition utf8_encode :: "int \<Rightarrow> string" where
  "utf8_encode n =
     (if n < 128 then [byte_of n]
      else if n < 2048 then [byte_of (192 + n div 64), byte_of (128 + n mod 64)]
      else if n < 65536
      then [byte_of (224 + n div 4096), byte_of (128 + n div 64 mod 64), byte_of (128 + n mod 64)]
      else [byte_of (240 + n div 262144), byte_of (128 + n div 4096 mod 64),
            byte_of (128 + n div 64 mod 64), byte_of (128 + n mod 64)])"

definition hex_value :: "char \<Rightarrow> int option" where
  "hex_value c =
     (if is_digit c then Some (int (code c) - 48)
      else if 97 \<le> code c \<and> code c \<le> 102 then Some (int (code c) - 87)
      else if 65 \<le> code c \<and> code c \<le> 70 then Some (int (code c) - 55) else None)"

definition hex4 :: "string \<Rightarrow> int option" where
  "hex4 s =
     (case map hex_value (take 4 s) of
        [Some a, Some b, Some c, Some d] \<Rightarrow> Some (((a * 16 + b) * 16 + c) * 16 + d)
      | _ \<Rightarrow> None)"

definition simple_escape :: "char \<Rightarrow> char option" where
  "simple_escape c =
     map_of [(CHR 0x22, CHR 0x22), (CHR 0x5C, CHR 0x5C), (CHR ''/'', CHR ''/''), (CHR ''b'', CHR 0x08),
       (CHR ''f'', CHR 0x0C), (CHR ''n'', CHR 0x0A), (CHR ''r'', CHR 0x0D), (CHR ''t'', CHR 0x09)] c"

definition low_surrogate :: "string \<Rightarrow> int option" where
  \<comment> \<open>a second \<open>\u\<close> escape that completes a surrogate pair\<close>
  "low_surrogate s =
     (if starts_with [CHR 0x5C, CHR ''u''] s
      then (case hex4 (drop 2 s) of
              Some n \<Rightarrow> (if 56320 \<le> n \<and> n < 57344 then Some n else None)
            | None \<Rightarrow> None)
      else None)"

function parse_string :: "string \<Rightarrow> string \<Rightarrow> (string \<times> string) option" where
  \<comment> \<open>the characters after the opening quote; the result and the rest after the closing one\<close>
  "parse_string out [] = None"
| "parse_string out (c # cs) =
     (if c = CHR 0x22 then Some (out, cs)
      else if code c < 32 then None
      else if c \<noteq> CHR 0x5C then parse_string (out @ [c]) cs
      else (case cs of
              [] \<Rightarrow> None
            | e # rest \<Rightarrow>
                (if e = CHR ''u''
                 then (case hex4 rest of
                         None \<Rightarrow> None
                       | Some n \<Rightarrow>
                           (case (if 55296 \<le> n \<and> n < 56320 then low_surrogate (drop 4 rest) else None) of
                              Some m \<Rightarrow> parse_string (out @ utf8_encode
                                  (65536 + (n - 55296) * 1024 + (m - 56320))) (drop 10 rest)
                            | None \<Rightarrow> parse_string (out @ utf8_encode n) (drop 4 rest)))
                 else (case simple_escape e of
                         None \<Rightarrow> None
                       | Some d \<Rightarrow> parse_string (out @ [d]) rest))))"
  by pat_completeness auto
termination
  by (relation "measure (\<lambda>(out, s). length s)") auto

section \<open>Values\<close>

definition json_space :: "char \<Rightarrow> bool" where
  "json_space c \<longleftrightarrow> c = CHR '' '' \<or> c = CHR 0x09 \<or> c = newline \<or> c = carriage_return"

definition skip_space :: "string \<Rightarrow> string" where
  "skip_space = dropWhile json_space"

definition digits_of :: "string \<Rightarrow> string" where
  "digits_of = takeWhile is_digit"

definition number_whole :: "string \<Rightarrow> string" where
  "number_whole s = (if starts_with ''0'' s then ''0'' else digits_of s)"

definition number_frac :: "string \<Rightarrow> string" where
  "number_frac s =
     (if starts_with ''.'' s \<and> digits_of (tl s) \<noteq> '''' then CHR ''.'' # digits_of (tl s) else '''')"

definition number_expo :: "string \<Rightarrow> string" where
  "number_expo s =
     (if s = [] \<or> hd s \<notin> {CHR ''e'', CHR ''E''} then ''''
      else let esign = (if starts_with ''+'' (tl s) \<or> starts_with ''-'' (tl s) then take 2 s else take 1 s);
               ds = digits_of (drop (length esign) s)
           in if ds = '''' then '''' else esign @ ds)"

definition parse_number :: "string \<Rightarrow> (json \<times> string) option" where
  "parse_number s =
     (let sign = (if starts_with ''-'' s then ''-'' else '''');
          s1 = drop (length sign) s;
          whole = number_whole s1;
          s2 = drop (length whole) s1;
          frac = number_frac s2;
          s3 = drop (length frac) s2;
          expo = number_expo s3
      in if whole = '''' then None
         else if frac = '''' \<and> expo = ''''
         then Some (JInt ((if sign = '''' then 1 else -1) * int (digits_value whole)), s2)
         else map_option (\<lambda>f. (JReal f, drop (length expo) s3)) (py_float (sign @ whole @ frac @ expo)))"

definition parse_word :: "string \<Rightarrow> (json \<times> string) option" where
  "parse_word s =
     (if starts_with ''null'' s then Some (JNull, drop 4 s)
      else if starts_with ''true'' s then Some (JBool True, drop 4 s)
      else if starts_with ''false'' s then Some (JBool False, drop 5 s)
      else if starts_with ''NaN'' s then Some (JReal NaN, drop 3 s)
      else if starts_with ''Infinity'' s then Some (JReal (Inf False), drop 8 s)
      else if starts_with ''-Infinity'' s then Some (JReal (Inf True), drop 9 s)
      else parse_number s)"

fun parse_value :: "nat \<Rightarrow> string \<Rightarrow> (json \<times> string) option"
and parse_elems :: "nat \<Rightarrow> json list \<Rightarrow> string \<Rightarrow> (json \<times> string) option"
and parse_members :: "nat \<Rightarrow> (string \<times> json) list \<Rightarrow> string \<Rightarrow> (json \<times> string) option" where
  "parse_value 0 s = None"
| "parse_value (Suc n) s =
     (case s of
        [] \<Rightarrow> None
      | c # cs \<Rightarrow>
          (if c = CHR 0x22 then map_option (\<lambda>(t, r). (JStr t, r)) (parse_string [] cs)
           else if c = CHR ''['' then
             (if starts_with '']'' (skip_space cs) then Some (JArr [], tl (skip_space cs))
              else parse_elems n [] (skip_space cs))
           else if c = CHR ''{'' then
             (if starts_with ''}'' (skip_space cs) then Some (JObj [], tl (skip_space cs))
              else parse_members n [] (skip_space cs))
           else parse_word s))"
| "parse_elems 0 done s = None"
| "parse_elems (Suc n) done s =
     (case parse_value n s of
        None \<Rightarrow> None
      | Some (v, r) \<Rightarrow>
          (case skip_space r of
             c # cs \<Rightarrow>
               (if c = CHR '','' then parse_elems n (done @ [v]) (skip_space cs)
                else if c = CHR '']'' then Some (JArr (done @ [v]), cs) else None)
           | [] \<Rightarrow> None))"
| "parse_members 0 done s = None"
| "parse_members (Suc n) done s =
     (if \<not> starts_with [CHR 0x22] s then None
      else (case parse_string [] (tl s) of
              None \<Rightarrow> None
            | Some (k, r) \<Rightarrow>
                (if \<not> starts_with '':'' (skip_space r) then None
                 else (case parse_value n (skip_space (tl (skip_space r))) of
                         None \<Rightarrow> None
                       | Some (v, r') \<Rightarrow>
                           (case skip_space r' of
                              c # cs \<Rightarrow>
                                (if c = CHR '','' then parse_members n (dict_set k v done) (skip_space cs)
                                 else if c = CHR ''}'' then Some (JObj (dict_set k v done), cs) else None)
                            | [] \<Rightarrow> None)))))"

definition json_loads :: "string \<Rightarrow> json option" where
  \<comment> \<open>\<open>None\<close> is \<open>JSONDecodeError\<close>\<close>
  "json_loads s =
     (case parse_value (Suc (2 * length s)) (skip_space s) of
        Some (v, r) \<Rightarrow> (if skip_space r = [] then Some v else None)
      | None \<Rightarrow> None)"

section \<open>Printing\<close>

definition hex_at :: "int \<Rightarrow> int \<Rightarrow> char" where
  "hex_at n d = hex_digit (nat (n div d mod 16))"

definition u_escape :: "int \<Rightarrow> string" where
  "u_escape n = [CHR 0x5C, CHR ''u'', hex_at n 4096, hex_at n 256, hex_at n 16, hex_at n 1]"

definition lead_bits :: "int \<Rightarrow> int \<times> nat" where
  \<comment> \<open>payload of a UTF-8 lead byte and the number of bytes that follow\<close>
  "lead_bits b = (if b < 128 then (b, 0) else if b < 224 then (b - 192, 1)
     else if b < 240 then (b - 224, 2) else (b - 240, 3))"

definition escape_code :: "int \<Rightarrow> string" where
  "escape_code n =
     (if n < 65536 then u_escape n
      else u_escape (55296 + (n - 65536) div 1024) @ u_escape (56320 + (n - 65536) mod 1024))"

function json_escape :: "string \<Rightarrow> string" where
  \<comment> \<open>\<open>ensure_ascii=True\<close>\<close>
  "json_escape [] = []"
| "json_escape (c # cs) =
     (if c = CHR 0x22 \<or> c = CHR 0x5C then CHR 0x5C # c # json_escape cs
      else if c = newline then CHR 0x5C # CHR ''n'' # json_escape cs
      else if c = carriage_return then CHR 0x5C # CHR ''r'' # json_escape cs
      else if c = CHR 0x09 then CHR 0x5C # CHR ''t'' # json_escape cs
      else if c = CHR 0x08 then CHR 0x5C # CHR ''b'' # json_escape cs
      else if c = CHR 0x0C then CHR 0x5C # CHR ''f'' # json_escape cs
      else if code c < 32 \<or> code c = 127 then u_escape (int (code c)) @ json_escape cs
      else if code c < 128 then c # json_escape cs
      else (let (payload, k) = lead_bits (int (code c)) in
            escape_code (foldl (\<lambda>n d. n * 64 + int (code d) mod 64) payload (take k cs)) @ json_escape (drop k cs)))"
  by pat_completeness auto
termination
  by (relation "measure length") auto

definition json_quote :: "string \<Rightarrow> string" where
  "json_quote s = [CHR 0x22] @ json_escape s @ [CHR 0x22]"

definition pad :: "nat \<Rightarrow> string" where
  "pad n = replicate n CHR '' ''"

fun json_dump :: "nat \<Rightarrow> json \<Rightarrow> string" where
  "json_dump n JNull = ''null''"
| "json_dump n (JBool b) = (if b then ''true'' else ''false'')"
| "json_dump n (JInt i) = show_int i"
| "json_dump n (JReal f) =
     (case f of NaN \<Rightarrow> ''NaN'' | Inf s \<Rightarrow> (if s then ''-Infinity'' else ''Infinity'') | _ \<Rightarrow> float_repr f)"
| "json_dump n (JStr s) = json_quote s"
| "json_dump n (JArr xs) =
     (if xs = [] then ''[]''
      else [CHR ''['', newline] @ join [CHR '','', newline] (map (\<lambda>x. pad (n + 2) @ json_dump (n + 2) x) xs)
           @ [newline] @ pad n @ '']'')"
| "json_dump n (JObj kvs) =
     (if kvs = [] then ''{}''
      else [CHR ''{'', newline]
           @ join [CHR '','', newline]
               (map snd (sort_key fst (map (\<lambda>kv. (fst kv,
                  pad (n + 2) @ json_quote (fst kv) @ '': '' @ json_dump (n + 2) (snd kv))) kvs)))
           @ [newline] @ pad n @ ''}'')"

definition json_dumps :: "json \<Rightarrow> string" where
  "json_dumps j = json_dump 0 j"

end
