(* ===== verification/Release_Steps.thy ===== *)
theory Release_Steps
  imports Artifact_Sync Remote_Auth Py_Regex Py_Csv Py_Json_Text
begin

text \<open>
  What the release gates share, from tools/release/run_alpha_release_gate.py: the repository tree
  with modification times, subprocess steps with their logs and error codes, reading of JSON and
  CSV results, the selection of artifacts, and the artifact manifest with its freshness check.

  The world of a gate is the repository below its root, the outcomes of the subprocesses it
  will start (each with an arbitrary effect on the repository), the process environment, and
  the trace of commands. A file is named by its segments below the root; a path outside the root
  gets a first segment that no file of the repository has. Directories exist as far as they
  hold files, and symbolic links do not occur.
\<close>

section \<open>The repository\<close>

type_synonym repo = "(string list, string \<times> int) pydict"

definition repo_content :: "repo \<Rightarrow> string list \<Rightarrow> string option" where
  "repo_content t p = map_option fst (map_of t p)"

definition repo_is_dir :: "repo \<Rightarrow> string list \<Rightarrow> bool" where
  "repo_is_dir t p \<longleftrightarrow> p = [] \<or> list_ex (\<lambda>e. length p < length (fst e) \<and> take (length p) (fst e) = p) t"

definition repo_exists :: "repo \<Rightarrow> string list \<Rightarrow> bool" where
  "repo_exists t p \<longleftrightarrow> repo_content t p \<noteq> None \<or> repo_is_dir t p"

definition repo_is_file :: "repo \<Rightarrow> string list \<Rightarrow> bool" where
  "repo_is_file t p \<longleftrightarrow> repo_content t p \<noteq> None"

definition repo_mtime :: "repo \<Rightarrow> string list \<Rightarrow> int" where
  "repo_mtime t p = (case map_of t p of None \<Rightarrow> 0 | Some (c, m) \<Rightarrow> m)"

definition repo_read :: "repo \<Rightarrow> string list \<Rightarrow> string res" where
  "repo_read t p =
     (case repo_content t p of
        Some c \<Rightarrow> Inr c
      | None \<Rightarrow> (if repo_is_dir t p then Inl (IsADirectoryError (join ''/'' p))
                 else Inl (FileNotFoundError (join ''/'' p))))"

definition repo_fs :: "repo \<Rightarrow> fs" where
  "repo_fs t p = (case repo_content t p of Some c \<Rightarrow> Some (File c) | None \<Rightarrow> if repo_is_dir t p then Some Dir else None)"

definition read_text_strict :: "repo \<Rightarrow> string list \<Rightarrow> string res" where
  \<comment> \<open>\<open>path.read_text(encoding="utf-8")\<close>\<close>
  "read_text_strict t p = andthen (repo_read t p) (\<lambda>b. andthen (utf8_decode b) (\<lambda>s. Inr (universal_newlines s)))"

definition read_text_replace :: "repo \<Rightarrow> string list \<Rightarrow> string res" where
  \<comment> \<open>\<open>path.read_text(encoding="utf-8", errors="replace")\<close>\<close>
  "read_text_replace t p = andthen (repo_read t p) (\<lambda>b. Inr (universal_newlines (utf8_replace b)))"

fun glob_match :: "string \<Rightarrow> string \<Rightarrow> bool" where
  "glob_match [] s \<longleftrightarrow> s = []"
| "glob_match (c # p) [] \<longleftrightarrow> c = CHR ''*'' \<and> glob_match p []"
| "glob_match (c # p) (d # s) \<longleftrightarrow>
     (if c = CHR ''*'' then glob_match p (d # s) \<or> glob_match (c # p) s else c = d \<and> glob_match p s)"

definition glob_files :: "repo \<Rightarrow> string list \<Rightarrow> string list \<Rightarrow> string list list" where
  \<comment> \<open>\<open>sorted(dir.glob(pattern))\<close>, the files of it; the pattern by segments\<close>
  "glob_files t dir pattern =
     sort (map fst (filter (\<lambda>e. length (fst e) = length dir + length pattern \<and>
       take (length dir) (fst e) = dir \<and> list_all2 glob_match pattern (drop (length dir) (fst e))) t))"

definition rglob_files :: "repo \<Rightarrow> string list \<Rightarrow> string list list" where
  "rglob_files t dir =
     sort (map fst (filter (\<lambda>e. length dir < length (fst e) \<and> take (length dir) (fst e) = dir) t))"

section \<open>The world of a gate\<close>

record proc =
  p_rc :: int
  p_out :: string
  p_err :: string
  p_elapsed :: pyfloat
  p_effect :: "repo \<Rightarrow> repo"

record rworld =
  root_dir :: string
  tree :: repo
  ticks :: int
  procs :: "proc option list"
  process_env :: environ
  sshpass_installed :: bool
  sha :: "string \<Rightarrow> string"
  utc_at :: "int \<Rightarrow> string"
  compact_at :: "int \<Rightarrow> string"
  interpreter :: string
  pid :: int
  lock_taken :: bool
  commands :: "string list list"
  printed :: "string list"
  printed_err :: "string list"

text \<open>
  \<open>procs\<close>: how the next subprocesses end, \<open>None\<close> for a program that cannot be started. \<open>sha\<close> is
  SHA-256.
  \<open>ticks\<close> counts what happened, so that no two readings of the clock are taken to be equal:
  \<open>utc_at\<close> and \<open>compact_at\<close> render the time at a tick. \<open>interpreter\<close> is \<open>sys.executable\<close>,
  \<open>lock_taken\<close> says whether another process holds the lock of the gate.
\<close>

definition gets :: "(rworld \<Rightarrow> 'a) \<Rightarrow> (rworld, 'a) act" where
  "gets f w = (Inr (f w), w)"

definition lift_tree :: "(repo \<Rightarrow> 'a res) \<Rightarrow> (rworld, 'a) act" where
  "lift_tree f w = (f (tree w), w)"

definition file_above :: "repo \<Rightarrow> string list \<Rightarrow> bool" where
  \<comment> \<open>a file stands where the path needs a directory\<close>
  "file_above t p \<longleftrightarrow> list_ex (\<lambda>n. repo_is_file t (take n p)) [1..<length p]"

definition make_dirs :: "string list \<Rightarrow> (rworld, unit) act" where
  \<comment> \<open>\<open>mkdir(parents=True, exist_ok=True)\<close>: directories need no entry of their own\<close>
  "make_dirs p w =
     (if file_above (tree w) p then (Inl (NotADirectoryError (join ''/'' p)), w)
      else if repo_is_file (tree w) p then (Inl (FileExistsError (join ''/'' p)), w)
      else (Inr (), w))"

definition write_file :: "string list \<Rightarrow> string \<Rightarrow> (rworld, unit) act" where
  "write_file p content w =
     (if file_above (tree w) p then (Inl (NotADirectoryError (join ''/'' p)), w)
      else if repo_is_dir (tree w) p then (Inl (IsADirectoryError (join ''/'' p)), w)
      else (Inr (), w\<lparr>tree := dict_set p (content, ticks w) (tree w), ticks := ticks w + 1\<rparr>))"

definition timestamp_utc :: "(rworld, string) act" where
  "timestamp_utc w = (Inr (utc_at w (ticks w)), w\<lparr>ticks := ticks w + 1\<rparr>)"

definition compact_timestamp :: "(rworld, string) act" where
  "compact_timestamp w = (Inr (compact_at w (ticks w)), w\<lparr>ticks := ticks w + 1\<rparr>)"

definition print_line :: "string \<Rightarrow> (rworld, unit) act" where
  "print_line s w = (Inr (), w\<lparr>printed := printed w @ [s]\<rparr>)"

definition print_error :: "string \<Rightarrow> (rworld, unit) act" where
  \<comment> \<open>\<open>print(..., file=sys.stderr)\<close>\<close>
  "print_error s w = (Inr (), w\<lparr>printed_err := printed_err w @ [s]\<rparr>)"

definition run_process :: "string list \<Rightarrow> (rworld, proc) act" where
  "run_process command w =
     (let w1 = w\<lparr>procs := tl (procs w), commands := commands w @ [command], ticks := ticks w + 1\<rparr> in
      case procs w of
        Some p # _ \<Rightarrow> (Inr p, w1\<lparr>tree := p_effect p (tree w)\<rparr>)
      | _ \<Rightarrow> (Inl (FileNotFoundError (join '' '' (take 1 command))), w1))"

definition root_segs :: "rworld \<Rightarrow> string list" where
  "root_segs w = segs (to_path (root_dir w))"

definition abs_text :: "rworld \<Rightarrow> string list \<Rightarrow> string" where
  \<comment> \<open>\<open>str(root / relative)\<close>\<close>
  "abs_text w p =
     as_posix (to_path (root_dir w)\<lparr>segs := (case p of [] \<Rightarrow> root_segs w | s # q \<Rightarrow>
       if s = '''' then q else root_segs w @ p)\<rparr>)"

definition key_of :: "rworld \<Rightarrow> string \<Rightarrow> string list" where
  \<comment> \<open>the file a path text names, for a process started in the root\<close>
  "key_of w s =
     (let p = to_path s in
      if is_absolute p
      then (if take (length (root_segs w)) (segs p) = root_segs w then drop (length (root_segs w)) (segs p)
            else '''' # segs p)
      else segs p)"

fun collapse_dots :: "string list \<Rightarrow> string list \<Rightarrow> string list" where
  \<comment> \<open>\<open>resolve()\<close>: an upward segment removes the one before it\<close>
  "collapse_dots done [] = done"
| "collapse_dots done (w # ws) =
     (if w = ''..'' then collapse_dots (butlast done) ws else collapse_dots (done @ [w]) ws)"

definition rel_text :: "string list \<Rightarrow> string" where
  "rel_text p = (if p = [] then ''.'' else join ''/'' p)"

definition relative_to_root :: "rworld \<Rightarrow> string \<Rightarrow> string" where
  "relative_to_root w path =
     (if path = '''' then ''''
      else
        (let parsed = to_path path; r = collapse_dots [] (segs parsed); n = length (root_segs w) in
         if is_absolute parsed
         then (if take n r = root_segs w then rel_text (drop n r) else path)
         else path))"

definition normalize_artifact_path :: "rworld \<Rightarrow> string \<Rightarrow> string option" where
  "normalize_artifact_path w value =
     (if value = '''' then None
      else
        (let parsed = to_path value; r = collapse_dots [] (segs parsed); n = length (root_segs w) in
         if is_absolute parsed
         then (if take n r = root_segs w then Some (rel_text (drop n r)) else None)
         else if ''..'' \<in> set (parts parsed) then None
         else Some (as_posix parsed)))"

section \<open>Steps\<close>

record step_result =
  s_name :: string
  s_status :: string
  s_returncode :: int
  s_log :: string
  s_elapsed :: pyfloat
  s_error_code :: string

definition step_dict :: "step_result \<Rightarrow> json" where
  \<comment> \<open>\<open>asdict(step)\<close>\<close>
  "step_dict s = JObj [(''name'', JStr (s_name s)), (''status'', JStr (s_status s)),
     (''returncode'', JInt (s_returncode s)), (''log'', JStr (s_log s)),
     (''elapsed_seconds'', JReal (s_elapsed s)), (''error_code'', JStr (s_error_code s))]"

definition any_in :: "string list \<Rightarrow> string \<Rightarrow> bool" where
  "any_in words s \<longleftrightarrow> list_ex (\<lambda>word. contains word s) words"

definition classify_error_text :: "string \<Rightarrow> string" where
  "classify_error_text text =
     (let lowered = py_lower text in
      if lowered = '''' then ''unknown_error''
      else if any_in [''please login'', ''auth required''] lowered then ''auth_required''
      else if any_in [''login incorrect'', ''pass rejected'', ''auth failed''] lowered then ''auth_failed''
      else if contains ''changed'' lowered then ''changed_file''
      else if contains ''manifest'' lowered \<and> any_in [''corrupt'', ''checksum'', ''invalid'', ''stale''] lowered
      then ''manifest_corrupt''
      else if contains ''checksum'' lowered \<and> any_in [''mismatch'', ''failed''] lowered then ''checksum_mismatch''
      else if contains ''data tls'' lowered \<and> contains ''required'' lowered then ''data_tls_required''
      else if contains ''data tls'' lowered then ''data_tls_failed''
      else if contains ''tls required'' lowered then ''tls_required''
      else if any_in [''tls'', ''ssl'', ''certificate'', ''private key''] lowered then ''tls_failed''
      else if contains ''remote'' lowered \<and> any_in [''sync'', ''artifact''] lowered then ''remote_sync_failed''
      else if any_in [''path'', ''escape'', ''outside''] lowered then ''path_rejected''
      else if any_in [''protocol'', ''frame'', ''unexpected''] lowered then ''protocol_error''
      else if any_in [''open'', ''read'', ''write'', ''stat'', ''connect'', ''socket'', ''recv'', ''send''] lowered
      then ''io_error''
      else if any_in [''unknown option'', ''requires a value'', ''invalid''] lowered then ''config_error''
      else ''unknown_error'')"

definition step_log_text_of :: "string list \<Rightarrow> proc \<Rightarrow> string" where
  "step_log_text_of command p =
     ''$ '' @ join '' '' command @ [newline, newline] @ p_out p @ p_err p"

definition finished_step :: "string \<Rightarrow> string \<Rightarrow> proc \<Rightarrow> step_result" where
  "finished_step name log p =
     \<lparr>s_name = name, s_status = (if p_rc p = 0 then ''pass'' else ''fail''), s_returncode = p_rc p,
      s_log = log, s_elapsed = p_elapsed p,
      s_error_code = (if p_rc p = 0 then ''ok'' else classify_error_text (p_out p @ p_err p))\<rparr>"

definition run_step :: "string \<Rightarrow> string list \<Rightarrow> string list \<Rightarrow> (rworld, step_result) act" where
  "run_step name command log_dir =
     (let log_path = log_dir @ [name @ ''.log''] in
      act_bind (run_process command) (\<lambda>p.
      act_bind (write_file log_path (step_log_text_of command p)) (\<lambda>_.
      act_bind (gets (\<lambda>w. abs_text w log_path)) (\<lambda>log.
      act_ret (finished_step name log p)))))"

fun run_steps :: "(string \<times> string list) list \<Rightarrow> string list \<Rightarrow> (rworld, step_result list) act" where
  "run_steps [] log_dir = act_ret []"
| "run_steps ((name, command) # specs) log_dir =
     act_bind (run_step name command log_dir) (\<lambda>step.
     act_bind (run_steps specs log_dir) (\<lambda>steps.
     act_ret (step # steps)))"

definition ctest_counts_rx :: rx where
  "ctest_counts_rx = rx_seq [Grp 1 (rx_plus (Cls is_digit)), rx_lit ''% tests passed, '',
     Grp 2 (rx_plus (Cls is_digit)), rx_lit '' tests failed out of '', Grp 3 (rx_plus (Cls is_digit))]"

definition not_newline :: rx where
  "not_newline = Cls (\<lambda>c. c \<noteq> newline)"

definition ctest_time_rx :: rx where
  "ctest_time_rx = rx_seq [rx_lit ''Total Test time'', Star not_newline, rx_lit [newline, newline],
     LazyStar (Seq (Star not_newline) (rx_lit [newline])), Grp 1 (rx_plus (Cls is_digit)),
     rx_lit ''% tests passed'']"

definition group_int :: "caps \<Rightarrow> nat \<Rightarrow> json" where
  "group_int cs k = JInt (int (digits_value (case map_of cs k of None \<Rightarrow> '''' | Some d \<Rightarrow> d)))"

definition ctest_counts :: "repo \<Rightarrow> string list \<Rightarrow> json res" where
  "ctest_counts t log_path =
     andthen (if repo_exists t log_path then read_text_replace t log_path else Inr '''') (\<lambda>text.
     Inr (case re_search ctest_counts_rx text of
            Some (i, j, cs) \<Rightarrow> JObj [(''passed_percent'', group_int cs 1), (''failed'', group_int cs 2),
              (''total'', group_int cs 3)]
          | None \<Rightarrow> JObj [(''summary'', JStr (case re_search ctest_time_rx text of
              None \<Rightarrow> '''' | Some (i, j, cs) \<Rightarrow> take (j - i) (drop i text)))]))"

definition PROCESS_PATTERN :: string where
  "PROCESS_PATTERN = [CHR 0x27] @ ''[g]ridflux-gridftp-server|[g]ridflux-file-'' @ [CHR 0x27]"

definition agents_file :: "rworld \<Rightarrow> string option" where
  "agents_file w = repo_content (tree w) [''AGENTS.md'']"

definition remote_prefix :: "string \<Rightarrow> (rworld, string list) act" where
  \<comment> \<open>\<open>remote_auth.ssh_prefix(remote)\<close>\<close>
  "remote_prefix remote w =
     (Remote_Auth.ssh_prefix (sshpass_installed w) (process_env w) remote (agents_file w) 10, w)"

definition run_remote_process_check :: "string \<Rightarrow> (rworld, string \<times> string) act" where
  \<comment> \<open>the lines of left-over processes, local and remote\<close>
  "run_remote_process_check remote =
     act_bind (run_process [''bash'', ''-lc'', ''pgrep -af '' @ PROCESS_PATTERN @ '' || true'']) (\<lambda>p.
     if remote = '''' then act_ret (py_strip (p_out p), '''')
     else act_bind (remote_prefix remote) (\<lambda>prefix.
          act_bind (run_process (prefix @ [''pgrep -af '' @ PROCESS_PATTERN @ '' || true''])) (\<lambda>q.
          act_ret (py_strip (p_out p), py_strip (p_out q)))))"

definition residual_dict :: "string \<times> string \<Rightarrow> json" where
  "residual_dict r = JObj [(''local'', JStr (fst r)), (''remote'', JStr (snd r))]"

definition read_json_if_exists :: "repo \<Rightarrow> string list \<Rightarrow> (string, json) pydict res" where
  "read_json_if_exists t p =
     (if \<not> repo_exists t p then Inr []
      else andthen (read_text_strict t p) (\<lambda>text.
           Inr (case json_loads text of Some (JObj kvs) \<Rightarrow> kvs | _ \<Rightarrow> [])))"

section \<open>Matrix results\<close>

definition row_fail_count :: "csv_row \<Rightarrow> int" where
  \<comment> \<open>\<open>int(row.get("fail_count", "0") or "0")\<close>, one for a text that is not a number\<close>
  "row_fail_count row =
     (let text = (case map_of (cells row) ''fail_count'' of Some (Some v) \<Rightarrow> v | _ \<Rightarrow> ''0'');
          text' = (if text = '''' then ''0'' else text)
      in case py_int text' of Some n \<Rightarrow> n | None \<Rightarrow> 1)"

definition is_default_row :: "csv_row \<Rightarrow> bool" where
  "is_default_row row \<longleftrightarrow>
     cell_get row ''file_io_backend'' = Some ''posix'' \<and> cell_get row ''file_io_buffer_size'' = Some ''0'' \<and>
     cell_get row ''posix_write_strategy'' = Some ''auto'' \<and>
     cell_get row ''manifest_flush_policy'' = Some ''every_n_chunks'' \<and>
     cell_get row ''manifest_flush_interval_chunks'' = Some ''16'' \<and>
     cell_get row ''commit_sync_policy'' = Some ''none'' \<and>
     cell_get row ''final_verify_policy'' = Some ''full'' \<and>
     cell_get row ''checksum_algorithm'' = Some ''crc32c''"

definition row_json :: "csv_row \<Rightarrow> json" where
  "row_json row = JObj (map (\<lambda>(k, v). (k, case v of None \<Rightarrow> JNull | Some s \<Rightarrow> JStr s)) (cells row))"

definition parse_matrix_summary :: "repo \<Rightarrow> string list \<Rightarrow> (string, json) pydict res" where
  "parse_matrix_summary t p =
     (if \<not> repo_exists t p
      then Inr [(''status'', JStr ''missing''), (''rows'', JInt 0), (''fail_count'', JInt (-1)),
                (''default_baseline'', JArr [])]
      else andthen (repo_read t p) (\<lambda>b.
           andthen (utf8_decode b) (\<lambda>text.
           (let rows = dict_rows text; fail_count = sum_list (map row_fail_count rows) in
            Inr [(''status'', JStr (if fail_count = 0 \<and> rows \<noteq> [] then ''pass'' else ''fail'')),
                 (''rows'', JInt (int (length rows))), (''fail_count'', JInt fail_count),
                 (''default_baseline'', JArr (map row_json (filter is_default_row rows)))]))))"

definition latest_by_mtime :: "repo \<Rightarrow> string list list \<Rightarrow> string list option" where
  \<comment> \<open>\<open>max\<close> keeps the first of equal ones\<close>
  "latest_by_mtime t paths =
     (case filter (repo_is_file t) paths of
        [] \<Rightarrow> None
      | p # ps \<Rightarrow> Some (foldl (\<lambda>best q. if repo_mtime t best < repo_mtime t q then q else best) p ps))"

definition find_latest_matrix_csvs :: "repo \<Rightarrow> string list \<Rightarrow> string list list \<Rightarrow> string list option \<times> string list option" where
  "find_latest_matrix_csvs t results_dir earlier =
     (let new_files = sort_key (repo_mtime t)
            (filter (\<lambda>p. p \<notin> set earlier) (glob_files t results_dir [''*_gridftp-private-matrix-*.csv'']));
          raw = filter (\<lambda>p. \<not> ends_with ''-summary.csv'' (last_seg p)) new_files;
          summary = filter (\<lambda>p. ends_with ''-summary.csv'' (last_seg p)) new_files
      in (if raw = [] then None else Some (last raw), if summary = [] then None else Some (last summary)))"

section \<open>Artifacts\<close>

definition is_log_field :: "string \<Rightarrow> bool" where
  \<comment> \<open>\<open>field.endswith("_log")\<close> covers every name of the explicit list\<close>
  "is_log_field f \<longleftrightarrow> ends_with ''_log'' f \<or>
     f \<in> set [''server_log'', ''client_log'', ''event_log'', ''server_env_before_log'',
       ''server_env_after_log'', ''client_env_before_log'', ''client_env_after_log'']"

definition sorted_set :: "string list \<Rightarrow> string list" where
  "sorted_set xs = sort (remdups xs)"

definition cell_paths :: "(string \<Rightarrow> string option) \<Rightarrow> string \<times> string option \<Rightarrow> string list" where
  "cell_paths norm kv =
     (if is_log_field (fst kv)
      then List.map_filter (\<lambda>part. norm (py_strip part))
             (split_on CHR '';'' (case snd kv of None \<Rightarrow> ''None'' | Some v \<Rightarrow> v))
      else [])"

fun rows_paths :: "(string \<Rightarrow> string option) \<Rightarrow> csv_row list \<Rightarrow> string list res" where
  \<comment> \<open>the key of values beyond the header is \<open>None\<close>, which has no \<open>endswith\<close>\<close>
  "rows_paths norm [] = Inr []"
| "rows_paths norm (row # rows) =
     (if extra row \<noteq> [] then Inl AttributeError
      else andthen (rows_paths norm rows) (\<lambda>ps. Inr (concat (map (cell_paths norm) (cells row)) @ ps)))"

definition csv_referenced_artifacts :: "rworld \<Rightarrow> string \<Rightarrow> string list res" where
  "csv_referenced_artifacts w csv_path =
     (case normalize_artifact_path w csv_path of
        None \<Rightarrow> Inr []
      | Some normalized \<Rightarrow>
          (if normalized = '''' then Inr []
           else
             (let p = segs (to_path normalized) in
              if \<not> repo_exists (tree w) p then Inr [normalized]
              else andthen (repo_read (tree w) p) (\<lambda>b.
                   andthen (utf8_decode b) (\<lambda>text.
                   andthen (rows_paths (normalize_artifact_path w) (dict_rows text)) (\<lambda>ps.
                   Inr (sorted_set (normalized # ps))))))))"

definition rel_texts :: "string list list \<Rightarrow> string list" where
  "rel_texts ps = sort (map rel_text ps)"

definition release_doc_paths :: "repo \<Rightarrow> string list" where
  "release_doc_paths t = rel_texts (glob_files t [''docs'', ''release''] [''*.md''])"

definition release_tool_paths :: "repo \<Rightarrow> string list" where
  "release_tool_paths t = rel_texts (glob_files t [''tools'', ''release''] [''*.py''])"

definition tree_test_tool_paths :: "repo \<Rightarrow> string list" where
  "tree_test_tool_paths t = rel_texts (glob_files t [''tools'', ''test''] [''*tree*.py''])"

definition security_test_tool_paths :: "repo \<Rightarrow> string list" where
  "security_test_tool_paths t =
     sorted_set (concat (map (\<lambda>pattern. map rel_text (glob_files t [''tools'', ''test''] [pattern]))
       [''*tls*.py'', ''*token*.py'', ''*event_log*.py'', ''*soak*.py'']))"

definition perf_tools_present :: "repo \<Rightarrow> string list \<Rightarrow> string list" where
  "perf_tools_present t names =
     sort (map rel_text (filter (repo_is_file t) (map (\<lambda>name. [''tools'', ''perf'', name]) names)))"

definition tree_perf_tool_paths :: "repo \<Rightarrow> string list" where
  "tree_perf_tool_paths t = perf_tools_present t
     [''run_gridftp_tree_private_matrix.py'', ''analyze_phase5b.py'', ''analyze_phase5c.py'']"

definition beta_perf_tool_paths :: "repo \<Rightarrow> string list" where
  "beta_perf_tool_paths t = perf_tools_present t
     [''run_gridftp_private_matrix.py'', ''run_beta1a_private_readiness.py'', ''analyze_beta1a.py'',
      ''test_beta1a_helpers.py'', ''run_beta1b_stor_writeback.py'', ''analyze_beta1b_stor_writeback.py'',
      ''analyze_beta1b_receiver_writeback.py'', ''analyze_beta1b_receiver_writeback_stability.py'',
      ''run_beta1b_storage_system_probe.py'', ''analyze_beta1b_storage_system.py'',
      ''run_beta1c_retr_stability.py'', ''analyze_beta1c_retr_stability.py'',
      ''run_baseline_ftp_gridftp_smoke.py'', ''run_three_way_ftp_gridftp_gridflux.py'',
      ''plot_three_way_comparison.py'', ''test_beta1b_stor_writeback.py'']"

definition demo_tool_paths :: "repo \<Rightarrow> string list" where
  "demo_tool_paths t = rel_texts (glob_files t [''tools'', ''demo''] [''*.py''])"

definition results_key :: "string list" where
  "results_key = [''tools'', ''perf'', ''results'']"

definition is_demo_result :: "string list \<Rightarrow> bool" where
  \<comment> \<open>the path below the results directory\<close>
  "is_demo_result p \<longleftrightarrow>
     (let relative = join ''/'' p in
      \<not> contains ''/dataset/'' relative \<and> \<not> contains ''/work/'' relative \<and>
      \<not> contains ''.gridflux.'' relative \<and> \<not> contains ''.part.'' relative \<and>
      name_suffix (last_seg p) \<in> {''.json'', ''.log'', ''.csv'', ''.txt'', ''.md''})"

definition latest_demo_artifacts :: "repo \<Rightarrow> string list" where
  "latest_demo_artifacts t =
     (let below = rglob_files t results_key;
          strip = drop (length results_key)
      in sorted_set (map rel_text
           (glob_files t results_key [''*_alpha-demo-*.json'']
            @ filter (\<lambda>p. is_demo_result (strip p))
                (glob_files t results_key [''*_alpha-release-gate'', ''alpha_demo*''])
            @ filter (\<lambda>p. 1 < length (strip p) \<and> glob_match ''*_alpha-demo-*'' (hd (strip p)) \<and>
                is_demo_result (strip p)) below)))"

definition latest_tree_matrix_artifacts :: "rworld \<Rightarrow> string list res" where
  "latest_tree_matrix_artifacts w =
     (let raw = latest_by_mtime (tree w) (glob_files (tree w) results_key [''*_gridftp-tree-private-matrix.csv'']);
          summary = latest_by_mtime (tree w)
            (glob_files (tree w) results_key [''*_gridftp-tree-private-matrix-summary.csv''])
      in andthen (collect (\<lambda>p. csv_referenced_artifacts w (rel_text p)) (List.map_filter id [raw, summary]))
           (\<lambda>pss. Inr (sorted_set (concat pss))))"

definition ALPHA_DOCS :: "string list" where
  "ALPHA_DOCS =
     [''INDEX.md'', ''docs/ROADMAP.md'', ''docs/PROJECT_STATE.md'', ''docs/DESIGN.md'',
      ''docs/ARCHITECTURE_ALPHA.md'', ''docs/ENGINEERING.md'', ''docs/DIRECTORY_TRANSFER.md'',
      ''docs/DEMO.md'', ''docs/SECURITY.md'', ''docs/OBSERVABILITY.md'', ''docs/perf/README.md'',
      ''docs/perf/BETA1A_100G_READINESS.md'', ''docs/perf/BETA1B_DATA_TLS_RESUME_AND_STOR_WRITE.md'',
      ''docs/perf/BETA1B_STOR_WRITEBACK_DIAGNOSIS.md'', ''docs/perf/BETA1B_RECEIVER_WRITEBACK_OPTIN.md'',
      ''docs/perf/BETA1B_RECEIVER_WRITEBACK_STABILITY.md'',
      ''docs/perf/BETA1B_STORAGE_SYSTEM_ATTRIBUTION.md'', ''docs/perf/BETA1C_RETR_STABILITY.md'',
      ''docs/perf/BETA_PERFORMANCE_SUMMARY.md'', ''docs/perf/100G_MIGRATION_CHECKLIST.md'',
      ''docs/perf/BASELINE_FTP_GRIDFTP_SMOKE.md'', ''docs/perf/FTP_GRIDFTP_GRIDFLUX_COMPARISON.md'',
      ''docs/perf/PHASE5B_TREE_DATASET_MATRIX.md'', ''docs/perf/PHASE5C_TREE_ALPHA_HARDENING.md'',
      ''docs/release/PHASE5D_ALPHA_DEMO.md'']"

definition keep_artifact :: "repo \<Rightarrow> string \<Rightarrow> string option" where
  \<comment> \<open>policy-conforming and present, in normal form\<close>
  "keep_artifact t path =
     (case validate_artifact_path path of
        Inl _ \<Rightarrow> None
      | Inr normalized \<Rightarrow> (if repo_is_file t (segs (to_path normalized)) then Some normalized else None))"

definition matrix_references :: "rworld \<Rightarrow> string \<Rightarrow> string list res" where
  "matrix_references w csv =
     (if csv = '''' then Inr [] else csv_referenced_artifacts w (relative_to_root w csv))"

definition collect_alpha_artifact_paths :: "rworld \<Rightarrow> string \<Rightarrow> string \<Rightarrow> string \<Rightarrow> string list res" where
  "collect_alpha_artifact_paths w gate_json matrix_raw matrix_summary =
     andthen (latest_tree_matrix_artifacts w) (\<lambda>tree_matrix.
     andthen (matrix_references w matrix_raw) (\<lambda>raw_refs.
     andthen (matrix_references w matrix_summary) (\<lambda>summary_refs.
     (let t = tree w;
          paths = ALPHA_DOCS @ [relative_to_root w gate_json] @ release_doc_paths t @ release_tool_paths t
            @ tree_test_tool_paths t @ security_test_tool_paths t @ tree_perf_tool_paths t
            @ beta_perf_tool_paths t @ demo_tool_paths t @ latest_demo_artifacts t @ tree_matrix
            @ raw_refs @ summary_refs
      in Inr (List.map_filter (keep_artifact t) (sorted_set (filter (\<lambda>p. p \<noteq> '''') paths)))))))"

section \<open>The artifact manifest\<close>

definition artifact_dict :: "manifest_artifact \<Rightarrow> json" where
  "artifact_dict a = JObj [(''path'', JStr (ma_path a)), (''size'', JInt (ma_size a)),
     (''sha256'', JStr (ma_sha256 a)), (''type'', JStr (ma_type a)), (''required'', JBool (ma_required a))]"

definition write_alpha_artifact_manifest ::
  "string list \<Rightarrow> string \<Rightarrow> bool \<Rightarrow> string list \<Rightarrow> (rworld, json list) act" where
  \<comment> \<open>returns the list of artifacts of the manifest\<close>
  "write_alpha_artifact_manifest path source_hash remote_required artifact_paths =
     act_bind (gets (\<lambda>w. collect (\<lambda>p. manifest_entry_for (sha w) (repo_fs (tree w)) p True) artifact_paths)) (\<lambda>r.
     act_bind (act_lift r) (\<lambda>entries.
     act_bind timestamp_utc (\<lambda>now.
     act_bind (write_file path (json_dumps (JObj [(''timestamp'', JStr now),
        (''source_tree_hash'', JStr source_hash), (''remote_required'', JBool remote_required),
        (''artifacts'', JArr (map artifact_dict entries))]) @ [newline])) (\<lambda>_.
     act_ret (map artifact_dict entries)))))"

definition check_entry :: "(string \<Rightarrow> string) \<Rightarrow> repo \<Rightarrow> (string, json) pydict \<Rightarrow> json option res" where
  \<comment> \<open>the reason why an entry of the manifest is stale, if it is\<close>
  "check_entry h t item =
     (let relative = py_str (field item ''path'' (JStr '''')) in
      case validate_artifact_path relative of
        Inl (ValueError m) \<Rightarrow> Inr (Some (JObj [(''path'', JStr relative), (''reason'', JStr m)]))
      | Inl e \<Rightarrow> Inl e
      | Inr normalized \<Rightarrow>
          (let p = segs (to_path normalized) in
           case repo_content t p of
             None \<Rightarrow> Inr (Some (JObj [(''path'', JStr normalized), (''reason'', JStr ''missing'')]))
           | Some b \<Rightarrow>
               (let digest = h (concat (read_blocks (length b) (1024 * 1024) b)) in
                andthen (to_int (field item ''size'' (JInt (-1)))) (\<lambda>size.
                Inr (if int (length b) \<noteq> size \<or> digest \<noteq> py_str (field item ''sha256'' (JStr ''''))
                     then Some (JObj [(''path'', JStr normalized), (''reason'', JStr ''stale_hash''),
                       (''manifest_size'', field item ''size'' JNull), (''current_size'', JInt (int (length b))),
                       (''manifest_sha256'', field item ''sha256'' JNull), (''current_sha256'', JStr digest)])
                     else None)))))"

fun stale_entries :: "(string \<Rightarrow> string) \<Rightarrow> repo \<Rightarrow> json list \<Rightarrow> json list res" where
  "stale_entries h t [] = Inr []"
| "stale_entries h t (JObj item # items) =
     andthen (check_entry h t item) (\<lambda>r.
     andthen (stale_entries h t items) (\<lambda>rest.
     Inr (case r of None \<Rightarrow> rest | Some d \<Rightarrow> d # rest)))"
| "stale_entries h t (_ # items) = stale_entries h t items"

definition freshness_of :: "rworld \<Rightarrow> string list \<Rightarrow> (string, json) pydict \<Rightarrow> (string, json) pydict res" where
  "freshness_of w manifest_path data =
     andthen (iterate (field data ''artifacts'' (JArr []))) (\<lambda>items.
     andthen (stale_entries (sha w) (tree w) items) (\<lambda>stale.
     Inr [(''path'', JStr (relative_to_root w (abs_text w manifest_path))),
          (''checked'', JInt (int (length items))), (''stale_count'', JInt (int (length stale))),
          (''status'', JStr (if stale = [] then ''pass'' else ''fail'')), (''stale'', JArr stale)]))"

definition check_alpha_artifact_manifest_freshness ::
  "string list \<Rightarrow> (rworld, (string, json) pydict) act" where
  \<comment> \<open>a manifest that is not valid JSON, or not an object, ends the gate\<close>
  "check_alpha_artifact_manifest_freshness manifest_path w =
     (andthen (read_text_strict (tree w) manifest_path) (\<lambda>text.
      case json_loads text of
        Some (JObj data) \<Rightarrow> freshness_of w manifest_path data
      | Some _ \<Rightarrow> Inl AttributeError
      | None \<Rightarrow> Inl (ValueError ''JSONDecodeError'')), w)"

section \<open>The source tree\<close>

definition EXCLUDED_HASH_PARTS :: "string list" where
  "EXCLUDED_HASH_PARTS = [''.git'', ''__pycache__'', ''.pytest_cache'', ''tools/perf/results'']"

definition EXCLUDED_HASH_NAMES :: "string list" where
  "EXCLUDED_HASH_NAMES = [''AGENTS.md'', ''CMakeCache.txt'', ''CTestTestfile.cmake'', ''build.ninja'',
     ''cmake_install.cmake'', ''compile_commands.json'']"

definition is_build_like :: "string \<Rightarrow> bool" where
  "is_build_like part \<longleftrightarrow> part = ''build'' \<or> starts_with ''build-'' part \<or> starts_with ''cmake-build-'' part"

definition should_hash_path :: "string list \<Rightarrow> bool" where
  \<comment> \<open>the tests on the path below the root\<close>
  "should_hash_path p \<longleftrightarrow>
     \<not> list_ex (\<lambda>part. part \<in> set EXCLUDED_HASH_PARTS \<or> is_build_like part) p \<and>
     \<not> starts_with ''tools/perf/results/'' (join ''/'' p) \<and>
     last_seg p \<notin> set EXCLUDED_HASH_NAMES \<and>
     name_suffix (last_seg p) \<notin> set [''.pyc'', ''.o'', ''.a'', ''.so'', ''.log'', ''.tmp'', ''.bin'']"

definition should_hash_file :: "repo \<Rightarrow> string list \<Rightarrow> bool" where
  "should_hash_file t p \<longleftrightarrow> should_hash_path p \<and> repo_is_file t p"

definition hash_item :: "repo \<Rightarrow> string list \<Rightarrow> string" where
  \<comment> \<open>what one file adds to the digest\<close>
  "hash_item t p =
     (let b = (case repo_content t p of None \<Rightarrow> '''' | Some b \<Rightarrow> b)
      in join ''/'' p @ [CHR 0x00] @ concat (read_blocks (length b) (1024 * 1024) b))"

definition hash_input :: "repo \<Rightarrow> string" where
  "hash_input t = concat (map (hash_item t) (filter (should_hash_file t) (sort (map fst t))))"

definition source_tree_hash :: "rworld \<Rightarrow> string" where
  "source_tree_hash w = sha w (hash_input (tree w))"

definition run_git :: "string list \<Rightarrow> (rworld, string) act" where
  "run_git args =
     act_bind (run_process (''git'' # args)) (\<lambda>p.
     act_ret (if p_rc p = 0 then py_strip (p_out p) else ''''))"

definition git_status :: "(rworld, json) act" where
  "git_status =
     act_bind (run_git [''rev-parse'', ''HEAD'']) (\<lambda>head.
     act_bind (run_git [''status'', ''--short'']) (\<lambda>short.
     act_ret (JObj [(''head'', JStr head), (''status_short'', JStr short)])))"

section \<open>Synchronisation steps\<close>

definition rstrip_slash :: "string \<Rightarrow> string" where
  "rstrip_slash = rstrip_chars (\<lambda>c. c = CHR ''/'')"

definition sync_artifacts :: "string \<Rightarrow> string \<Rightarrow> string list \<Rightarrow> (rworld, step_result) act" where
  "sync_artifacts remote remote_root artifacts =
     act_bind (make_dirs results_key) (\<lambda>_.
     act_bind compact_timestamp (\<lambda>stamp.
     let log_path = results_key @ [stamp @ ''_alpha-artifact-rsync.log''] in
     act_bind (gets (\<lambda>w. (abs_text w log_path, filter (\<lambda>a. repo_exists (tree w) (key_of w a)) artifacts)))
       (\<lambda>(log, existing).
     if existing = []
     then act_bind (write_file log_path (''no artifacts to sync'' @ [newline])) (\<lambda>_.
          act_ret \<lparr>s_name = ''artifact_rsync'', s_status = ''pass'', s_returncode = 0, s_log = log,
            s_elapsed = float_zero, s_error_code = ''ok''\<rparr>)
     else act_bind (gets (\<lambda>w. wrap_with_sshpass (sshpass_installed w) (process_env w) remote
            ([''rsync'', ''-az'', ''-e'', ''ssh -o StrictHostKeyChecking=no'', ''--relative''] @ existing
             @ [remote @ '':'' @ rstrip_slash remote_root @ ''/'']) (agents_file w))) (\<lambda>wrapped.
          act_bind (act_lift wrapped) (\<lambda>(command, env).
          act_bind (run_process command) (\<lambda>p.
          act_bind (write_file log_path (step_log_text_of command p)) (\<lambda>_.
          act_ret \<lparr>s_name = ''artifact_rsync'', s_status = (if p_rc p = 0 then ''pass'' else ''fail''),
            s_returncode = p_rc p, s_log = log, s_elapsed = p_elapsed p, s_error_code = ''ok''\<rparr>)))))))"

definition sync_command :: "rworld \<Rightarrow> string list \<Rightarrow> string \<Rightarrow> string \<Rightarrow> string list \<Rightarrow> string list" where
  "sync_command w manifest_path remote remote_root json_out =
     [interpreter w, ''tools/release/sync_remote_artifacts.py'', ''--manifest'',
      relative_to_root w (abs_text w manifest_path), ''--remote'', remote, ''--local-root'', abs_text w [],
      ''--remote-root'', remote_root, ''--sync'', ''--json-output'', abs_text w json_out]"

definition verify_command :: "rworld \<Rightarrow> string list \<Rightarrow> string \<Rightarrow> string \<Rightarrow> string list \<Rightarrow> string list" where
  "verify_command w manifest_path remote remote_root json_out =
     [interpreter w, ''tools/release/check_remote_artifact_sync.py'', ''--remote'', remote,
      ''--local-root'', abs_text w [], ''--remote-root'', remote_root, ''--manifest'',
      relative_to_root w (abs_text w manifest_path), ''--json-output'', abs_text w json_out]"

definition sync_and_verify ::
  "string list \<Rightarrow> string list \<Rightarrow> string \<Rightarrow> string \<Rightarrow> string \<times> string \<Rightarrow> string \<times> string \<Rightarrow>
    (rworld, step_result \<times> step_result) act" where
  \<comment> \<open>the two steps, by name and name of their JSON report\<close>
  "sync_and_verify log_dir manifest_path remote remote_root sync_names verify_names =
     act_bind (gets (\<lambda>w. sync_command w manifest_path remote remote_root (log_dir @ [snd sync_names]))) (\<lambda>c1.
     act_bind (run_step (fst sync_names) c1 log_dir) (\<lambda>s1.
     act_bind (gets (\<lambda>w. verify_command w manifest_path remote remote_root (log_dir @ [snd verify_names]))) (\<lambda>c2.
     act_bind (run_step (fst verify_names) c2 log_dir) (\<lambda>s2.
     act_ret (s1, s2)))))"

section \<open>Reports\<close>

type_synonym report = "(string, json) pydict"

definition passed_step :: "step_result \<Rightarrow> bool" where
  "passed_step s \<longleftrightarrow> s_status s = ''pass''"

definition failed_names :: "step_result list \<Rightarrow> string list" where
  "failed_names steps = map s_name (filter (\<lambda>s. \<not> passed_step s) steps)"

definition first_failed_step :: "step_result list \<Rightarrow> json" where
  "first_failed_step steps =
     (case filter (\<lambda>s. \<not> passed_step s) steps of [] \<Rightarrow> JObj [] | s # _ \<Rightarrow> step_dict s)"

definition count_steps :: "(step_result \<Rightarrow> bool) \<Rightarrow> step_result list \<Rightarrow> json" where
  "count_steps P steps = JInt (int (length (filter P steps)))"

definition JStrs :: "string list \<Rightarrow> json" where
  "JStrs ws = JArr (map JStr ws)"

definition finish_report :: "step_result list \<Rightarrow> string list \<Rightarrow> bool \<Rightarrow> report \<Rightarrow> report" where
  "finish_report steps failures passed report =
     dict_update report [(''steps'', JArr (map step_dict steps)), (''failures'', JStrs failures),
       (''total_steps'', JInt (int (length steps))), (''passed_steps'', count_steps passed_step steps),
       (''failed_steps'', count_steps (\<lambda>s. \<not> passed_step s) steps),
       (''first_failed_step'', first_failed_step steps), (''passed'', JBool passed)]"

definition write_json_report :: "string list \<Rightarrow> report \<Rightarrow> (rworld, unit) act" where
  "write_json_report p report = write_file p (json_dumps (JObj report) @ [newline])"

definition dict_item :: "report \<Rightarrow> string \<Rightarrow> json res" where
  \<comment> \<open>\<open>report[key]\<close>\<close>
  "dict_item report k = (case map_of report k of None \<Rightarrow> Inl (KeyError k) | Some v \<Rightarrow> Inr v)"

definition get_text :: "report \<Rightarrow> string \<Rightarrow> string" where
  \<comment> \<open>\<open>f"{report.get(key, '')}"\<close>\<close>
  "get_text report k = py_str (field report k (JStr ''''))"

definition ticked :: "string \<Rightarrow> string" where
  "ticked s = ''`'' @ s @ ''`''"

definition residual_found :: "string \<times> string \<Rightarrow> bool" where
  "residual_found r \<longleftrightarrow> fst r \<noteq> '''' \<or> snd r \<noteq> ''''"

definition format_seconds :: "json \<Rightarrow> string res" where
  \<comment> \<open>\<open>f"{value:.2f}"\<close>\<close>
  "format_seconds j =
     (case j of
        JReal f \<Rightarrow> Inr (float_fixed 2 f)
      | JInt i \<Rightarrow> andthen (float_of_int i) (\<lambda>f. Inr (float_fixed 2 f))
      | JBool b \<Rightarrow> Inr (if b then ''1.00'' else ''0.00'')
      | JStr s \<Rightarrow> Inl (ValueError ''Unknown format code'')
      | _ \<Rightarrow> Inl TypeError)"

section \<open>Laws of the primitives\<close>

text \<open>
  \<open>ran w tr w'\<close>: between the two states exactly the subprocesses of the trace were started, and
  each of them ended as the world had it. It is an order of the kind \<open>effect_order\<close> asks for
  when the trace is left open.
\<close>

definition ran :: "rworld \<Rightarrow> (string list \<times> proc) list \<Rightarrow> rworld \<Rightarrow> bool" where
  "ran w tr w' \<longleftrightarrow> commands w' = commands w @ map fst tr \<and> procs w = map (Some \<circ> snd) tr @ procs w'"

lemma ran_refl [intro]: "ran w [] w"
  by (simp add: ran_def)

lemma ran_trans [trans]: "ran w tr w1 \<Longrightarrow> ran w1 tr' w2 \<Longrightarrow> ran w (tr @ tr') w2"
  by (simp add: ran_def)

lemma gets_ok [act_simps]: "gets f w = (Inr a, w') \<longleftrightarrow> a = f w \<and> w' = w"
  by (auto simp: gets_def)

lemma lift_tree_ok [act_simps]: "lift_tree f w = (Inr a, w') \<longleftrightarrow> f (tree w) = Inr a \<and> w' = w"
  by (auto simp: lift_tree_def)

lemma act_lift_ok [act_simps]: "act_lift r s = (Inr a, s') \<longleftrightarrow> r = Inr a \<and> s' = s"
  by (auto simp: act_lift_def)

lemma act_ret_ok [act_simps]: "act_ret a s = (Inr b, s') \<longleftrightarrow> b = a \<and> s' = s"
  by (auto simp: act_ret_def)

lemma run_process_ok:
  "run_process c w = (Inr p, w') \<longleftrightarrow>
     (\<exists>rest. procs w = Some p # rest \<and>
        w' = w\<lparr>procs := rest, commands := commands w @ [c], ticks := ticks w + 1, tree := p_effect p (tree w)\<rparr>)"
  by (cases "procs w") (auto simp: run_process_def Let_def split: option.splits)

lemma run_process_ran: "run_process c w = (Inr p, w') \<Longrightarrow> ran w [(c, p)] w'"
  by (auto simp: run_process_ok ran_def)

lemma write_file_ok:
  "write_file p content w = (Inr u, w') \<longleftrightarrow>
     \<not> file_above (tree w) p \<and> \<not> repo_is_dir (tree w) p \<and>
     w' = w\<lparr>tree := dict_set p (content, ticks w) (tree w), ticks := ticks w + 1\<rparr>"
  by (auto simp: write_file_def)

lemma quiet_primitives:
  "write_file p content w = (Inr u, w') \<Longrightarrow> ran w [] w'"
  "make_dirs p w = (Inr u, w') \<Longrightarrow> ran w [] w'"
  "timestamp_utc w = (Inr s, w') \<Longrightarrow> ran w [] w'"
  "compact_timestamp w = (Inr s, w') \<Longrightarrow> ran w [] w'"
  "print_line t w = (Inr u, w') \<Longrightarrow> ran w [] w'"
  "print_error t w = (Inr u, w') \<Longrightarrow> ran w [] w'"
  by (auto simp: ran_def write_file_ok make_dirs_def timestamp_utc_def compact_timestamp_def print_line_def
      print_error_def split: if_splits)

lemma run_step_ok:
  assumes "run_step name command log_dir w = (Inr s, w')"
  shows "\<exists>p. ran w [(command, p)] w' \<and> s = finished_step name (abs_text w' (log_dir @ [name @ ''.log''])) p \<and>
     repo_content (tree w') (log_dir @ [name @ ''.log'']) = Some (step_log_text_of command p)"
proof -
  obtain p w1 where p: "run_process command w = (Inr p, w1)"
    and wr: "write_file (log_dir @ [name @ ''.log'']) (step_log_text_of command p) w1 = (Inr (), w')"
    and s: "s = finished_step name (abs_text w' (log_dir @ [name @ ''.log''])) p"
    using assms by (auto simp: run_step_def Let_def act_simps)
  have "ran w [(command, p)] w'"
    using ran_trans [OF run_process_ran [OF p] quiet_primitives(1) [OF wr]] by simp
  moreover have "repo_content (tree w') (log_dir @ [name @ ''.log'']) = Some (step_log_text_of command p)"
    using wr by (auto simp: write_file_ok repo_content_def)
  ultimately show ?thesis using s by blast
qed

lemma passed_finished [simp]: "passed_step (finished_step name log p) \<longleftrightarrow> p_rc p = 0"
  by (simp add: passed_step_def finished_step_def)

lemma finished_step_fields [simp]:
  "s_name (finished_step name log p) = name" "s_returncode (finished_step name log p) = p_rc p"
  "s_log (finished_step name log p) = log" "s_elapsed (finished_step name log p) = p_elapsed p"
  by (simp_all add: finished_step_def)

lemma run_steps_ok:
  assumes "run_steps specs log_dir w = (Inr steps, w')"
  shows "\<exists>tr. ran w tr w' \<and> map fst tr = map snd specs \<and> map s_name steps = map fst specs \<and>
     list_all2 (\<lambda>s cp. passed_step s \<longleftrightarrow> p_rc (snd cp) = 0) steps tr"
  using assms
proof (induction specs log_dir arbitrary: w steps rule: run_steps.induct)
  case (1 log_dir)
  then show ?case by (auto simp: act_simps)
next
  case (2 name command specs log_dir)
  then obtain s w1 rest where s: "run_step name command log_dir w = (Inr s, w1)"
    and rest: "run_steps specs log_dir w1 = (Inr rest, w')" and steps: "steps = s # rest"
    by (auto simp: act_simps)
  obtain p where p: "ran w [(command, p)] w1" and fin: "s = finished_step name (abs_text w1 (log_dir @ [name @ ''.log''])) p"
    using run_step_ok [OF s] by blast
  obtain tr where tr: "ran w1 tr w'" "map fst tr = map snd specs" "map s_name rest = map fst specs"
     "list_all2 (\<lambda>s cp. passed_step s \<longleftrightarrow> p_rc (snd cp) = 0) rest tr"
    using "2.IH" [OF rest] by blast
  have "ran w ((command, p) # tr) w'" using ran_trans [OF p tr(1)] by simp
  then show ?case using tr fin steps by (intro exI [of _ "(command, p) # tr"]) simp
qed

text \<open>The steps of a list all pass exactly when no name is listed as failed.\<close>

lemma failed_names_Nil: "failed_names steps = [] \<longleftrightarrow> list_all passed_step steps"
  by (auto simp: failed_names_def filter_empty_conv list_all_iff)

lemma failed_names_append [simp]: "failed_names (xs @ ys) = failed_names xs @ failed_names ys"
  by (simp add: failed_names_def)

text \<open>
  \<open>vouched tr steps\<close>: when the steps all pass, every subprocess of the trace that is not a probe
  (\<open>git\<close>, or the process listings through \<open>bash\<close> and \<open>ssh\<close>) returned 0.
\<close>

definition probe :: "string list \<Rightarrow> bool" where
  "probe c \<longleftrightarrow> c = [] \<or> hd c \<in> {''git'', ''bash'', ''ssh'', ''sshpass''}"

definition vouched :: "(string list \<times> proc) list \<Rightarrow> step_result list \<Rightarrow> bool" where
  "vouched tr steps \<longleftrightarrow>
     (list_all passed_step steps \<longrightarrow> (\<forall>(c, p) \<in> set tr. probe c \<or> p_rc p = 0))"

lemma vouched_Nil [simp]: "vouched [] steps"
  by (simp add: vouched_def)

lemma vouched_append: "vouched tr xs \<Longrightarrow> vouched tr' ys \<Longrightarrow> vouched (tr @ tr') (xs @ ys)"
  by (auto simp: vouched_def)

lemma vouched_step: "(passed_step s \<longleftrightarrow> p_rc p = 0) \<Longrightarrow> vouched [(c, p)] [s]"
  by (simp add: vouched_def)

lemma vouched_probe: "probe c \<Longrightarrow> vouched [(c, p)] []"
  by (simp add: vouched_def)

lemma vouched_all2:
  "list_all2 (\<lambda>s cp. passed_step s \<longleftrightarrow> p_rc (snd cp) = 0) steps tr \<Longrightarrow> vouched tr steps"
  unfolding vouched_def by (induction rule: list_all2_induct) auto

lemma run_step_vouched:
  "run_step name command log_dir w = (Inr s, w') \<Longrightarrow> \<exists>tr. ran w tr w' \<and> vouched tr [s] \<and> map fst tr = [command]"
  by (drule run_step_ok) (fastforce intro: vouched_step)

lemma run_steps_vouched:
  "run_steps specs log_dir w = (Inr steps, w') \<Longrightarrow>
     \<exists>tr. ran w tr w' \<and> vouched tr steps \<and> map fst tr = map snd specs"
  by (drule run_steps_ok) (blast intro: vouched_all2)

text \<open>
  A part of a script that runs probes only: it may start them, but no subprocess whose return
  code would have to be looked at. Closed under the combinators.
\<close>

definition only_probes :: "(rworld, 'a) act \<Rightarrow> bool" where
  "only_probes m \<longleftrightarrow> (\<forall>w a w'. m w = (Inr a, w') \<longrightarrow> (\<exists>tr. ran w tr w' \<and> vouched tr []))"

lemma only_probesI: "(\<And>w a w'. m w = (Inr a, w') \<Longrightarrow> ran w [] w') \<Longrightarrow> only_probes m"
  unfolding only_probes_def by (metis vouched_Nil)

lemma only_probes_bind:
  assumes "only_probes m" and "\<And>a. only_probes (f a)"
  shows "only_probes (act_bind m f)"
  unfolding only_probes_def
proof (intro allI impI)
  fix w b w'
  assume "act_bind m f w = (Inr b, w')"
  then obtain a w1 where "m w = (Inr a, w1)" "f a w1 = (Inr b, w')" by (auto simp: act_simps)
  then obtain tr tr' where "ran w tr w1" "vouched tr []" "ran w1 tr' w'" "vouched tr' []"
    using assms unfolding only_probes_def by meson
  then have "ran w (tr @ tr') w'" "vouched (tr @ tr') ([] @ [])"
    by (blast intro: ran_trans vouched_append)+
  then show "\<exists>tr. ran w tr w' \<and> vouched tr []" by auto
qed

lemma only_probes_basic:
  "only_probes (act_ret a)" "only_probes (act_lift r)" "only_probes (gets g)" "only_probes (lift_tree h)"
  "only_probes (act_raise e)"
  by (auto intro!: only_probesI simp: act_simps)

lemma only_probes_primitives:
  "only_probes (write_file p content)" "only_probes (make_dirs p)" "only_probes timestamp_utc"
  "only_probes compact_timestamp" "only_probes (print_line t)" "only_probes (print_error t)"
  by (auto intro!: only_probesI elim: quiet_primitives)

lemma only_probes_when: "only_probes m \<Longrightarrow> only_probes (act_when b m)"
  by (simp add: act_when_def only_probes_basic)

lemma only_probes_process: "probe c \<Longrightarrow> only_probes (run_process c)"
  unfolding only_probes_def by (metis run_process_ran vouched_probe)

lemma ssh_prefix_probe:
  assumes "Remote_Auth.ssh_prefix i env remote agents n = Inr c"
  shows "probe (c @ cs)"
  using assms by (auto simp: Remote_Auth.ssh_prefix_def probe_def andthen_eq_Inr Let_def split: if_splits)

lemma only_probes_remote_prefix:
  assumes "\<And>prefix. \<forall>cs. probe (prefix @ cs) \<Longrightarrow> only_probes (f prefix)"
  shows "only_probes (act_bind (remote_prefix remote) f)"
  unfolding only_probes_def
proof (intro allI impI)
  fix w b w'
  assume "act_bind (remote_prefix remote) f w = (Inr b, w')"
  then obtain prefix where "Remote_Auth.ssh_prefix (sshpass_installed w) (process_env w) remote (agents_file w) 10 = Inr prefix"
    and "f prefix w = (Inr b, w')" by (auto simp: act_simps remote_prefix_def)
  then show "\<exists>tr. ran w tr w' \<and> vouched tr []"
    using assms [of prefix] ssh_prefix_probe [of _ _ _ _ _ prefix] unfolding only_probes_def by blast
qed

lemmas only_probes_rules = only_probes_bind only_probes_basic only_probes_primitives only_probes_when

lemma only_probes_check: "only_probes (run_remote_process_check remote)"
proof -
  have "probe [''bash'', ''-lc'', ''pgrep -af '' @ PROCESS_PATTERN @ '' || true'']" by (simp add: probe_def)
  then show ?thesis
    unfolding run_remote_process_check_def
    by (auto intro!: only_probes_rules only_probes_process only_probes_remote_prefix simp del: append_Cons)
qed

lemma only_probes_git: "only_probes git_status"
  unfolding git_status_def run_git_def by (auto intro!: only_probes_rules only_probes_process simp: probe_def)

section \<open>The run as a state machine\<close>

text \<open>
  Every script of the release tools moves the world by four kinds of steps only. What a script
  does between two states is a path of such steps, whether it returns or raises; the closure
  rules of the combinators are those of the interpreted contract.
\<close>

inductive gate_step :: "rworld \<Rightarrow> rworld \<Rightarrow> bool" where
  wrote: "write_file p content w = (r, w') \<Longrightarrow> gate_step w w'"
| started: "run_process c w = (r, w') \<Longrightarrow> gate_step w w'"
| clock: "gate_step w (w\<lparr>ticks := ticks w + 1\<rparr>)"
| said: "gate_step w (w\<lparr>printed := printed w @ [s]\<rparr>)"
| warned: "gate_step w (w\<lparr>printed_err := printed_err w @ [s]\<rparr>)"

abbreviation leads_to :: "rworld \<Rightarrow> rworld \<Rightarrow> bool" where
  "leads_to \<equiv> gate_step\<^sup>*\<^sup>*"

interpretation gate_run: effect_order leads_to
  by unfold_locales auto

lemma gate_run_moves:
  "gate_run.grows (write_file p content)" "gate_run.grows (run_process c)" "gate_run.grows timestamp_utc"
  "gate_run.grows compact_timestamp" "gate_run.grows (print_line s)" "gate_run.grows (print_error s)"
  by (auto intro!: gate_run.growsI r_into_rtranclp intro: gate_step.intros
      simp: timestamp_utc_def compact_timestamp_def print_line_def print_error_def)

lemma gate_run_reads:
  "gate_run.grows (make_dirs p)" "gate_run.grows (gets f)" "gate_run.grows (lift_tree g)"
  "gate_run.grows (remote_prefix remote)" "gate_run.grows (check_alpha_artifact_manifest_freshness p)"
  by (auto intro!: gate_run.growsI simp: make_dirs_def gets_def
        lift_tree_def remote_prefix_def check_alpha_artifact_manifest_freshness_def split: if_splits)

lemmas gate_run_rules = gate_run.grows_rules gate_run_moves gate_run_reads

lemma gate_run_step: "gate_run.grows (run_step name command log_dir)"
  unfolding run_step_def Let_def by (intro gate_run_rules)

lemma gate_run_steps: "gate_run.grows (run_steps specs log_dir)"
  by (induction specs log_dir rule: run_steps.induct) (auto intro!: gate_run_rules gate_run_step)

lemma gate_run_sync: "gate_run.grows (sync_and_verify log_dir m remote remote_root sn vn)"
  unfolding sync_and_verify_def by (intro gate_run_rules gate_run_step)

lemma gate_run_manifest: "gate_run.grows (write_alpha_artifact_manifest p h b paths)"
  unfolding write_alpha_artifact_manifest_def by (intro gate_run_rules)

lemma gate_run_check: "gate_run.grows (run_remote_process_check remote)"
  unfolding run_remote_process_check_def by (auto intro!: gate_run_rules)

lemma gate_run_git: "gate_run.grows git_status"
  unfolding git_status_def run_git_def by (intro gate_run_rules)

lemmas gate_run_parts = gate_run_step gate_run_steps gate_run_sync gate_run_manifest gate_run_check gate_run_git

text \<open>
  At a state between the two ends of a run the manifest was found fresh. Nothing is said of which
  state it was; \<open>full_closing\<close> in Alpha_Gate says it for the alpha gate.
\<close>

definition fresh_checked :: "string list \<Rightarrow> rworld \<Rightarrow> rworld \<Rightarrow> bool" where
  "fresh_checked manifest w w' \<longleftrightarrow>
     (\<exists>w1 fresh. leads_to w w1 \<and> leads_to w1 w' \<and>
        check_alpha_artifact_manifest_freshness manifest w1 = (Inr fresh, w1) \<and>
        field fresh ''status'' JNull = JStr ''pass'')"

lemma fresh_checked_mono:
  "leads_to w w1 \<Longrightarrow> fresh_checked m w1 w2 \<Longrightarrow> leads_to w2 w' \<Longrightarrow> fresh_checked m w w'"
  unfolding fresh_checked_def by (meson rtranclp_trans)

end
