(* ===== verification/Alpha_Gate.thy ===== *)
theory Alpha_Gate
  imports Release_Steps
begin

text \<open>
  The alpha release gate, tools/release/run_alpha_release_gate.py: the commands it runs, the
  Markdown report, the verdict and the stages of \<open>main\<close> in their order. A missing \<open>--remote\<close> or
  \<open>--server-host\<close> is the empty text; every use of them in the source tests their truth value.
\<close>

section \<open>Arguments and commands\<close>

record gargs =
  ga_full :: bool
  ga_build_dir :: string
  ga_io_uring_build_dir :: string
  ga_remote :: string
  ga_remote_root :: string
  ga_server_host :: string
  ga_results_dir :: string

definition resolved_text :: "rworld \<Rightarrow> string \<Rightarrow> string" where
  \<comment> \<open>\<open>str((root / value).resolve())\<close>\<close>
  "resolved_text w value =
     (let p = to_path value in
      as_posix (to_path (root_dir w)\<lparr>segs :=
        collapse_dots [] (if is_absolute p then segs p else root_segs w @ segs p)\<rparr>))"

definition below_remote :: "string \<Rightarrow> string \<Rightarrow> string" where
  "below_remote remote_root build_dir = rstrip_slash remote_root @ ''/'' @ build_dir"

definition smoke_spec :: "rworld \<Rightarrow> gargs \<Rightarrow> string \<Rightarrow> string \<Rightarrow> string \<times> string list" where
  "smoke_spec w args name script =
     (name, [interpreter w, ''tools/test/'' @ script, ''--build-dir'', ga_build_dir args])"

definition command_specs :: "rworld \<Rightarrow> gargs \<Rightarrow> string \<Rightarrow> string list \<Rightarrow> (string \<times> string list) list" where
  "command_specs w args stamp log_dir =
     [(''build_debug'', [''cmake'', ''--build'', ga_build_dir args]),
      (''ctest_debug'', [''ctest'', ''--test-dir'', ga_build_dir args, ''--output-on-failure'']),
      (''ctest_iouring'', [''ctest'', ''--test-dir'', ga_io_uring_build_dir args, ''--output-on-failure'']),
      (''ctest_iouring_smoke'', [''ctest'', ''--test-dir'', ga_io_uring_build_dir args, ''-R'',
         ''FileIoTest.IoUringContextReadWriteSmokeWhenAvailable'', ''--output-on-failure'']),
      (''public_export_hygiene'', [interpreter w, ''tools/release/export_public_repo.py'', ''--output'',
         ''/tmp/gridflux-public-alpha-'' @ stamp, ''--force'']),
      smoke_spec w args ''stor_smoke'' ''run_gridftp_control_stor_smoke.py'',
      smoke_spec w args ''retr_smoke'' ''run_gridftp_control_retr_smoke.py'',
      smoke_spec w args ''stor_resume_smoke'' ''run_gridftp_control_resume_smoke.py'',
      smoke_spec w args ''retr_resume_smoke'' ''run_gridftp_control_retr_resume_smoke.py'',
      smoke_spec w args ''metadata_smoke'' ''run_gridftp_control_metadata_smoke.py'',
      smoke_spec w args ''list_smoke'' ''run_gridftp_control_list_smoke.py'',
      smoke_spec w args ''token_auth_smoke'' ''run_gridftp_control_token_smoke.py'',
      smoke_spec w args ''tls_control_smoke'' ''run_gridftp_control_tls_smoke.py'',
      smoke_spec w args ''data_tls_smoke'' ''run_gridftp_data_tls_smoke.py'',
      smoke_spec w args ''tree_upload_smoke'' ''run_gridftp_tree_upload_smoke.py'',
      smoke_spec w args ''tree_download_smoke'' ''run_gridftp_tree_download_smoke.py'',
      smoke_spec w args ''tree_resume_smoke'' ''run_gridftp_tree_resume_smoke.py'',
      smoke_spec w args ''tree_parallel_smoke'' ''run_gridftp_tree_parallel_smoke.py'',
      smoke_spec w args ''tree_changed_file_smoke'' ''run_gridftp_tree_changed_file_smoke.py'',
      smoke_spec w args ''tree_edge_cases_smoke'' ''run_gridftp_tree_edge_cases_smoke.py'',
      smoke_spec w args ''tree_manifest_corrupt_smoke'' ''run_gridftp_tree_manifest_corrupt_smoke.py'',
      (''alpha_demo_local'', [interpreter w, ''tools/demo/run_alpha_demo.py'', ''--mode'', ''local'',
         ''--build-dir'', ga_build_dir args, ''--profile'', ''tiny'', ''--results-dir'', ga_results_dir args,
         ''--json-output'', abs_text w (log_dir @ [''alpha_demo_local.json'']),
         ''--event-log'', abs_text w (log_dir @ [''alpha_demo_local_events.jsonl''])])]"

definition port_text :: "rworld \<Rightarrow> int \<Rightarrow> string" where
  "port_text w base = show_int (base + pid w mod 1000)"

definition private_once ::
  "rworld \<Rightarrow> gargs \<Rightarrow> string \<Rightarrow> int \<Rightarrow> string list \<Rightarrow> string list \<Rightarrow> string list" where
  \<comment> \<open>the commands that differ by script, port range and a few options\<close>
  "private_once w args script base remote_build rest =
     [interpreter w, ''tools/test/'' @ script, ''--remote'', ga_remote args, ''--server-host'', ga_server_host args,
      ''--local-build-dir'', resolved_text w (ga_build_dir args)] @ remote_build
     @ [''--control-port'', port_text w base, ''--data-port-base'', port_text w (base + 1000),
        ''--output-dir'', ga_results_dir args] @ rest"

definition full_specs :: "rworld \<Rightarrow> gargs \<Rightarrow> string list \<Rightarrow> (string \<times> string list) list" where
  "full_specs w args log_dir =
     [(''tree_private_smoke'', [interpreter w, ''tools/test/run_gridftp_tree_private_once.py'',
         ''--remote'', ga_remote args, ''--server-host'', ga_server_host args,
         ''--local-build-dir'', resolved_text w (ga_build_dir args),
         ''--remote-build-dir'', below_remote (ga_remote_root args) (ga_build_dir args),
         ''--connections'', ''2'', ''--checksum'', ''crc32c'', ''--checksum-backend'', ''auto'',
         ''--output-dir'', ga_results_dir args]),
      (''alpha_demo_private'', [interpreter w, ''tools/demo/run_alpha_demo.py'', ''--mode'', ''private'',
         ''--build-dir'', ga_build_dir args, ''--remote'', ga_remote args, ''--remote-root'', ga_remote_root args,
         ''--server-host'', ga_server_host args, ''--profile'', ''tiny'', ''--results-dir'', ga_results_dir args,
         ''--json-output'', abs_text w (log_dir @ [''alpha_demo_private.json''])]),
      (''private_token_auth_smoke'',
         private_once w args ''run_gridftp_control_token_private_once.py'' 25000 [] []),
      (''private_tls_control_smoke'',
         private_once w args ''run_gridftp_control_tls_private_once.py'' 27000 [] []),
      (''private_data_tls_smoke'',
         private_once w args ''run_gridftp_data_tls_private_once.py'' 29000
           [''--remote-build-dir'', below_remote (ga_remote_root args) (ga_build_dir args)]
           [''--bytes'', ''1048576'']),
      (''alpha_soak_smoke'', [interpreter w, ''tools/test/run_alpha_soak_smoke.py'',
         ''--build-dir'', ga_build_dir args, ''--iterations'', ''2'',
         ''--results-dir'', abs_text w (log_dir @ [''alpha_soak'']),
         ''--json-output'', abs_text w (log_dir @ [''alpha_soak.json'']),
         ''--event-log'', abs_text w (log_dir @ [''alpha_soak_events.jsonl''])])]"

definition matrix_command :: "rworld \<Rightarrow> gargs \<Rightarrow> string list" where
  "matrix_command w args =
     [interpreter w, ''tools/perf/run_gridftp_private_matrix.py'', ''--smoke'', ''--directions'', ''stor,retr'',
      ''--bytes'', ''1073741824'', ''--connections'', ''8'', ''--chunk-sizes'', ''4194304'',
      ''--buffer-sizes'', ''262144'', ''--checksums'', ''crc32c,none'', ''--checksum-backend'', ''auto'',
      ''--file-io-backends'', ''posix'', ''--file-io-buffer-sizes'', ''0'',
      ''--posix-write-strategies'', ''auto'', ''--file-io-advices'', ''off'', ''--preallocates'', ''off'',
      ''--manifest-flush-policies'', ''every_n_chunks'', ''--manifest-flush-interval-chunks-list'', ''16'',
      ''--commit-sync-policies'', ''none'', ''--final-verify-policies'', ''full,verified_chunks'',
      ''--repeat'', ''3'', ''--remote'', ga_remote args, ''--server-host'', ga_server_host args,
      ''--local-build-dir'', resolved_text w (ga_io_uring_build_dir args),
      ''--remote-build-dir'', below_remote (ga_remote_root args) (ga_io_uring_build_dir args),
      ''--output-dir'', ga_results_dir args, ''--case-timeout'', ''900'']"

section \<open>The Markdown report\<close>

definition dict_of :: "json \<Rightarrow> report" where
  \<comment> \<open>a dictionary, empty for any other value: \<open>isinstance(x, dict) and x\<close> tests it\<close>
  "dict_of j = (case j of JObj kvs \<Rightarrow> kvs | _ \<Rightarrow> [])"

definition list_of :: "json \<Rightarrow> json list" where
  "list_of j = (case j of JArr xs \<Rightarrow> xs | _ \<Rightarrow> [])"

definition tick_line :: "string \<Rightarrow> report \<Rightarrow> string \<Rightarrow> string" where
  "tick_line label d k = ''- '' @ label @ '': '' @ ticked (get_text d k)"

definition tick_pairs :: "report \<Rightarrow> (string \<times> string) list \<Rightarrow> string" where
  "tick_pairs d pairs = join '' '' (map (\<lambda>(label, k). label @ ''='' @ ticked (get_text d k)) pairs)"

definition step_row :: "json \<Rightarrow> string res" where
  "step_row step =
     andthen (case step of JObj d \<Rightarrow> Inr d | _ \<Rightarrow> Inl TypeError) (\<lambda>d.
     andthen (dict_item d ''name'') (\<lambda>name.
     andthen (dict_item d ''status'') (\<lambda>status.
     andthen (dict_item d ''elapsed_seconds'') (\<lambda>elapsed.
     andthen (format_seconds elapsed) (\<lambda>seconds.
     andthen (dict_item d ''log'') (\<lambda>log.
     Inr (''| '' @ ticked (py_str name) @ '' | '' @ ticked (py_str status) @ '' | ''
       @ ticked (py_str (field d ''error_code'' (JStr ''ok''))) @ '' | '' @ ticked seconds @ '' | ''
       @ ticked (py_str log) @ '' |'')))))))"

definition first_failure_lines :: "report \<Rightarrow> string list" where
  "first_failure_lines report =
     (let ff = dict_of (field report ''first_failed_step'' JNull) in
      if ff = [] then []
      else ['''', ''First failed step:'', '''', tick_line ''Name'' ff ''name'',
            tick_line ''Error code'' ff ''error_code'', tick_line ''Log'' ff ''log''])"

definition baseline_row_line :: "json \<Rightarrow> string list" where
  "baseline_row_line row =
     (case row of
        JObj d \<Rightarrow> [''- direction='' @ py_str (field d ''direction'' JNull)
           @ '' throughput_median='' @ py_str (field d ''throughput_gbps_median'' JNull)
           @ '' spread_pct='' @ py_str (field d ''throughput_gbps_spread_pct'' JNull)]
      | _ \<Rightarrow> [])"

definition baseline_lines :: "report \<Rightarrow> string list" where
  "baseline_lines report =
     (let pm = dict_of (field report ''private_matrix'' (JObj []));
          rows = list_of (field pm ''default_baseline'' (JArr []))
      in ['''', ''## Private Baseline'', ''''] @
         (if pm = [] then [''- Not run in quick mode.'']
          else [tick_line ''Raw CSV'' pm ''raw_csv'', tick_line ''Summary CSV'' pm ''summary_csv'',
                tick_line ''Fail count'' pm ''fail_count'', tick_line ''Summary rows'' pm ''rows''] @
               (if rows = [] then []
                else ['''', ''Default baseline rows:'', ''''] @ concat (map baseline_row_line rows))))"

definition artifact_lines :: "report \<Rightarrow> string list" where
  "artifact_lines report =
     (let part = (\<lambda>k. dict_of (field report k (JObj [])));
          manifest = part ''artifact_manifest''; sync = part ''artifact_sync_summary'';
          verify = part ''artifact_verify_summary''; fresh = part ''artifact_manifest_freshness''
      in ['''', ''## Artifact Sync'', ''''] @
         (if manifest = [] then [''- Manifest: not generated.'']
          else [tick_line ''Manifest'' manifest ''path'', tick_line ''Artifacts'' manifest ''artifact_count'']) @
         (if sync = [] then []
          else [''- Sync: '' @ tick_pairs sync [(''checked'', ''checked''), (''synced'', ''synced''),
            (''missing'', ''missing''), (''mismatch'', ''mismatch''), (''pre_missing'', ''pre_sync_missing''),
            (''pre_mismatch'', ''pre_sync_mismatch''), (''post_missing'', ''post_sync_missing''),
            (''post_mismatch'', ''post_sync_mismatch''), (''status'', ''status'')]]) @
         (if verify = [] then []
          else [''- Verify: checked='' @ ticked (py_str (field verify ''checked'' (field verify ''total'' (JStr ''''))))
            @ '' '' @ tick_pairs verify [(''missing'', ''missing''), (''mismatch'', ''mismatch''), (''status'', ''status'')]]) @
         (if fresh = [] then []
          else [''- Local freshness: '' @ tick_pairs fresh
            [(''checked'', ''checked''), (''stale'', ''stale_count''), (''status'', ''status'')]]))"

definition closing_lines :: "report \<Rightarrow> string list" where
  "closing_lines report =
     (let residual = dict_of (field report ''residual_process_check'' (JObj []));
          failures = list_of (field report ''failures'' (JArr []))
      in ['''', ''## Alpha Readiness'', '''',
          ''- Alpha scope is demonstrable GridFTP-like framed STOR/RETR, bidirectional resume, CRC32C chunk verification, and control metadata commands.'',
          ''- Not beta/production: performance spread remains significant, 100G dedicated-line validation is not complete, and TLS/GSI/raw FTP stream/directory sync are out of scope.'',
          ''- Defaults remain POSIX backend, full final verify, every_n_chunks manifest flush, no commit fsync, no preallocate full, and no default io_uring.'',
          '''', ''## Residual Process Check'', '''',
          tick_line ''Local'' residual ''local'', tick_line ''Remote'' residual ''remote'',
          '''', ''## Failures'', ''''] @
         (if failures = [] then [''- None.''] else map (\<lambda>f. ''- '' @ py_str f) failures))"

definition markdown_report :: "report \<Rightarrow> string res" where
  "markdown_report report =
     andthen (dict_item report ''steps'') (\<lambda>steps_item.
     andthen (case steps_item of JArr xs \<Rightarrow> Inr xs | _ \<Rightarrow> Inl AssertionError) (\<lambda>steps.
     andthen (dict_item report ''timestamp'') (\<lambda>stamp.
     andthen (dict_item report ''mode'') (\<lambda>mode.
     andthen (dict_item report ''source_tree_hash'') (\<lambda>hash.
     andthen (dict_item report ''passed'') (\<lambda>passed.
     andthen (collect (step_row) steps) (\<lambda>rows.
     Inr (join [newline]
       ([''# GridFlux Alpha Release Gate'', '''', ''- Timestamp: '' @ ticked (py_str stamp),
         ''- Mode: '' @ ticked (py_str mode), ''- Source tree hash: '' @ ticked (py_str hash),
         ''- Result: '' @ ticked (if truthy passed then ''pass'' else ''fail''),
         ''- Total steps: '' @ ticked (py_str (field report ''total_steps'' (JInt (int (length steps))))),
         tick_line ''Passed steps'' report ''passed_steps'', tick_line ''Failed steps'' report ''failed_steps'',
         '''', ''## Step Results'', '''', ''| Step | Status | Error Code | Seconds | Log |'',
         ''|------|--------|------------|---------|-----|'']
        @ rows @ first_failure_lines report @ baseline_lines report @ artifact_lines report
        @ closing_lines report) @ [newline]))))))))"

definition write_markdown_report :: "string list \<Rightarrow> report \<Rightarrow> (rworld, unit) act" where
  "write_markdown_report path report =
     act_bind (gets (\<lambda>w. markdown_report report)) (\<lambda>r.
     act_bind (act_lift r) (\<lambda>text. write_file path text))"

section \<open>The gate\<close>

definition acquire_lock :: "string \<Rightarrow> string \<Rightarrow> string list \<Rightarrow> (rworld, unit) act" where
  \<comment> \<open>the file is opened for writing, and thereby emptied, before the lock is tried\<close>
  "acquire_lock kind lock_name results_dir =
     (let lock_path = results_dir @ [lock_name] in
      act_bind (make_dirs results_dir) (\<lambda>_.
      act_bind (write_file lock_path '''') (\<lambda>_.
      act_bind (gets (\<lambda>w. (lock_taken w, abs_text w lock_path, pid w))) (\<lambda>(taken, text, p).
      if taken
      then act_raise (SystemExit (''another '' @ kind @ '' release gate is already running: '' @ text))
      else act_bind timestamp_utc (\<lambda>now.
           write_file lock_path (''pid='' @ show_int p @ '' timestamp='' @ now @ [newline]))))))"

definition acquire_gate_lock :: "string list \<Rightarrow> (rworld, unit) act" where
  "acquire_gate_lock = acquire_lock ''alpha'' ''.alpha-release-gate.lock''"

record gate_paths =
  gp_results :: "string list"
  gp_log :: "string list"
  gp_json :: "string list"
  gp_report :: "string list"
  gp_manifest :: "string list"
  gp_stamp :: string

definition ALPHA_REPORT :: "string list" where
  "ALPHA_REPORT = [''docs'', ''release'', ''ALPHA_RELEASE_GATE.md'']"

definition gate_paths_of :: "string list \<Rightarrow> string \<Rightarrow> gate_paths" where
  "gate_paths_of results stamp =
     \<lparr>gp_results = results, gp_log = results @ [stamp @ ''_alpha-release-gate''],
      gp_json = results @ [stamp @ ''_alpha-release-gate.json''], gp_report = ALPHA_REPORT,
      gp_manifest = results @ [stamp @ ''_alpha-artifacts.json''], gp_stamp = stamp\<rparr>"

definition start_gate :: "gargs \<Rightarrow> (rworld, gate_paths) act" where
  "start_gate args =
     (if ga_full args \<and> (ga_remote args = '''' \<or> ga_server_host args = '''')
      then act_raise (SystemExit ''--full requires --remote and --server-host'')
      else act_bind (gets (\<lambda>w. key_of w (ga_results_dir args))) (\<lambda>results.
           act_bind (make_dirs results) (\<lambda>_.
           act_bind (acquire_gate_lock results) (\<lambda>_.
           act_bind compact_timestamp (\<lambda>stamp.
           act_bind (make_dirs (gp_log (gate_paths_of results stamp))) (\<lambda>_.
           act_ret (gate_paths_of results stamp)))))))"

record matrix_files =
  mf_raw :: string
  mf_summary :: string
  mf_matrix :: report

definition no_matrix :: matrix_files where
  "no_matrix = \<lparr>mf_raw = '''', mf_summary = '''', mf_matrix = []\<rparr>"

definition opt_text :: "rworld \<Rightarrow> string list option \<Rightarrow> string" where
  "opt_text w p = (case p of None \<Rightarrow> '''' | Some q \<Rightarrow> abs_text w q)"

definition matrix_stage :: "gargs \<Rightarrow> gate_paths \<Rightarrow> (rworld, step_result \<times> matrix_files) act" where
  \<comment> \<open>an empty path text names the current directory, here the root\<close>
  "matrix_stage args gp =
     act_bind (gets (\<lambda>w. (glob_files (tree w) (gp_results gp) [''*_gridftp-private-matrix-*.csv''],
       matrix_command w args))) (\<lambda>(earlier, command).
     act_bind (run_step ''private_baseline_matrix'' command (gp_log gp)) (\<lambda>step.
     act_bind (gets (\<lambda>w. case find_latest_matrix_csvs (tree w) (gp_results gp) earlier of
       (raw, summary) \<Rightarrow> (opt_text w raw, opt_text w summary))) (\<lambda>(raw, summary).
     act_bind (gets (\<lambda>w. parse_matrix_summary (tree w) (key_of w summary))) (\<lambda>parsed.
     act_bind (act_lift parsed) (\<lambda>matrix.
     act_bind (gets (\<lambda>w. (relative_to_root w raw, relative_to_root w summary))) (\<lambda>(rel_raw, rel_summary).
     act_ret (step, \<lparr>mf_raw = raw, mf_summary = summary,
       mf_matrix = dict_update matrix [(''raw_csv'', JStr rel_raw), (''summary_csv'', JStr rel_summary)]\<rparr>)))))))"

definition full_stage :: "gargs \<Rightarrow> gate_paths \<Rightarrow> (rworld, step_result list \<times> matrix_files) act" where
  "full_stage args gp =
     (if \<not> ga_full args then act_ret ([], no_matrix)
      else act_bind (gets (\<lambda>w. full_specs w args (gp_log gp))) (\<lambda>specs.
           act_bind (run_steps specs (gp_log gp)) (\<lambda>steps.
           act_bind (matrix_stage args gp) (\<lambda>(step, files).
           act_ret (steps @ [step], files)))))"

definition ctest_entries :: "(step_result \<Rightarrow> bool) \<Rightarrow> step_result list \<Rightarrow> rworld \<Rightarrow> report res" where
  "ctest_entries chosen steps w =
     collect (\<lambda>s. andthen (ctest_counts (tree w) (key_of w (s_log s))) (\<lambda>c. Inr (s_name s, c)))
       (filter chosen steps)"

definition hygiene_entry :: "step_result list \<Rightarrow> json" where
  "hygiene_entry steps =
     (case filter (\<lambda>s. s_name s = ''public_export_hygiene'') steps of [] \<Rightarrow> JObj [] | s # _ \<Rightarrow> step_dict s)"

definition initial_report ::
  "gargs \<Rightarrow> string \<Rightarrow> step_result list \<Rightarrow> matrix_files \<Rightarrow> string \<times> string \<Rightarrow> (rworld, report) act" where
  "initial_report args source_hash steps files residual =
     act_bind timestamp_utc (\<lambda>now.
     act_bind git_status (\<lambda>git.
     act_bind (gets (ctest_entries (\<lambda>s. starts_with ''ctest_'' (s_name s)) steps)) (\<lambda>r.
     act_bind (act_lift r) (\<lambda>ctest.
     act_ret [(''timestamp'', JStr now), (''mode'', JStr (if ga_full args then ''full'' else ''quick'')),
       (''source_tree_hash'', JStr source_hash), (''git'', git), (''steps'', JArr (map step_dict steps)),
       (''ctest'', JObj ctest), (''private_matrix'', JObj (mf_matrix files)),
       (''hygiene'', hygiene_entry steps), (''artifact_sync'', JObj []), (''artifact_manifest'', JObj []),
       (''artifact_sync_summary'', JObj []), (''artifact_verify_summary'', JObj []),
       (''residual_process_check'', residual_dict residual), (''failures'', JArr []),
       (''passed'', JBool False)]))))"

definition write_reports :: "gate_paths \<Rightarrow> report \<Rightarrow> (rworld, unit) act" where
  "write_reports gp report =
     act_bind (write_markdown_report (gp_report gp) report) (\<lambda>_. write_json_report (gp_json gp) report)"

definition alpha_artifacts :: "gate_paths \<Rightarrow> matrix_files \<Rightarrow> (rworld, string list) act" where
  "alpha_artifacts gp files w =
     (collect_alpha_artifact_paths w (abs_text w (gp_json gp)) (mf_raw files) (mf_summary files), w)"

definition manifest_summary :: "rworld \<Rightarrow> string list \<Rightarrow> nat \<Rightarrow> bool \<Rightarrow> json" where
  "manifest_summary w path n remote_required =
     JObj [(''path'', JStr (relative_to_root w (abs_text w path))), (''artifact_count'', JInt (int n)),
       (''remote_required'', JBool remote_required)]"

definition manifest_stage ::
  "gate_paths \<Rightarrow> string \<Rightarrow> bool \<Rightarrow> string list \<Rightarrow> report \<Rightarrow> (rworld, report) act" where
  "manifest_stage gp source_hash remote_required artifact_paths report =
     act_bind (write_alpha_artifact_manifest (gp_manifest gp) source_hash remote_required artifact_paths) (\<lambda>entries.
     act_bind (gets (\<lambda>w. manifest_summary w (gp_manifest gp) (length entries) remote_required)) (\<lambda>summary.
     act_ret (dict_set ''artifact_manifest'' summary report)))"

definition freshness_stage :: "gate_paths \<Rightarrow> report \<Rightarrow> (rworld, report) act" where
  "freshness_stage gp report =
     act_bind (check_alpha_artifact_manifest_freshness (gp_manifest gp)) (\<lambda>fresh.
     act_ret (dict_set ''artifact_manifest_freshness'' (JObj fresh) report))"

definition summary_stage :: "string list \<Rightarrow> string list \<Rightarrow> report \<Rightarrow> (rworld, report) act" where
  "summary_stage sync_json verify_json report =
     act_bind (lift_tree (\<lambda>t. read_json_if_exists t sync_json)) (\<lambda>sync.
     act_bind (lift_tree (\<lambda>t. read_json_if_exists t verify_json)) (\<lambda>verify.
     act_ret (dict_set ''artifact_verify_summary'' (JObj verify)
       (dict_set ''artifact_sync_summary'' (JObj sync) report))))"

definition sync_entry :: "rworld \<Rightarrow> step_result \<Rightarrow> step_result \<Rightarrow> string list \<Rightarrow> string list \<Rightarrow> json" where
  "sync_entry w s1 s2 sync_json verify_json =
     JObj [(''sync'', step_dict s1), (''check'', step_dict s2), (''json'', JStr (abs_text w sync_json)),
       (''verify_json'', JStr (abs_text w verify_json))]"

definition sync_stage ::
  "gargs \<Rightarrow> gate_paths \<Rightarrow> string \<times> string \<Rightarrow> string \<times> string \<Rightarrow> report \<Rightarrow>
    (rworld, step_result list \<times> report) act" where
  "sync_stage args gp sync_names verify_names report =
     act_bind (sync_and_verify (gp_log gp) (gp_manifest gp) (ga_remote args) (ga_remote_root args)
       sync_names verify_names) (\<lambda>(s1, s2).
     let sync_json = gp_log gp @ [snd sync_names]; verify_json = gp_log gp @ [snd verify_names] in
     act_bind (summary_stage sync_json verify_json report) (\<lambda>report1.
     act_bind (gets (\<lambda>w. sync_entry w s1 s2 sync_json verify_json)) (\<lambda>entry.
     act_ret ([s1, s2], dict_set ''artifact_sync'' entry report1))))"

definition first_sync_stage :: "gargs \<Rightarrow> gate_paths \<Rightarrow> report \<Rightarrow> (rworld, step_result list \<times> report) act" where
  \<comment> \<open>the synchronisation summary is read before the check runs\<close>
  "first_sync_stage args gp report =
     (if ga_remote args = '''' \<or> \<not> ga_full args then act_ret ([], report)
      else
        let sync_json = gp_log gp @ [''remote-artifact-sync.json''];
            verify_json = gp_log gp @ [''remote-artifact-verify.json''] in
        act_bind (gets (\<lambda>w. sync_command w (gp_manifest gp) (ga_remote args) (ga_remote_root args) sync_json)) (\<lambda>c1.
        act_bind (run_step ''remote_artifact_sync'' c1 (gp_log gp)) (\<lambda>s1.
        act_bind (lift_tree (\<lambda>t. read_json_if_exists t sync_json)) (\<lambda>sync.
        act_bind (gets (\<lambda>w. verify_command w (gp_manifest gp) (ga_remote args) (ga_remote_root args) verify_json)) (\<lambda>c2.
        act_bind (run_step ''remote_artifact_sync_check'' c2 (gp_log gp)) (\<lambda>s2.
        act_bind (gets (\<lambda>w. sync_entry w s1 s2 sync_json verify_json)) (\<lambda>entry.
        act_bind (lift_tree (\<lambda>t. read_json_if_exists t verify_json)) (\<lambda>verify.
        act_ret ([s1, s2], dict_update report [(''artifact_sync_summary'', JObj sync), (''artifact_sync'', entry),
          (''artifact_verify_summary'', JObj verify)])))))))))"

definition summary_bad :: "bool \<Rightarrow> json \<Rightarrow> bool res" where
  \<comment> \<open>\<open>!= "pass"\<close> when strict, else \<open>not in {None, "pass"}\<close>, which needs a hashable value\<close>
  "summary_bad strict status =
     (if strict then Inr (status \<noteq> JStr ''pass'')
      else case status of
             JArr _ \<Rightarrow> Inl TypeError
           | JObj _ \<Rightarrow> Inl TypeError
           | _ \<Rightarrow> Inr (status \<noteq> JNull \<and> status \<noteq> JStr ''pass''))"

definition status_of :: "report \<Rightarrow> string \<Rightarrow> json" where
  \<comment> \<open>\<open>report.get(part, {}).get("status")\<close>\<close>
  "status_of report part = field (dict_of (field report part (JObj []))) ''status'' JNull"

definition gate_failures ::
  "bool \<Rightarrow> step_result list \<Rightarrow> string \<times> string \<Rightarrow> report \<Rightarrow> report \<Rightarrow> string list res" where
  "gate_failures strict steps residual matrix report =
     andthen (summary_bad strict (status_of report ''artifact_sync_summary'')) (\<lambda>sync_bad.
     andthen (summary_bad strict (status_of report ''artifact_verify_summary'')) (\<lambda>verify_bad.
     Inr (failed_names steps
       @ (if residual_found residual then [''residual_process_check''] else [])
       @ (if matrix \<noteq> [] \<and> field matrix ''status'' JNull = JStr ''fail'' then [''private_matrix''] else [])
       @ (if sync_bad then [''artifact_sync_summary''] else [])
       @ (if verify_bad then [''artifact_verify_summary''] else []))))"

definition verdict_stage ::
  "bool \<Rightarrow> gate_paths \<Rightarrow> step_result list \<Rightarrow> string \<times> string \<Rightarrow> report \<Rightarrow> report \<Rightarrow> (rworld, report) act" where
  "verdict_stage strict gp steps residual matrix report =
     act_bind (act_lift (gate_failures strict steps residual matrix report)) (\<lambda>failures.
     let report1 = finish_report steps failures (failures = []) report in
     act_bind (write_reports gp report1) (\<lambda>_. act_ret report1))"

definition announce :: "string \<Rightarrow> string list \<Rightarrow> (rworld, unit) act" where
  "announce label p = act_bind (gets (\<lambda>w. abs_text w p)) (\<lambda>text. print_line (label @ ''='' @ text))"

definition announce_gate :: "bool \<Rightarrow> gate_paths \<Rightarrow> bool \<Rightarrow> (rworld, unit) act" where
  "announce_gate full gp passed =
     act_bind (announce ''alpha_release_gate_report'' (gp_report gp)) (\<lambda>_.
     act_bind (announce ''alpha_release_gate_json'' (gp_json gp)) (\<lambda>_.
     act_bind (act_when full (announce ''alpha_artifact_manifest'' (gp_manifest gp))) (\<lambda>_.
     print_line (if passed then ''result=pass'' else ''result=fail''))))"

definition post_report_stage ::
  "gargs \<Rightarrow> gate_paths \<Rightarrow> step_result list \<Rightarrow> report \<Rightarrow> (rworld, report) act" where
  "post_report_stage args gp steps report =
     act_bind (sync_and_verify (gp_log gp) (gp_manifest gp) (ga_remote args) (ga_remote_root args)
       (''remote_artifact_post_report_sync'', ''remote-artifact-post-report-sync.json'')
       (''remote_artifact_post_report_verify'', ''remote-artifact-post-report-verify.json'')) (\<lambda>(s1, s2).
     if passed_step s1 \<and> passed_step s2 then act_ret report
     else let all_steps = steps @ [s1, s2];
              report1 = dict_update report [(''steps'', JArr (map step_dict all_steps)),
                (''failures'', JStrs (failed_names all_steps)), (''passed'', JBool False)] in
          act_bind (write_reports gp report1) (\<lambda>_. act_ret report1))"

definition stale_exit_stage :: "gate_paths \<Rightarrow> step_result list \<Rightarrow> report \<Rightarrow> (rworld, report) act" where
  "stale_exit_stage gp steps report =
     (let report1 = finish_report steps (failed_names steps @ [''artifact_manifest_freshness'']) False report in
      act_bind (write_reports gp report1) (\<lambda>_. act_ret report1))"

definition final_remote_stage ::
  "gargs \<Rightarrow> gate_paths \<Rightarrow> matrix_files \<Rightarrow> string \<Rightarrow> string \<times> string \<Rightarrow> step_result list \<Rightarrow> report \<Rightarrow>
    (rworld, report) act" where
  \<comment> \<open>a stale manifest ends the gate before the last synchronisation\<close>
  "final_remote_stage args gp files source_hash residual steps report =
     act_bind (sync_stage args gp
       (''remote_artifact_final_sync'', ''remote-artifact-final-sync.json'')
       (''remote_artifact_final_verify'', ''remote-artifact-final-verify.json'') report) (\<lambda>(more_steps, report1).
     let all_steps = steps @ more_steps in
     act_bind (verdict_stage True gp all_steps residual (mf_matrix files) report1) (\<lambda>report2.
     act_bind (alpha_artifacts gp files) (\<lambda>paths.
     act_bind (write_alpha_artifact_manifest (gp_manifest gp) source_hash True paths) (\<lambda>_.
     act_bind (freshness_stage gp report2) (\<lambda>report3.
     if status_of report3 ''artifact_manifest_freshness'' \<noteq> JStr ''pass''
     then stale_exit_stage gp all_steps report3
     else post_report_stage args gp all_steps report3)))))"

definition final_stage ::
  "gargs \<Rightarrow> gate_paths \<Rightarrow> matrix_files \<Rightarrow> string \<Rightarrow> string \<times> string \<Rightarrow> step_result list \<Rightarrow> report \<Rightarrow>
    (rworld, report) act" where
  "final_stage args gp files source_hash residual steps report =
     (if \<not> ga_full args then act_ret report
      else
        act_bind (alpha_artifacts gp files) (\<lambda>paths.
        act_bind (manifest_stage gp source_hash (ga_remote args \<noteq> '''') paths report) (\<lambda>report1.
        act_bind (freshness_stage gp report1) (\<lambda>report2.
        act_bind (write_json_report (gp_json gp) report2) (\<lambda>_.
        act_bind (write_alpha_artifact_manifest (gp_manifest gp) source_hash (ga_remote args \<noteq> '''') paths) (\<lambda>_.
        act_bind (freshness_stage gp report2) (\<lambda>report3.
        if ga_remote args = '''' then act_ret report3
        else final_remote_stage args gp files source_hash residual steps report3)))))))"

definition report_passed :: "report \<Rightarrow> bool" where
  "report_passed report = truthy (field report ''passed'' JNull)"

definition gate_steps ::
  "gargs \<Rightarrow> gate_paths \<Rightarrow> (rworld, step_result list \<times> matrix_files \<times> (string \<times> string)) act" where
  "gate_steps args gp =
     act_bind (gets (\<lambda>w. command_specs w args (gp_stamp gp) (gp_log gp))) (\<lambda>specs.
     act_bind (run_steps specs (gp_log gp)) (\<lambda>steps.
     act_bind (full_stage args gp) (\<lambda>(full_steps, files).
     act_bind (run_remote_process_check (ga_remote args)) (\<lambda>residual.
     act_ret (steps @ full_steps, files, residual)))))"

definition first_report_stage ::
  "gargs \<Rightarrow> gate_paths \<Rightarrow> step_result list \<Rightarrow> matrix_files \<Rightarrow> string \<times> string \<Rightarrow>
    (rworld, string \<times> report) act" where
  "first_report_stage args gp steps files residual =
     act_bind (gets source_tree_hash) (\<lambda>source_hash.
     act_bind (alpha_artifacts gp files) (\<lambda>paths.
     act_bind (initial_report args source_hash steps files residual) (\<lambda>report.
     act_bind (write_reports gp report) (\<lambda>_.
     if ga_full args
     then act_bind (manifest_stage gp source_hash (ga_remote args \<noteq> '''') paths report) (\<lambda>report1.
          act_ret (source_hash, report1))
     else act_ret (source_hash, report)))))"

definition gate_main :: "gargs \<Rightarrow> (rworld, int) act" where
  "gate_main args =
     act_bind (start_gate args) (\<lambda>gp.
     act_bind (gate_steps args gp) (\<lambda>(steps, files, residual).
     act_bind (first_report_stage args gp steps files residual) (\<lambda>(source_hash, report).
     act_bind (first_sync_stage args gp report) (\<lambda>(sync_steps, report1).
     let all_steps = steps @ sync_steps in
     act_bind (verdict_stage False gp all_steps residual (mf_matrix files) report1) (\<lambda>report2.
     act_bind (final_stage args gp files source_hash residual all_steps report2) (\<lambda>report3.
     act_bind (announce_gate (ga_full args) gp (report_passed report3)) (\<lambda>_.
     act_ret (if report_passed report3 then 0 else 1))))))))"

section \<open>What exit status 0 means\<close>

lemma field_dict_set [simp]: "field (dict_set k v d) k' x = (if k' = k then v else field d k' x)"
  by (simp add: field_def)

lemma passed_finish_report [simp]: "report_passed (finish_report steps failures b report) \<longleftrightarrow> b"
  by (simp add: report_passed_def finish_report_def)

lemma only_probes_write_reports: "only_probes (write_reports gp report)"
  unfolding write_reports_def write_markdown_report_def write_json_report_def by (intro only_probes_rules)

lemma only_probes_announce: "only_probes (announce_gate full gp passed)"
  unfolding announce_gate_def announce_def by (intro only_probes_rules)

lemma only_probes_manifest: "only_probes (write_alpha_artifact_manifest p h b paths)"
  unfolding write_alpha_artifact_manifest_def by (intro only_probes_rules)

lemma only_probes_readers:
  "only_probes (check_alpha_artifact_manifest_freshness p)" "only_probes (alpha_artifacts gp files)"
  by (auto intro!: only_probesI simp: check_alpha_artifact_manifest_freshness_def alpha_artifacts_def)

lemma only_probes_manifest_stage: "only_probes (manifest_stage gp h b paths report)"
  unfolding manifest_stage_def by (intro only_probes_rules only_probes_manifest)

lemma only_probes_freshness_stage: "only_probes (freshness_stage gp report)"
  unfolding freshness_stage_def by (intro only_probes_rules only_probes_readers)

lemma only_probes_summary_stage: "only_probes (summary_stage p q report)"
  unfolding summary_stage_def by (intro only_probes_rules)

lemma only_probes_initial_report: "only_probes (initial_report args h steps files residual)"
  unfolding initial_report_def by (intro only_probes_rules only_probes_git)

lemma only_probes_lock: "only_probes (acquire_lock kind name results)"
  unfolding acquire_lock_def Let_def by (auto intro!: only_probes_rules split: prod.splits)

lemma only_probes_start: "only_probes (start_gate args)"
  unfolding start_gate_def acquire_gate_lock_def
  by (auto intro!: only_probes_rules only_probes_lock simp: only_probes_basic)

lemma only_probes_first_report: "only_probes (first_report_stage args gp steps files residual)"
  unfolding first_report_stage_def
  by (auto intro!: only_probes_rules only_probes_readers only_probes_initial_report only_probes_write_reports
      only_probes_manifest_stage)

lemma only_probes_verdict: "only_probes (verdict_stage strict gp steps residual matrix report)"
  unfolding verdict_stage_def Let_def by (intro only_probes_rules only_probes_write_reports)

lemma only_probesD: "only_probes m \<Longrightarrow> m w = (Inr a, w') \<Longrightarrow> \<exists>tr. ran w tr w' \<and> vouched tr []"
  unfolding only_probes_def by blast

lemma vouched_join:
  "ran w tr w1 \<Longrightarrow> vouched tr xs \<Longrightarrow> ran w1 tr' w2 \<Longrightarrow> vouched tr' ys \<Longrightarrow>
     \<exists>tr. ran w tr w2 \<and> vouched tr (xs @ ys)"
  by (blast intro: ran_trans vouched_append)

lemma vouched_then_probes:
  "ran w tr w1 \<Longrightarrow> vouched tr xs \<Longrightarrow> ran w1 tr' w2 \<Longrightarrow> vouched tr' [] \<Longrightarrow> \<exists>tr. ran w tr w2 \<and> vouched tr xs"
  using vouched_join [of w tr w1 xs tr' w2 "[]"] by simp

lemma sync_and_verify_vouched:
  assumes "sync_and_verify log_dir m remote remote_root sn vn w = (Inr (s1, s2), w')"
  shows "\<exists>tr. ran w tr w' \<and> vouched tr [s1, s2]"
proof -
  obtain c1 w1 c2 where s1: "run_step (fst sn) c1 log_dir w = (Inr s1, w1)"
    and s2: "run_step (fst vn) c2 log_dir w1 = (Inr s2, w')"
    using assms by (auto simp: sync_and_verify_def act_simps)
  show ?thesis using run_step_vouched [OF s1] run_step_vouched [OF s2] vouched_join [of w _ w1 "[s1]" _ w' "[s2]"] by auto
qed

lemma matrix_stage_vouched:
  assumes "matrix_stage args gp w = (Inr (step, files), w')"
  shows "\<exists>tr. ran w tr w' \<and> vouched tr [step]"
proof -
  obtain c where "run_step ''private_baseline_matrix'' c (gp_log gp) w = (Inr step, w')"
    using assms by (auto simp: matrix_stage_def act_simps split: prod.splits)
  then show ?thesis using run_step_vouched by blast
qed

lemma full_stage_vouched:
  assumes "full_stage args gp w = (Inr (steps, files), w')"
  shows "\<exists>tr. ran w tr w' \<and> vouched tr steps"
proof (cases "ga_full args")
  case True
  then obtain specs xs w1 step where "run_steps specs (gp_log gp) w = (Inr xs, w1)"
    and "matrix_stage args gp w1 = (Inr (step, files), w')" and steps: "steps = xs @ [step]"
    using assms by (auto simp: full_stage_def act_simps split: prod.splits)
  then show ?thesis using run_steps_vouched [of specs "gp_log gp" w xs w1] matrix_stage_vouched [of args gp w1 step files w']
    vouched_join [of w _ w1 xs _ w' "[step]"] by auto
next
  case False
  then have "steps = []" "w' = w" using assms by (auto simp: full_stage_def act_simps)
  then show ?thesis using ran_refl vouched_Nil by metis
qed

lemma gate_steps_vouched:
  assumes "gate_steps args gp w = (Inr (steps, files, residual), w')"
  shows "\<exists>tr more_cs. ran w tr w' \<and> vouched tr steps \<and>
     map fst tr = map snd (command_specs w args (gp_stamp gp) (gp_log gp)) @ more_cs"
proof -
  obtain xs w1 ys w2 where xs: "run_steps (command_specs w args (gp_stamp gp) (gp_log gp)) (gp_log gp) w = (Inr xs, w1)"
    and ys: "full_stage args gp w1 = (Inr (ys, files), w2)"
    and res: "run_remote_process_check (ga_remote args) w2 = (Inr residual, w')" and steps: "steps = xs @ ys"
    using assms by (auto simp: gate_steps_def act_simps split: prod.splits)
  obtain t1 where t1: "ran w t1 w1" "vouched t1 xs" "map fst t1 = map snd (command_specs w args (gp_stamp gp) (gp_log gp))"
    using run_steps_vouched [OF xs] by blast
  obtain t2 where t2: "ran w1 t2 w'" "vouched t2 ys"
    using full_stage_vouched [OF ys] only_probesD [OF only_probes_check res] vouched_then_probes by blast
  have "ran w (t1 @ t2) w'" "vouched (t1 @ t2) steps" using t1 t2 steps by (auto intro: ran_trans vouched_append)
  with t1(3) show ?thesis by (metis map_append)
qed

lemma sync_stage_vouched:
  assumes "sync_stage args gp sn vn report w = (Inr (steps, report'), w')"
  shows "\<exists>tr. ran w tr w' \<and> vouched tr steps"
proof -
  obtain s1 s2 w1 r where sv: "sync_and_verify (gp_log gp) (gp_manifest gp) (ga_remote args) (ga_remote_root args) sn vn w
      = (Inr (s1, s2), w1)" and su: "summary_stage (gp_log gp @ [snd sn]) (gp_log gp @ [snd vn]) report w1 = (Inr r, w')"
    and steps: "steps = [s1, s2]"
    using assms by (auto simp: sync_stage_def act_simps Let_def split: prod.splits)
  show ?thesis using sync_and_verify_vouched [OF sv] only_probesD [OF only_probes_summary_stage su] vouched_then_probes steps
    by blast
qed

lemma first_sync_stage_vouched:
  assumes "first_sync_stage args gp report w = (Inr (steps, report'), w')"
  shows "\<exists>tr. ran w tr w' \<and> vouched tr steps"
proof (cases "ga_remote args = '''' \<or> \<not> ga_full args")
  case True
  then have "steps = []" "w' = w" using assms by (auto simp: first_sync_stage_def act_simps)
  then show ?thesis using ran_refl vouched_Nil by metis
next
  case False
  then obtain c1 s1 w1 c2 s2 where s1: "run_step ''remote_artifact_sync'' c1 (gp_log gp) w = (Inr s1, w1)"
    and s2: "run_step ''remote_artifact_sync_check'' c2 (gp_log gp) w1 = (Inr s2, w')" and "steps = [s1, s2]"
    using assms by (auto simp: first_sync_stage_def act_simps Let_def)
  then show ?thesis
    using run_step_vouched [OF s1] run_step_vouched [OF s2] vouched_join [of w _ w1 "[s1]" _ w' "[s2]"] by auto
qed

text \<open>The verdict: no failure is listed exactly when everything it looks at is in order.\<close>

lemma gate_failures_Nil:
  "gate_failures strict steps residual matrix report = Inr [] \<longleftrightarrow>
     list_all passed_step steps \<and> \<not> residual_found residual \<and>
     (matrix = [] \<or> field matrix ''status'' JNull \<noteq> JStr ''fail'') \<and>
     summary_bad strict (status_of report ''artifact_sync_summary'') = Inr False \<and>
     summary_bad strict (status_of report ''artifact_verify_summary'') = Inr False"
  by (auto simp: gate_failures_def andthen_eq_Inr failed_names_Nil)

lemma verdict_stage_passed:
  assumes "verdict_stage strict gp steps residual matrix report w = (Inr report', w')"
  shows "report_passed report' \<longleftrightarrow> gate_failures strict steps residual matrix report = Inr []"
  using assms by (auto simp: verdict_stage_def act_simps Let_def)

lemma post_report_passed:
  assumes "post_report_stage args gp steps report w = (Inr report', w')" and "report_passed report'"
  shows "report_passed report \<and> (\<exists>tr. ran w tr w' \<and> (\<forall>(c, p) \<in> set tr. probe c \<or> p_rc p = 0)) \<and>
    (\<exists>s1 s2. sync_and_verify (gp_log gp) (gp_manifest gp) (ga_remote args) (ga_remote_root args)
      (''remote_artifact_post_report_sync'', ''remote-artifact-post-report-sync.json'')
      (''remote_artifact_post_report_verify'', ''remote-artifact-post-report-verify.json'') w = (Inr (s1, s2), w') \<and>
      passed_step s1 \<and> passed_step s2)"
proof -
  obtain s1 s2 w1 where sv: "sync_and_verify (gp_log gp) (gp_manifest gp) (ga_remote args) (ga_remote_root args)
      (''remote_artifact_post_report_sync'', ''remote-artifact-post-report-sync.json'')
      (''remote_artifact_post_report_verify'', ''remote-artifact-post-report-verify.json'') w = (Inr (s1, s2), w1)"
    and rest: "(if passed_step s1 \<and> passed_step s2 then act_ret report
       else let all_steps = steps @ [s1, s2];
              report1 = dict_update report [(''steps'', JArr (map step_dict all_steps)),
                (''failures'', JStrs (failed_names all_steps)), (''passed'', JBool False)] in
          act_bind (write_reports gp report1) (\<lambda>_. act_ret report1)) w1 = (Inr report', w')"
    using assms(1) by (auto simp: post_report_stage_def act_bind_ok split: prod.splits)
  have passed: "passed_step s1 \<and> passed_step s2" using rest assms(2)
    by (auto simp: act_simps Let_def report_passed_def split: if_splits)
  then have "w1 = w'" "report' = report" using rest by (auto simp: act_simps)
  then show ?thesis using passed sv assms(2) sync_and_verify_vouched [OF sv] by (auto simp: vouched_def)
qed

lemma stale_exit_not_passed:
  "stale_exit_stage gp steps report w = (Inr report', w') \<Longrightarrow> \<not> report_passed report'"
  by (auto simp: stale_exit_stage_def act_simps Let_def)

text \<open>
  The end of a passing full run, step by step. Two states are related by \<open>only_writes P\<close> when no
  process was started between them and every file outside \<open>P\<close> kept its content.
\<close>

definition only_writes :: "string list set \<Rightarrow> rworld \<Rightarrow> rworld \<Rightarrow> bool" where
  "only_writes P w w' \<longleftrightarrow> commands w' = commands w \<and> procs w' = procs w \<and>
     (\<forall>p. p \<notin> P \<longrightarrow> repo_content (tree w') p = repo_content (tree w) p)"

interpretation stays: effect_order "only_writes P" for P
  by unfold_locales (auto simp: only_writes_def)

lemma stays_moves:
  "p \<in> P \<Longrightarrow> stays.grows P (write_file p content)" "stays.grows P timestamp_utc" "stays.grows P (print_line s)"
  "stays.grows P (gets f)" "stays.grows P (alpha_artifacts gp files)"
  by (auto intro!: stays.growsI simp: only_writes_def write_file_def timestamp_utc_def print_line_def gets_def
      alpha_artifacts_def repo_content_def split: if_splits)

lemma stays_verdict:
  "stays.grows {gp_report gp, gp_json gp} (verdict_stage strict gp steps residual matrix report)"
  unfolding verdict_stage_def write_reports_def write_markdown_report_def write_json_report_def Let_def
  by (intro stays.grows_rules stays_moves) simp_all

lemma stays_announce: "stays.grows {} (announce_gate full gp passed)"
  unfolding announce_gate_def announce_def by (intro stays.grows_rules stays_moves)

definition summary_passes :: "rworld \<Rightarrow> string list \<Rightarrow> bool" where
  \<comment> \<open>the JSON document at the path says that it passed\<close>
  "summary_passes w path \<longleftrightarrow>
     (\<exists>d. read_json_if_exists (tree w) path = Inr d \<and> field d ''status'' JNull = JStr ''pass'')"

definition synced_and_verified ::
  "gargs \<Rightarrow> gate_paths \<Rightarrow> string \<times> string \<Rightarrow> string \<times> string \<Rightarrow> rworld \<Rightarrow> rworld \<Rightarrow> bool" where
  "synced_and_verified args gp sync_names verify_names w w' \<longleftrightarrow>
     (\<exists>s1 s2. sync_and_verify (gp_log gp) (gp_manifest gp) (ga_remote args) (ga_remote_root args) sync_names verify_names w
        = (Inr (s1, s2), w') \<and> passed_step s1 \<and> passed_step s2)"

definition full_closing :: "gargs \<Rightarrow> gate_paths \<Rightarrow> rworld \<Rightarrow> rworld \<Rightarrow> bool" where
  \<comment> \<open>final synchronisation, its summaries, the reports, the manifest, its freshness, last synchronisation, end\<close>
  "full_closing args gp w w' \<longleftrightarrow>
     (\<exists>wa tr wb wm h paths entries wf fresh wz. leads_to w wa \<and> ran w tr wa \<and>
        synced_and_verified args gp (''remote_artifact_final_sync'', ''remote-artifact-final-sync.json'')
          (''remote_artifact_final_verify'', ''remote-artifact-final-verify.json'') wa wb \<and>
        summary_passes wb (gp_log gp @ [''remote-artifact-final-sync.json'']) \<and>
        summary_passes wb (gp_log gp @ [''remote-artifact-final-verify.json'']) \<and>
        only_writes {gp_report gp, gp_json gp} wb wm \<and>
        write_alpha_artifact_manifest (gp_manifest gp) h True paths wm = (Inr entries, wf) \<and>
        check_alpha_artifact_manifest_freshness (gp_manifest gp) wf = (Inr fresh, wf) \<and>
        field fresh ''status'' JNull = JStr ''pass'' \<and>
        synced_and_verified args gp (''remote_artifact_post_report_sync'', ''remote-artifact-post-report-sync.json'')
          (''remote_artifact_post_report_verify'', ''remote-artifact-post-report-verify.json'') wf wz \<and>
        only_writes {} wz w')"

lemma full_closing_extend:
  assumes "leads_to w0 w" and "ran w0 tr0 w" and closing: "full_closing args gp w w1" and rest: "only_writes {} w1 w'"
  shows "full_closing args gp w0 w'"
proof -
  have "leads_to w0 wa" "ran w0 (tr0 @ tr) wa" if "leads_to w wa" "ran w tr wa" for wa tr
    using that assms(1,2) by (auto intro: ran_trans rtranclp_trans)
  then show ?thesis using closing rest stays.leq_trans unfolding full_closing_def by blast
qed

lemma sync_stage_summaries:
  assumes "sync_stage args gp sn vn report w = (Inr (steps, report'), w')"
    and "list_all passed_step steps"
    and "summary_bad True (status_of report' ''artifact_sync_summary'') = Inr False"
    and "summary_bad True (status_of report' ''artifact_verify_summary'') = Inr False"
  shows "synced_and_verified args gp sn vn w w' \<and> summary_passes w' (gp_log gp @ [snd sn]) \<and>
    summary_passes w' (gp_log gp @ [snd vn])"
proof -
  obtain s1 s2 w1 r entry where sv: "sync_and_verify (gp_log gp) (gp_manifest gp) (ga_remote args) (ga_remote_root args) sn vn w
      = (Inr (s1, s2), w1)"
    and su: "summary_stage (gp_log gp @ [snd sn]) (gp_log gp @ [snd vn]) report w1 = (Inr r, w')"
    and steps: "steps = [s1, s2]" and "report' = dict_set ''artifact_sync'' entry r"
    using assms(1) by (auto simp: sync_stage_def act_simps Let_def split: prod.splits)
  then obtain sync verify where "w' = w1" and "read_json_if_exists (tree w1) (gp_log gp @ [snd sn]) = Inr sync"
    and "read_json_if_exists (tree w1) (gp_log gp @ [snd vn]) = Inr verify"
    and "status_of report' ''artifact_sync_summary'' = field sync ''status'' JNull"
    and "status_of report' ''artifact_verify_summary'' = field verify ''status'' JNull"
    by (auto simp: summary_stage_def act_simps status_of_def dict_of_def)
  then show ?thesis
    using sv steps assms(2-) by (auto simp: synced_and_verified_def summary_passes_def summary_bad_def)
qed

lemma gate_run_write_reports: "gate_run.grows (write_reports gp report)"
  unfolding write_reports_def write_markdown_report_def write_json_report_def by (intro gate_run_rules)

lemma gate_run_artifacts: "gate_run.grows (alpha_artifacts gp files)"
  by (auto intro!: gate_run.growsI simp: alpha_artifacts_def)

lemma gate_run_report_stages:
  "gate_run.grows (verdict_stage strict gp steps residual matrix report)"
  "gate_run.grows (freshness_stage gp report)" "gate_run.grows (manifest_stage gp h b paths report)"
  "gate_run.grows (summary_stage p q report)" "gate_run.grows (write_json_report p report)"
  unfolding verdict_stage_def freshness_stage_def manifest_stage_def summary_stage_def write_json_report_def Let_def
  by (intro gate_run_rules gate_run_write_reports gate_run_manifest)+

lemma gate_run_sync_stage: "gate_run.grows (sync_stage args gp sn vn report)"
  unfolding sync_stage_def Let_def by (auto intro!: gate_run_rules gate_run_sync gate_run_report_stages)

lemma gate_run_post_report: "gate_run.grows (post_report_stage args gp steps report)"
  unfolding post_report_stage_def Let_def by (auto intro!: gate_run_rules gate_run_sync gate_run_write_reports)

lemmas gate_run_stages = gate_run_parts gate_run_write_reports gate_run_artifacts gate_run_report_stages
  gate_run_sync_stage gate_run_post_report

lemma freshness_stage_status:
  assumes run: "freshness_stage gp report w = (Inr report', w')"
    and pass: "status_of report' ''artifact_manifest_freshness'' = JStr ''pass''"
  shows "\<exists>fresh. check_alpha_artifact_manifest_freshness (gp_manifest gp) w = (Inr fresh, w) \<and>
    field fresh ''status'' JNull = JStr ''pass'' \<and> w' = w"
proof -
  obtain fresh where fresh: "check_alpha_artifact_manifest_freshness (gp_manifest gp) w = (Inr fresh, w')"
    and report': "report' = dict_set ''artifact_manifest_freshness'' (JObj fresh) report"
    using run by (auto simp: freshness_stage_def act_simps)
  moreover have "w' = w" using fresh by (auto simp: check_alpha_artifact_manifest_freshness_def)
  ultimately show ?thesis
    using pass unfolding status_of_def dict_of_def by auto
qed

lemma freshness_stage_checked:
  "freshness_stage gp report w = (Inr report', w') \<Longrightarrow>
     status_of report' ''artifact_manifest_freshness'' = JStr ''pass'' \<Longrightarrow> fresh_checked (gp_manifest gp) w w'"
  using freshness_stage_status unfolding fresh_checked_def by blast

lemma freshness_stage_passed:
  "freshness_stage gp report w = (Inr report', w') \<Longrightarrow> report_passed report' \<longleftrightarrow> report_passed report"
  by (auto simp: freshness_stage_def act_simps report_passed_def)

lemma final_remote_passed:
  assumes run: "final_remote_stage args gp files h residual steps report w = (Inr report', w')"
    and passed: "report_passed report'"
  shows "list_all passed_step steps \<and> \<not> residual_found residual \<and>
     (mf_matrix files = [] \<or> field (mf_matrix files) ''status'' JNull \<noteq> JStr ''fail'') \<and>
     full_closing args gp w w' \<and> (\<exists>tr. ran w tr w' \<and> (\<forall>(c, p) \<in> set tr. probe c \<or> p_rc p = 0))"
proof -
  obtain xs r1 w1 where sync: "sync_stage args gp
       (''remote_artifact_final_sync'', ''remote-artifact-final-sync.json'')
       (''remote_artifact_final_verify'', ''remote-artifact-final-verify.json'') report w = (Inr (xs, r1), w1)"
    and after: "act_bind (verdict_stage True gp (steps @ xs) residual (mf_matrix files) r1) (\<lambda>report2.
     act_bind (alpha_artifacts gp files) (\<lambda>paths.
     act_bind (write_alpha_artifact_manifest (gp_manifest gp) h True paths) (\<lambda>_.
     act_bind (freshness_stage gp report2) (\<lambda>report3.
     if status_of report3 ''artifact_manifest_freshness'' \<noteq> JStr ''pass''
     then stale_exit_stage gp (steps @ xs) report3
     else post_report_stage args gp (steps @ xs) report3)))) w1 = (Inr report', w')"
    using run by (auto simp: final_remote_stage_def act_bind_ok Let_def split: prod.splits)
  obtain r2 w2 paths w3 es w4 r3 w5
    where verdict: "verdict_stage True gp (steps @ xs) residual (mf_matrix files) r1 w1 = (Inr r2, w2)"
    and art: "alpha_artifacts gp files w2 = (Inr paths, w3)"
    and man: "write_alpha_artifact_manifest (gp_manifest gp) h True paths w3 = (Inr es, w4)"
    and fresh: "freshness_stage gp r2 w4 = (Inr r3, w5)"
    and last_part: "(if status_of r3 ''artifact_manifest_freshness'' \<noteq> JStr ''pass''
       then stale_exit_stage gp (steps @ xs) r3 else post_report_stage args gp (steps @ xs) r3) w5 = (Inr report', w')"
    using after unfolding act_bind_ok by blast
  have ok: "status_of r3 ''artifact_manifest_freshness'' = JStr ''pass''"
    using last_part passed stale_exit_not_passed by (auto split: if_splits)
  then obtain t4 where t4: "ran w5 t4 w'" "\<forall>(c, p) \<in> set t4. probe c \<or> p_rc p = 0" and "report_passed r3"
    and post: "synced_and_verified args gp (''remote_artifact_post_report_sync'', ''remote-artifact-post-report-sync.json'')
      (''remote_artifact_post_report_verify'', ''remote-artifact-post-report-verify.json'') w5 w'"
    using last_part post_report_passed [OF _ passed, of args gp "steps @ xs" r3 w5 w']
    by (auto simp: synced_and_verified_def)
  then have fails: "gate_failures True (steps @ xs) residual (mf_matrix files) r1 = Inr []"
    using freshness_stage_passed [OF fresh] verdict_stage_passed [OF verdict] by blast
  obtain t1 where t1: "ran w t1 w1" "vouched t1 xs" using sync_stage_vouched [OF sync] by blast
  obtain t2 where t2: "ran w1 t2 w5" "vouched t2 []"
    using only_probesD [OF only_probes_verdict verdict] only_probesD [OF only_probes_readers(2) art]
      only_probesD [OF only_probes_manifest man] only_probesD [OF only_probes_freshness_stage fresh]
      vouched_then_probes by meson
  have "ran w (t1 @ t2 @ t4) w'" using t1 t2 t4 by (blast intro: ran_trans)
  moreover have "\<forall>(c, p) \<in> set (t1 @ t2 @ t4). probe c \<or> p_rc p = 0"
    using t1 t2 t4 fails by (auto simp: vouched_def gate_failures_Nil)
  moreover have "full_closing args gp w w'"
  proof -
    have "list_all passed_step xs" "summary_bad True (status_of r1 ''artifact_sync_summary'') = Inr False"
      "summary_bad True (status_of r1 ''artifact_verify_summary'') = Inr False"
      using fails by (auto simp: gate_failures_Nil)
    note synced = sync_stage_summaries [OF sync this, unfolded snd_conv]
    have "only_writes {gp_report gp, gp_json gp} w1 w3"
      using stays.growsD [OF stays_verdict verdict] stays.growsD [OF stays_moves(5) art] stays.leq_trans by blast
    moreover obtain f where "check_alpha_artifact_manifest_freshness (gp_manifest gp) w4 = (Inr f, w4)"
      "field f ''status'' JNull = JStr ''pass''" "w5 = w4"
      using freshness_stage_status [OF fresh ok] by blast
    ultimately show ?thesis
      using synced man post ran_refl [of w] stays.leq_refl [of "{}" w'] unfolding full_closing_def by blast
  qed
  ultimately show ?thesis using fails unfolding gate_failures_Nil list_all_append by blast
qed

lemma final_stage_passed:
  assumes run: "final_stage args gp files h residual steps report w = (Inr report', w')"
    and passed: "report_passed report'" and full: "ga_full args" and remote: "ga_remote args \<noteq> ''''"
  shows "list_all passed_step steps \<and> \<not> residual_found residual \<and>
     (mf_matrix files = [] \<or> field (mf_matrix files) ''status'' JNull \<noteq> JStr ''fail'') \<and>
     full_closing args gp w w' \<and> (\<exists>tr. ran w tr w' \<and> (\<forall>(c, p) \<in> set tr. probe c \<or> p_rc p = 0))"
proof -
  obtain paths w1 r1 w2 r2 w3 w4 es w5 r3 w6
    where a: "alpha_artifacts gp files w = (Inr paths, w1)"
    and b: "manifest_stage gp h (ga_remote args \<noteq> '''') paths report w1 = (Inr r1, w2)"
    and c: "freshness_stage gp r1 w2 = (Inr r2, w3)"
    and d: "write_json_report (gp_json gp) r2 w3 = (Inr (), w4)"
    and e: "write_alpha_artifact_manifest (gp_manifest gp) h (ga_remote args \<noteq> '''') paths w4 = (Inr es, w5)"
    and f: "freshness_stage gp r2 w5 = (Inr r3, w6)"
    and g: "final_remote_stage args gp files h residual steps r3 w6 = (Inr report', w')"
    using run full remote by (auto simp: final_stage_def act_bind_ok)
  obtain t1 where t1: "ran w t1 w6" "vouched t1 []"
    using only_probesD [OF only_probes_readers(2) a] only_probesD [OF only_probes_manifest_stage b]
      only_probesD [OF only_probes_freshness_stage c] quiet_primitives(1) [OF d [unfolded write_json_report_def]]
      only_probesD [OF only_probes_manifest e] only_probesD [OF only_probes_freshness_stage f]
      vouched_then_probes [of _ _ _ "[]"] vouched_Nil by meson
  obtain t2 where t2: "ran w6 t2 w'" "\<forall>(c, p) \<in> set t2. probe c \<or> p_rc p = 0"
    and rest: "list_all passed_step steps \<and> \<not> residual_found residual \<and>
       (mf_matrix files = [] \<or> field (mf_matrix files) ''status'' JNull \<noteq> JStr ''fail'') \<and> full_closing args gp w6 w'"
    using final_remote_passed [OF g passed] by blast
  have "ran w (t1 @ t2) w'" "\<forall>(c, p) \<in> set (t1 @ t2). probe c \<or> p_rc p = 0"
    using t1 t2 by (auto intro: ran_trans simp: vouched_def)
  moreover have "leads_to w w6"
    using gate_run.growsD [OF gate_run_artifacts a] gate_run.growsD [OF gate_run_report_stages(3) b]
      gate_run.growsD [OF gate_run_report_stages(2) c] gate_run.growsD [OF gate_run_report_stages(5) d]
      gate_run.growsD [OF gate_run_manifest e] gate_run.growsD [OF gate_run_report_stages(2) f]
    by (meson rtranclp_trans)
  ultimately show ?thesis
    using rest full_closing_extend [OF _ t1(1), of args gp w' w'] stays.leq_refl [of "{}" w'] by blast
qed

lemma start_gate_quiet:
  assumes "start_gate args w = (Inr gp, w')"
  shows "ran w [] w' \<and> (ga_full args \<longrightarrow> ga_remote args \<noteq> '''')"
proof -
  obtain results w1 stamp w2 w3 where "make_dirs results w = (Inr (), w1)" and "acquire_gate_lock results w1 = (Inr (), w2)"
    and "compact_timestamp w2 = (Inr stamp, w3)" and "make_dirs (gp_log gp) w3 = (Inr (), w')"
    and "ga_full args \<longrightarrow> ga_remote args \<noteq> ''''"
    using assms by (auto simp: start_gate_def act_simps split: if_splits)
  moreover have "ran w1 [] w2"
    using \<open>acquire_gate_lock results w1 = (Inr (), w2)\<close>
    by (auto simp: acquire_gate_lock_def acquire_lock_def Let_def act_simps ran_def write_file_ok timestamp_utc_def
        make_dirs_def split: if_splits)
  ultimately show ?thesis using quiet_primitives(2,4) ran_trans by (metis append_Nil)
qed

lemma announce_gate_last:
  "announce_gate full gp b w = (Inr u, w') \<Longrightarrow> last (printed w') = (if b then ''result=pass'' else ''result=fail'')"
  by (auto simp: announce_gate_def act_simps print_line_def)

lemma gate_run_main_tail:
  "gate_run.grows (announce_gate full gp b)" "gate_run.grows (first_sync_stage args gp report)"
  "gate_run.grows (first_report_stage args gp steps files residual)" "gate_run.grows (gate_steps args gp)"
  "gate_run.grows (start_gate args)"
  unfolding announce_gate_def announce_def first_sync_stage_def first_report_stage_def gate_steps_def
    full_stage_def matrix_stage_def initial_report_def start_gate_def acquire_gate_lock_def acquire_lock_def Let_def
  by (auto intro!: gate_run_rules gate_run_stages split: prod.splits)

lemma gate_main_parts:
  assumes "gate_main args w = (Inr rc, w')"
  obtains gp w1 steps files residual w2 h r1 w3 xs r2 w4 r3 w5 r4 w6
  where "start_gate args w = (Inr gp, w1)" "gate_steps args gp w1 = (Inr (steps, files, residual), w2)"
    "first_report_stage args gp steps files residual w2 = (Inr (h, r1), w3)"
    "first_sync_stage args gp r1 w3 = (Inr (xs, r2), w4)"
    "verdict_stage False gp (steps @ xs) residual (mf_matrix files) r2 w4 = (Inr r3, w5)"
    "final_stage args gp files h residual (steps @ xs) r3 w5 = (Inr r4, w6)"
    "announce_gate (ga_full args) gp (report_passed r4) w6 = (Inr (), w')"
    "rc = (if report_passed r4 then 0 else 1)"
  using assms unfolding gate_main_def act_bind_ok Let_def
  by (elim exE conjE) (auto simp: act_simps split: prod.splits)

lemma gate_verdict_sound:
  assumes verdict: "verdict_stage False gp (steps @ xs) residual (mf_matrix files) r2 w4 = (Inr r3, w5)"
    and final: "final_stage args gp files h residual (steps @ xs) r3 w5 = (Inr r4, w6)"
    and passed: "report_passed r4" and remote: "ga_full args \<longrightarrow> ga_remote args \<noteq> ''''"
  shows "list_all passed_step (steps @ xs) \<and> \<not> residual_found residual \<and>
     (mf_matrix files = [] \<or> field (mf_matrix files) ''status'' JNull \<noteq> JStr ''fail'') \<and>
     (ga_full args \<longrightarrow> full_closing args gp w5 w6) \<and>
     (\<exists>tr. ran w5 tr w6 \<and> (\<forall>(c, p) \<in> set tr. probe c \<or> p_rc p = 0))"
proof (cases "ga_full args")
  case True
  then show ?thesis using final_stage_passed [OF final passed True] remote by blast
next
  case False
  then have "r4 = r3" "w6 = w5" using final by (auto simp: final_stage_def act_simps)
  then have "gate_failures False (steps @ xs) residual (mf_matrix files) r2 = Inr []"
    using verdict_stage_passed [OF verdict] passed by simp
  then show ?thesis using False \<open>w6 = w5\<close> ran_refl [of w5] by (auto simp: gate_failures_Nil)
qed

lemma gate_closing:
  assumes a: "start_gate args w = (Inr gp, w1)" and b: "gate_steps args gp w1 = (Inr (steps, files, residual), w2)"
    and c: "first_report_stage args gp steps files residual w2 = (Inr (h, r1), w3)"
    and d: "first_sync_stage args gp r1 w3 = (Inr (xs, r2), w4)"
    and e: "verdict_stage False gp (steps @ xs) residual (mf_matrix files) r2 w4 = (Inr r3, w5)"
    and g: "announce_gate full gp passed w6 = (Inr u, w')"
    and "ran w tr w5" and "full_closing args gp w5 w6"
  shows "full_closing args gp w w'"
proof -
  have "leads_to w w5"
    using gate_run_main_tail [THEN gate_run.growsD] a b c d gate_run.growsD [OF gate_run_report_stages(1) e]
    by (meson rtranclp_trans)
  then show ?thesis using full_closing_extend assms(7,8) stays.growsD [OF stays_announce g] by blast
qed


section \<open>A run of the gate\<close>

text \<open>The Markdown page can be written for every report of the gate.\<close>

lemma step_row_dict: "\<exists>row. step_row (step_dict s) = Inr row"
  by (simp add: step_row_def step_dict_def dict_item_def format_seconds_def)

lemma markdown_report_total:
  assumes "map_of report ''steps'' = Some (JArr (map step_dict steps))"
    and "\<And>k. k \<in> {''timestamp'', ''mode'', ''source_tree_hash'', ''passed''} \<Longrightarrow> map_of report k \<noteq> None"
  shows "\<exists>text. markdown_report report = Inr text"
proof -
  have "collect (step_row) (map step_dict steps) = Inr (map (\<lambda>j. projr (step_row j)) (map step_dict steps))"
  proof (rule collect_total)
    fix x
    assume "x \<in> set (map step_dict steps)"
    then obtain s row where "step_row x = Inr row" using step_row_dict by auto
    then show "step_row x = Inr (projr (step_row x))" by simp
  qed
  moreover have "\<exists>v. dict_item report k = Inr v" if "k \<in> {''timestamp'', ''mode'', ''source_tree_hash'', ''passed''}" for k
    using assms(2) [OF that] by (auto simp: dict_item_def)
  then obtain a b c d where "dict_item report ''timestamp'' = Inr a" "dict_item report ''mode'' = Inr b"
    "dict_item report ''source_tree_hash'' = Inr c" "dict_item report ''passed'' = Inr d" by (meson insertI1 insertI2)
  moreover have "dict_item report ''steps'' = Inr (JArr (map step_dict steps))" using assms(1) by (simp add: dict_item_def)
  ultimately show ?thesis unfolding markdown_report_def by (simp only: andthen_Inr json.case) blast
qed

definition demo_process :: proc where
  \<comment> \<open>a process that succeeds and leaves an empty tree\<close>
  "demo_process = \<lparr>p_rc = 0, p_out = '''', p_err = '''', p_elapsed = float_zero, p_effect = (\<lambda>_. [])\<rparr>"

definition demo_world :: rworld where
  "demo_world = \<lparr>root_dir = ''/'', tree = [], ticks = 0, procs = replicate 25 (Some demo_process),
     process_env = (\<lambda>_. None), sshpass_installed = False, sha = (\<lambda>s. ''h''),
     utc_at = (\<lambda>i. ''T''), compact_at = (\<lambda>i. ''C''), interpreter = ''py'', pid = 7, lock_taken = False,
     commands = [], printed = [], printed_err = []\<rparr>"

definition demo_gargs :: gargs where
  "demo_gargs = \<lparr>ga_full = False, ga_build_dir = ''b'', ga_io_uring_build_dir = ''b'', ga_remote = '''',
     ga_remote_root = ''/'', ga_server_host = '''', ga_results_dir = ''r''\<rparr>"

definition demo_opening :: "(rworld, gate_paths \<times> step_result list \<times> matrix_files \<times> (string \<times> string)) act" where
  "demo_opening =
     act_bind (start_gate demo_gargs) (\<lambda>gp.
     act_bind (gate_steps demo_gargs gp) (\<lambda>(steps, files, residual).
     act_ret (gp, steps, files, residual)))"

lemma demo_opening_value:
  "case demo_opening demo_world of
     (Inr (gp, steps, files, residual), w) \<Rightarrow>
       gp = gate_paths_of [''r''] ''C'' \<and> list_all passed_step steps \<and> mf_matrix files = [] \<and>
       \<not> residual_found residual \<and> tree w = [] \<and> list_all (\<lambda>s. key_of w (s_log s) \<noteq> []) steps \<and>
       length (procs w) = 2 \<and> list_all (\<lambda>p. case p of None \<Rightarrow> False | Some p \<Rightarrow> p_effect p [] = []) (procs w)
   | _ \<Rightarrow> False"
  by code_simp

text \<open>Reading an empty tree.\<close>

lemma empty_tree [simp]:
  "repo_content [] p = None" "repo_is_dir [] p \<longleftrightarrow> p = []" "\<not> repo_is_file [] p" "repo_exists [] p \<longleftrightarrow> p = []"
  "glob_files [] d pat = []" "rglob_files [] d = []" "\<not> file_above [] p"
  by (simp_all add: repo_content_def repo_is_dir_def repo_is_file_def repo_exists_def glob_files_def rglob_files_def
      file_above_def list_ex_iff)

lemma empty_tree_artifacts:
  assumes "tree w = []"
  shows "collect_alpha_artifact_paths w j '''' '''' = Inr []"
proof -
  have "keep_artifact [] p = None" for p by (simp add: keep_artifact_def split: sum.splits)
  then show ?thesis
    using assms by (simp add: collect_alpha_artifact_paths_def latest_tree_matrix_artifacts_def latest_by_mtime_def
        matrix_references_def List.map_filter_def)
qed

lemma empty_tree_ctest:
  assumes "tree w = []" and "list_all (\<lambda>s. key_of w (s_log s) \<noteq> []) steps"
  shows "\<exists>r. ctest_entries P steps w = Inr r"
  unfolding ctest_entries_def using assms
  by (intro exI [of _ "map (\<lambda>s. (s_name s, projr (ctest_counts [] (key_of w (s_log s))))) (filter P steps)"] collect_total)
     (auto simp: ctest_counts_def list_all_iff)

lemma demo_opening_run:
  obtains gp steps files residual w1 w2 p q
  where "start_gate demo_gargs demo_world = (Inr gp, w1)" "gate_steps demo_gargs gp w1 = (Inr (steps, files, residual), w2)"
    "gp = gate_paths_of [''r''] ''C''" "list_all passed_step steps" "mf_matrix files = []"
    "\<not> residual_found residual" "tree w2 = []" "list_all (\<lambda>s. key_of w2 (s_log s) \<noteq> []) steps"
    "procs w2 = [Some p, Some q]" "p_effect p [] = []" "p_effect q [] = []"
proof -
  obtain gp steps files residual w2 where d: "demo_opening demo_world = (Inr (gp, steps, files, residual), w2)"
    using demo_opening_value by (auto split: prod.splits sum.splits)
  then obtain w1 where "start_gate demo_gargs demo_world = (Inr gp, w1)" "gate_steps demo_gargs gp w1 = (Inr (steps, files, residual), w2)"
    by (auto simp: demo_opening_def act_simps split: prod.splits)
  moreover have "gp = gate_paths_of [''r''] ''C'' \<and> list_all passed_step steps \<and> mf_matrix files = [] \<and>
       \<not> residual_found residual \<and> tree w2 = [] \<and> list_all (\<lambda>s. key_of w2 (s_log s) \<noteq> []) steps"
    using demo_opening_value d by auto
  moreover obtain p q where "procs w2 = [Some p, Some q]" "p_effect p [] = []" "p_effect q [] = []"
    using demo_opening_value d by (auto simp: numeral_2_eq_2 length_Suc_conv split: option.splits)
  ultimately show thesis using that by blast
qed

lemma demo_write:
  assumes "keys = {ALPHA_REPORT, [''r'', ''C_alpha-release-gate.json'']}" and "fst ` set (tree w) \<subseteq> keys" and "p \<in> keys"
  shows "\<exists>w'. write_file p content w = (Inr (), w') \<and> fst ` set (tree w') \<subseteq> keys"
proof -
  have "repo_content (tree w) q = None" if "q \<notin> keys" for q
    using that assms(2) by (force simp: repo_content_def map_of_eq_None_iff)
  then have "\<not> file_above (tree w) p"
    using assms(1,3) by (auto simp: file_above_def repo_is_file_def list_ex_iff ALPHA_REPORT_def less_Suc_eq numeral_eq_Suc)
  moreover have "\<not> repo_is_dir (tree w) p"
    using assms by (force simp: repo_is_dir_def list_ex_iff ALPHA_REPORT_def)
  ultimately show ?thesis using assms(2,3) by (simp add: write_file_ok)
qed

lemma demo_write_reports:
  assumes keys: "keys = {ALPHA_REPORT, [''r'', ''C_alpha-release-gate.json'']}" and "fst ` set (tree w) \<subseteq> keys"
    and "map_of report ''steps'' = Some (JArr (map step_dict steps))"
    and "\<And>k. k \<in> {''timestamp'', ''mode'', ''source_tree_hash'', ''passed''} \<Longrightarrow> map_of report k \<noteq> None"
  shows "\<exists>w'. write_reports (gate_paths_of [''r''] ''C'') report w = (Inr (), w') \<and> fst ` set (tree w') \<subseteq> keys"
proof -
  let ?gp = "gate_paths_of [''r''] ''C''"
  have paths: "gp_report ?gp \<in> keys" "gp_json ?gp \<in> keys" using keys by (simp_all add: gate_paths_of_def)
  obtain md where md: "markdown_report report = Inr md" using markdown_report_total assms(3,4) by blast
  obtain w1 where w1: "write_file (gp_report ?gp) md w = (Inr (), w1)" "fst ` set (tree w1) \<subseteq> keys"
    using demo_write [OF keys assms(2) paths(1)] by blast
  obtain w2 where w2: "write_file (gp_json ?gp) (json_dumps (JObj report) @ [newline]) w1 = (Inr (), w2)" "fst ` set (tree w2) \<subseteq> keys"
    using demo_write [OF keys w1(2) paths(2)] by blast
  have "write_reports ?gp report w = (Inr (), w2)"
    using md w1(1) w2(1) by (simp add: write_reports_def write_markdown_report_def write_json_report_def act_simps)
  then show ?thesis using w2(2) by blast
qed

lemma same_root:
  assumes "root_dir w' = root_dir w"
  shows "key_of w' s = key_of w s"
  using assms by (simp add: key_of_def root_segs_def Let_def)

lemma finish_report_entries:
  "map_of (finish_report steps failures b report) ''steps'' = Some (JArr (map step_dict steps))"
  "map_of report k \<noteq> None \<Longrightarrow> map_of (finish_report steps failures b report) k \<noteq> None"
  by (simp_all add: finish_report_def)

lemma demo_initial_report:
  assumes "tree w = []" and "list_all (\<lambda>s. key_of w (s_log s) \<noteq> []) steps"
    and "procs w = [Some p, Some q]" and "p_effect p [] = []" and "p_effect q [] = []"
  shows "\<exists>report w'. initial_report demo_gargs h steps files residual w = (Inr report, w') \<and> tree w' = [] \<and>
     map_of report ''steps'' = Some (JArr (map step_dict steps)) \<and>
     (\<forall>k \<in> {''timestamp'', ''mode'', ''source_tree_hash'', ''passed''}. map_of report k \<noteq> None) \<and>
     status_of report ''artifact_sync_summary'' = JNull \<and> status_of report ''artifact_verify_summary'' = JNull"
proof -
  let ?w = "w\<lparr>ticks := ticks w + 1 + 1 + 1, procs := [],
    commands := commands w @ [[''git'', ''rev-parse'', ''HEAD'']] @ [[''git'', ''status'', ''--short'']]\<rparr>"
  have "key_of ?w s = key_of w s" for s by (rule same_root) simp
  then obtain r where "ctest_entries (\<lambda>s. starts_with ''ctest_'' (s_name s)) steps ?w = Inr r"
    using empty_tree_ctest [of ?w steps] assms(1,2) by auto
  moreover have "run_process [''git'', ''rev-parse'', ''HEAD''] (w\<lparr>ticks := ticks w + 1\<rparr>)
      = (Inr p, w\<lparr>ticks := ticks w + 1 + 1, procs := [Some q], commands := commands w @ [[''git'', ''rev-parse'', ''HEAD'']]\<rparr>)"
    using assms by (simp add: run_process_def Let_def)
  moreover have "run_process [''git'', ''status'', ''--short''] (w\<lparr>ticks := ticks w + 1 + 1, procs := [Some q],
      commands := commands w @ [[''git'', ''rev-parse'', ''HEAD'']]\<rparr>) = (Inr q, ?w)"
    using assms by (simp add: run_process_def Let_def)
  moreover have "tree ?w = []" using assms(1) by simp
  ultimately show ?thesis
    by (simp add: initial_report_def git_status_def run_git_def timestamp_utc_def act_bind_def act_ret_def act_lift_def
        gets_def status_of_def dict_of_def)
qed

lemma demo_gate_run: "\<exists>w'. gate_main demo_gargs demo_world = (Inr 0, w')"
proof -
  obtain gp steps files residual w1 w2 p q
    where a: "start_gate demo_gargs demo_world = (Inr gp, w1)" and b: "gate_steps demo_gargs gp w1 = (Inr (steps, files, residual), w2)"
    and gp: "gp = gate_paths_of [''r''] ''C''" and steps: "list_all passed_step steps" and mf: "mf_matrix files = []"
    and res: "\<not> residual_found residual" and t2: "tree w2 = []" and logs: "list_all (\<lambda>s. key_of w2 (s_log s) \<noteq> []) steps"
    and procs: "procs w2 = [Some p, Some q]" "p_effect p [] = []" "p_effect q [] = []"
    by (rule demo_opening_run)
  define keys where "keys = {ALPHA_REPORT, [''r'', ''C_alpha-release-gate.json'']}"
  obtain report w3 where c: "initial_report demo_gargs (source_tree_hash w2) steps files residual w2 = (Inr report, w3)"
    and t3: "tree w3 = []" and rep: "map_of report ''steps'' = Some (JArr (map step_dict steps))"
      "\<forall>k \<in> {''timestamp'', ''mode'', ''source_tree_hash'', ''passed''}. map_of report k \<noteq> None"
    and sums: "status_of report ''artifact_sync_summary'' = JNull" "status_of report ''artifact_verify_summary'' = JNull"
    using demo_initial_report [OF t2 logs procs] by blast
  obtain w4 where d: "write_reports gp report w3 = (Inr (), w4)" "fst ` set (tree w4) \<subseteq> keys"
    using demo_write_reports [OF keys_def _ rep(1), of w3] rep(2) t3 gp by auto
  define final where "final = finish_report steps [] True report"
  have "map_of final ''steps'' = Some (JArr (map step_dict steps))"
     "\<And>k. k \<in> {''timestamp'', ''mode'', ''source_tree_hash'', ''passed''} \<Longrightarrow> map_of final k \<noteq> None"
    using rep finish_report_entries unfolding final_def by metis+
  then obtain w5 where e: "write_reports gp final w4 = (Inr (), w5)"
    using demo_write_reports [OF keys_def d(2), of final steps] gp by auto
  have none: "gate_failures False steps residual (mf_matrix files) report = Inr []"
    using steps res mf sums by (simp add: gate_failures_Nil summary_bad_def)
  have files: "mf_raw files = ''''" "mf_summary files = ''''"
    using b by (auto simp: gate_steps_def full_stage_def demo_gargs_def act_simps no_matrix_def)
  have "first_report_stage demo_gargs gp steps files residual w2 = (Inr (source_tree_hash w2, report), w4)"
    using c d t2 files empty_tree_artifacts [OF t2]
    by (simp add: first_report_stage_def act_bind_def gets_def alpha_artifacts_def act_ret_def demo_gargs_def)
  moreover have "first_sync_stage demo_gargs gp report w4 = (Inr ([], report), w4)"
    by (simp add: first_sync_stage_def demo_gargs_def act_ret_def)
  moreover have "verdict_stage False gp (steps @ []) residual (mf_matrix files) report w4 = (Inr final, w5)"
    using none e unfolding verdict_stage_def final_def by (simp add: act_bind_def act_lift_def act_ret_def Let_def)
  moreover have "final_stage demo_gargs gp files (source_tree_hash w2) residual (steps @ []) final w5 = (Inr final, w5)"
    by (simp add: final_stage_def demo_gargs_def act_ret_def)
  moreover have "\<exists>w6. announce_gate (ga_full demo_gargs) gp (report_passed final) w5 = (Inr (), w6)"
    by (simp add: announce_gate_def announce_def act_simps act_bind_def gets_def print_line_def act_when_def)
  moreover have "report_passed final" by (simp add: final_def)
  ultimately show ?thesis using a b by (auto simp: gate_main_def act_bind_def act_ret_def Let_def)
qed


end
