(* ===== verification/Beta_Gate.thy ===== *)
theory Beta_Gate
  imports Alpha_Gate Py_Shell
begin

text \<open>
  The beta release gate, tools/release/run_beta_release_gate.py: it runs builds and tests on both
  machines, the nested alpha gates, the stability smoke runs, and closes with a manifest of the
  artifacts that is synchronised and verified. The lock, \<open>latest_by_mtime\<close> and
  \<open>read_json_if_exists\<close> of that file equal those of the alpha gate and share their definitions.
\<close>

section \<open>Constants and readers\<close>

definition BETA_STRATEGY :: "(string \<times> string) list" where
  "BETA_STRATEGY =
     [(''auth-mode'', ''anonymous''), (''tls-mode'', ''off''), (''data-tls-mode'', ''off''),
      (''file_io_backend'', ''posix''), (''final_verify_policy'', ''full''),
      (''manifest_flush_policy'', ''every_n_chunks''), (''preallocate'', ''off''),
      (''posix_write_strategy'', ''auto''), (''receiver_write_profile'', ''default''),
      (''receiver_write_yield_policy'', ''none'')]"

definition strategy_json :: "(string \<times> string) list \<Rightarrow> json" where
  "strategy_json kvs = JObj (map (\<lambda>(k, v). (k, JStr v)) kvs)"

definition BETA_DOCS :: "string list" where
  "BETA_DOCS =
     [''docs/release/BETA_RELEASE_GATE.md'', ''docs/release/BETA_RELEASE_CANDIDATE.md'',
      ''docs/release/BETA_LIMITATIONS.md'', ''docs/release/BETA_FREEZE.md'',
      ''docs/perf/BETA_PERFORMANCE_SUMMARY.md'', ''docs/perf/100G_MIGRATION_CHECKLIST.md'',
      ''docs/perf/BETA1A_100G_READINESS.md'', ''docs/perf/BETA1B_DATA_TLS_RESUME_AND_STOR_WRITE.md'',
      ''docs/perf/BETA1B_STOR_WRITEBACK_DIAGNOSIS.md'', ''docs/perf/BETA1B_RECEIVER_WRITEBACK_OPTIN.md'',
      ''docs/perf/BETA1B_RECEIVER_WRITEBACK_STABILITY.md'',
      ''docs/perf/BETA1B_STORAGE_SYSTEM_ATTRIBUTION.md'', ''docs/perf/BETA1C_RETR_STABILITY.md'',
      ''docs/perf/BASELINE_FTP_GRIDFTP_SMOKE.md'', ''docs/perf/FTP_GRIDFTP_GRIDFLUX_COMPARISON.md'']"

definition BETA_TOOLS :: "string list" where
  "BETA_TOOLS =
     [''tools/release/run_beta_release_gate.py'', ''tools/release/run_beta_release_candidate.py'',
      ''tools/release/run_beta_freeze_check.py'', ''tools/release/test_beta_release_helpers.py'',
      ''tools/test/run_beta_long_soak.py'', ''tools/test/test_beta_long_soak.py'',
      ''tools/perf/run_beta1b_storage_system_probe.py'', ''tools/perf/analyze_beta1b_storage_system.py'',
      ''tools/perf/run_beta1c_retr_stability.py'', ''tools/perf/analyze_beta1c_retr_stability.py'',
      ''tools/perf/run_baseline_ftp_gridftp_smoke.py'', ''tools/perf/run_three_way_ftp_gridftp_gridflux.py'',
      ''tools/perf/plot_three_way_comparison.py'']"

definition acquire_beta_lock :: "string list \<Rightarrow> (rworld, unit) act" where
  "acquire_beta_lock = acquire_lock ''beta'' ''.beta-release-gate.lock''"

definition output_line :: "string \<Rightarrow> string \<Rightarrow> bool" where
  "output_line key l \<longleftrightarrow> starts_with (key @ ''='') l \<and> l \<noteq> key @ ''=''"

definition output_value :: "string \<Rightarrow> string \<Rightarrow> string option" where
  \<comment> \<open>the first match of \<open>^key=(.+)$\<close>, line by line\<close>
  "output_value log_text key =
     map_option (\<lambda>l. py_strip (drop (Suc (length key)) l)) (find (output_line key) (split_on newline log_text))"

definition parse_output_paths :: "string \<Rightarrow> string list \<Rightarrow> (string, string) pydict" where
  "parse_output_paths log_text keys =
     foldl (\<lambda>result key. case output_value log_text key of None \<Rightarrow> result | Some v \<Rightarrow> dict_set key v result) [] keys"

definition parse_iouring_smoke_passed :: "string \<Rightarrow> bool" where
  "parse_iouring_smoke_passed log_text \<longleftrightarrow>
     list_ex (\<lambda>line. contains ''Passed'' line \<and> \<not> contains ''Skipped'' line)
       (filter (contains ''FileIoTest.IoUringContextReadWriteSmokeWhenAvailable'') (py_splitlines log_text))"

definition run_remote_shell_step :: "string \<Rightarrow> string \<Rightarrow> string list \<Rightarrow> string \<Rightarrow> (rworld, step_result) act" where
  "run_remote_shell_step name shell_command log_dir remote =
     act_bind (remote_prefix remote) (\<lambda>prefix. run_step name (prefix @ [shell_command]) log_dir)"

definition internal_step :: "string \<Rightarrow> string list \<Rightarrow> bool \<Rightarrow> string \<Rightarrow> string \<Rightarrow> (rworld, step_result) act" where
  "internal_step name log_dir passed text error_code =
     (let log_path = log_dir @ [name @ ''.log''] in
      act_bind (write_file log_path text) (\<lambda>_.
      act_bind (gets (\<lambda>w. abs_text w log_path)) (\<lambda>log.
      act_ret \<lparr>s_name = name, s_status = (if passed then ''pass'' else ''fail''),
        s_returncode = (if passed then 0 else 1), s_log = log, s_elapsed = float_zero,
        s_error_code = (if passed then ''ok'' else error_code)\<rparr>)))"

definition step_log_text :: "step_result \<Rightarrow> (rworld, string) act" where
  "step_log_text step w =
     ((if s_log step = '''' then Inr '''' else read_text_replace (tree w) (key_of w (s_log step))), w)"

definition step_summary :: "step_result list \<Rightarrow> report" where
  "step_summary steps =
     [(''total_steps'', JInt (int (length steps))), (''passed_steps'', count_steps passed_step steps),
      (''failed_steps'', count_steps (\<lambda>s. \<not> passed_step s) steps),
      (''first_failed_step'', first_failed_step steps), (''passed'', JBool (list_all passed_step steps))]"

definition ATTRIBUTION_REPORT :: "string list" where
  "ATTRIBUTION_REPORT = [''docs'', ''perf'', ''BETA1B_STORAGE_SYSTEM_ATTRIBUTION.md'']"

definition py_bool_text :: "bool \<Rightarrow> string" where
  "py_bool_text b = (if b then ''True'' else ''False'')"

definition beta1b_storage_freshness :: "string list \<Rightarrow> (rworld, step_result) act" where
  "beta1b_storage_freshness log_dir =
     act_bind (gets (\<lambda>w. (repo_is_file (tree w) ATTRIBUTION_REPORT,
       latest_by_mtime (tree w) (glob_files (tree w) results_key [''*_beta1b-storage-system-attribution.json'']),
       relative_to_root w (abs_text w ATTRIBUTION_REPORT)))) (\<lambda>(present, latest, report_text).
     act_bind (gets (opt_text)) (\<lambda>show.
     act_bind (lift_tree (\<lambda>t. case latest of None \<Rightarrow> Inr [] | Some p \<Rightarrow> read_json_if_exists t p)) (\<lambda>payload.
     act_bind (gets (\<lambda>w. relative_to_root w (show latest))) (\<lambda>latest_text.
     let reasons =
           (if present then [] else [''missing report docs/perf/BETA1B_STORAGE_SYSTEM_ATTRIBUTION.md''])
           @ (if latest = None then [''missing *_beta1b-storage-system-attribution.json''] else [])
           @ (if latest \<noteq> None \<and> payload = [] then [''unreadable wrapper JSON '' @ show latest] else []);
         lines = [''report='' @ report_text @ '' exists='' @ py_bool_text present,
           ''latest_wrapper='' @ latest_text,
           ''wrapper_readable='' @ py_bool_text (latest \<noteq> None \<and> payload \<noteq> [])]
           @ map (\<lambda>r. ''reason='' @ r) reasons
     in internal_step ''beta1b_storage_system_freshness'' log_dir (reasons = [])
          (join [newline] lines @ [newline]) ''missing_artifact''))))"

definition read_csv_rows :: "rworld \<Rightarrow> string \<Rightarrow> csv_row list res" where
  "read_csv_rows w path_text =
     (if path_text = '''' then Inr []
      else let p = key_of w path_text in
           if \<not> repo_is_file (tree w) p then Inr []
           else andthen (repo_read (tree w) p) (\<lambda>b. andthen (utf8_decode b) (\<lambda>text. Inr (dict_rows text))))"

section \<open>Summaries\<close>

definition int_or_zero :: "json \<Rightarrow> int res" where
  \<comment> \<open>\<open>int(value or 0)\<close>\<close>
  "int_or_zero v = (if truthy v then to_int v else Inr 0)"

definition summarize_beta1c_smoke :: "report \<Rightarrow> report res" where
  "summarize_beta1c_smoke wrapper =
     andthen (int_or_zero (field wrapper ''retr_transfer_cases'' (field wrapper ''retr_raw_rows'' (JInt 0)))) (\<lambda>raw_rows.
     andthen (int_or_zero (field wrapper ''retr_transfer_failures'' (field wrapper ''retr_raw_fail'' (JInt 0)))) (\<lambda>raw_fail.
     andthen (int_or_zero (field wrapper ''retr_summary_fail_count'' (JInt 0))) (\<lambda>grouped_fail.
     andthen (int_or_zero (field wrapper ''hash_mismatch_count'' (JInt 0))) (\<lambda>mismatch.
     Inr [(''raw_rows'', JInt raw_rows), (''raw_pass'', JInt (if raw_fail \<le> raw_rows then raw_rows - raw_fail else 0)),
          (''raw_fail'', JInt raw_fail), (''grouped_fail'', JInt grouped_fail),
          (''hash_mismatch_count'', JInt mismatch),
          (''passed'', JBool (raw_rows > 0 \<and> raw_fail = 0 \<and> grouped_fail = 0 \<and> mismatch = 0))]))))"

definition absent_summary :: "string \<Rightarrow> report" where
  "absent_summary path = [(''path'', JStr path), (''present'', JBool False), (''passed'', JBool False)]"

definition payload_at :: "rworld \<Rightarrow> string list option \<Rightarrow> report res" where
  "payload_at w path = (case path of None \<Rightarrow> Inr [] | Some p \<Rightarrow> read_json_if_exists (tree w) p)"

definition soak_fields :: "report \<Rightarrow> int \<Rightarrow> report" where
  "soak_fields payload fail_count =
     [(''present'', JBool True),
      (''passed'', JBool (py_lower (py_str (field payload ''result'' (JStr ''''))) = ''pass'' \<and> fail_count = 0)),
      (''profile'', field payload ''profile'' (JStr '''')), (''iterations'', field payload ''iterations'' (JInt 0)),
      (''pass_count'', field payload ''pass_count'' (JInt 0)), (''fail_count'', JInt fail_count),
      (''elapsed_seconds'', field payload ''elapsed_seconds'' (JReal float_zero))]"

definition summarize_beta_long_soak :: "rworld \<Rightarrow> string list option \<Rightarrow> report res" where
  "summarize_beta_long_soak w path =
     andthen (payload_at w path) (\<lambda>payload.
     if payload = [] then Inr (absent_summary (opt_text w path))
     else andthen (int_or_zero (field payload ''fail_count'' (JInt 0))) (\<lambda>fail_count.
          Inr ((''path'', JStr (relative_to_root w (opt_text w path))) # soak_fields payload fail_count)))"

definition summarize_beta_freeze_check :: "rworld \<Rightarrow> string list option \<Rightarrow> report res" where
  "summarize_beta_freeze_check w path =
     andthen (payload_at w path) (\<lambda>payload.
     if payload = [] then Inr (absent_summary (opt_text w path))
     else Inr [(''path'', JStr (relative_to_root w (opt_text w path))), (''present'', JBool True),
               (''passed'', JBool (truthy (field payload ''passed'' (JBool False)))),
               (''failures'', field payload ''failures'' (JArr []))])"

definition latest_soak :: "repo \<Rightarrow> string list option" where
  "latest_soak t =
     latest_by_mtime t (glob_files t results_key [''*_beta-long-soak*.json'']
       @ glob_files t results_key [''*_beta-release-gate'', ''beta-long-soak-short.json''])"

definition latest_beta1e_references :: "rworld \<Rightarrow> report res" where
  "latest_beta1e_references w =
     andthen (summarize_beta_long_soak w (latest_soak (tree w))) (\<lambda>soak.
     andthen (summarize_beta_freeze_check w
        (latest_by_mtime (tree w) (glob_files (tree w) results_key [''*_beta-freeze-check.json'']))) (\<lambda>freeze.
     Inr [(''long_soak'', JObj soak), (''freeze_check'', JObj freeze)]))"

section \<open>Artifacts\<close>

definition selected_results :: "repo \<Rightarrow> bool \<Rightarrow> string \<Rightarrow> string list list" where
  "selected_results t latest_only pattern =
     (let paths = glob_files t results_key (split_on CHR ''/'' pattern) in
      if latest_only then (case latest_by_mtime t paths of None \<Rightarrow> [] | Some p \<Rightarrow> [p])
      else filter (repo_is_file t) paths)"

definition result_references :: "rworld \<Rightarrow> string list \<Rightarrow> string list res" where
  "result_references w p =
     (if name_suffix (last_seg p) = ''.csv'' then csv_referenced_artifacts w (rel_text p) else Inr [rel_text p])"

definition collect_result_artifacts :: "rworld \<Rightarrow> string list \<Rightarrow> bool \<Rightarrow> string list res" where
  "collect_result_artifacts w patterns latest_only =
     andthen (collect (result_references w) (concat (map (selected_results (tree w) latest_only) patterns)))
       (\<lambda>pss. Inr (concat pss))"

definition BETA_RESULT_PATTERNS :: "string list" where
  "BETA_RESULT_PATTERNS =
     [''*_beta1a*.json'', ''*_beta1b-storage-system-attribution.json'', ''*_beta1c-retr-stability.json'',
      ''*_baseline-ftp-gridftp-smoke.json'', ''*_three-way-wrapper.json'',
      ''*_ftp-gridftp-gridflux-summary.csv'', ''*_three-way-host-baseline.csv'',
      ''*_plain-ftp-three-way.csv'', ''*_native-gridftp-three-way.csv'', ''*_gridflux-three-way.csv'',
      ''*_beta-long-soak*.json'', ''*_beta-freeze-check.json'',
      ''*_beta-release-gate/beta-long-soak-short.json'',
      ''*_beta-release-gate/beta-long-soak-short/*.log'',
      ''*_beta-release-gate/beta-long-soak-short-events/*.jsonl'']"

definition beta_figures :: "repo \<Rightarrow> string list" where
  "beta_figures t =
     map rel_text (glob_files t [''docs'', ''perf'', ''figures''] [''three_way_*.*'']
       @ glob_files t [''docs'', ''perf'', ''figures''] [''gridflux_short_vs_1g.*''])"

definition collect_beta_artifact_paths ::
  "rworld \<Rightarrow> string \<Rightarrow> string \<Rightarrow> string list \<Rightarrow> string list \<Rightarrow> string list res" where
  "collect_beta_artifact_paths w gate_json gate_markdown beta1c_raws beta1c_summaries =
     andthen (collect_alpha_artifact_paths w gate_json '''' '''') (\<lambda>alpha_paths.
     andthen (collect_result_artifacts w BETA_RESULT_PATTERNS True) (\<lambda>result_paths.
     andthen (collect (\<lambda>p. csv_referenced_artifacts w (relative_to_root w p)) (beta1c_raws @ beta1c_summaries)) (\<lambda>csv_paths.
     (let t = tree w;
          present = filter (\<lambda>p. repo_is_file t (segs (to_path p)));
          paths = alpha_paths @ [relative_to_root w gate_json, relative_to_root w gate_markdown]
            @ present BETA_DOCS @ present BETA_TOOLS @ beta_figures t @ result_paths @ concat csv_paths
      in Inr (List.map_filter (keep_artifact t) (sorted_set paths))))))"

section \<open>The Markdown report of the beta gate\<close>

definition float_seconds :: "json \<Rightarrow> string res" where
  \<comment> \<open>\<open>f"{float(value):.2f}"\<close>\<close>
  "float_seconds j =
     (case j of
        JStr s \<Rightarrow> andthen (float_or_raise s) (\<lambda>f. Inr (float_fixed 2 f))
      | _ \<Rightarrow> format_seconds j)"

definition loose_step_row :: "json \<Rightarrow> string list res" where
  \<comment> \<open>the row of a dictionary; any other element is passed over\<close>
  "loose_step_row step =
     (case step of
        JObj d \<Rightarrow>
          andthen (float_seconds (field d ''elapsed_seconds'' (JReal float_zero))) (\<lambda>seconds.
          Inr [''| '' @ ticked (get_text d ''name'') @ '' | '' @ ticked (get_text d ''status'') @ '' | ''
            @ ticked (get_text d ''error_code'') @ '' | '' @ ticked seconds @ '' | '' @ ticked (get_text d ''log'') @ '' |''])
      | _ \<Rightarrow> Inr [])"

definition strategy_lines :: "(string \<times> string) list \<Rightarrow> string list" where
  "strategy_lines kvs = map (\<lambda>(k, v). ''- '' @ ticked k @ '': '' @ ticked v) kvs"

definition step_table_head :: "string list" where
  "step_table_head = ['''', ''## Step Results'', '''', ''| Step | Status | Error Code | Seconds | Log |'',
     ''|------|--------|------------|---------|-----|'']"

definition part_of :: "report \<Rightarrow> string \<Rightarrow> report" where
  "part_of report k = dict_of (field report k (JObj []))"

definition beta_smoke_lines :: "report \<Rightarrow> string list" where
  "beta_smoke_lines report =
     (let beta1c = part_of report ''beta1c_retr_smoke''; storage = part_of report ''beta1b_storage_system_check'' in
      ['''', ''## Beta Smoke Summary'', ''''] @
      (if beta1c = [] then []
       else [tick_line ''Beta 1C RETR smoke raw rows'' beta1c ''raw_rows'',
             tick_line ''Beta 1C RETR smoke pass/fail'' beta1c ''raw_pass'' @ '' / '' @ ticked (get_text beta1c ''raw_fail''),
             tick_line ''Beta 1C grouped fail'' beta1c ''grouped_fail'',
             tick_line ''Beta 1C hash mismatch'' beta1c ''hash_mismatch_count'']) @
      (if storage = [] then [] else [tick_line ''Beta 1B storage/system check'' storage ''status'']))"

definition is_dict :: "json \<Rightarrow> bool" where
  "is_dict j = (case j of JObj _ \<Rightarrow> True | _ \<Rightarrow> False)"

definition beta1e_lines :: "report \<Rightarrow> string list" where
  "beta1e_lines report =
     (let refs = field report ''beta1e_references'' (JObj []);
          soak = field (dict_of refs) ''long_soak'' (JObj []); freeze = field (dict_of refs) ''freeze_check'' (JObj [])
      in ['''', ''## Beta 1E Freeze/Soak References'', ''''] @
         (if is_dict refs
          then (if is_dict soak
                then [''- Latest long soak: '' @ tick_pairs (dict_of soak) [(''path'', ''path''), (''profile'', ''profile''),
                        (''pass'', ''passed''), (''fail_count'', ''fail_count'')]] else []) @
               (if is_dict freeze
                then [''- Latest freeze check: '' @ tick_pairs (dict_of freeze) [(''path'', ''path''), (''pass'', ''passed'')]]
                else [])
          else []))"

definition nested_lines :: "report \<Rightarrow> string list" where
  "nested_lines report =
     ['''', ''## Nested Alpha Gates'', ''''] @
     concat (map (\<lambda>name. let nested = part_of report name in
        if nested = [] then []
        else [''- '' @ name @ '': '' @ tick_pairs nested [(''status'', ''status''), (''json'', ''json'')]])
       [''quick_alpha_gate'', ''full_alpha_gate'', ''alpha_release_candidate''])"

definition verify_line :: "report \<Rightarrow> string" where
  "verify_line verify =
     ''- Verify: checked='' @ ticked (py_str (field verify ''checked'' (field verify ''total'' (JStr '''')))) @ '' ''
     @ tick_pairs verify [(''missing'', ''missing''), (''mismatch'', ''mismatch''), (''status'', ''status'')]"

definition sync_line :: "report \<Rightarrow> string" where
  "sync_line sync =
     ''- Sync: '' @ tick_pairs sync [(''checked'', ''checked''), (''missing'', ''missing''),
       (''mismatch'', ''mismatch''), (''status'', ''status'')]"

definition freshness_line :: "report \<Rightarrow> string" where
  "freshness_line fresh =
     ''- Freshness: '' @ tick_pairs fresh [(''checked'', ''checked''), (''stale'', ''stale_count''), (''status'', ''status'')]"

definition failure_lines :: "report \<Rightarrow> string list" where
  "failure_lines report =
     (let failures = list_of (field report ''failures'' (JArr [])) in
      ['''', ''## Failures'', ''''] @
      (if failures = [] then [''- None.''] else map (\<lambda>f. ''- '' @ ticked (py_str f)) failures))"

definition beta_closure_lines :: "report \<Rightarrow> string list" where
  "beta_closure_lines report =
     (let artifact = part_of report ''artifact_manifest''; fresh = part_of report ''artifact_manifest_freshness'';
          sync = part_of report ''artifact_sync_summary''; verify = part_of report ''artifact_verify_summary'';
          residual = part_of report ''residual_process_check''
      in ['''', ''## Artifact Closure'', ''''] @
         (if artifact = [] then []
          else [tick_line ''Manifest'' artifact ''path'', tick_line ''Artifact count'' artifact ''artifact_count'']) @
         (if fresh = [] then [] else [freshness_line fresh]) @
         (if sync = [] then [] else [sync_line sync]) @
         (if verify = [] then [] else [verify_line verify]) @
         ['''', ''## Residual Process Check'', '''', tick_line ''Local'' residual ''local'',
          tick_line ''Remote'' residual ''remote''] @ failure_lines report)"

definition pass_text :: "report \<Rightarrow> string" where
  "pass_text report = (if truthy (field report ''passed'' JNull) then ''pass'' else ''fail'')"

definition beta_gate_markdown :: "report \<Rightarrow> string res" where
  "beta_gate_markdown report =
     andthen (collect (loose_step_row) (list_of (field report ''steps'' (JArr [])))) (\<lambda>rows.
     Inr (join [newline]
       ([''# GridFlux Beta Release Gate'', '''', tick_line ''Timestamp'' report ''timestamp'',
         ''- Result: '' @ ticked (pass_text report), tick_line ''Source tree hash'' report ''source_tree_hash'',
         tick_line ''Remote'' report ''remote'', tick_line ''Server host'' report ''server_host'',
         '''', ''## Default Strategy'', '''']
        @ strategy_lines BETA_STRATEGY @ step_table_head @ concat rows @ beta_smoke_lines report
        @ beta1e_lines report @ nested_lines report @ beta_closure_lines report) @ [newline]))"

definition write_beta_gate_markdown :: "string list \<Rightarrow> report \<Rightarrow> (rworld, unit) act" where
  "write_beta_gate_markdown path report =
     act_bind (gets (\<lambda>w. beta_gate_markdown report)) (\<lambda>r.
     act_bind (act_lift r) (\<lambda>text. write_file path text))"

section \<open>The verdict\<close>

definition smoke_missing :: "report \<Rightarrow> string \<Rightarrow> bool res" where
  "smoke_missing report k =
     andthen (obj_get (field report ''io_uring_smoke'' (JObj [])) k (JBool False)) (\<lambda>v. Inr (\<not> truthy v))"

definition bad_part :: "report \<Rightarrow> string \<Rightarrow> bool" where
  \<comment> \<open>a summary that is there and does not say pass\<close>
  "bad_part report k \<longleftrightarrow> part_of report k \<noteq> [] \<and> field (part_of report k) ''status'' JNull \<noteq> JStr ''pass''"

definition unpassed_part :: "report \<Rightarrow> string \<Rightarrow> bool" where
  \<comment> \<open>\<open>isinstance(part, dict) and not part.get("passed", False)\<close>\<close>
  "unpassed_part report k \<longleftrightarrow>
     (case field report k (JObj []) of JObj d \<Rightarrow> \<not> truthy (field d ''passed'' (JBool False)) | _ \<Rightarrow> False)"

definition named :: "string \<Rightarrow> bool \<Rightarrow> string list" where
  "named name b = (if b then [name] else [])"

definition remote_failures :: "bool \<Rightarrow> report \<Rightarrow> string list" where
  "remote_failures required report =
     (if required
      then named ''artifact_sync_summary'' (bad_part report ''artifact_sync_summary'')
           @ named ''artifact_verify_summary'' (bad_part report ''artifact_verify_summary'')
      else [])"

definition finalized_report ::
  "report \<Rightarrow> step_result list \<Rightarrow> string \<times> string \<Rightarrow> bool \<Rightarrow> report res" where
  "finalized_report report steps residual require_remote_artifacts =
     andthen (smoke_missing report ''local_passed'') (\<lambda>no_local.
     andthen (smoke_missing report ''remote_passed'') (\<lambda>no_remote.
     (let failures = failed_names steps @ named ''residual_process_check'' (residual_found residual)
            @ named ''local_iouring_smoke_not_passed'' no_local
            @ named ''remote_iouring_smoke_not_passed'' no_remote
            @ named ''beta1c_retr_smoke'' (unpassed_part report ''beta1c_retr_smoke'')
            @ named ''artifact_manifest_freshness'' (bad_part report ''artifact_manifest_freshness'')
            @ remote_failures require_remote_artifacts report
      in Inr (dict_update (dict_update (dict_set ''steps'' (JArr (map step_dict steps)) report) (step_summary steps))
           [(''failures'', JStrs failures), (''failed_steps'', count_steps (\<lambda>s. \<not> passed_step s) steps),
            (''first_failed_step'', first_failed_step steps), (''passed'', JBool (failures = []))]))))"

section \<open>The beta gate\<close>

record bargs =
  b_build_dir :: string
  b_io_uring_build_dir :: string
  b_remote :: string
  b_remote_root :: string
  b_server_host :: string
  b_results_dir :: string
  b_run_storage_smoke :: bool
  b_run_long_soak_short :: bool
  b_run_freeze_check :: bool

definition IOURING_SMOKE :: string where
  "IOURING_SMOKE = ''FileIoTest.IoUringContextReadWriteSmokeWhenAvailable''"

definition local_specs :: "bargs \<Rightarrow> (string \<times> string list) list" where
  "local_specs args =
     [(''local_build_debug'', [''cmake'', ''--build'', b_build_dir args]),
      (''local_ctest_debug'', [''ctest'', ''--test-dir'', b_build_dir args, ''--output-on-failure'']),
      (''local_build_iouring_release'', [''cmake'', ''--build'', b_io_uring_build_dir args]),
      (''local_ctest_iouring_release'',
         [''ctest'', ''--test-dir'', b_io_uring_build_dir args, ''--output-on-failure'']),
      (''local_ctest_iouring_smoke'', [''ctest'', ''--test-dir'', b_io_uring_build_dir args, ''-R'',
         IOURING_SMOKE, ''--output-on-failure''])]"

definition remote_specs :: "bargs \<Rightarrow> (string \<times> string) list" where
  "remote_specs args =
     (let cd = ''cd '' @ shlex_quote (b_remote_root args) @ '' && '';
          build = shlex_quote (b_build_dir args); iouring = shlex_quote (b_io_uring_build_dir args)
      in [(''remote_build_debug'', cd @ ''cmake --build '' @ build),
          (''remote_ctest_debug'', cd @ ''ctest --test-dir '' @ build @ '' --output-on-failure''),
          (''remote_build_iouring_release'', cd @ ''cmake --build '' @ iouring),
          (''remote_ctest_iouring_release'', cd @ ''ctest --test-dir '' @ iouring @ '' --output-on-failure''),
          (''remote_ctest_iouring_smoke'',
             cd @ ''ctest --test-dir '' @ iouring @ '' -R '' @ IOURING_SMOKE @ '' --output-on-failure'')])"

fun run_remote_steps :: "(string \<times> string) list \<Rightarrow> string list \<Rightarrow> string \<Rightarrow> (rworld, step_result list) act" where
  "run_remote_steps [] log_dir remote = act_ret []"
| "run_remote_steps ((name, command) # specs) log_dir remote =
     act_bind (run_remote_shell_step name command log_dir remote) (\<lambda>step.
     act_bind (run_remote_steps specs log_dir remote) (\<lambda>steps.
     act_ret (step # steps)))"

definition beta_paths_of :: "string list \<Rightarrow> string \<Rightarrow> gate_paths" where
  "beta_paths_of results stamp =
     \<lparr>gp_results = results, gp_log = results @ [stamp @ ''_beta-release-gate''],
      gp_json = results @ [stamp @ ''_beta-release-gate.json''],
      gp_report = [''docs'', ''release'', ''BETA_RELEASE_GATE.md''],
      gp_manifest = results @ [stamp @ ''_beta-artifacts.json''], gp_stamp = stamp\<rparr>"

definition start_beta_gate :: "bargs \<Rightarrow> (rworld, gate_paths) act" where
  "start_beta_gate args =
     (if b_remote args = '''' \<or> b_server_host args = ''''
      then act_raise (SystemExit ''beta release gate requires --remote and --server-host'')
      else act_bind (gets (\<lambda>w. key_of w (b_results_dir args))) (\<lambda>results.
           act_bind (make_dirs results) (\<lambda>_.
           act_bind (acquire_beta_lock results) (\<lambda>_.
           act_bind compact_timestamp (\<lambda>stamp.
           act_bind (make_dirs (gp_log (beta_paths_of results stamp))) (\<lambda>_.
           act_ret (beta_paths_of results stamp)))))))"

definition nested_step ::
  "string \<Rightarrow> string list \<Rightarrow> string list \<Rightarrow> string list \<Rightarrow> (rworld, step_result \<times> (string, string) pydict) act" where
  \<comment> \<open>a step and the paths its log announces\<close>
  "nested_step name command keys log_dir =
     act_bind (run_step name command log_dir) (\<lambda>step.
     act_bind (step_log_text step) (\<lambda>text.
     act_ret (step, parse_output_paths text keys)))"

definition build_options :: "bargs \<Rightarrow> string list" where
  "build_options args = [''--build-dir'', b_build_dir args, ''--io-uring-build-dir'', b_io_uring_build_dir args,
     ''--remote'', b_remote args, ''--remote-root'', b_remote_root args]"

definition path_at :: "(string, string) pydict \<Rightarrow> string \<Rightarrow> json" where
  "path_at paths key = JStr (dict_get paths key '''')"

definition quick_alpha_step :: "bargs \<Rightarrow> gate_paths \<Rightarrow> (rworld, step_result \<times> json) act" where
  "quick_alpha_step args gp =
     act_bind (gets interpreter) (\<lambda>py.
     act_bind (nested_step ''quick_alpha_gate''
       ([py, ''tools/release/run_alpha_release_gate.py'', ''--quick''] @ build_options args
        @ [''--results-dir'', b_results_dir args])
       [''alpha_release_gate_json'', ''alpha_artifact_manifest''] (gp_log gp)) (\<lambda>(step, paths).
     act_ret (step, JObj [(''status'', JStr (s_status step)), (''json'', path_at paths ''alpha_release_gate_json'')])))"

definition full_alpha_step :: "bargs \<Rightarrow> gate_paths \<Rightarrow> (rworld, step_result \<times> json) act" where
  "full_alpha_step args gp =
     act_bind (gets interpreter) (\<lambda>py.
     act_bind (nested_step ''full_alpha_gate''
       ([py, ''tools/release/run_alpha_release_gate.py'', ''--full''] @ build_options args
        @ [''--server-host'', b_server_host args, ''--results-dir'', b_results_dir args])
       [''alpha_release_gate_json'', ''alpha_artifact_manifest''] (gp_log gp)) (\<lambda>(step, paths).
     act_ret (step, JObj [(''status'', JStr (s_status step)), (''json'', path_at paths ''alpha_release_gate_json''),
       (''artifact_manifest'', path_at paths ''alpha_artifact_manifest'')])))"

definition alpha_rc_step :: "bargs \<Rightarrow> gate_paths \<Rightarrow> (rworld, step_result \<times> json) act" where
  "alpha_rc_step args gp =
     act_bind (gets interpreter) (\<lambda>py.
     act_bind (nested_step ''alpha_release_candidate''
       ([py, ''tools/release/run_alpha_release_candidate.py''] @ build_options args
        @ [''--server-host'', b_server_host args, ''--results-dir'', b_results_dir args])
       [''alpha_release_candidate_json'', ''alpha_release_candidate_artifact_manifest''] (gp_log gp)) (\<lambda>(step, paths).
     act_ret (step, JObj [(''status'', JStr (s_status step)), (''json'', path_at paths ''alpha_release_candidate_json''),
       (''artifact_manifest'', path_at paths ''alpha_release_candidate_artifact_manifest'')])))"

definition retr_options :: "rworld \<Rightarrow> bargs \<Rightarrow> string list" where
  "retr_options w args =
     [''--remote'', b_remote args, ''--server-host'', b_server_host args,
      ''--local-build-dir'', resolved_text w (b_io_uring_build_dir args),
      ''--remote-build-dir'', below_remote (b_remote_root args) (b_io_uring_build_dir args),
      ''--output-dir'', b_results_dir args, ''--bytes-list'', ''67108864'', ''--repeat'', ''1'']"

definition beta1c_stage :: "bargs \<Rightarrow> gate_paths \<Rightarrow> (rworld, step_result \<times> report \<times> string list \<times> string list) act" where
  \<comment> \<open>without a \<open>json=\<close> line the path read is the current directory\<close>
  "beta1c_stage args gp =
     act_bind (gets (\<lambda>w. [interpreter w, ''tools/perf/run_beta1c_retr_stability.py''] @ retr_options w args
       @ [''--case-timeout'', ''900''])) (\<lambda>command.
     act_bind (nested_step ''beta1c_retr_smoke'' command [''json''] (gp_log gp)) (\<lambda>(step, paths).
     act_bind (gets (\<lambda>w. read_json_if_exists (tree w) (key_of w (dict_get paths ''json'' '''')))) (\<lambda>r.
     act_bind (act_lift r) (\<lambda>wrapper.
     act_bind (act_lift (iterate (field wrapper ''retr_raw_csvs'' (JArr [])))) (\<lambda>raws.
     act_bind (act_lift (iterate (field wrapper ''retr_summary_csvs'' (JArr [])))) (\<lambda>summaries.
     act_ret (step, wrapper, map py_str raws, map py_str summaries)))))))"

definition storage_stage :: "bargs \<Rightarrow> gate_paths \<Rightarrow> (rworld, step_result) act" where
  "storage_stage args gp =
     (if b_run_storage_smoke args
      then act_bind (gets (\<lambda>w. [interpreter w, ''tools/perf/run_beta1b_storage_system_probe.py''] @ retr_options w args
             @ [''--skip-fio'', ''--case-timeout'', ''900''])) (\<lambda>command.
           run_step ''beta1b_storage_system_smoke'' command (gp_log gp))
      else beta1b_storage_freshness (gp_log gp))"

definition soak_stage :: "bargs \<Rightarrow> gate_paths \<Rightarrow> report \<Rightarrow> (rworld, step_result list \<times> report) act" where
  "soak_stage args gp refs =
     (if \<not> b_run_long_soak_short args then act_ret ([], refs)
      else act_bind (gets (\<lambda>w. [interpreter w, ''tools/test/run_beta_long_soak.py'', ''--build-dir'', b_build_dir args,
             ''--profile'', ''tiny'', ''--iterations'', ''1'',
             ''--json-output'', abs_text w (gp_log gp @ [''beta-long-soak-short.json'']),
             ''--event-log-dir'', abs_text w (gp_log gp @ [''beta-long-soak-short-events'']),
             ''--results-dir'', abs_text w (gp_log gp @ [''beta-long-soak-short''])])) (\<lambda>command.
           act_bind (run_step ''beta_long_soak_short'' command (gp_log gp)) (\<lambda>step.
           act_bind (gets (\<lambda>w. summarize_beta_long_soak w (Some (gp_log gp @ [''beta-long-soak-short.json''])))) (\<lambda>r.
           act_bind (act_lift r) (\<lambda>summary.
           act_ret ([step], dict_set ''long_soak'' (JObj summary) refs))))))"

definition freeze_stage :: "bargs \<Rightarrow> gate_paths \<Rightarrow> report \<Rightarrow> (rworld, step_result list \<times> report) act" where
  \<comment> \<open>the freeze check announces its report by an absolute path\<close>
  "freeze_stage args gp refs =
     (if \<not> b_run_freeze_check args then act_ret ([], refs)
      else act_bind (gets (\<lambda>w. [interpreter w, ''tools/release/run_beta_freeze_check.py'', ''--remote'', b_remote args,
             ''--results-dir'', b_results_dir args])) (\<lambda>command.
           act_bind (nested_step ''beta_freeze_check_reference'' command [''beta_freeze_json''] (gp_log gp)) (\<lambda>(step, paths).
           act_bind (gets (\<lambda>w. summarize_beta_freeze_check w
             (let text = dict_get paths ''beta_freeze_json'' '''' in if text = '''' then None else Some (key_of w text)))) (\<lambda>r.
           act_bind (act_lift r) (\<lambda>summary.
           act_ret ([step], dict_set ''freeze_check'' (JObj summary) refs))))))"

definition hygiene_step :: "gate_paths \<Rightarrow> (rworld, step_result) act" where
  "hygiene_step gp =
     act_bind (gets interpreter) (\<lambda>py.
     run_step ''public_export_strict_hygiene'' [py, ''tools/release/export_public_repo.py'', ''--output'',
       ''/tmp/gridflux-public-beta-gate-'' @ gp_stamp gp, ''--force''] (gp_log gp))"

definition smoke_flag :: "string \<Rightarrow> step_result list \<Rightarrow> (rworld, bool) act" where
  \<comment> \<open>the step is always among those run\<close>
  "smoke_flag name steps =
     (case find (\<lambda>s. s_name s = name) steps of
        None \<Rightarrow> act_raise (RuntimeError ''StopIteration'')
      | Some step \<Rightarrow> act_bind (step_log_text step) (\<lambda>text. act_ret (parse_iouring_smoke_passed text)))"

record beta_run =
  br_steps :: "step_result list"
  br_quick :: json
  br_full :: json
  br_rc :: json
  br_wrapper :: report
  br_raws :: "string list"
  br_summaries :: "string list"
  br_storage :: step_result
  br_refs :: report
  br_hygiene :: step_result

definition beta_steps :: "bargs \<Rightarrow> gate_paths \<Rightarrow> (rworld, beta_run) act" where
  "beta_steps args gp =
     act_bind (run_steps (local_specs args) (gp_log gp)) (\<lambda>local_steps.
     act_bind (run_remote_steps (remote_specs args) (gp_log gp) (b_remote args)) (\<lambda>remote_steps.
     act_bind (quick_alpha_step args gp) (\<lambda>(quick_step, quick).
     act_bind (full_alpha_step args gp) (\<lambda>(full_step, full).
     act_bind (alpha_rc_step args gp) (\<lambda>(rc_step, rc).
     act_bind (beta1c_stage args gp) (\<lambda>(beta1c_step, wrapper, raws, summaries).
     act_bind (storage_stage args gp) (\<lambda>storage_step.
     act_bind (gets latest_beta1e_references) (\<lambda>r.
     act_bind (act_lift r) (\<lambda>refs.
     act_bind (soak_stage args gp refs) (\<lambda>(soak_steps, refs1).
     act_bind (freeze_stage args gp refs1) (\<lambda>(freeze_steps, refs2).
     act_bind (hygiene_step gp) (\<lambda>hygiene.
     act_ret \<lparr>br_steps = local_steps @ remote_steps @ [quick_step, full_step, rc_step, beta1c_step, storage_step]
          @ soak_steps @ freeze_steps @ [hygiene],
        br_quick = quick, br_full = full, br_rc = rc, br_wrapper = wrapper, br_raws = raws,
        br_summaries = summaries, br_storage = storage_step, br_refs = refs2, br_hygiene = hygiene\<rparr>))))))))))))"

definition beta_report ::
  "bargs \<Rightarrow> beta_run \<Rightarrow> string \<times> string \<Rightarrow> string \<Rightarrow> bool \<Rightarrow> bool \<Rightarrow> (rworld, report) act" where
  "beta_report args run residual source_hash local_iouring remote_iouring =
     act_bind timestamp_utc (\<lambda>now.
     act_bind git_status (\<lambda>git.
     act_bind (gets (ctest_entries (\<lambda>s. contains ''ctest'' (s_name s)) (br_steps run))) (\<lambda>r.
     act_bind (act_lift r) (\<lambda>ctest.
     act_bind (act_lift (summarize_beta1c_smoke (br_wrapper run))) (\<lambda>beta1c.
     act_ret [(''timestamp'', JStr now), (''source_tree_hash'', JStr source_hash), (''git'', git),
       (''remote'', JStr (b_remote args)), (''remote_root'', JStr (b_remote_root args)),
       (''server_host'', JStr (b_server_host args)), (''default_strategy'', strategy_json BETA_STRATEGY),
       (''ctest'', JObj ctest),
       (''io_uring_smoke'', JObj [(''local_passed'', JBool local_iouring), (''remote_passed'', JBool remote_iouring)]),
       (''quick_alpha_gate'', br_quick run), (''full_alpha_gate'', br_full run),
       (''alpha_release_candidate'', br_rc run), (''beta1c_retr_smoke'', JObj beta1c),
       (''beta1b_storage_system_check'', step_dict (br_storage run)), (''beta1e_references'', JObj (br_refs run)),
       (''hygiene'', step_dict (br_hygiene run)), (''artifact_manifest'', JObj []),
       (''artifact_manifest_freshness'', JObj []), (''artifact_sync_summary'', JObj []),
       (''artifact_verify_summary'', JObj []), (''residual_process_check'', residual_dict residual),
       (''steps'', JArr []), (''failures'', JArr []), (''passed'', JBool False)])))))"

definition write_beta_reports :: "gate_paths \<Rightarrow> report \<Rightarrow> (rworld, unit) act" where
  "write_beta_reports gp report =
     act_bind (write_beta_gate_markdown (gp_report gp) report) (\<lambda>_. write_json_report (gp_json gp) report)"

definition finalize_stage ::
  "gate_paths \<Rightarrow> step_result list \<Rightarrow> string \<times> string \<Rightarrow> bool \<Rightarrow> report \<Rightarrow> (rworld, report) act" where
  "finalize_stage gp steps residual required report =
     act_bind (act_lift (finalized_report report steps residual required)) (\<lambda>report1.
     act_bind (write_beta_reports gp report1) (\<lambda>_. act_ret report1))"

definition beta_manifest_stage :: "gate_paths \<Rightarrow> beta_run \<Rightarrow> string \<Rightarrow> report \<Rightarrow> (rworld, report) act" where
  \<comment> \<open>collect, write the manifest, check it\<close>
  "beta_manifest_stage gp run source_hash report =
     act_bind (gets (\<lambda>w. collect_beta_artifact_paths w (abs_text w (gp_json gp)) (abs_text w (gp_report gp))
       (br_raws run) (br_summaries run))) (\<lambda>r.
     act_bind (act_lift r) (\<lambda>paths.
     act_bind (manifest_stage gp source_hash True paths report) (\<lambda>report1.
     freshness_stage gp report1)))"

definition announce_beta :: "gate_paths \<Rightarrow> bool \<Rightarrow> (rworld, unit) act" where
  "announce_beta gp passed =
     act_bind (announce ''beta_release_gate_report'' (gp_report gp)) (\<lambda>_.
     act_bind (announce ''beta_release_gate_json'' (gp_json gp)) (\<lambda>_.
     act_bind (announce ''beta_artifact_manifest'' (gp_manifest gp)) (\<lambda>_.
     print_line (if passed then ''result=pass'' else ''result=fail''))))"

definition beta_post_stage ::
  "bargs \<Rightarrow> gate_paths \<Rightarrow> step_result list \<Rightarrow> string \<times> string \<Rightarrow> report \<Rightarrow> (rworld, report) act" where
  "beta_post_stage args gp steps residual report =
     act_bind (sync_and_verify (gp_log gp) (gp_manifest gp) (b_remote args) (b_remote_root args)
       (''remote_beta_artifact_post_report_sync'', ''remote-beta-artifact-post-report-sync.json'')
       (''remote_beta_artifact_post_report_verify'', ''remote-beta-artifact-post-report-verify.json'')) (\<lambda>(s1, s2).
     if passed_step s1 \<and> passed_step s2 then finalize_stage gp steps residual True report
     else act_bind (summary_stage (gp_log gp @ [''remote-beta-artifact-post-report-sync.json''])
            (gp_log gp @ [''remote-beta-artifact-post-report-verify.json'']) report) (\<lambda>report1.
          finalize_stage gp (steps @ [s1, s2]) residual True report1))"

definition beta_closing ::
  "bargs \<Rightarrow> gate_paths \<Rightarrow> beta_run \<Rightarrow> string \<times> string \<Rightarrow> string \<Rightarrow> report \<Rightarrow> (rworld, int) act" where
  "beta_closing args gp run residual source_hash report =
     act_bind (beta_manifest_stage gp run source_hash report) (\<lambda>report1.
     act_bind (finalize_stage gp (br_steps run) residual False report1) (\<lambda>report2.
     act_bind (beta_manifest_stage gp run source_hash report2) (\<lambda>report3.
     act_bind (sync_and_verify (gp_log gp) (gp_manifest gp) (b_remote args) (b_remote_root args)
       (''remote_beta_artifact_sync'', ''remote-beta-artifact-sync.json'')
       (''remote_beta_artifact_verify'', ''remote-beta-artifact-verify.json'')) (\<lambda>(s1, s2).
     let steps = br_steps run @ [s1, s2] in
     act_bind (summary_stage (gp_log gp @ [''remote-beta-artifact-sync.json''])
       (gp_log gp @ [''remote-beta-artifact-verify.json'']) report3) (\<lambda>report4.
     act_bind (finalize_stage gp steps residual True report4) (\<lambda>report5.
     act_bind (beta_manifest_stage gp run source_hash report5) (\<lambda>report6.
     if status_of report6 ''artifact_manifest_freshness'' \<noteq> JStr ''pass''
     then act_bind (finalize_stage gp steps residual True report6) (\<lambda>_.
          act_bind (announce_beta gp False) (\<lambda>_. act_ret 1))
     else act_bind (beta_post_stage args gp steps residual report6) (\<lambda>report7.
          act_bind (announce_beta gp (report_passed report7)) (\<lambda>_.
          act_ret (if report_passed report7 then 0 else 1))))))))))"

definition beta_main :: "bargs \<Rightarrow> (rworld, int) act" where
  "beta_main args =
     act_bind (start_beta_gate args) (\<lambda>gp.
     act_bind (beta_steps args gp) (\<lambda>run.
     act_bind (run_remote_process_check (b_remote args)) (\<lambda>residual.
     act_bind (gets source_tree_hash) (\<lambda>source_hash.
     act_bind (smoke_flag ''local_ctest_iouring_smoke'' (br_steps run)) (\<lambda>local_iouring.
     act_bind (smoke_flag ''remote_ctest_iouring_smoke'' (br_steps run)) (\<lambda>remote_iouring.
     act_bind (beta_report args run residual source_hash local_iouring remote_iouring) (\<lambda>report.
     act_bind (finalize_stage gp (br_steps run) residual False report) (\<lambda>report1.
     beta_closing args gp run residual source_hash report1))))))))"

end
