(* ===== verification/Release_Candidates.thy ===== *)
theory Release_Candidates
  imports Beta_Gate
begin

text \<open>
  The alpha release candidate, tools/release/run_alpha_release_candidate.py: it runs the alpha gate,
  a long soak run and the public export and closes with a manifest. Its \<open>read_json\<close>, which the beta
  candidate shares, returns an empty dictionary for an empty path, which the gates'
  \<open>read_json_if_exists\<close> does not.
\<close>

section \<open>Shared readers\<close>

definition read_json :: "rworld \<Rightarrow> string \<Rightarrow> report res" where
  "read_json w path_text =
     (if path_text = '''' then Inr [] else read_json_if_exists (tree w) (key_of w path_text))"

definition ALPHA_STRATEGY :: "(string \<times> string) list" where
  "ALPHA_STRATEGY =
     [(''auth_mode'', ''anonymous''), (''tls_mode'', ''off''), (''data_tls_mode'', ''off''),
      (''file_io_backend'', ''posix''), (''final_verify_policy'', ''full''),
      (''manifest_flush_policy'', ''every_n_chunks''), (''preallocate'', ''off''),
      (''posix_write_strategy'', ''auto'')]"

definition parse_alpha_gate_paths :: "string \<Rightarrow> (string, string) pydict" where
  "parse_alpha_gate_paths log_text = parse_output_paths log_text
     [''alpha_release_gate_report'', ''alpha_release_gate_json'', ''alpha_artifact_manifest'']"

section \<open>The alpha candidate\<close>

record cargs =
  c_build_dir :: string
  c_io_uring_build_dir :: string
  c_remote :: string
  c_remote_root :: string
  c_server_host :: string
  c_results_dir :: string
  c_soak_iterations :: int
  c_duration_seconds :: pyfloat
  c_profile :: string
  c_local_only :: bool

definition alpha_candidate_markdown :: "report \<Rightarrow> string res" where
  "alpha_candidate_markdown report =
     andthen (collect (loose_step_row) (list_of (field report ''steps'' (JArr [])))) (\<lambda>rows.
     (let gate = part_of report ''alpha_release_gate''; manifest = field report ''artifact_manifest'' (JObj []);
          fresh = field report ''artifact_manifest_freshness'' (JObj []);
          sync = part_of report ''artifact_sync_summary''; verify = part_of report ''artifact_verify_summary''
      in Inr (join [newline]
       ([''# GridFlux Alpha Release Candidate'', '''', tick_line ''Timestamp'' report ''timestamp'',
         ''- Result: '' @ ticked (pass_text report), tick_line ''Source tree hash'' report ''source_tree_hash'',
         '''', ''## Default Strategy'', '''']
        @ strategy_lines (sort_key fst ALPHA_STRATEGY) @ step_table_head @ concat rows
        @ ['''', ''## Nested Full Gate'', '''']
        @ (if gate = [] then [''- Not available.'']
           else [tick_line ''Gate JSON'' gate ''json'', tick_line ''Gate artifact manifest'' gate ''artifact_manifest'',
                 tick_line ''Gate passed'' gate ''passed'', tick_line ''Gate total steps'' gate ''total_steps'',
                 tick_line ''Gate failed steps'' gate ''failed_steps''])
        @ ['''', ''## Release Candidate Artifacts'', '''']
        @ (if is_dict manifest
           then [tick_line ''Manifest'' (dict_of manifest) ''path'',
                 tick_line ''Artifact count'' (dict_of manifest) ''artifact_count''] else [])
        @ (if is_dict fresh then [freshness_line (dict_of fresh)] else [])
        @ (if sync = [] then []
           else [''- Sync: '' @ tick_pairs sync [(''checked'', ''checked''), (''synced'', ''synced''),
              (''missing'', ''missing''), (''mismatch'', ''mismatch''), (''status'', ''status'')]])
        @ (if verify = [] then []
           else [''- Verify: '' @ tick_pairs verify [(''checked'', ''checked''), (''missing'', ''missing''),
              (''mismatch'', ''mismatch''), (''status'', ''status'')]])
        @ failure_lines report) @ [newline])))"

definition write_alpha_candidate :: "gate_paths \<Rightarrow> report \<Rightarrow> (rworld, unit) act" where
  \<comment> \<open>the Markdown page and the JSON report\<close>
  "write_alpha_candidate gp report =
     act_bind (gets (\<lambda>w. alpha_candidate_markdown report)) (\<lambda>r.
     act_bind (act_lift r) (\<lambda>text.
     act_bind (write_file (gp_report gp) text) (\<lambda>_. write_json_report (gp_json gp) report)))"

definition candidate_extra_paths :: "gate_paths \<Rightarrow> string list list" where
  "candidate_extra_paths gp =
     [gp_json gp, gp_report gp, [''docs'', ''release'', ''ALPHA_LIMITATIONS.md''],
      [''docs'', ''ARCHITECTURE_ALPHA.md''], [''docs'', ''release'', ''PHASE6E_ALPHA_RC.md''],
      [''tools'', ''release'', ''run_alpha_release_candidate.py'']]"

definition candidate_log_paths :: "rworld \<Rightarrow> string list \<Rightarrow> string list" where
  "candidate_log_paths w log_dir =
     map (\<lambda>p. relative_to_root w (abs_text w p))
       (filter (\<lambda>p. name_suffix (last_seg p) \<in> {''.json'', ''.log'', ''.jsonl'', ''.md'', ''.txt''})
         (rglob_files (tree w) log_dir))"

definition matrix_csv_paths :: "rworld \<Rightarrow> report \<Rightarrow> string list res" where
  "matrix_csv_paths w gate_payload =
     (case field gate_payload ''private_matrix'' (JObj []) of
        JObj matrix \<Rightarrow>
          andthen (collect (csv_referenced_artifacts w)
            (filter (\<lambda>v. v \<noteq> '''') (map (\<lambda>key. get_text matrix key) [''raw_csv'', ''summary_csv''])))
            (\<lambda>pss. Inr (concat pss))
      | _ \<Rightarrow> Inr [])"

definition alpha_candidate_artifact_paths :: "rworld \<Rightarrow> gate_paths \<Rightarrow> string \<Rightarrow> string list res" where
  "alpha_candidate_artifact_paths w gp gate_json =
     andthen (collect_alpha_artifact_paths w (abs_text w (gp_json gp)) '''' '''') (\<lambda>alpha_paths.
     andthen (read_json w gate_json) (\<lambda>gate_payload.
     andthen (matrix_csv_paths w gate_payload) (\<lambda>csv_paths.
     Inr (sorted_set (alpha_paths
       @ map (\<lambda>p. relative_to_root w (abs_text w p)) (filter (repo_is_file (tree w)) (candidate_extra_paths gp))
       @ csv_paths @ candidate_log_paths w (gp_log gp))))))"

definition candidate_paths_of :: "string \<Rightarrow> string \<Rightarrow> string list \<Rightarrow> string \<Rightarrow> gate_paths" where
  "candidate_paths_of kind page results stamp =
     \<lparr>gp_results = results, gp_log = results @ [stamp @ ''_'' @ kind @ ''-release-candidate''],
      gp_json = results @ [stamp @ ''_'' @ kind @ ''-release-candidate.json''],
      gp_report = [''docs'', ''release'', page],
      gp_manifest = results @ [stamp @ ''_'' @ kind @ ''-release-candidate-artifacts.json''], gp_stamp = stamp\<rparr>"

definition start_candidate :: "string \<Rightarrow> string \<Rightarrow> string \<Rightarrow> (rworld, gate_paths) act" where
  "start_candidate kind page results_dir =
     act_bind (gets (\<lambda>w. key_of w results_dir)) (\<lambda>results.
     act_bind (make_dirs results) (\<lambda>_.
     act_bind compact_timestamp (\<lambda>stamp.
     let gp = candidate_paths_of kind page results stamp in
     act_bind (make_dirs (gp_log gp)) (\<lambda>_. act_ret gp))))"

definition start_alpha_candidate :: "cargs \<Rightarrow> (rworld, gate_paths) act" where
  "start_alpha_candidate args =
     (if \<not> c_local_only args \<and> (c_remote args = '''' \<or> c_server_host args = '''')
      then act_raise (SystemExit ''complete alpha release candidate requires --remote and --server-host'')
      else if c_soak_iterations args \<le> 0 then act_raise (SystemExit ''--soak-iterations must be positive'')
      else if float_less (c_duration_seconds args) float_zero
      then act_raise (SystemExit ''--duration-seconds must be non-negative'')
      else start_candidate ''alpha'' ''ALPHA_RELEASE_CANDIDATE.md'' (c_results_dir args))"

definition candidate_gate_command :: "string \<Rightarrow> cargs \<Rightarrow> string list" where
  "candidate_gate_command py args =
     [py, ''tools/release/run_alpha_release_gate.py'', if c_local_only args then ''--quick'' else ''--full'',
      ''--build-dir'', c_build_dir args, ''--io-uring-build-dir'', c_io_uring_build_dir args,
      ''--results-dir'', c_results_dir args]
     @ (if c_remote args = '''' then [] else [''--remote'', c_remote args, ''--remote-root'', c_remote_root args])
     @ (if c_server_host args = '''' \<or> c_local_only args then [] else [''--server-host'', c_server_host args])"

definition long_soak_command :: "rworld \<Rightarrow> cargs \<Rightarrow> string list \<Rightarrow> string list" where
  "long_soak_command w args log_dir =
     [interpreter w, ''tools/test/run_alpha_soak_smoke.py'', ''--build-dir'', c_build_dir args,
      ''--iterations'', show_int (c_soak_iterations args), ''--duration-seconds'', float_repr (c_duration_seconds args),
      ''--profile'', c_profile args, ''--token'', ''--tls'', ''--data-tls'',
      ''--results-dir'', abs_text w (log_dir @ [''alpha_long_soak'']),
      ''--json-output'', abs_text w (log_dir @ [''alpha_long_soak.json'']),
      ''--event-log'', abs_text w (log_dir @ [''alpha_long_soak_events.jsonl''])]"

record candidate_run =
  cr_steps :: "step_result list"
  cr_paths :: "(string, string) pydict"
  cr_nested :: report

definition nested_gate_json :: "candidate_run \<Rightarrow> string" where
  "nested_gate_json run = dict_get (cr_paths run) ''alpha_release_gate_json'' ''''"

definition alpha_candidate_steps :: "cargs \<Rightarrow> gate_paths \<Rightarrow> (rworld, candidate_run) act" where
  "alpha_candidate_steps args gp =
     act_bind (gets interpreter) (\<lambda>py.
     act_bind (run_step (if c_local_only args then ''alpha_release_gate_quick'' else ''alpha_release_gate_full'')
       (candidate_gate_command py args) (gp_log gp)) (\<lambda>gate_step.
     act_bind (gets (\<lambda>w. read_text_replace (tree w) (key_of w (s_log gate_step)))) (\<lambda>r.
     act_bind (act_lift r) (\<lambda>text.
     let paths = parse_alpha_gate_paths text in
     act_bind (gets (\<lambda>w. read_json w (dict_get paths ''alpha_release_gate_json'' ''''))) (\<lambda>r2.
     act_bind (act_lift r2) (\<lambda>nested.
     act_bind (gets (\<lambda>w. long_soak_command w args (gp_log gp))) (\<lambda>soak_command.
     act_bind (run_step ''alpha_long_soak'' soak_command (gp_log gp)) (\<lambda>soak_step.
     act_bind (run_step ''public_export_hygiene'' [py, ''tools/release/export_public_repo.py'', ''--output'',
       ''/tmp/gridflux-public-alpha-rc-'' @ gp_stamp gp, ''--force''] (gp_log gp)) (\<lambda>hygiene.
     act_ret \<lparr>cr_steps = [gate_step, soak_step, hygiene], cr_paths = paths, cr_nested = nested\<rparr>)))))))))"

definition nested_passed :: "candidate_run \<Rightarrow> bool" where
  "nested_passed run = truthy (field (cr_nested run) ''passed'' (JBool False))"

definition first_candidate_failures :: "cargs \<Rightarrow> candidate_run \<Rightarrow> string \<times> string \<Rightarrow> string list" where
  "first_candidate_failures args run residual =
     failed_names (cr_steps run) @ named ''nested_alpha_release_gate'' (\<not> nested_passed run)
     @ named ''residual_process_check'' (residual_found residual)
     @ named ''local_only_not_complete'' (c_local_only args)"

definition candidate_report ::
  "cargs \<Rightarrow> gate_paths \<Rightarrow> candidate_run \<Rightarrow> string \<times> string \<Rightarrow> string \<Rightarrow> (rworld, report) act" where
  "candidate_report args gp run residual source_hash =
     act_bind timestamp_utc (\<lambda>now.
     act_bind (lift_tree (\<lambda>t. read_json_if_exists t (gp_log gp @ [''alpha_long_soak.json'']))) (\<lambda>soak.
     act_ret (dict_update
       (dict_update [(''timestamp'', JStr now), (''mode'', JStr (if c_local_only args then ''local-only'' else ''full'')),
          (''source_tree_hash'', JStr source_hash), (''default_strategy'', strategy_json ALPHA_STRATEGY),
          (''steps'', JArr (map step_dict (cr_steps run)))] (step_summary (cr_steps run)))
       [(''alpha_release_gate'', JObj [(''json'', JStr (nested_gate_json run)),
          (''report'', path_at (cr_paths run) ''alpha_release_gate_report''),
          (''artifact_manifest'', path_at (cr_paths run) ''alpha_artifact_manifest''),
          (''passed'', field (cr_nested run) ''passed'' (JBool False)),
          (''total_steps'', field (cr_nested run) ''total_steps'' (JInt 0)),
          (''failed_steps'', field (cr_nested run) ''failed_steps'' (JInt 0))]),
        (''soak_summary'', JObj soak), (''artifact_manifest'', JObj []), (''artifact_manifest_freshness'', JObj []),
        (''artifact_sync_summary'', JObj []), (''artifact_verify_summary'', JObj []),
        (''residual_process_check'', residual_dict residual),
        (''failures'', JStrs (first_candidate_failures args run residual)), (''passed'', JBool False)])))"

definition complete_candidate :: "cargs \<Rightarrow> bool" where
  "complete_candidate args \<longleftrightarrow> c_remote args \<noteq> '''' \<and> \<not> c_local_only args"

definition candidate_failures ::
  "cargs \<Rightarrow> candidate_run \<Rightarrow> step_result list \<Rightarrow> string \<times> string \<Rightarrow> report \<Rightarrow> string list" where
  "candidate_failures args run steps residual report =
     failed_names steps @ named ''nested_alpha_release_gate'' (\<not> nested_passed run)
     @ named ''residual_process_check'' (residual_found residual)
     @ named ''artifact_manifest_freshness'' (status_of report ''artifact_manifest_freshness'' \<noteq> JStr ''pass'')
     @ (if complete_candidate args
        then named ''artifact_sync_summary'' (status_of report ''artifact_sync_summary'' \<noteq> JStr ''pass'')
             @ named ''artifact_verify_summary'' (status_of report ''artifact_verify_summary'' \<noteq> JStr ''pass'')
        else [])
     @ named ''local_only_not_complete'' (c_local_only args)"

definition candidate_sync_stage ::
  "cargs \<Rightarrow> gate_paths \<Rightarrow> report \<Rightarrow> (rworld, step_result list \<times> report) act" where
  "candidate_sync_stage args gp report =
     (if \<not> complete_candidate args then act_ret ([], report)
      else act_bind (sync_and_verify (gp_log gp) (gp_manifest gp) (c_remote args) (c_remote_root args)
             (''remote_artifact_sync'', ''remote-artifact-sync.json'')
             (''remote_artifact_verify'', ''remote-artifact-verify.json'')) (\<lambda>(s1, s2).
           act_bind (summary_stage (gp_log gp @ [''remote-artifact-sync.json''])
             (gp_log gp @ [''remote-artifact-verify.json'']) report) (\<lambda>report1.
           act_ret ([s1, s2], report1))))"

definition candidate_verdict ::
  "cargs \<Rightarrow> candidate_run \<Rightarrow> step_result list \<Rightarrow> string \<times> string \<Rightarrow> report \<Rightarrow> report" where
  "candidate_verdict args run steps residual report =
     (let failures = candidate_failures args run steps residual report in
      dict_update (dict_update (dict_set ''steps'' (JArr (map step_dict steps)) report) (step_summary steps))
        [(''first_failed_step'', first_failed_step steps), (''failures'', JStrs failures),
         (''passed'', JBool (failures = []))])"

definition expected_freshness :: "rworld \<Rightarrow> string list \<Rightarrow> nat \<Rightarrow> json" where
  \<comment> \<open>written to the report before the manifest is, and checked afterwards\<close>
  "expected_freshness w path n =
     JObj [(''path'', JStr (relative_to_root w (abs_text w path))), (''checked'', JInt (int n)),
       (''stale_count'', JInt 0), (''status'', JStr ''pass''), (''stale'', JArr [])]"

definition count_changed_entry :: "rworld \<Rightarrow> string list \<Rightarrow> nat \<Rightarrow> nat \<Rightarrow> json" where
  "count_changed_entry w path expected actual =
     JObj [(''path'', JStr (relative_to_root w (abs_text w path))),
       (''reason'', JStr ''artifact_count_changed_during_manifest_write''),
       (''expected'', JInt (int expected)), (''actual'', JInt (int actual))]"

definition final_freshness :: "gate_paths \<Rightarrow> nat \<Rightarrow> nat \<Rightarrow> (rworld, report) act" where
  "final_freshness gp expected actual =
     act_bind (check_alpha_artifact_manifest_freshness (gp_manifest gp)) (\<lambda>fresh.
     if actual = expected then act_ret fresh
     else act_bind (act_lift (to_int (field fresh ''stale_count'' (JInt 0)))) (\<lambda>stale_count.
          act_bind (gets (\<lambda>w. count_changed_entry w (gp_manifest gp) expected actual)) (\<lambda>entry.
          act_ret (dict_update fresh [(''status'', JStr ''fail''), (''stale_count'', JInt (stale_count + 1)),
            (''stale'', JArr (list_of (field fresh ''stale'' (JArr [])) @ [entry]))]))))"

definition announce_candidate :: "string \<Rightarrow> gate_paths \<Rightarrow> bool \<Rightarrow> (rworld, unit) act" where
  "announce_candidate kind gp passed =
     act_bind (announce (kind @ ''_release_candidate_report'') (gp_report gp)) (\<lambda>_.
     act_bind (announce (kind @ ''_release_candidate_json'') (gp_json gp)) (\<lambda>_.
     act_bind (announce (kind @ ''_release_candidate_artifact_manifest'') (gp_manifest gp)) (\<lambda>_.
     print_line (if passed then ''result=pass'' else ''result=fail''))))"

definition candidate_stale_exit :: "gate_paths \<Rightarrow> report \<Rightarrow> report \<Rightarrow> (rworld, report) act" where
  "candidate_stale_exit gp fresh report =
     (let report1 = dict_update report [(''artifact_manifest_freshness'', JObj fresh),
        (''failures'', JArr (list_of (field report ''failures'' (JArr [])) @ [JStr ''artifact_manifest_freshness''])),
        (''passed'', JBool False)] in
      act_bind (write_alpha_candidate gp report1) (\<lambda>_. act_ret report1))"

definition candidate_post_stage ::
  "cargs \<Rightarrow> gate_paths \<Rightarrow> step_result list \<Rightarrow> report \<Rightarrow> (rworld, report) act" where
  "candidate_post_stage args gp steps report =
     (if \<not> complete_candidate args then act_ret report
      else act_bind (sync_and_verify (gp_log gp) (gp_manifest gp) (c_remote args) (c_remote_root args)
             (''remote_artifact_post_report_sync'', ''remote-artifact-post-report-sync.json'')
             (''remote_artifact_post_report_verify'', ''remote-artifact-post-report-verify.json'')) (\<lambda>(s1, s2).
           if passed_step s1 \<and> passed_step s2 then act_ret report
           else let all_steps = steps @ [s1, s2];
                    report1 = dict_update report [(''steps'', JArr (map step_dict all_steps)),
                      (''failures'', JStrs (failed_names all_steps)), (''passed'', JBool False)] in
                act_bind (write_alpha_candidate gp report1) (\<lambda>_. act_ret report1)))"

definition candidate_artifacts :: "gate_paths \<Rightarrow> candidate_run \<Rightarrow> (rworld, string list) act" where
  "candidate_artifacts gp run w = (alpha_candidate_artifact_paths w gp (nested_gate_json run), w)"

definition candidate_closing ::
  "cargs \<Rightarrow> gate_paths \<Rightarrow> candidate_run \<Rightarrow> step_result list \<Rightarrow> string \<Rightarrow> report \<Rightarrow> (rworld, report) act" where
  "candidate_closing args gp run steps source_hash report =
     act_bind (candidate_artifacts gp run) (\<lambda>paths.
     act_bind (gets (\<lambda>w. dict_update report
       [(''artifact_manifest'', manifest_summary w (gp_manifest gp) (length paths) (complete_candidate args)),
        (''artifact_manifest_freshness'', expected_freshness w (gp_manifest gp) (length paths))])) (\<lambda>report1.
     act_bind (write_alpha_candidate gp report1) (\<lambda>_.
     act_bind (write_alpha_artifact_manifest (gp_manifest gp) source_hash (complete_candidate args) paths) (\<lambda>entries.
     act_bind (final_freshness gp (length paths) (length entries)) (\<lambda>fresh.
     if field fresh ''status'' JNull \<noteq> JStr ''pass'' then candidate_stale_exit gp fresh report1
     else candidate_post_stage args gp steps report1)))))"

definition alpha_candidate_main :: "cargs \<Rightarrow> (rworld, int) act" where
  "alpha_candidate_main args =
     act_bind (start_alpha_candidate args) (\<lambda>gp.
     act_bind (alpha_candidate_steps args gp) (\<lambda>run.
     act_bind (run_remote_process_check (c_remote args)) (\<lambda>residual.
     act_bind (gets source_tree_hash) (\<lambda>source_hash.
     act_bind (candidate_report args gp run residual source_hash) (\<lambda>report.
     act_bind (write_alpha_candidate gp report) (\<lambda>_.
     act_bind (candidate_artifacts gp run) (\<lambda>paths.
     act_bind (manifest_stage gp source_hash (complete_candidate args) paths report) (\<lambda>report1.
     act_bind (freshness_stage gp report1) (\<lambda>report2.
     act_bind (candidate_sync_stage args gp report2) (\<lambda>(sync_steps, report3).
     let steps = cr_steps run @ sync_steps in
     act_bind (candidate_closing args gp run steps source_hash
       (candidate_verdict args run steps residual report3)) (\<lambda>report4.
     act_bind (announce_candidate ''alpha'' gp (report_passed report4)) (\<lambda>_.
     act_ret (if report_passed report4 then 0 else 1)))))))))))))"

end
