(* ===== verification/Py_Json_Round.thy ===== *)
theory Py_Json_Round
  imports Py_Json_Text "HOL-Library.Multiset"
begin

text \<open>
  Reading back what \<open>json.dumps\<close> wrote: for documents with ASCII texts, integers, distinct keys and
  no fractional numbers, \<open>json.loads\<close> returns the document with the keys of every object in order.
\<close>

section \<open>Strings\<close>

abbreviation ascii :: "string \<Rightarrow> bool" where
  "ascii s \<equiv> list_all (\<lambda>c. code c < 128) s"

lemma hex_value_digit: "d < 16 \<Longrightarrow> hex_value (hex_digit d) = Some (int d)"
  by (auto simp: hex_digit_def hex_value_def is_digit_def)

lemma hex4_escape:
  assumes "0 \<le> n" and "n < 65536"
  shows "hex4 ([hex_at n 4096, hex_at n 256, hex_at n 16, hex_at n 1] @ rest) = Some n"
proof -
  have hv: "hex_value (hex_at n d) = Some (n div d mod 16)" for d
    unfolding hex_at_def by (subst hex_value_digit) (auto simp: nat_less_iff)
  have ar: "((n div 4096 mod 16 * 16 + n div 256 mod 16) * 16 + n div 16 mod 16) * 16 + n mod 16 = n"
  proof -
    define a b c where "a = n div 16" and "b = a div 16" and "c = b div 16"
    have x1: "n div 4096 mod 16 = c" using assms unfolding a_def b_def c_def by (simp flip: zdiv_zmult2_eq)
    have x2: "n div 256 mod 16 = b mod 16" unfolding a_def b_def by (simp flip: zdiv_zmult2_eq)
    have x3: "n div 16 mod 16 = a mod 16" unfolding a_def by simp
    have e1: "c * 16 + b mod 16 = b" and e2: "b * 16 + a mod 16 = a" and e3: "a * 16 + n mod 16 = n"
      unfolding a_def b_def c_def by simp_all
    show ?thesis unfolding x1 x2 x3 e1 e2 by (rule e3)
  qed
  have tk: "take 4 ([hex_at n 4096, hex_at n 256, hex_at n 16, hex_at n 1] @ rest) =
      [hex_at n 4096, hex_at n 256, hex_at n 16, hex_at n 1]" by simp
  have "hex4 ([hex_at n 4096, hex_at n 256, hex_at n 16, hex_at n 1] @ rest) =
      Some (((n div 4096 mod 16 * 16 + n div 256 mod 16) * 16 + n div 16 mod 16) * 16 + n div 1 mod 16)"
    unfolding hex4_def tk by (simp only: list.map hv list.case option.case)
  then show ?thesis unfolding div_by_1 ar .
qed

lemma utf8_encode_code: "code c < 128 \<Longrightarrow> utf8_encode (int (code c)) = [c]"
  by (simp add: utf8_encode_def byte_of_def code_def)

lemma code_marks [simp]: "code (CHR 0x5C) = 92" "code (CHR 0x22) = 34"
  by (simp_all add: code_def)

lemma parse_string_escape_u:
  assumes "code c < 128"
  shows "parse_string out (u_escape (int (code c)) @ rest) = parse_string (out @ [c]) rest"
  using hex4_escape [of "int (code c)" rest] assms by (simp add: u_escape_def utf8_encode_code)

definition escaped :: "char \<Rightarrow> string" where
  "escaped c = json_escape [c]"

lemma json_escape_Cons: "code c < 128 \<Longrightarrow> json_escape (c # cs) = escaped c @ json_escape cs"
  by (simp add: escaped_def)

lemma escaped_plain:
  "c \<notin> {CHR 0x22, CHR 0x5C, newline, carriage_return, CHR 0x09, CHR 0x08, CHR 0x0C} \<Longrightarrow> code c < 128 \<Longrightarrow>
     escaped c = (if code c < 32 \<or> code c = 127 then u_escape (int (code c)) else [c])"
  by (simp add: escaped_def)

lemma escaped_cases:
  assumes "code c < 128"
  obtains e where "escaped c = [CHR 0x5C, e]" "simple_escape e = Some c" "e \<noteq> CHR ''u''"
  | "escaped c = u_escape (int (code c))"
  | "escaped c = [c]" "\<not> code c < 32" "c \<noteq> CHR 0x22" "c \<noteq> CHR 0x5C"
proof -
  consider "c = CHR 0x22" | "c = CHR 0x5C" | "c = newline" | "c = carriage_return" | "c = CHR 0x09" | "c = CHR 0x08"
    | "c = CHR 0x0C" | "escaped c = u_escape (int (code c))"
    | "escaped c = [c]" "\<not> code c < 32" "c \<noteq> CHR 0x22" "c \<noteq> CHR 0x5C"
    using assms escaped_plain [of c] by (metis empty_iff insert_iff)
  then show thesis
  proof cases
    case 1 then show thesis by (intro that(1) [of "CHR 0x22"]) (simp_all add: escaped_def simple_escape_def)
  next
    case 2 then show thesis by (intro that(1) [of "CHR 0x5C"]) (simp_all add: escaped_def simple_escape_def)
  next
    case 3 then show thesis by (intro that(1) [of "CHR ''n''"]) (simp_all add: escaped_def simple_escape_def)
  next
    case 4 then show thesis by (intro that(1) [of "CHR ''r''"]) (simp_all add: escaped_def simple_escape_def)
  next
    case 5 then show thesis by (intro that(1) [of "CHR ''t''"]) (simp_all add: escaped_def simple_escape_def)
  next
    case 6 then show thesis by (intro that(1) [of "CHR ''b''"]) (simp_all add: escaped_def simple_escape_def)
  next
    case 7 then show thesis by (intro that(1) [of "CHR ''f''"]) (simp_all add: escaped_def simple_escape_def)
  qed (use that(2,3) in blast)+
qed

lemma parse_string_escaped:
  assumes "code c < 128"
  shows "parse_string out (escaped c @ rest) = parse_string (out @ [c]) rest"
  using assms
proof (cases rule: escaped_cases)
  case (1 e)
  then show ?thesis by simp
next
  case 2
  then show ?thesis using parse_string_escape_u assms by simp
next
  case 3
  then show ?thesis by simp
qed

lemma parse_string_escape:
  "ascii s \<Longrightarrow> parse_string out (json_escape s @ CHR 0x22 # rest) = Some (out @ s, rest)"
  by (induction s arbitrary: out) (simp_all add: json_escape_Cons parse_string_escaped del: json_escape.simps(2))

section \<open>Numbers and words\<close>

definition stops :: "string \<Rightarrow> bool" where
  \<comment> \<open>what may follow a number: no digit, point or exponent\<close>
  "stops rest \<longleftrightarrow> rest = [] \<or> (\<not> is_digit (hd rest) \<and> hd rest \<notin> {CHR ''.'', CHR ''e'', CHR ''E''})"

lemma stops_Cons [simp]: "stops (c # cs) \<longleftrightarrow> \<not> is_digit c \<and> c \<notin> {CHR ''.'', CHR ''e'', CHR ''E''}"
  by (simp add: stops_def)

lemma show_nat_zero_head: "starts_with ''0'' (show_nat n) \<Longrightarrow> n = 0"
proof (induction n rule: show_nat.induct)
  case (1 n)
  show ?case
  proof (cases "n < 10")
    case True
    then have "show_nat n = [digit_char n]" by (simp add: show_nat.simps)
    then have "digit_char n = CHR ''0''" using 1(2) by (simp add: starts_with_def)
    then have "code (digit_char n) = 48" by (simp add: code_def)
    then show ?thesis using True by simp
  next
    case False
    then have eq: "show_nat n = show_nat (n div 10) @ [digit_char (n mod 10)]" by (simp add: show_nat.simps)
    obtain c cs where "show_nat (n div 10) = c # cs" by (cases "show_nat (n div 10)") auto
    then have "starts_with ''0'' (show_nat (n div 10))" using 1(2) eq by (simp add: starts_with_def)
    then have "n div 10 = 0" using 1(1) False by simp
    then show ?thesis using False by simp
  qed
qed

lemma digits_of_show: "stops rest \<Longrightarrow> digits_of (show_nat n @ rest) = show_nat n"
  using show_nat_digits [of n] unfolding digits_of_def
  by (cases rest) (auto simp: list_all_iff takeWhile_append2)

lemma show_nat_head: "\<exists>c cs. show_nat n = c # cs \<and> is_digit c"
  using show_nat_digits [of n] show_nat_nonempty [of n] by (cases "show_nat n") auto

lemma digit_not_mark: "is_digit c \<Longrightarrow> c \<notin> set ''-ntfNI[]{}'' \<and> c \<noteq> CHR 0x22 \<and> \<not> json_space c"
  by (auto simp: is_digit_def code_def json_space_def)

lemma number_end:
  assumes "stops rest"
  shows "number_frac rest = ''''" "number_expo rest = ''''"
  using assms by (cases rest; simp add: number_frac_def number_expo_def starts_with_def)+

lemma number_whole_show:
  assumes "stops rest"
  shows "number_whole (show_nat n @ rest) = show_nat n"
proof (cases "starts_with ''0'' (show_nat n @ rest)")
  case True
  then have "starts_with ''0'' (show_nat n)" using show_nat_head [of n] by (auto simp: starts_with_def)
  then have "n = 0" by (rule show_nat_zero_head)
  then show ?thesis using True by (simp add: number_whole_def digit_char_def show_nat.simps)
qed (simp add: number_whole_def digits_of_show assms)

lemma parse_number_nat:
  assumes "stops rest"
  shows "parse_number (show_nat n @ rest) = Some (JInt (int n), rest)"
    and "parse_number (CHR ''-'' # show_nat n @ rest) = Some (JInt (- int n), rest)"
proof -
  have sign: "\<not> starts_with ''-'' (show_nat n @ rest)"
    using show_nat_head [of n] digit_not_mark by (auto simp: starts_with_def)
  show "parse_number (show_nat n @ rest) = Some (JInt (int n), rest)"
    using sign by (simp add: parse_number_def number_whole_show number_end assms)
  show "parse_number (CHR ''-'' # show_nat n @ rest) = Some (JInt (- int n), rest)"
    by (simp add: parse_number_def number_whole_show number_end assms)
qed

lemma number_not_word:
  assumes "is_digit c"
  shows "parse_word (c # s) = parse_number (c # s)" "parse_word (CHR ''-'' # c # s) = parse_number (CHR ''-'' # c # s)"
proof -
  have "c \<noteq> CHR ''n''" "c \<noteq> CHR ''t''" "c \<noteq> CHR ''f''" "c \<noteq> CHR ''N''" "c \<noteq> CHR ''I''" "c \<noteq> CHR ''-''"
    using digit_not_mark [OF assms] by simp_all
  then show "parse_word (c # s) = parse_number (c # s)" "parse_word (CHR ''-'' # c # s) = parse_number (CHR ''-'' # c # s)"
    by (simp_all add: parse_word_def)
qed

lemma parse_word_int:
  assumes "stops rest"
  shows "parse_word (show_int i @ rest) = Some (JInt i, rest)"
proof (cases "i < 0")
  case True
  obtain c cs where "show_nat (nat (- i)) = c # cs" "is_digit c" using show_nat_head by blast
  then have "parse_word (CHR ''-'' # show_nat (nat (- i)) @ rest) = parse_number (CHR ''-'' # show_nat (nat (- i)) @ rest)"
    using number_not_word(2) by simp
  then show ?thesis using True parse_number_nat(2) [OF assms, of "nat (- i)"] by (simp add: show_int_def)
next
  case False
  obtain c cs where "show_nat (nat i) = c # cs" "is_digit c" using show_nat_head by blast
  then have "parse_word (show_nat (nat i) @ rest) = parse_number (show_nat (nat i) @ rest)"
    using number_not_word(1) by simp
  then show ?thesis using False parse_number_nat(1) [OF assms, of "nat i"] by (simp add: show_int_def)
qed

lemma number_head_marks:
  "is_digit c \<or> c = CHR ''-'' \<Longrightarrow> c \<noteq> CHR 0x22 \<and> c \<noteq> CHR ''['' \<and> c \<noteq> CHR ''{''"
  by (elim disjE) (use digit_not_mark [of c] in simp_all)

section \<open>Documents\<close>

fun plain_json :: "json \<Rightarrow> bool" where
  "plain_json (JReal t) \<longleftrightarrow> False"
| "plain_json (JStr s) \<longleftrightarrow> ascii s"
| "plain_json (JArr xs) \<longleftrightarrow> list_all plain_json xs"
| "plain_json (JObj kvs) \<longleftrightarrow> list_all (\<lambda>kv. ascii (fst kv) \<and> plain_json (snd kv)) kvs \<and> distinct (map fst kvs)"
| "plain_json _ \<longleftrightarrow> True"

fun sorted_json :: "json \<Rightarrow> json" where
  "sorted_json (JArr xs) = JArr (map sorted_json xs)"
| "sorted_json (JObj kvs) = JObj (sort_key fst (map (\<lambda>kv. (fst kv, sorted_json (snd kv))) kvs))"
| "sorted_json j = j"

fun need :: "json \<Rightarrow> nat" where
  "need (JArr xs) = Suc (sum_list (map (\<lambda>x. Suc (need x)) xs))"
| "need (JObj kvs) = Suc (sum_list (map (\<lambda>kv. Suc (need (snd kv))) kvs))"
| "need j = 1"

lemma show_int_head: "\<exists>c cs. show_int i = c # cs \<and> (is_digit c \<or> c = CHR ''-'')"
  using show_nat_head [of "nat i"] by (auto simp: show_int_def)

lemma dump_head:
  "plain_json j \<Longrightarrow> \<exists>c cs. json_dump n j = c # cs \<and> \<not> json_space c \<and> c \<noteq> CHR '']'' \<and> c \<noteq> CHR ''}''"
  using show_int_head digit_not_mark
  by (cases j) (fastforce simp: json_space_def json_quote_def)+

lemma marks_plain [simp]:
  "\<not> is_digit newline" "\<not> is_digit CHR '',''"
  "skip_space (CHR '']'' # s) = CHR '']'' # s" "skip_space (CHR ''}'' # s) = CHR ''}'' # s"
  "skip_space (CHR '','' # s) = CHR '','' # s" "skip_space (CHR '':'' # s) = CHR '':'' # s"
  "skip_space (CHR 0x22 # s) = CHR 0x22 # s" "skip_space (CHR '' '' # s) = skip_space s" "skip_space [] = []"
  by (simp_all add: is_digit_def code_def skip_space_def json_space_def)

lemma skip_space_pad [simp]: "skip_space (newline # pad n @ s) = skip_space s" "skip_space (pad n @ s) = skip_space s"
  by (induction n) (simp_all add: skip_space_def pad_def json_space_def)

lemma skip_space_dump: "plain_json j \<Longrightarrow> skip_space (json_dump n j @ s) = json_dump n j @ s"
  using dump_head [of j n] by (auto simp: skip_space_def)

definition reads_back :: "json \<Rightarrow> bool" where
  "reads_back j \<longleftrightarrow> (\<forall>n f rest. stops rest \<longrightarrow> need j \<le> f \<longrightarrow>
     parse_value f (json_dump n j @ rest) = Some (sorted_json j, rest))"

lemma parse_elems_dump:
  assumes "list_all plain_json (x # ys)" and "list_all reads_back (x # ys)"
    and "sum_list (map (\<lambda>x. Suc (need x)) (x # ys)) \<le> f"
  shows "parse_elems f acc (json_dump m x @ concat (map (\<lambda>y. [CHR '','', newline] @ pad m @ json_dump m y) ys)
     @ newline # pad n @ CHR '']'' # rest) = Some (JArr (acc @ map sorted_json (x # ys)), rest)"
  using assms
proof (induction ys arbitrary: x acc f)
  case Nil
  then obtain f' where "f = Suc f'" by (cases f) auto
  with Nil show ?case by (simp add: reads_back_def)
next
  case (Cons y ys)
  then obtain f' where f: "f = Suc f'" by (cases f) auto
  have "parse_value f' (json_dump m x @ CHR '','' # newline # pad m @ json_dump m y
      @ concat (map (\<lambda>y. [CHR '','', newline] @ pad m @ json_dump m y) ys) @ newline # pad n @ CHR '']'' # rest)
    = Some (sorted_json x, CHR '','' # newline # pad m @ json_dump m y
      @ concat (map (\<lambda>y. [CHR '','', newline] @ pad m @ json_dump m y) ys) @ newline # pad n @ CHR '']'' # rest)"
    using Cons.prems f by (simp add: reads_back_def)
  then show ?case
    using Cons.IH [of y f' "acc @ [sorted_json x]"] Cons.prems f
    by (simp add: skip_space_dump)
qed

lemma dict_set_new: "k \<notin> fst ` set d \<Longrightarrow> dict_set k v d = d @ [(k, v)]"
  by (induction d) auto

definition member_text :: "nat \<Rightarrow> string \<times> json \<Rightarrow> string" where
  "member_text m kv = json_quote (fst kv) @ '': '' @ json_dump m (snd kv)"

definition sorted_member :: "string \<times> json \<Rightarrow> string \<times> json" where
  "sorted_member kv = (fst kv, sorted_json (snd kv))"

lemma parse_members_step:
  assumes "ascii k" and "plain_json v" and "reads_back v" and "need v \<le> f" and "stops rest"
  shows "parse_members (Suc f) acc (member_text m (k, v) @ rest) =
     (case skip_space rest of
        c # cs \<Rightarrow> (if c = CHR '','' then parse_members f (dict_set k (sorted_json v) acc) (skip_space cs)
                   else if c = CHR ''}'' then Some (JObj (dict_set k (sorted_json v) acc), cs) else None)
      | [] \<Rightarrow> None)"
  using assms parse_string_escape [of k "[]" "CHR '':'' # CHR '' '' # json_dump m v @ rest"]
  by (simp add: member_text_def json_quote_def skip_space_dump reads_back_def)

lemma parse_members_dump:
  assumes "list_all (\<lambda>kv. ascii (fst kv) \<and> plain_json (snd kv) \<and> reads_back (snd kv)) (kv # kvs)"
    and "distinct (map fst acc @ map fst (kv # kvs))"
    and "sum_list (map (\<lambda>kv. Suc (need (snd kv))) (kv # kvs)) \<le> f"
  shows "parse_members f acc (member_text m kv @ concat (map (\<lambda>kv. [CHR '','', newline] @ pad m @ member_text m kv) kvs)
     @ newline # pad n @ CHR ''}'' # rest) = Some (JObj (acc @ map sorted_member (kv # kvs)), rest)"
  using assms
proof (induction kvs arbitrary: kv acc f)
  case Nil
  obtain k v where kv: "kv = (k, v)" by (cases kv)
  obtain f' where "f = Suc f'" using Nil by (cases f) auto
  with Nil kv show ?case
    using parse_members_step [of k v f' "newline # pad n @ CHR ''}'' # rest" acc m]
    by (simp add: dict_set_new sorted_member_def)
next
  case (Cons kv' kvs)
  obtain k v where kv: "kv = (k, v)" by (cases kv)
  obtain f' where f: "f = Suc f'" using Cons.prems by (cases f) auto
  have head: "skip_space (member_text m kv' @ s) = member_text m kv' @ s" for s
    by (simp add: member_text_def json_quote_def)
  show ?case
    using Cons.IH [of kv' "acc @ [(k, sorted_json v)]" f'] Cons.prems kv f
      parse_members_step [of k v f' "CHR '','' # newline # pad m @ member_text m kv'
        @ concat (map (\<lambda>kv. [CHR '','', newline] @ pad m @ member_text m kv) kvs)
        @ newline # pad n @ CHR ''}'' # rest" acc m]
    by (simp add: dict_set_new sorted_member_def head)
qed

lemma join_padded:
  "join [CHR '','', newline] (map (\<lambda>x. pad m @ g x) (x # ys)) =
     pad m @ g x @ concat (map (\<lambda>y. [CHR '','', newline] @ pad m @ g y) ys)"
  by (induction ys arbitrary: x) (simp_all add: join_Cons_nonempty)

lemma sort_key_map_fst: "(\<And>x. fst (g x) = fst x) \<Longrightarrow> sort_key fst (map g xs) = map g (sort_key fst xs)"
proof -
  assume g: "\<And>x. fst (g x) = fst x"
  have "insort_key fst (g x) (map g ys) = map g (insort_key fst x ys)" for x ys
    by (induction ys) (simp_all add: g)
  then show ?thesis by (induction xs) simp_all
qed

lemma dump_object:
  "json_dump n (JObj kvs) =
     (if kvs = [] then ''{}''
      else [CHR ''{'', newline] @ join [CHR '','', newline] (map (\<lambda>kv. pad (n + 2) @ member_text (n + 2) kv) (sort_key fst kvs))
           @ [newline] @ pad n @ ''}'')"
  using sort_key_map_fst [of "\<lambda>kv. (fst kv, pad (n + 2) @ member_text (n + 2) kv)" kvs]
  by (simp add: member_text_def comp_def)

lemma reads_back_array:
  assumes "plain_json (JArr xs)" and "\<And>x. x \<in> set xs \<Longrightarrow> reads_back x"
  shows "reads_back (JArr xs)"
  unfolding reads_back_def
proof (intro allI impI)
  fix n f rest
  assume "stops rest" and f: "need (JArr xs) \<le> f"
  then obtain f' where f': "f = Suc f'" by (cases f) auto
  show "parse_value f (json_dump n (JArr xs) @ rest) = Some (sorted_json (JArr xs), rest)"
  proof (cases xs)
    case Nil
    then show ?thesis using f' by (simp add: starts_with_def)
  next
    case (Cons x ys)
    obtain c cs where "json_dump (n + 2) x = c # cs" "c \<noteq> CHR '']''"
      using dump_head [of x "n + 2"] assms(1) Cons by auto
    then have "\<not> starts_with '']'' (json_dump (n + 2) x @ s)" for s by simp
    then show ?thesis
      using parse_elems_dump [of x ys f' "[]" "n + 2" n rest] assms Cons f f'
        join_padded [of "n + 2" "json_dump (n + 2)" x ys]
      by (simp add: skip_space_dump list_all_iff del: join.simps)
  qed
qed

lemma reads_back_object:
  assumes "plain_json (JObj kvs)" and "\<And>kv. kv \<in> set kvs \<Longrightarrow> reads_back (snd kv)"
  shows "reads_back (JObj kvs)"
  unfolding reads_back_def
proof (intro allI impI)
  fix n f rest
  assume "stops rest" and f: "need (JObj kvs) \<le> f"
  then obtain f' where f': "f = Suc f'" by (cases f) auto
  show "parse_value f (json_dump n (JObj kvs) @ rest) = Some (sorted_json (JObj kvs), rest)"
  proof (cases "sort_key fst kvs")
    case Nil
    then have "kvs = []" by (metis set_sort set_empty)
    then show ?thesis using f' by (simp add: starts_with_def)
  next
    case (Cons kv ys)
    then have nonempty: "kvs \<noteq> []" by auto
    have same: "mset (map fst (kv # ys)) = mset (map fst kvs)" using Cons by (metis mset_map mset_sort)
    have "distinct (map fst kvs)" using assms(1) by simp
    then have keys: "distinct (map fst (kv # ys))" using mset_eq_imp_distinct_iff [OF same] by blast
    have total: "sum_list (map (\<lambda>kv. Suc (need (snd kv))) (kv # ys)) = sum_list (map (\<lambda>kv. Suc (need (snd kv))) kvs)"
      unfolding Cons [symmetric] sum_mset_sum_list [symmetric] mset_map mset_sort ..
    have all: "list_all (\<lambda>kv. ascii (fst kv) \<and> plain_json (snd kv) \<and> reads_back (snd kv)) (kv # ys)"
      using assms Cons by (metis (mono_tags, lifting) list_all_iff plain_json.simps(4) set_sort)
    have head: "skip_space (member_text m kv @ s) = member_text m kv @ s"
      "member_text m kv @ s \<noteq> CHR ''}'' # t" for m s t
      by (simp_all add: member_text_def json_quote_def)
    have norm: "sorted_json (JObj kvs) = JObj (map sorted_member (kv # ys))"
      using sort_key_map_fst [of sorted_member kvs] Cons by (simp add: sorted_member_def [abs_def])
    show ?thesis
      using parse_members_dump [OF all _ _, of "[]" f' "n + 2" n rest] keys total f f' Cons nonempty norm
        join_padded [of "n + 2" "member_text (n + 2)" kv ys]
      by (simp add: dump_object head del: join.simps json_dump.simps(7) sorted_json.simps(2))
  qed
qed

lemma reads_back_plain: "plain_json j \<Longrightarrow> reads_back j"
proof (induction j)
  case (JArr xs)
  then show ?case by (intro reads_back_array) (auto simp: list_all_iff)
next
  case (JObj kvs)
  then show ?case by (intro reads_back_object) (auto simp: list_all_iff snds.simps)
next
  case (JInt i)
  show ?case
    unfolding reads_back_def
  proof (intro allI impI)
    fix n f rest
    assume "stops rest" and "need (JInt i) \<le> f"
    obtain c cs where c: "show_int i = c # cs" "is_digit c \<or> c = CHR ''-''" using show_int_head by blast
    then have marks: "c \<noteq> CHR 0x22" "c \<noteq> CHR ''[''" "c \<noteq> CHR ''{''" using number_head_marks [of c] by blast+
    obtain f' where "f = Suc f'" using \<open>need (JInt i) \<le> f\<close> by (cases f) auto
    then have "parse_value f (show_int i @ rest) = parse_word (show_int i @ rest)"
      unfolding c(1) append_Cons by (simp only: parse_value.simps list.case marks if_False)
    then show "parse_value f (json_dump n (JInt i) @ rest) = Some (sorted_json (JInt i), rest)"
      using parse_word_int [OF \<open>stops rest\<close>] by simp
  qed
next
  case (JStr s)
  show ?case
    unfolding reads_back_def
  proof (intro allI impI)
    fix n f rest
    assume "need (JStr s) \<le> f"
    then show "parse_value f (json_dump n (JStr s) @ rest) = Some (sorted_json (JStr s), rest)"
      using parse_string_escape [of s "[]" rest] JStr by (cases f) (auto simp: json_quote_def)
  qed
next
  case (JBool b)
  show ?case unfolding reads_back_def by (auto simp: parse_word_def gr0_conv_Suc Suc_le_eq)
next
  case JNull
  show ?case unfolding reads_back_def by (auto simp: parse_word_def gr0_conv_Suc Suc_le_eq)
qed simp

lemma need_length: "plain_json j \<Longrightarrow> need j \<le> 2 * length (json_dump n j)"
proof (induction j arbitrary: n)
  case (JInt i)
  obtain c cs where "show_int i = c # cs" using show_int_head by blast
  then show ?case by simp
next
  case (JArr xs)
  show ?case
  proof (cases xs)
    case (Cons x ys)
    have each: "need y \<le> 2 * length (json_dump (n + 2) y)" if "y \<in> set xs" for y
      using JArr that by (simp add: list_all_iff)
    have "sum_list (map (\<lambda>y. Suc (need y)) zs) \<le>
        2 * length (concat (map (\<lambda>y. [CHR '','', newline] @ pad (n + 2) @ json_dump (n + 2) y) zs))"
      if "set zs \<subseteq> set xs" for zs
      using that each by (induction zs) (auto simp: pad_def, fastforce)
    from this [of ys] each [of x] show ?thesis
      using Cons subset_insertI [of "set ys" x] join_padded [of "n + 2" "json_dump (n + 2)" x ys] by (simp del: join.simps)
  qed simp
next
  case (JObj kvs)
  have each: "need (snd kv) \<le> 2 * length (member_text (n + 2) kv)" if "kv \<in> set kvs" for kv
  proof -
    have "need (snd kv) \<le> 2 * length (json_dump (n + 2) (snd kv))"
      using JObj that by (cases kv) (fastforce simp: list_all_iff)
    then show ?thesis by (simp add: member_text_def)
  qed
  show ?case
  proof (cases "sort_key fst kvs")
    case Nil
    then have "kvs = []" by (metis set_sort set_empty)
    then show ?thesis by simp
  next
    case (Cons kv ys)
    have sub: "sum_list (map (\<lambda>y. Suc (need (snd y))) zs) \<le>
        2 * length (concat (map (\<lambda>y. [CHR '','', newline] @ pad (n + 2) @ member_text (n + 2) y) zs))"
      if "set zs \<subseteq> set kvs" for zs
      using that each by (induction zs) (auto simp: pad_def, fastforce)
    have members: "set (kv # ys) = set kvs" using Cons by (metis set_sort)
    then have "set ys \<subseteq> set kvs" "kv \<in> set kvs" by auto
    moreover have "sum_list (map (\<lambda>kv. Suc (need (snd kv))) (kv # ys)) = sum_list (map (\<lambda>kv. Suc (need (snd kv))) kvs)"
      unfolding Cons [symmetric] sum_mset_sum_list [symmetric] mset_map mset_sort ..
    moreover have "kvs \<noteq> []" using Cons by auto
    ultimately show ?thesis
      using sub [of ys] Cons join_padded [of "n + 2" "member_text (n + 2)" kv ys] each [of kv]
      by (simp add: dump_object del: join.simps json_dump.simps(7))
  qed
qed (simp_all add: json_quote_def)

theorem json_round_trip:
  assumes "plain_json j"
  shows "json_loads (json_dumps j @ [newline]) = Some (sorted_json j)"
proof -
  have "stops [newline]" by simp
  have "parse_value (Suc (2 * length (json_dumps j @ [newline]))) (json_dumps j @ [newline]) = Some (sorted_json j, [newline])"
  proof -
    have "need j \<le> Suc (2 * length (json_dumps j @ [newline]))"
      using need_length [OF assms, of 0] by (simp add: json_dumps_def)
    then show ?thesis
      using \<open>stops [newline]\<close> reads_back_plain [OF assms] unfolding reads_back_def json_dumps_def by blast
  qed
  moreover have "skip_space (json_dumps j @ [newline]) = json_dumps j @ [newline]"
    using skip_space_dump [OF assms] by (simp add: json_dumps_def)
  moreover have "skip_space [newline] = []" by (simp add: skip_space_def json_space_def)
  ultimately show ?thesis by (simp add: json_loads_def)
qed

end
