(* ===== verification/Manifest_Freshness.thy ===== *)
theory Manifest_Freshness
  imports Release_Steps Py_Json_Round
begin

text \<open>
  Correctness of the artifact manifest of the release gates: what the freshness check of
  tools/release/run_alpha_release_gate.py says about a manifest, and that a manifest is fresh at the
  moment it is written, the JSON text of the file being read back as the document that was printed.
\<close>

section \<open>The verdict\<close>

definition entry_current :: "(string \<Rightarrow> string) \<Rightarrow> repo \<Rightarrow> (string, json) pydict \<Rightarrow> bool" where
  \<comment> \<open>the file an entry names is allowed, present, and as the entry describes it\<close>
  "entry_current h t item \<longleftrightarrow>
     (\<exists>p b. validate_artifact_path (py_str (field item ''path'' (JStr ''''))) = Inr p \<and>
        repo_content t (segs (to_path p)) = Some b \<and>
        to_int (field item ''size'' (JInt (-1))) = Inr (int (length b)) \<and>
        py_str (field item ''sha256'' (JStr '''')) = h b)"

lemma check_entry_None: "check_entry h t item = Inr None \<longleftrightarrow> entry_current h t item"
  unfolding check_entry_def entry_current_def
  by (auto simp: Let_def concat_read_blocks andthen_eq_Inr split: sum.splits option.splits py_error.splits if_splits)

lemma stale_entries_Nil:
  "stale_entries h t items = Inr stale \<Longrightarrow>
     stale = [] \<longleftrightarrow> (\<forall>item. JObj item \<in> set items \<longrightarrow> entry_current h t item)"
proof (induction h t items arbitrary: stale rule: stale_entries.induct)
  case (2 h t item items)
  then obtain r rest where "check_entry h t item = Inr r" "stale_entries h t items = Inr rest"
    and "stale = (case r of None \<Rightarrow> rest | Some d \<Rightarrow> d # rest)" by (auto simp: andthen_eq_Inr)
  moreover have "r = None \<longleftrightarrow> entry_current h t item"
    using check_entry_None [of h t item] \<open>check_entry h t item = Inr r\<close> by simp
  ultimately show ?case using "2.IH" by (auto split: option.splits)
qed auto

definition stale_item :: "(string \<Rightarrow> string) \<Rightarrow> repo \<Rightarrow> json \<Rightarrow> bool" where
  \<comment> \<open>an entry that is an object and not current; other entries are never stale\<close>
  "stale_item h t j = (case j of JObj item \<Rightarrow> \<not> entry_current h t item | _ \<Rightarrow> False)"

lemma stale_entries_count:
  "stale_entries h t items = Inr stale \<Longrightarrow> length stale = length (filter (stale_item h t) items)"
proof (induction h t items arbitrary: stale rule: stale_entries.induct)
  case (2 h t item items)
  then obtain r rest where r: "check_entry h t item = Inr r" and "stale_entries h t items = Inr rest"
    and "stale = (case r of None \<Rightarrow> rest | Some d \<Rightarrow> d # rest)" by (auto simp: andthen_eq_Inr)
  moreover have "r = None \<longleftrightarrow> entry_current h t item" using check_entry_None [of h t item] r by simp
  ultimately show ?case using "2.IH" by (auto simp: stale_item_def split: option.splits)
qed (auto simp: stale_item_def)

text \<open>
  C16: When the freshness check of a manifest returns, it counts every listed entry as checked, it
  counts as stale exactly the entries that are JSON objects and do not name an allowed path of a
  file that is present with the listed size and the listed SHA-256 digest, and its status is
  \<open>pass\<close> exactly when there is none of these. An entry that is not an object is counted as
  checked but not looked at: a manifest that lists bare path names passes.
\<close>

theorem freshness_pass_iff:
  assumes "check_alpha_artifact_manifest_freshness m w = (Inr fresh, w')"
  shows "\<exists>text data items. read_text_strict (tree w) m = Inr text \<and> json_loads text = Some (JObj data) \<and>
    iterate (field data ''artifacts'' (JArr [])) = Inr items \<and> w' = w \<and>
    field fresh ''checked'' JNull = JInt (int (length items)) \<and>
    field fresh ''stale_count'' JNull = JInt (int (length (filter (stale_item (sha w) (tree w)) items))) \<and>
    (field fresh ''status'' JNull = JStr ''pass'' \<longleftrightarrow>
       (\<forall>item. JObj item \<in> set items \<longrightarrow> entry_current (sha w) (tree w) item))"
proof -
  obtain s where s: "read_text_strict (tree w) m = Inr s" and w': "w' = w"
    and c: "(case json_loads s of Some (JObj data) \<Rightarrow> freshness_of w m data | Some _ \<Rightarrow> Inl AttributeError
             | None \<Rightarrow> Inl (ValueError ''JSONDecodeError'')) = Inr fresh"
    using assms unfolding check_alpha_artifact_manifest_freshness_def prod.inject andthen_eq_Inr by blast
  obtain data where data: "json_loads s = Some (JObj data)" and f: "freshness_of w m data = Inr fresh"
    using c by (auto split: option.splits json.splits)
  from f obtain items stale where "iterate (field data ''artifacts'' (JArr [])) = Inr items"
    and stale: "stale_entries (sha w) (tree w) items = Inr stale"
    and "field fresh ''checked'' JNull = JInt (int (length items))"
    and "field fresh ''stale_count'' JNull = JInt (int (length stale))"
    and "field fresh ''status'' JNull = JStr ''pass'' \<longleftrightarrow> stale = []"
    by (auto simp: freshness_of_def andthen_eq_Inr field_def)
  then show ?thesis using s w' data stale_entries_Nil [OF stale] stale_entries_count [OF stale] by auto
qed

section \<open>Writing and reading\<close>

definition text_safe :: "string \<Rightarrow> bool" where
  \<comment> \<open>the bytes are the characters, and text mode does not change them\<close>
  "text_safe s \<longleftrightarrow> list_all (\<lambda>c. code c < 128 \<and> c \<noteq> carriage_return) s"

lemma text_safe_append [simp]: "text_safe (s @ t) \<longleftrightarrow> text_safe s \<and> text_safe t"
  by (simp add: text_safe_def)

lemma text_safe_Cons [simp]: "text_safe (c # t) \<longleftrightarrow> code c < 128 \<and> c \<noteq> carriage_return \<and> text_safe t"
  by (simp add: text_safe_def)

lemma text_safe_Nil [simp]: "text_safe []"
  by (simp add: text_safe_def)

lemma text_safe_read: "text_safe s \<Longrightarrow> utf8_decode s = Inr s \<and> universal_newlines s = s"
  using universal_newlines_id [of s] utf8_valid_ascii [of s]
  by (auto simp: text_safe_def utf8_decode_def list_all_iff)

lemma text_safe_replace: "text_safe s \<Longrightarrow> universal_newlines (utf8_replace s) = s"
  using universal_newlines_id [of s] utf8_valid_ascii [of s] utf8_replace_valid [of s]
  by (auto simp: text_safe_def list_all_iff)

lemma text_safe_join: "text_safe sep \<Longrightarrow> list_all text_safe xs \<Longrightarrow> text_safe (join sep xs)"
  by (induction sep xs rule: join.induct) auto

lemma hex_at_safe: "code (hex_at n d) < 128 \<and> hex_at n d \<noteq> carriage_return"
proof -
  have "nat (n div d mod 16) < 16" by simp
  then have "32 \<le> code (hex_at n d) \<and> code (hex_at n d) < 128"
    unfolding hex_at_def hex_digit_def code_def by (simp split: if_splits)
  then show ?thesis by (auto simp: code_def)
qed

lemma text_safe_escape: "ascii s \<Longrightarrow> text_safe (json_escape s)"
proof (induction s)
  case (Cons c s)
  have "text_safe (escaped c)"
    using Cons.prems hex_at_safe by (auto simp: escaped_def u_escape_def code_def)
  then show ?case using Cons by (simp add: json_escape_Cons del: json_escape.simps(2))
qed simp

lemma text_safe_quote: "ascii s \<Longrightarrow> text_safe (json_quote s)"
  by (simp add: json_quote_def text_safe_escape code_def)

lemma digit_safe: "is_digit c \<Longrightarrow> code c < 128 \<and> c \<noteq> carriage_return"
  by (auto simp: is_digit_def code_def)

lemma text_safe_int: "text_safe (show_int i)"
  using show_nat_digits digit_safe by (auto simp: show_int_def text_safe_def list_all_iff code_def)

lemma text_safe_pad: "text_safe (pad n)"
  by (simp add: pad_def text_safe_def list_all_iff code_def)

lemma text_safe_dump: "plain_json j \<Longrightarrow> text_safe (json_dump n j)"
proof (induction j arbitrary: n)
  case (JArr xs)
  then show ?case
    by (auto simp: list_all_iff text_safe_pad code_def intro!: text_safe_join)
next
  case (JObj kvs)
  have "text_safe (json_quote (fst kv) @ '': '' @ json_dump (n + 2) (snd kv))" if "kv \<in> set kvs" for kv
    using JObj that by (cases kv) (fastforce simp: list_all_iff code_def intro!: text_safe_quote)
  then show ?case
    by (auto simp: list_all_iff text_safe_pad code_def intro!: text_safe_join)
qed (auto simp: text_safe_int text_safe_quote code_def)

lemma written_json_read:
  assumes "repo_content t m = Some (json_dumps j @ [newline])" and "plain_json j"
  shows "\<exists>text. read_text_strict t m = Inr text \<and> json_loads text = Some (sorted_json j)"
proof -
  have "text_safe (json_dumps j @ [newline])"
    using text_safe_dump [OF assms(2), of 0] by (simp add: json_dumps_def code_def)
  then show ?thesis
    using assms text_safe_read json_round_trip [OF assms(2)]
    by (auto simp: read_text_strict_def repo_read_def)
qed

lemma map_of_sort: "distinct (map fst kvs) \<Longrightarrow> map_of (sort_key fst kvs) = map_of kvs"
proof -
  assume "distinct (map fst kvs)"
  moreover have "mset (map fst (sort_key fst kvs)) = mset (map fst kvs)" by (metis mset_map mset_sort)
  ultimately have "distinct (map fst (sort_key fst kvs))" using mset_eq_imp_distinct_iff by blast
  then show ?thesis using \<open>distinct (map fst kvs)\<close> by (simp add: map_of_inject_set)
qed

lemma field_sorted:
  assumes "distinct (map fst kvs)"
  shows "field (sort_key fst (map (\<lambda>kv. (fst kv, sorted_json (snd kv))) kvs)) k d =
     (case map_of kvs k of None \<Rightarrow> d | Some v \<Rightarrow> sorted_json v)"
proof -
  have "map_of (map (\<lambda>kv. (fst kv, sorted_json (snd kv))) kvs) k = map_option sorted_json (map_of kvs k)"
    by (induction kvs) auto
  then show ?thesis using assms by (cases "map_of kvs k") (simp_all add: field_def map_of_sort comp_def)
qed

section \<open>A written manifest\<close>

lemma repo_fs_content: "file_content (repo_fs t) p = repo_content t p"
  by (auto simp: file_content_def repo_fs_def split: option.splits)

lemma manifest_entry_shape:
  assumes "manifest_entry_for h (repo_fs t) p True = Inr a" and "validate_artifact_path p = Inr p"
  shows "\<exists>b. repo_content t (segs (to_path p)) = Some b \<and>
    a = \<lparr>ma_path = p, ma_size = int (length b), ma_sha256 = h b, ma_type = artifact_type_for p, ma_required = True\<rparr>"
  using assms
  by (auto simp: manifest_entry_for_def andthen_eq_Inr sha256_file_content repo_fs_content split: option.splits)

definition artifact_item :: "string \<Rightarrow> string \<Rightarrow> (string \<Rightarrow> string) \<Rightarrow> (string, json) pydict" where
  "artifact_item p b h = [(''path'', JStr p), (''size'', JInt (int (length b))), (''sha256'', JStr (h b)),
     (''type'', JStr (artifact_type_for p)), (''required'', JBool True)]"

lemma artifact_type_ascii: "ascii (artifact_type_for p)"
  by (simp add: artifact_type_for_def Let_def code_def)

lemma plain_item: "ascii p \<Longrightarrow> ascii (h b) \<Longrightarrow> plain_json (JObj (artifact_item p b h))"
  using artifact_type_ascii by (simp add: artifact_item_def code_def)

lemma sorted_item_fields:
  assumes "sorted_json (JObj (artifact_item p b h)) = JObj item"
  shows "field item ''path'' d = JStr p" "field item ''size'' d = JInt (int (length b))"
    "field item ''sha256'' d = JStr (h b)"
proof -
  have "distinct (map fst (artifact_item p b h))" by (simp add: artifact_item_def)
  from field_sorted [OF this] assms show "field item ''path'' d = JStr p"
    "field item ''size'' d = JInt (int (length b))" "field item ''sha256'' d = JStr (h b)"
    by (auto simp: artifact_item_def simp del: sort_key_simps)
qed

definition same_file :: "(string \<Rightarrow> string) \<Rightarrow> repo \<Rightarrow> repo \<Rightarrow> string \<Rightarrow> bool" where
  \<comment> \<open>the file is present in both trees, with the same size and the same digest\<close>
  "same_file h t t' p \<longleftrightarrow>
     (\<exists>b b'. repo_content t (segs (to_path p)) = Some b \<and> repo_content t' (segs (to_path p)) = Some b' \<and>
        length b = length b' \<and> h b = h b')"

lemma item_current_iff:
  assumes "sorted_json (JObj (artifact_item p b h)) = JObj item" and "validate_artifact_path p = Inr p"
    and "repo_content t (segs (to_path p)) = Some b"
  shows "entry_current h t' item \<longleftrightarrow> same_file h t t' p"
  using assms by (auto simp: entry_current_def same_file_def sorted_item_fields [OF assms(1)])

definition manifest_items :: "(string \<Rightarrow> string) \<Rightarrow> repo \<Rightarrow> string list \<Rightarrow> json list" where
  "manifest_items h t paths =
     map (\<lambda>p. JObj (artifact_item p (case repo_content t (segs (to_path p)) of Some b \<Rightarrow> b | None \<Rightarrow> '''') h)) paths"

lemma manifest_entries_items:
  assumes "collect (\<lambda>p. manifest_entry_for h (repo_fs t) p True) paths = Inr entries"
    and "\<forall>p \<in> set paths. validate_artifact_path p = Inr p"
  shows "map artifact_dict entries = manifest_items h t paths \<and>
    (\<forall>p \<in> set paths. repo_content t (segs (to_path p)) \<noteq> None)"
  using assms
proof (induction paths arbitrary: entries)
  case (Cons p paths)
  then obtain a rest where a: "manifest_entry_for h (repo_fs t) p True = Inr a"
    and rest: "collect (\<lambda>p. manifest_entry_for h (repo_fs t) p True) paths = Inr rest" "entries = a # rest"
    by (auto simp: andthen_eq_Inr)
  then show ?case
    using manifest_entry_shape [OF a] Cons.IH [OF rest(1)] Cons.prems(2)
    by (auto simp: manifest_items_def artifact_dict_def artifact_item_def)
qed (simp add: manifest_items_def)

definition manifest_document :: "string \<Rightarrow> string \<Rightarrow> bool \<Rightarrow> json list \<Rightarrow> json" where
  "manifest_document now source_hash remote_required items =
     JObj [(''timestamp'', JStr now), (''source_tree_hash'', JStr source_hash),
       (''remote_required'', JBool remote_required), (''artifacts'', JArr items)]"

lemma manifest_document_sorted:
  "\<exists>data. sorted_json (manifest_document now s r items) = JObj data \<and>
     field data ''artifacts'' d = JArr (map sorted_json items)"
proof -
  let ?kvs = "[(''timestamp'', JStr now), (''source_tree_hash'', JStr s), (''remote_required'', JBool r), (''artifacts'', JArr items)]"
  have "distinct (map fst ?kvs)" by simp
  from field_sorted [OF this, of "''artifacts''" d] show ?thesis
    by (auto simp: manifest_document_def simp del: sort_key_simps)
qed

lemma write_manifest_ok:
  assumes "write_alpha_artifact_manifest m s r paths w = (Inr entries, w')"
    and "\<forall>p \<in> set paths. validate_artifact_path p = Inr p"
  shows "\<exists>now. now = utc_at w (ticks w) \<and>
    repo_content (tree w') m = Some (json_dumps (manifest_document now s r (manifest_items (sha w) (tree w) paths)) @ [newline]) \<and>
    (\<forall>q. q \<noteq> m \<longrightarrow> repo_content (tree w') q = repo_content (tree w) q) \<and>
    (\<forall>p \<in> set paths. repo_content (tree w) (segs (to_path p)) \<noteq> None) \<and> sha w' = sha w"
proof -
  obtain arts where arts: "collect (\<lambda>p. manifest_entry_for (sha w) (repo_fs (tree w)) p True) paths = Inr arts"
    and wr: "write_file m (json_dumps (manifest_document (utc_at w (ticks w)) s r (map artifact_dict arts)) @ [newline])
       (w\<lparr>ticks := ticks w + 1\<rparr>) = (Inr (), w')"
    using assms(1) by (auto simp: write_alpha_artifact_manifest_def act_simps timestamp_utc_def manifest_document_def)
  show ?thesis
    using wr manifest_entries_items [OF arts assms(2)] by (auto simp: write_file_ok repo_content_def)
qed

lemma plain_manifest:
  assumes "list_all ascii paths" and "\<forall>b. ascii (h b)" and "ascii s" and "ascii now"
  shows "plain_json (manifest_document now s r (manifest_items h t paths))"
proof -
  have "list_all plain_json (manifest_items h t paths)"
    using assms plain_item by (simp add: manifest_items_def list_all_iff del: plain_json.simps)
  then show ?thesis using assms by (simp add: manifest_document_def code_def)
qed

lemma stale_entries_total:
  "(\<And>item. JObj item \<in> set items \<Longrightarrow> \<exists>r. check_entry h t item = Inr r) \<Longrightarrow> \<exists>stale. stale_entries h t items = Inr stale"
proof (induction h t items rule: stale_entries.induct)
  case (2 h t item items)
  then obtain r stale where "check_entry h t item = Inr r" "stale_entries h t items = Inr stale" by fastforce
  then show ?case by simp
qed auto

lemma item_check_total:
  assumes "sorted_json (JObj (artifact_item p b h)) = JObj item" and "validate_artifact_path p = Inr p"
  shows "\<exists>r. check_entry h t item = Inr r"
  using assms by (simp add: check_entry_def Let_def sorted_item_fields [OF assms(1)] split: option.splits)

text \<open>
  C8: A manifest that the gate has written over allowed paths is read back whole: in every later
  state in which the manifest file itself is as written, the freshness check returns, counts the
  listed paths, and passes exactly when each listed file still has the size and the digest it had
  when the manifest was written. The hypotheses on the texts say that a digest and a formatted
  time are ASCII.
\<close>

theorem manifest_detects_changes:
  assumes "write_alpha_artifact_manifest m s r paths w = (Inr entries, w')"
    and "\<forall>p \<in> set paths. validate_artifact_path p = Inr p" and "list_all ascii paths"
    and "\<forall>b. ascii (sha w b)" and "\<forall>n. ascii (utc_at w n)" and "ascii s"
    and "repo_content (tree w2) m = repo_content (tree w') m" and "sha w2 = sha w"
  shows "\<exists>fresh. check_alpha_artifact_manifest_freshness m w2 = (Inr fresh, w2) \<and>
    field fresh ''checked'' JNull = JInt (int (length paths)) \<and>
    (field fresh ''status'' JNull = JStr ''pass'' \<longleftrightarrow> (\<forall>p \<in> set paths. same_file (sha w) (tree w) (tree w2) p))"
proof -
  let ?items = "manifest_items (sha w) (tree w) paths"
  let ?doc = "manifest_document (utc_at w (ticks w)) s r ?items"
  note written = write_manifest_ok [OF assms(1,2)]
  have "plain_json ?doc" using plain_manifest assms by blast
  then obtain body where body: "read_text_strict (tree w2) m = Inr body" "json_loads body = Some (sorted_json ?doc)"
    using written_json_read [of "tree w2" m ?doc] written assms(7) by auto
  obtain data where data: "sorted_json ?doc = JObj data" "field data ''artifacts'' (JArr []) = JArr (map sorted_json ?items)"
    using manifest_document_sorted by blast
  have item: "\<exists>p b. p \<in> set paths \<and> repo_content (tree w) (segs (to_path p)) = Some b \<and>
      sorted_json (JObj (artifact_item p b (sha w))) = JObj item"
    if "JObj item \<in> set (map sorted_json ?items)" for item
    using that written by (fastforce simp: manifest_items_def simp del: sorted_json.simps)
  obtain stale where stale: "stale_entries (sha w) (tree w2) (map sorted_json ?items) = Inr stale"
    using stale_entries_total item item_check_total assms(2) by meson
  have listed: "\<exists>item. JObj item \<in> set (map sorted_json ?items) \<and> sorted_json (JObj (artifact_item p b (sha w))) = JObj item"
    if "p \<in> set paths" "repo_content (tree w) (segs (to_path p)) = Some b" for p b
    using that by (force simp: manifest_items_def)
  have "stale = [] \<longleftrightarrow> (\<forall>p \<in> set paths. same_file (sha w) (tree w) (tree w2) p)"
    using stale_entries_Nil [OF stale] item listed item_current_iff assms(2) written by (meson not_None_eq)
  then show ?thesis
    using body data stale assms(8)
    by (simp add: check_alpha_artifact_manifest_freshness_def freshness_of_def iterate_def manifest_items_def field_def)
qed

section \<open>Instances\<close>

definition note_world :: rworld where
  "note_world = \<lparr>root_dir = ''/repo'',
     tree = [([''docs'', ''a.md''], (''hello'', 0)),
       ([''listed.json''], (json_dumps (JObj [(''artifacts'', JArr [JObj [(''path'', JStr ''docs/a.md''),
          (''size'', JInt 5), (''sha256'', JStr ''5'')]])]), 0))],
     ticks = 1, procs = [], process_env = (\<lambda>_. None), sshpass_installed = False, sha = (\<lambda>b. show_nat (length b)),
     utc_at = (\<lambda>n. ''2025-01-01T00:00:00Z''), compact_at = (\<lambda>n. ''20250101T000000Z''),
     interpreter = ''python3'', pid = 1, lock_taken = False, commands = [], printed = [], printed_err = []\<rparr>"

lemma note_world_checks:
  "fst (check_alpha_artifact_manifest_freshness [''listed.json''] note_world) =
     Inr [(''path'', JStr ''listed.json''), (''checked'', JInt 1), (''stale_count'', JInt 0),
       (''status'', JStr ''pass''), (''stale'', JArr [])]"
  by code_simp

lemma note_world_listed:
  "read_text_strict (tree note_world) [''listed.json''] =
     Inr (json_dumps (JObj [(''artifacts'', JArr [JObj [(''path'', JStr ''docs/a.md''), (''size'', JInt 5),
       (''sha256'', JStr ''5'')]])]))"
  "json_loads (json_dumps (JObj [(''artifacts'', JArr [JObj [(''path'', JStr ''docs/a.md''), (''size'', JInt 5),
       (''sha256'', JStr ''5'')]])])) =
     Some (JObj [(''artifacts'', JArr [JObj [(''path'', JStr ''docs/a.md''), (''sha256'', JStr ''5''), (''size'', JInt 5)]])])"
  by code_simp+

theorem freshness_pass_iff_witness:
  "\<exists>fresh. check_alpha_artifact_manifest_freshness [''listed.json''] note_world = (Inr fresh, note_world) \<and>
     field fresh ''checked'' JNull = JInt 1 \<and>
     entry_current (sha note_world) (tree note_world)
       [(''path'', JStr ''docs/a.md''), (''sha256'', JStr ''5''), (''size'', JInt 5)]"
proof -
  obtain fresh w' where run: "check_alpha_artifact_manifest_freshness [''listed.json''] note_world = (Inr fresh, w')"
    and status: "field fresh ''status'' JNull = JStr ''pass''"
    using note_world_checks by (cases "check_alpha_artifact_manifest_freshness [''listed.json''] note_world")
      (auto simp: field_def)
  show ?thesis
    using freshness_pass_iff [OF run] run status note_world_listed by (auto simp: iterate_def field_def)
qed

lemma note_world_writes:
  "\<not> isl (fst (write_alpha_artifact_manifest [''m.json''] ''h'' True [''docs/a.md''] note_world))"
  by code_simp

lemma note_world_texts: "validate_artifact_path ''docs/a.md'' = Inr ''docs/a.md''" "segs (to_path ''docs/a.md'') = [''docs'', ''a.md'']"
  by code_simp+

theorem manifest_detects_changes_witness:
  "\<exists>entries w' fresh. write_alpha_artifact_manifest [''m.json''] ''h'' True [''docs/a.md''] note_world = (Inr entries, w') \<and>
     check_alpha_artifact_manifest_freshness [''m.json''] w' = (Inr fresh, w') \<and>
     field fresh ''checked'' JNull = JInt 1 \<and> field fresh ''status'' JNull = JStr ''pass''"
proof -
  obtain entries w' where run: "write_alpha_artifact_manifest [''m.json''] ''h'' True [''docs/a.md''] note_world = (Inr entries, w')"
    using note_world_writes
    by (cases "write_alpha_artifact_manifest [''m.json''] ''h'' True [''docs/a.md''] note_world"; cases "fst (write_alpha_artifact_manifest [''m.json''] ''h'' True [''docs/a.md''] note_world)") auto
  have ascii: "ascii ''docs/a.md''" "ascii ''h''" "ascii (sha note_world b)" "ascii (utc_at note_world n)" for b n
    using show_nat_digits digit_safe by (auto simp: note_world_def code_def list_all_iff)
  have written: "repo_content (tree w') [''docs'', ''a.md''] = repo_content (tree note_world) [''docs'', ''a.md'']"
    and kept: "sha w' = sha note_world"
    using write_manifest_ok [OF run] note_world_texts by auto
  have "same_file (sha note_world) (tree note_world) (tree w') ''docs/a.md''"
    using written by (simp add: same_file_def note_world_texts) (simp add: note_world_def repo_content_def)
  then show ?thesis
    using manifest_detects_changes [OF run, of w'] run ascii kept note_world_texts by auto
qed

end
