(* ===== verification/Beta_Freeze.thy ===== *)
theory Beta_Freeze
  imports Beta_Gate Manifest_Freshness
begin

text \<open>
  The freeze check of the beta candidate, tools/release/run_beta_freeze_check.py: it reads the
  newest reports of the gate, the candidate and the final verification, checks the documents and
  the default strategy they state, and writes its own page and report.
\<close>

section \<open>Readers\<close>

definition REQUIRED_DOCS :: "string list" where
  "REQUIRED_DOCS =
     [''docs/release/BETA_RELEASE_GATE.md'', ''docs/release/BETA_RELEASE_CANDIDATE.md'',
      ''docs/release/BETA_LIMITATIONS.md'', ''docs/perf/BETA_PERFORMANCE_SUMMARY.md'',
      ''docs/perf/100G_MIGRATION_CHECKLIST.md'', ''docs/perf/BETA1B_STORAGE_SYSTEM_ATTRIBUTION.md'',
      ''docs/perf/BETA1C_RETR_STABILITY.md'', ''docs/PROJECT_STATE.md'', ''docs/ROADMAP.md'', ''INDEX.md'']"

definition read_json_file :: "repo \<Rightarrow> string list option \<Rightarrow> report res" where
  "read_json_file t path =
     (case path of
        None \<Rightarrow> Inr []
      | Some p \<Rightarrow> (if repo_is_file t p then read_json_if_exists t p else Inr []))"

definition latest_result :: "repo \<Rightarrow> string \<Rightarrow> string list option" where
  "latest_result t pattern = latest_by_mtime t (glob_files t results_key [pattern])"

definition says_pass :: "report \<Rightarrow> string \<Rightarrow> bool" where
  "says_pass payload k \<longleftrightarrow> py_lower (get_text payload k) = ''pass''"

definition status_is_pass :: "report \<Rightarrow> bool" where
  "status_is_pass payload \<longleftrightarrow>
     payload \<noteq> [] \<and>
     (field payload ''passed'' JNull = JBool True \<or> says_pass payload ''status'' \<or> says_pass payload ''result'')"

definition counts_zero :: "json \<Rightarrow> bool" where
  \<comment> \<open>\<open>int(value) != 0\<close>, a \<open>TypeError\<close> or a \<open>ValueError\<close> all refuse\<close>
  "counts_zero v \<longleftrightarrow> to_int v = Inr 0"

definition artifact_verify_pass :: "report \<Rightarrow> bool" where
  "artifact_verify_pass payload \<longleftrightarrow>
     status_is_pass payload \<and>
     list_all (\<lambda>key. counts_zero (field payload key (JInt 0))) [''missing'', ''mismatch'', ''failures'']"

definition latest_artifact_verify :: "repo \<Rightarrow> report \<Rightarrow> (string list option \<times> report) res" where
  "latest_artifact_verify t rc_payload =
     (case latest_result t ''*_beta-release-candidate-final-verify.json'' of
        Some p \<Rightarrow> andthen (read_json_file t (Some p)) (\<lambda>payload. Inr (Some p, payload))
      | None \<Rightarrow> Inr (None, dict_of (field rc_payload ''artifact_verify_summary'' (JObj []))))"

definition FREEZE_DOC :: "string list" where
  "FREEZE_DOC = [''docs'', ''release'', ''BETA_FREEZE.md'']"

definition doc_exists :: "repo \<Rightarrow> string \<Rightarrow> bool" where
  \<comment> \<open>the page that is about to be written counts as present\<close>
  "doc_exists t relative \<longleftrightarrow> repo_is_file t (segs (to_path relative)) \<or> relative = rel_text FREEZE_DOC"

definition missing_docs :: "repo \<Rightarrow> string list" where
  "missing_docs t = filter (\<lambda>p. \<not> doc_exists t p) (REQUIRED_DOCS @ [rel_text FREEZE_DOC])"

definition required_docs_status :: "repo \<Rightarrow> report" where
  "required_docs_status t =
     [(''items'', JArr (map (\<lambda>p. JObj [(''path'', JStr p), (''exists'', JBool (doc_exists t p))])
        (REQUIRED_DOCS @ [rel_text FREEZE_DOC]))),
      (''missing'', JStrs (missing_docs t)), (''passed'', JBool (missing_docs t = []))]"

section \<open>The default strategy\<close>

definition strategy_forms :: "string \<times> string \<Rightarrow> string list" where
  "strategy_forms kv =
     (case kv of (k, v) \<Rightarrow> [k @ ''='' @ v, ticked k @ '': '' @ ticked v, ticked (k @ ''='' @ v)])"

definition strategy_token :: "string \<times> string \<Rightarrow> json" where
  "strategy_token kv = JArr [JStr (fst kv), JStr (snd kv), JStrs (strategy_forms kv)]"

definition missing_tokens :: "string \<Rightarrow> string list" where
  "missing_tokens text =
     map (\<lambda>(k, v). k @ ''='' @ v) (filter (\<lambda>kv. \<not> any_in (strategy_forms kv) text) BETA_STRATEGY)"

definition STRATEGY_DOCS :: "string list list" where
  "STRATEGY_DOCS =
     [[''docs'', ''release'', ''BETA_RELEASE_CANDIDATE.md''], [''docs'', ''release'', ''BETA_LIMITATIONS.md''],
      [''docs'', ''perf'', ''100G_MIGRATION_CHECKLIST.md''], FREEZE_DOC]"

definition doc_result :: "repo \<Rightarrow> string list \<Rightarrow> report res" where
  "doc_result t doc =
     (if \<not> repo_is_file t doc
      then Inr [(''path'', JStr (rel_text doc)), (''passed'', JBool (doc = FREEZE_DOC)),
                (''missing'', JArr (map strategy_token BETA_STRATEGY))]
      else andthen (read_text_replace t doc) (\<lambda>text.
           Inr [(''path'', JStr (rel_text doc)), (''passed'', JBool (missing_tokens text = [])),
                (''missing'', JStrs (missing_tokens text))]))"

definition default_strategy_status :: "repo \<Rightarrow> report res" where
  \<comment> \<open>both sides of \<open>script_defaults == DEFAULT_STRATEGY\<close> are copies of one dictionary\<close>
  "default_strategy_status t =
     andthen (collect (doc_result t) STRATEGY_DOCS) (\<lambda>docs.
     Inr [(''script_defaults'', strategy_json BETA_STRATEGY), (''expected_defaults'', strategy_json BETA_STRATEGY),
          (''script_passed'', JBool True), (''docs'', JArr (map JObj docs)),
          (''passed'', JBool (list_all (\<lambda>d. truthy (field d ''passed'' JNull)) docs))])"

section \<open>The report\<close>

definition summarize_gate :: "string \<Rightarrow> report \<Rightarrow> report" where
  "summarize_gate path payload =
     [(''path'', JStr path), (''passed'', JBool (truthy (field payload ''passed'' (JBool False)))),
      (''failed_steps'', field payload ''failed_steps'' (JInt 0)),
      (''public_hygiene_passed'', JBool (status_of payload ''hygiene'' = JStr ''pass'')),
      (''artifact_freshness'', JObj (part_of payload ''artifact_manifest_freshness'')),
      (''artifact_sync_summary'', JObj (part_of payload ''artifact_sync_summary'')),
      (''artifact_verify_summary'', JObj (part_of payload ''artifact_verify_summary''))]"

definition pass_line :: "string \<Rightarrow> report \<Rightarrow> string" where
  "pass_line label d = ''- '' @ label @ '': '' @ ticked (get_text d ''path'') @ '' pass='' @ ticked (get_text d ''passed'')"

definition freeze_markdown :: "report \<Rightarrow> string" where
  "freeze_markdown report =
     (let gate = part_of report ''beta_gate''; rc = part_of report ''beta_release_candidate'';
          verify = part_of report ''artifact_final_verify''; docs = part_of report ''required_docs'';
          defaults = part_of report ''default_strategy_check''; residual = part_of report ''residual_process_check''
      in join [newline]
        ([''# GridFlux Beta Freeze'', '''', tick_line ''Timestamp'' report ''timestamp'',
          ''- Result: '' @ ticked (pass_text report),
          ''- Scope: current two-cloud-server Beta RC freeze before any 100G migration.'',
          ''- 100G status: not certified and not tested in this freeze.'', '''', ''## Default Strategy'', '''']
         @ map (\<lambda>(k, v). ''- '' @ ticked (k @ ''='' @ v)) BETA_STRATEGY
         @ ['''', ''## Freeze Checks'', '''', pass_line ''Latest Beta Gate'' gate, pass_line ''Latest Beta RC'' rc,
            pass_line ''Artifact final verify'' verify,
            tick_line ''Public hygiene from latest Beta Gate'' gate ''public_hygiene_passed'',
            tick_line ''Required docs present'' docs ''passed'', tick_line ''Default strategy check'' defaults ''passed'',
            tick_line ''Residual process check local'' residual ''local'',
            tick_line ''Residual process check remote'' residual ''remote'',
            '''', ''## Migration Guardrails'', '''',
            ''- Current Beta is a cloud-server candidate, not a 100G-certified build.'',
            ''- Before moving to 100G, run `iperf3`, `gridflux-storage-bench`, memory sink, and CRC32C benchmark baselines.'',
            ''- On 100G, run 10GiB smoke first, then 100GiB repeat after network/storage baselines are clean.'',
            ''- Keep conservative defaults until 100G data proves a stable opt-in should graduate.'']
         @ failure_lines report) @ [newline])"

definition write_freeze_markdown :: "report \<Rightarrow> (rworld, unit) act" where
  "write_freeze_markdown report = write_file FREEZE_DOC (freeze_markdown report)"

definition freeze_failures ::
  "report \<Rightarrow> report \<Rightarrow> report \<Rightarrow> report \<Rightarrow> report \<Rightarrow> string \<times> string \<Rightarrow> string list" where
  "freeze_failures gate_payload rc_payload verify_payload docs defaults residual =
     named ''beta_gate'' (\<not> truthy (field gate_payload ''passed'' (JBool False)))
     @ named ''beta_release_candidate'' (\<not> truthy (field rc_payload ''passed'' (JBool False)))
     @ named ''artifact_final_verify'' (\<not> artifact_verify_pass verify_payload)
     @ named ''public_hygiene'' (status_of gate_payload ''hygiene'' \<noteq> JStr ''pass'')
     @ named ''required_docs'' (\<not> truthy (field docs ''passed'' JNull))
     @ named ''default_strategy'' (\<not> truthy (field defaults ''passed'' JNull))
     @ named ''residual_process_check'' (residual_found residual)"

record freeze_inputs =
  fi_gate_path :: "string list option"
  fi_gate :: report
  fi_rc_path :: "string list option"
  fi_rc :: report
  fi_verify_path :: "string list option"
  fi_verify :: report
  fi_docs :: report
  fi_defaults :: report

definition freeze_inputs_of :: "repo \<Rightarrow> freeze_inputs res" where
  "freeze_inputs_of t =
     (let gate_path = latest_result t ''*_beta-release-gate.json'';
          rc_path = latest_result t ''*_beta-release-candidate.json'' in
      andthen (read_json_file t gate_path) (\<lambda>gate.
      andthen (read_json_file t rc_path) (\<lambda>rc.
      andthen (latest_artifact_verify t rc) (\<lambda>(verify_path, verify).
      andthen (default_strategy_status t) (\<lambda>defaults.
      Inr \<lparr>fi_gate_path = gate_path, fi_gate = gate, fi_rc_path = rc_path, fi_rc = rc,
        fi_verify_path = verify_path, fi_verify = verify, fi_docs = required_docs_status t,
        fi_defaults = defaults\<rparr>)))))"

definition input_failures :: "freeze_inputs \<Rightarrow> string \<times> string \<Rightarrow> string list" where
  "input_failures fi residual =
     freeze_failures (fi_gate fi) (fi_rc fi) (fi_verify fi) (fi_docs fi) (fi_defaults fi) residual"

definition build_report :: "string \<Rightarrow> string list \<Rightarrow> (rworld, report) act" where
  "build_report remote json_path =
     act_bind (lift_tree freeze_inputs_of) (\<lambda>fi.
     act_bind (run_remote_process_check remote) (\<lambda>residual.
     act_bind timestamp_utc (\<lambda>now.
     act_bind (gets (\<lambda>w. (source_tree_hash w, abs_text w json_path, abs_text w FREEZE_DOC, opt_text w)))
       (\<lambda>(hash, json_text, page_text, show).
     act_bind git_status (\<lambda>git.
     let failures = input_failures fi residual in
     act_ret [(''timestamp'', JStr now), (''json'', JStr json_text), (''markdown'', JStr page_text),
       (''source_tree_hash'', JStr hash), (''git'', git), (''remote'', JStr remote),
       (''default_strategy'', strategy_json BETA_STRATEGY),
       (''beta_gate'', JObj (summarize_gate (show (fi_gate_path fi)) (fi_gate fi))),
       (''beta_release_candidate'', JObj [(''path'', JStr (show (fi_rc_path fi))),
          (''passed'', JBool (truthy (field (fi_rc fi) ''passed'' (JBool False)))),
          (''failures'', field (fi_rc fi) ''failures'' (JArr []))]),
       (''artifact_final_verify'', JObj [(''path'', JStr (show (fi_verify_path fi))),
          (''passed'', JBool (artifact_verify_pass (fi_verify fi))), (''summary'', JObj (fi_verify fi))]),
       (''required_docs'', JObj (fi_docs fi)), (''default_strategy_check'', JObj (fi_defaults fi)),
       (''residual_process_check'', residual_dict residual), (''failures'', JStrs failures),
       (''passed'', JBool (failures = []))])))))"

definition freeze_main :: "string \<Rightarrow> string \<Rightarrow> (rworld, int) act" where
  "freeze_main remote results_dir =
     act_bind (gets (\<lambda>w. key_of w results_dir)) (\<lambda>results.
     act_bind (make_dirs results) (\<lambda>_.
     act_bind compact_timestamp (\<lambda>stamp.
     let json_path = results @ [stamp @ ''_beta-freeze-check.json''] in
     act_bind (build_report remote json_path) (\<lambda>report.
     act_bind (write_freeze_markdown report) (\<lambda>_.
     act_bind (build_report remote json_path) (\<lambda>report1.
     act_bind (write_freeze_markdown report1) (\<lambda>_.
     act_bind (write_json_report json_path report1) (\<lambda>_.
     act_bind (announce ''beta_freeze_report'' FREEZE_DOC) (\<lambda>_.
     act_bind (announce ''beta_freeze_json'' json_path) (\<lambda>_.
     act_bind (print_line (if report_passed report1 then ''result=pass'' else ''result=fail'')) (\<lambda>_.
     act_ret (if report_passed report1 then 0 else 1))))))))))))"

section \<open>What the freeze check establishes\<close>

lemma named_Nil [simp]: "named name b = [] \<longleftrightarrow> \<not> b"
  by (simp add: named_def)

lemma missing_docs_Nil: "missing_docs t = [] \<longleftrightarrow> list_all (\<lambda>p. repo_is_file t (segs (to_path p))) REQUIRED_DOCS"
proof -
  have "rel_text FREEZE_DOC \<notin> set REQUIRED_DOCS" by code_simp
  then show ?thesis by (auto simp: missing_docs_def doc_exists_def filter_empty_conv list_all_iff)
qed

definition strategy_stated :: "repo \<Rightarrow> string list \<Rightarrow> bool" where
  \<comment> \<open>the page states every default in one of the accepted forms; the freeze page may be missing\<close>
  "strategy_stated t doc \<longleftrightarrow>
     (\<not> repo_is_file t doc \<and> doc = FREEZE_DOC) \<or>
     (\<exists>content. repo_is_file t doc \<and> read_text_replace t doc = Inr content \<and>
        list_all (\<lambda>kv. any_in (strategy_forms kv) content) BETA_STRATEGY)"

lemma missing_tokens_Nil: "missing_tokens s = [] \<longleftrightarrow> list_all (\<lambda>kv. any_in (strategy_forms kv) s) BETA_STRATEGY"
  by (auto simp: missing_tokens_def filter_empty_conv list_all_iff)

lemma doc_result_passed:
  "doc_result t doc = Inr d \<Longrightarrow> truthy (field d ''passed'' JNull) \<longleftrightarrow> strategy_stated t doc"
  unfolding doc_result_def strategy_stated_def
  by (auto simp: andthen_eq_Inr field_def missing_tokens_Nil split: if_splits)

lemma default_strategy_passed:
  assumes "default_strategy_status t = Inr d"
  shows "truthy (field d ''passed'' JNull) \<longleftrightarrow> list_all (strategy_stated t) STRATEGY_DOCS"
proof -
  obtain docs where docs: "collect (doc_result t) STRATEGY_DOCS = Inr docs"
    and d: "truthy (field d ''passed'' JNull) \<longleftrightarrow> list_all (\<lambda>d. truthy (field d ''passed'' JNull)) docs"
    using assms by (auto simp: default_strategy_status_def andthen_eq_Inr field_def)
  have "list_all2 (\<lambda>doc d. doc_result t doc = Inr d) STRATEGY_DOCS docs" using docs by (simp add: collect_eq_Inr)
  then have "list_all (\<lambda>d. truthy (field d ''passed'' JNull)) docs \<longleftrightarrow> list_all (strategy_stated t) STRATEGY_DOCS"
    by (induction rule: list_all2_induct) (auto simp: doc_result_passed)
  then show ?thesis using d by simp
qed

lemma required_docs_passed:
  "truthy (field (required_docs_status t) ''passed'' JNull) \<longleftrightarrow> list_all (\<lambda>p. repo_is_file t (segs (to_path p))) REQUIRED_DOCS"
  by (simp add: required_docs_status_def field_def missing_docs_Nil)

definition ready_to_freeze :: "repo \<Rightarrow> freeze_inputs \<Rightarrow> bool" where
  "ready_to_freeze t fi \<longleftrightarrow>
     truthy (field (fi_gate fi) ''passed'' (JBool False)) \<and> truthy (field (fi_rc fi) ''passed'' (JBool False)) \<and>
     artifact_verify_pass (fi_verify fi) \<and> status_of (fi_gate fi) ''hygiene'' = JStr ''pass'' \<and>
     list_all (\<lambda>p. repo_is_file t (segs (to_path p))) REQUIRED_DOCS \<and>
     list_all (strategy_stated t) STRATEGY_DOCS"

lemma input_failures_Nil:
  assumes "freeze_inputs_of t = Inr fi"
  shows "input_failures fi residual = [] \<longleftrightarrow> ready_to_freeze t fi \<and> \<not> residual_found residual"
proof -
  have docs: "fi_docs fi = required_docs_status t" and d: "default_strategy_status t = Inr (fi_defaults fi)"
    using assms by (auto simp: freeze_inputs_of_def andthen_eq_Inr Let_def)
  show ?thesis
    unfolding input_failures_def freeze_failures_def ready_to_freeze_def docs
    by (auto simp: required_docs_passed default_strategy_passed [OF d])
qed

lemma build_report_verdict:
  assumes "build_report remote json_path w = (Inr report, w')"
  shows "\<exists>fi residual w1. freeze_inputs_of (tree w) = Inr fi \<and> run_remote_process_check remote w = (Inr residual, w1) \<and>
    leads_to w1 w' \<and> (report_passed report \<longleftrightarrow> ready_to_freeze (tree w) fi \<and> \<not> residual_found residual)"
proof -
  obtain fi residual w1 now w2 w3 git where fi: "freeze_inputs_of (tree w) = Inr fi"
    and residual: "run_remote_process_check remote w = (Inr residual, w1)"
    and now: "timestamp_utc w1 = (Inr now, w2)" and git: "git_status w2 = (Inr git, w')"
    and report: "field report ''passed'' JNull = JBool (input_failures fi residual = [])"
    using assms unfolding build_report_def by (auto simp: act_simps Let_def field_def)
  have "leads_to w1 w'"
    using gate_run.growsD [OF gate_run_moves(3) now] gate_run.growsD [OF gate_run_git git] by simp
  then show ?thesis using fi residual report input_failures_Nil [OF fi] by (auto simp: report_passed_def)
qed

lemma gate_run_build: "gate_run.grows (build_report remote json_path)"
  unfolding build_report_def by (auto intro!: gate_run_rules gate_run_parts simp: Let_def)

definition freeze_tail :: "string list \<Rightarrow> report \<Rightarrow> (rworld, int) act" where
  \<comment> \<open>what follows the second report\<close>
  "freeze_tail json_path report =
     act_bind (write_freeze_markdown report) (\<lambda>_.
     act_bind (write_json_report json_path report) (\<lambda>_.
     act_bind (announce ''beta_freeze_report'' FREEZE_DOC) (\<lambda>_.
     act_bind (announce ''beta_freeze_json'' json_path) (\<lambda>_.
     act_bind (print_line (if report_passed report then ''result=pass'' else ''result=fail'')) (\<lambda>_.
     act_ret (if report_passed report then 0 else 1))))))"

lemmas freeze_main_tail = freeze_main_def [folded freeze_tail_def]

lemma gate_run_page: "gate_run.grows (write_freeze_markdown report)"
  unfolding write_freeze_markdown_def by (intro gate_run_rules)

lemma gate_run_tail: "gate_run.grows (freeze_tail json_path report)"
  unfolding freeze_tail_def announce_def write_json_report_def by (intro gate_run_rules gate_run_page)

definition freeze_json :: "rworld \<Rightarrow> string \<Rightarrow> string list" where
  "freeze_json w results_dir = key_of w results_dir @ [compact_at w (ticks w) @ ''_beta-freeze-check.json'']"

lemma freeze_json_other: "FREEZE_DOC \<noteq> freeze_json w results_dir"
proof
  assume "FREEZE_DOC = freeze_json w results_dir"
  then have "last (last FREEZE_DOC) = last (last (freeze_json w results_dir))" by simp
  then show False by (simp add: FREEZE_DOC_def freeze_json_def)
qed

lemma freeze_tail_ok:
  assumes "freeze_tail p report w = (Inr rc, w')" and "FREEZE_DOC \<noteq> p"
  shows "rc = (if report_passed report then 0 else 1) \<and> commands w' = commands w \<and>
    repo_content (tree w') p = Some (json_dumps (JObj report) @ [newline]) \<and>
    repo_content (tree w') FREEZE_DOC = Some (freeze_markdown report)"
  using assms unfolding freeze_tail_def write_freeze_markdown_def write_json_report_def announce_def print_line_def
  by (auto simp: act_simps write_file_ok repo_content_def split: if_splits)

text \<open>
  C11: The freeze check builds its report twice, the second time right after the page made from the
  first one has been written and before anything else happens. It ends with status 0 exactly when,
  in that state, the latest beta gate and candidate reports say they passed, the final verification
  report is clean, the public hygiene step passed, every required page exists, every page that has
  to state the default strategy states all of it, and no tested process is left over; otherwise it
  ends with 1. What it leaves on disk, page and JSON report, is the second report, it agrees with
  the exit status, and no process is started after it.
\<close>

theorem freeze_exit_zero_iff:
  assumes "freeze_main remote results_dir w = (Inr rc, w')"
  shows "\<exists>report0 wb w1 report1 w3 fi residual w2.
    build_report remote (freeze_json w results_dir) (w\<lparr>ticks := ticks w + 1\<rparr>) = (Inr report0, wb) \<and>
    write_freeze_markdown report0 wb = (Inr (), w1) \<and>
    build_report remote (freeze_json w results_dir) w1 = (Inr report1, w3) \<and>
    freeze_inputs_of (tree w1) = Inr fi \<and> run_remote_process_check remote w1 = (Inr residual, w2) \<and>
    rc = (if ready_to_freeze (tree w1) fi \<and> \<not> residual_found residual then 0 else 1) \<and>
    (report_passed report1 \<longleftrightarrow> rc = 0) \<and> commands w' = commands w3 \<and>
    repo_content (tree w') (freeze_json w results_dir) = Some (json_dumps (JObj report1) @ [newline]) \<and>
    repo_content (tree w') FREEZE_DOC = Some (freeze_markdown report1)"
proof -
  let ?w = "w\<lparr>ticks := ticks w + 1\<rparr>" and ?json = "freeze_json w results_dir"
  obtain report wc wd report1 we where
    b: "build_report remote ?json ?w = (Inr report, wc)" and c: "write_freeze_markdown report wc = (Inr (), wd)"
    and d: "build_report remote ?json wd = (Inr report1, we)" and rest: "freeze_tail ?json report1 we = (Inr rc, w')"
    using assms unfolding freeze_main_tail Let_def freeze_json_def
    by (auto simp: act_bind_ok gets_ok make_dirs_def compact_timestamp_def split: if_splits)
  obtain fi residual w2 where fi: "freeze_inputs_of (tree wd) = Inr fi"
    and residual: "run_remote_process_check remote wd = (Inr residual, w2)"
    and passed: "report_passed report1 \<longleftrightarrow> ready_to_freeze (tree wd) fi \<and> \<not> residual_found residual"
    using build_report_verdict [OF d] by blast
  have "rc = (if ready_to_freeze (tree wd) fi \<and> \<not> residual_found residual then 0 else 1)"
    "report_passed report1 \<longleftrightarrow> rc = 0"
    using freeze_tail_ok [OF rest freeze_json_other] passed by auto
  then show ?thesis using b c d fi residual freeze_tail_ok [OF rest freeze_json_other] by blast
qed

lemma freeze_page_tokens: "missing_tokens (freeze_markdown report) = []"
proof -
  have "any_in (strategy_forms kv) (freeze_markdown report)" if "kv \<in> set BETA_STRATEGY" for kv
  proof -
    obtain k v where kv: "kv = (k, v)" by (cases kv)
    have "contains (''- '' @ ticked (k @ ''='' @ v)) (freeze_markdown report)"
      unfolding freeze_markdown_def Let_def
      by (rule contains_appendI1, rule join_member_contains) (use that kv in force)
    moreover have "contains (k @ ''='' @ v) (''- '' @ ticked (k @ ''='' @ v))"
      unfolding ticked_def contains_iff by (metis append.assoc)
    ultimately have "contains (k @ ''='' @ v) (freeze_markdown report)" using contains_trans by blast
    then show ?thesis by (simp add: any_in_def strategy_forms_def kv)
  qed
  then show ?thesis by (simp add: missing_tokens_Nil list_all_iff)
qed

text \<open>
  C37: The page the freeze check writes states every default of the strategy in a form that the
  check accepts, whatever the report says: the check of that page against the strategy, which the
  second report makes, cannot fail on a page the same run has written.
\<close>

theorem freeze_page_states_strategy: "missing_tokens (freeze_markdown report) = []"
  by (rule freeze_page_tokens)

section \<open>A run that passes\<close>

definition quiet_process :: proc where
  \<comment> \<open>a process that succeeds, prints nothing and changes nothing\<close>
  "quiet_process = \<lparr>p_rc = 0, p_out = '''', p_err = '''', p_elapsed = float_zero, p_effect = (\<lambda>t. t)\<rparr>"

definition still_world :: "repo \<Rightarrow> nat \<Rightarrow> int \<Rightarrow> string list list \<Rightarrow> rworld" where
  "still_world t n k cs = \<lparr>root_dir = ''/'', tree = t, ticks = k, procs = replicate n (Some quiet_process),
     process_env = (\<lambda>_. None), sshpass_installed = False, sha = (\<lambda>s. ''h''),
     utc_at = (\<lambda>i. ''T''), compact_at = (\<lambda>i. ''C''), interpreter = ''py'', pid = 7, lock_taken = False,
     commands = cs, printed = [], printed_err = []\<rparr>"

definition release_tree :: "string \<Rightarrow> repo" where
  \<comment> \<open>the required pages, three of them with the given text, and the three reports\<close>
  "release_tree s =
     [([''docs'', ''release'', ''BETA_RELEASE_GATE.md''], ('''', 0)),
      ([''docs'', ''release'', ''BETA_RELEASE_CANDIDATE.md''], (s, 0)),
      ([''docs'', ''release'', ''BETA_LIMITATIONS.md''], (s, 0)),
      ([''docs'', ''perf'', ''BETA_PERFORMANCE_SUMMARY.md''], ('''', 0)),
      ([''docs'', ''perf'', ''100G_MIGRATION_CHECKLIST.md''], (s, 0)),
      ([''docs'', ''perf'', ''BETA1B_STORAGE_SYSTEM_ATTRIBUTION.md''], ('''', 0)),
      ([''docs'', ''perf'', ''BETA1C_RETR_STABILITY.md''], ('''', 0)),
      ([''docs'', ''PROJECT_STATE.md''], ('''', 0)), ([''docs'', ''ROADMAP.md''], ('''', 0)), ([''INDEX.md''], ('''', 0)),
      (results_key @ [''1_beta-release-gate.json''], (''{\"passed\": true, \"hygiene\": {\"status\": \"pass\"}}'', 0)),
      (results_key @ [''1_beta-release-candidate.json''], (''{\"passed\": true}'', 0)),
      (results_key @ [''1_beta-release-candidate-final-verify.json''], (''{\"status\": \"pass\"}'', 0))]"

definition plain_page :: "string \<Rightarrow> bool" where
  "plain_page s \<longleftrightarrow> universal_newlines (utf8_replace s) = s \<and> missing_tokens s = []"

definition good_inputs :: "string \<Rightarrow> freeze_inputs \<Rightarrow> bool" where
  \<comment> \<open>what the reports of the release tree say\<close>
  "good_inputs s fi \<longleftrightarrow>
     fi_gate_path fi = Some (results_key @ [''1_beta-release-gate.json'']) \<and>
     fi_gate fi = [(''passed'', JBool True), (''hygiene'', JObj [(''status'', JStr ''pass'')])] \<and>
     fi_rc_path fi = Some (results_key @ [''1_beta-release-candidate.json'']) \<and> fi_rc fi = [(''passed'', JBool True)] \<and>
     fi_verify_path fi = Some (results_key @ [''1_beta-release-candidate-final-verify.json'']) \<and>
     fi_verify fi = [(''status'', JStr ''pass'')]"

lemma release_results:
  "latest_result (release_tree s) ''*_beta-release-gate.json'' = Some (results_key @ [''1_beta-release-gate.json''])"
  "latest_result (release_tree s) ''*_beta-release-candidate.json'' = Some (results_key @ [''1_beta-release-candidate.json''])"
  "latest_result (release_tree s) ''*_beta-release-candidate-final-verify.json'' =
     Some (results_key @ [''1_beta-release-candidate-final-verify.json''])"
  "latest_result (dict_set FREEZE_DOC (c, m) (release_tree s)) ''*_beta-release-gate.json'' =
     Some (results_key @ [''1_beta-release-gate.json''])"
  "latest_result (dict_set FREEZE_DOC (c, m) (release_tree s)) ''*_beta-release-candidate.json'' =
     Some (results_key @ [''1_beta-release-candidate.json''])"
  "latest_result (dict_set FREEZE_DOC (c, m) (release_tree s)) ''*_beta-release-candidate-final-verify.json'' =
     Some (results_key @ [''1_beta-release-candidate-final-verify.json''])"
  by code_simp+

lemma release_reports:
  "read_json_file (release_tree s) (Some (results_key @ [''1_beta-release-gate.json''])) =
     Inr [(''passed'', JBool True), (''hygiene'', JObj [(''status'', JStr ''pass'')])]"
  "read_json_file (release_tree s) (Some (results_key @ [''1_beta-release-candidate.json''])) = Inr [(''passed'', JBool True)]"
  "read_json_file (release_tree s) (Some (results_key @ [''1_beta-release-candidate-final-verify.json''])) =
     Inr [(''status'', JStr ''pass'')]"
  "read_json_file (dict_set FREEZE_DOC (c, m) (release_tree s)) (Some (results_key @ [''1_beta-release-gate.json''])) =
     Inr [(''passed'', JBool True), (''hygiene'', JObj [(''status'', JStr ''pass'')])]"
  "read_json_file (dict_set FREEZE_DOC (c, m) (release_tree s)) (Some (results_key @ [''1_beta-release-candidate.json''])) =
     Inr [(''passed'', JBool True)]"
  "read_json_file (dict_set FREEZE_DOC (c, m) (release_tree s))
     (Some (results_key @ [''1_beta-release-candidate-final-verify.json''])) = Inr [(''status'', JStr ''pass'')]"
  by code_simp+

lemma release_pages:
  "list_all (\<lambda>p. repo_is_file (release_tree s) (segs (to_path p))) REQUIRED_DOCS"
  "list_all (\<lambda>p. repo_is_file (dict_set FREEZE_DOC (c, m) (release_tree s)) (segs (to_path p))) REQUIRED_DOCS"
  "repo_content (dict_set FREEZE_DOC (c, m) (release_tree s)) FREEZE_DOC = Some c"
  "repo_content (release_tree s) FREEZE_DOC = None"
  "list_all (\<lambda>p. repo_content (release_tree s) p = Some s) (butlast STRATEGY_DOCS)"
  "list_all (\<lambda>p. repo_content (dict_set FREEZE_DOC (c, m) (release_tree s)) p = Some s) (butlast STRATEGY_DOCS)"
  by code_simp+

lemma doc_result_total: "\<exists>d. doc_result t doc = Inr d"
  by (auto simp: doc_result_def read_text_replace_def repo_read_def repo_is_file_def)

lemma default_strategy_total: "\<exists>d. default_strategy_status t = Inr d"
proof -
  have "collect (doc_result t) STRATEGY_DOCS = Inr (map (\<lambda>doc. projr (doc_result t doc)) STRATEGY_DOCS)"
  proof (rule collect_total)
    fix doc
    show "doc_result t doc = Inr (projr (doc_result t doc))" using doc_result_total [of t doc] by auto
  qed
  then show ?thesis by (simp add: default_strategy_status_def)
qed

lemma plain_page_states: "repo_content t doc = Some s \<Longrightarrow> plain_page s \<Longrightarrow> strategy_stated t doc"
  by (simp add: strategy_stated_def plain_page_def repo_is_file_def read_text_replace_def repo_read_def missing_tokens_Nil)

lemma good_inputs_ready:
  assumes "good_inputs s fi" and "list_all (\<lambda>p. repo_is_file t (segs (to_path p))) REQUIRED_DOCS"
    and "list_all (strategy_stated t) STRATEGY_DOCS"
  shows "ready_to_freeze t fi"
proof -
  have "artifact_verify_pass [(''status'', JStr ''pass'')]" by code_simp
  then show ?thesis
    using assms by (simp add: ready_to_freeze_def good_inputs_def field_def status_of_def dict_of_def)
qed

lemma strategy_docs_split: "STRATEGY_DOCS = butlast STRATEGY_DOCS @ [FREEZE_DOC]"
  by (simp add: STRATEGY_DOCS_def)

lemma release_inputs:
  assumes "plain_page s"
  shows "\<exists>fi. freeze_inputs_of (release_tree s) = Inr fi \<and> good_inputs s fi"
    and "plain_page c \<Longrightarrow> \<exists>fi. freeze_inputs_of (dict_set FREEZE_DOC (c, m) (release_tree s)) = Inr fi \<and> good_inputs s fi \<and>
      ready_to_freeze (dict_set FREEZE_DOC (c, m) (release_tree s)) fi"
proof -
  let ?t = "dict_set FREEZE_DOC (c, m) (release_tree s)"
  obtain d where "default_strategy_status (release_tree s) = Inr d" using default_strategy_total by blast
  then show "\<exists>fi. freeze_inputs_of (release_tree s) = Inr fi \<and> good_inputs s fi"
    by (simp add: freeze_inputs_of_def latest_artifact_verify_def release_results release_reports good_inputs_def)
  assume "plain_page c"
  have "list_all (\<lambda>doc. repo_content ?t doc = Some s) (butlast STRATEGY_DOCS)" by (rule release_pages(6))
  then have "list_all (strategy_stated ?t) (butlast STRATEGY_DOCS)"
    using plain_page_states assms by (auto simp: list_all_iff)
  moreover have "strategy_stated ?t FREEZE_DOC" using plain_page_states [OF release_pages(3) \<open>plain_page c\<close>] .
  ultimately have "list_all (strategy_stated ?t) STRATEGY_DOCS"
    by (subst strategy_docs_split) simp
  moreover obtain d where "default_strategy_status ?t = Inr d" using default_strategy_total by blast
  then have "\<exists>fi. freeze_inputs_of ?t = Inr fi \<and> good_inputs s fi"
    by (simp add: freeze_inputs_of_def latest_artifact_verify_def release_results release_reports good_inputs_def)
  ultimately show "\<exists>fi. freeze_inputs_of ?t = Inr fi \<and> good_inputs s fi \<and> ready_to_freeze ?t fi"
    using good_inputs_ready [OF _ release_pages(2)] by blast
qed

definition stated :: string where
  "stated = join [newline] (map (\<lambda>(k, v). k @ ''='' @ v) BETA_STRATEGY)"

lemma stated_plain: "plain_page stated"
proof -
  have "text_safe stated" by code_simp
  have "any_in (strategy_forms kv) stated" if "kv \<in> set BETA_STRATEGY" for kv
  proof -
    have "contains (fst kv @ ''='' @ snd kv) stated"
      unfolding stated_def by (rule join_member_contains) (use that in force)
    then show ?thesis by (cases kv) (simp add: any_in_def strategy_forms_def)
  qed
  then show ?thesis
    using \<open>text_safe stated\<close> text_safe_replace by (simp add: plain_page_def missing_tokens_Nil list_all_iff)
qed

lemma strategy_texts_safe: "list_all (\<lambda>kv. text_safe (fst kv) \<and> text_safe (snd kv)) BETA_STRATEGY"
  by code_simp

lemma freeze_page_safe:
  assumes "\<And>k. k \<in> {''path'', ''passed''} \<Longrightarrow> text_safe (get_text (part_of r ''beta_gate'') k) \<and>
      text_safe (get_text (part_of r ''beta_release_candidate'') k) \<and>
      text_safe (get_text (part_of r ''artifact_final_verify'') k)"
    and "text_safe (get_text r ''timestamp'')" "text_safe (get_text (part_of r ''beta_gate'') ''public_hygiene_passed'')"
    and "text_safe (get_text (part_of r ''required_docs'') ''passed'')"
    and "text_safe (get_text (part_of r ''default_strategy_check'') ''passed'')"
    and "text_safe (get_text (part_of r ''residual_process_check'') ''local'')"
    and "text_safe (get_text (part_of r ''residual_process_check'') ''remote'')"
    and "list_all (\<lambda>f. text_safe (py_str f)) (list_of (field r ''failures'' (JArr [])))"
  shows "text_safe (freeze_markdown r)"
proof -
  have tick: "text_safe (ticked s) \<longleftrightarrow> text_safe s" for s by (simp add: ticked_def code_def)
  have pass: "text_safe (pass_text r)" by (simp add: pass_text_def code_def)
  have nl: "text_safe [newline]" by (simp add: code_def)
  show ?thesis
    unfolding freeze_markdown_def Let_def
    using assms(2-) assms(1) [of "''path''"] assms(1) [of "''passed''"] strategy_texts_safe
    by (simp only: text_safe_append nl simp_thms)
      (rule text_safe_join [OF nl], simp add: tick_line_def pass_line_def failure_lines_def tick pass code_def Let_def list.pred_map comp_def,
       auto simp: list_all_iff code_def tick)
qed

lemma still_moves:
  "run_process c (still_world t (Suc n) k cs) = (Inr quiet_process, still_world t n (k + 1) (cs @ [c]))"
  "timestamp_utc (still_world t n k cs) = (Inr ''T'', still_world t n (k + 1) cs)"
  "compact_timestamp (still_world t n k cs) = (Inr ''C'', still_world t n (k + 1) cs)"
  "tree (still_world t n k cs) = t"
  by (simp_all add: run_process_def still_world_def quiet_process_def timestamp_utc_def compact_timestamp_def Let_def)

lemma still_write:
  "\<not> file_above t p \<Longrightarrow> \<not> repo_is_dir t p \<Longrightarrow>
     write_file p c (still_world t n k cs) = (Inr (), still_world (dict_set p (c, k) t) n (k + 1) cs)"
  by (simp add: write_file_def still_world_def)

lemma still_probes:
  "\<exists>cs'. run_remote_process_check '''' (still_world t (Suc n) k cs) = (Inr ('''', ''''), still_world t n (k + 1) cs')"
  "\<exists>git cs'. git_status (still_world t (Suc (Suc n)) k cs) = (Inr git, still_world t n (k + 1 + 1) cs')"
  by (auto simp: run_remote_process_check_def git_status_def run_git_def act_bind_def act_ret_def still_moves
      quiet_process_def py_strip_def strip_chars_def)

lemma result_texts_safe:
  "text_safe (abs_text (still_world t n k cs) (results_key @ [''1_beta-release-gate.json'']))"
  "text_safe (abs_text (still_world t n k cs) (results_key @ [''1_beta-release-candidate.json'']))"
  "text_safe (abs_text (still_world t n k cs) (results_key @ [''1_beta-release-candidate-final-verify.json'']))"
  by code_simp+

lemma bool_text_safe: "text_safe (py_str (JBool b))"
  by (cases b; simp only:) code_simp+

lemma failure_names_safe: "list_all text_safe (input_failures fi r)"
  unfolding input_failures_def freeze_failures_def named_def by (auto simp: code_def)

lemma still_build:
  assumes fi: "freeze_inputs_of t = Inr fi" and good: "good_inputs s fi"
  shows "\<exists>r k' cs'. build_report '''' p (still_world t (Suc (Suc (Suc n))) k cs) = (Inr r, still_world t n k' cs') \<and>
    text_safe (freeze_markdown r) \<and> (report_passed r \<longleftrightarrow> input_failures fi ('''', '''') = [])"
proof -
  obtain c1 git c2 where probe: "run_remote_process_check '''' (still_world t (Suc (Suc (Suc n))) k cs) =
      (Inr ('''', ''''), still_world t (Suc (Suc n)) (k + 1) c1)"
    and git: "git_status (still_world t (Suc (Suc n)) (k + 1 + 1) c1) = (Inr git, still_world t n (k + 1 + 1 + 1 + 1) c2)"
    using still_probes(1) [of t "Suc (Suc n)" k cs] still_probes(2) [of t n "k + 1 + 1"] by metis
  let ?w = "still_world t (Suc (Suc n)) (k + 1 + 1) c1"
  obtain r where run: "build_report '''' p (still_world t (Suc (Suc (Suc n))) k cs) = (Inr r, still_world t n (k + 1 + 1 + 1 + 1) c2)"
    and r: "field r ''timestamp'' x = JStr ''T''"
      "field r ''beta_gate'' x = JObj (summarize_gate (opt_text ?w (fi_gate_path fi)) (fi_gate fi))"
      "field r ''beta_release_candidate'' x = JObj [(''path'', JStr (opt_text ?w (fi_rc_path fi))),
          (''passed'', JBool (truthy (field (fi_rc fi) ''passed'' (JBool False)))),
          (''failures'', field (fi_rc fi) ''failures'' (JArr []))]"
      "field r ''artifact_final_verify'' x = JObj [(''path'', JStr (opt_text ?w (fi_verify_path fi))),
          (''passed'', JBool (artifact_verify_pass (fi_verify fi))), (''summary'', JObj (fi_verify fi))]"
      "field r ''required_docs'' x = JObj (fi_docs fi)" "field r ''default_strategy_check'' x = JObj (fi_defaults fi)"
      "field r ''residual_process_check'' x = residual_dict ('''', '''')"
      "field r ''failures'' x = JStrs (input_failures fi ('''', ''''))"
      "field r ''passed'' x = JBool (input_failures fi ('''', '''') = [])" for x
    using fi probe git
    by (simp add: build_report_def act_bind_def act_ret_def lift_tree_def gets_def still_moves field_def Let_def del: add.assoc)
  obtain b1 b2 where docs: "field (fi_docs fi) ''passed'' (JStr '''') = JBool b1"
    and defaults: "field (fi_defaults fi) ''passed'' (JStr '''') = JBool b2"
    using fi by (auto simp: freeze_inputs_of_def andthen_eq_Inr Let_def required_docs_status_def default_strategy_status_def
        field_def)
  have entry: "field ((a, v) # d) a' y = (if a = a' then v else field d a' y)" for a v d a' y
    by (simp add: field_def)
  have strs: "list_all (\<lambda>f. text_safe (py_str f)) (list_of (JStrs xs)) \<longleftrightarrow> list_all text_safe xs" for xs
    by (simp add: JStrs_def list_of_def py_str_def list.pred_map comp_def)
  have "text_safe (freeze_markdown r)"
    by (rule freeze_page_safe)
       (use good result_texts_safe [of t "Suc (Suc n)" "k + 1 + 1" c1] bool_text_safe failure_names_safe [of fi "('''', '''')"] docs defaults in
         \<open>auto simp: get_text_def part_of_def r dict_of_def entry good_inputs_def summarize_gate_def opt_text_def
           residual_dict_def strs code_def\<close>)
  then show ?thesis using run r(9) by (auto simp: report_passed_def)
qed

lemma still_page:
  "write_freeze_markdown r (still_world (release_tree s) n k cs) =
     (Inr (), still_world (dict_set FREEZE_DOC (freeze_markdown r, k) (release_tree s)) n (k + 1) cs)"
  "write_freeze_markdown r (still_world (dict_set FREEZE_DOC (c, m) (release_tree s)) n k cs) =
     (Inr (), still_world (dict_set FREEZE_DOC (freeze_markdown r, k) (dict_set FREEZE_DOC (c, m) (release_tree s))) n (k + 1) cs)"
proof -
  have "\<not> file_above (release_tree s) FREEZE_DOC" "\<not> repo_is_dir (release_tree s) FREEZE_DOC"
    "\<not> file_above (dict_set FREEZE_DOC (c, m) (release_tree s)) FREEZE_DOC"
    "\<not> repo_is_dir (dict_set FREEZE_DOC (c, m) (release_tree s)) FREEZE_DOC" by code_simp+
  then show "write_freeze_markdown r (still_world (release_tree s) n k cs) =
     (Inr (), still_world (dict_set FREEZE_DOC (freeze_markdown r, k) (release_tree s)) n (k + 1) cs)"
    "write_freeze_markdown r (still_world (dict_set FREEZE_DOC (c, m) (release_tree s)) n k cs) =
     (Inr (), still_world (dict_set FREEZE_DOC (freeze_markdown r, k) (dict_set FREEZE_DOC (c, m) (release_tree s))) n (k + 1) cs)"
    by (simp_all add: write_freeze_markdown_def still_write)
qed

lemma still_tail:
  assumes "report_passed r"
  shows "\<exists>w'. freeze_tail [''r'', ''C_beta-freeze-check.json''] r
    (still_world (dict_set FREEZE_DOC (c, m) (release_tree s)) n k cs) = (Inr 0, w')"
proof -
  let ?t = "\<lambda>c' m'. dict_set FREEZE_DOC (c', m') (dict_set FREEZE_DOC (c, m) (release_tree s))"
  have "\<not> file_above (?t c' m') [''r'', ''C_beta-freeze-check.json'']" "\<not> repo_is_dir (?t c' m') [''r'', ''C_beta-freeze-check.json'']" for c' m'
    by code_simp+
  then show ?thesis using assms
    by (simp add: freeze_tail_def act_bind_def act_ret_def still_page write_json_report_def still_write announce_def gets_def
        print_line_def)
qed

lemma still_freeze: "\<exists>w'. freeze_main '''' ''r'' (still_world (release_tree stated) 6 0 []) = (Inr 0, w')"
proof -
  let ?json = "[''r'', ''C_beta-freeze-check.json'']"
  obtain fi where fi: "freeze_inputs_of (release_tree stated) = Inr fi" "good_inputs stated fi"
    using release_inputs(1) [OF stated_plain] by blast
  obtain r k cs where first: "build_report '''' ?json (still_world (release_tree stated) 6 1 []) =
      (Inr r, still_world (release_tree stated) 3 k cs)" and safe: "text_safe (freeze_markdown r)"
    using still_build [OF fi, of ?json 3 1 "[]"] by (auto simp: numeral_eq_Suc)
  let ?t = "dict_set FREEZE_DOC (freeze_markdown r, k) (release_tree stated)"
  have "plain_page (freeze_markdown r)"
    using text_safe_replace [OF safe] freeze_page_tokens by (simp add: plain_page_def)
  then obtain fi1 where fi1: "freeze_inputs_of ?t = Inr fi1" "good_inputs stated fi1" "ready_to_freeze ?t fi1"
    using release_inputs(2) [OF stated_plain] by blast
  have "input_failures fi1 ('''', '''') = []"
    using fi1(3) by (simp add: input_failures_Nil [OF fi1(1)] residual_found_def)
  then obtain r1 k1 cs1 where second: "build_report '''' ?json (still_world ?t 3 (k + 1) cs) = (Inr r1, still_world ?t 0 k1 cs1)"
    and passed: "report_passed r1"
    using still_build [OF fi1(1,2), of ?json 0 "k + 1" cs] by (auto simp: numeral_eq_Suc)
  obtain w' where tail: "freeze_tail ?json r1 (still_world ?t 0 k1 cs1) = (Inr 0, w')" using still_tail [OF passed] by blast
  have "key_of (still_world (release_tree stated) 6 0 []) ''r'' = [''r'']" by code_simp
  moreover have "make_dirs [''r''] (still_world (release_tree stated) 6 0 []) = (Inr (), still_world (release_tree stated) 6 0 [])"
  proof -
    have "\<not> file_above (release_tree stated) [''r'']" "\<not> repo_is_file (release_tree stated) [''r'']" by code_simp+
    then show ?thesis by (simp add: make_dirs_def still_moves)
  qed
  ultimately show ?thesis
    using first second tail by (simp add: freeze_main_tail act_bind_def gets_def still_moves still_page Let_def)
qed

theorem freeze_exit_zero_iff_witness:
  "\<exists>w' w1 fi residual w2. freeze_main '''' ''r'' (still_world (release_tree stated) 6 0 []) = (Inr 0, w') \<and>
     freeze_inputs_of (tree w1) = Inr fi \<and> run_remote_process_check '''' w1 = (Inr residual, w2) \<and>
     ready_to_freeze (tree w1) fi \<and> \<not> residual_found residual"
proof -
  obtain w' where run: "freeze_main '''' ''r'' (still_world (release_tree stated) 6 0 []) = (Inr 0, w')"
    using still_freeze by blast
  from freeze_exit_zero_iff [OF run] obtain w1 fi residual w2 where "freeze_inputs_of (tree w1) = Inr fi"
    and "run_remote_process_check '''' w1 = (Inr residual, w2)"
    and rc: "0 = (if ready_to_freeze (tree w1) fi \<and> \<not> residual_found residual then 0 else 1 :: int)" by blast
  moreover have "ready_to_freeze (tree w1) fi \<and> \<not> residual_found residual" using rc by (simp split: if_splits)
  ultimately show ?thesis using run by blast
qed

end
