(* ===== verification/Remote_Check.thy ===== *)
theory Remote_Check
  imports Manifest_Freshness Py_Shell
begin

text \<open>
  The verification of artifacts on the other machine, tools/release/check_remote_artifact_sync.py,
  with either a manifest or explicit paths and CSV files. The local root is the root of the world;
  the batch query and single commands on the other machine are arguments, the \<open>ssh\<close> connection
  not being part of the program. \<open>render\<close> is the text of an exception.
\<close>

section \<open>Paths\<close>

definition below_root :: "rworld \<Rightarrow> string list \<Rightarrow> string res" where
  \<comment> \<open>\<open>path.resolve().relative_to(local_root).as_posix()\<close> of an absolute path\<close>
  "below_root w ss =
     (let r = collapse_dots [] ss; n = length (root_segs w) in
      if take n r = root_segs w then Inr (rel_text (drop n r))
      else Inl (ValueError ''is not in the subpath''))"

definition ok_option :: "'a res \<Rightarrow> 'a option" where
  \<comment> \<open>\<open>try: return ... except ValueError: return None\<close>, no other exception being possible there\<close>
  "ok_option r = (case r of Inl _ \<Rightarrow> None | Inr a \<Rightarrow> Some a)"

definition normalize_checked_path :: "rworld \<Rightarrow> string \<Rightarrow> string option" where
  "normalize_checked_path w value =
     (if value = '''' then None
      else let path = to_path value in
           if is_absolute path
           then ok_option (andthen (below_root w (segs path)) validate_artifact_path)
           else if ''..'' \<in> set (parts path) then None
           else ok_option (validate_artifact_path (as_posix path)))"

definition paths_from_csv :: "rworld \<Rightarrow> string \<Rightarrow> string list res" where
  "paths_from_csv w csv_path =
     (let p = segs (to_path csv_path) in
      if \<not> repo_exists (tree w) p then Inr [csv_path]
      else andthen (repo_read (tree w) p) (\<lambda>b.
           andthen (utf8_decode b) (\<lambda>text.
           andthen (rows_paths (normalize_checked_path w) (dict_rows text)) (\<lambda>ps.
           Inr (csv_path # ps)))))"

definition collect_artifact_paths :: "rworld \<Rightarrow> string list \<Rightarrow> string list \<Rightarrow> string list res" where
  "collect_artifact_paths w paths csvs =
     andthen (collect (paths_from_csv w) (List.map_filter (normalize_checked_path w) csvs)) (\<lambda>pss.
     Inr (sorted_set (List.map_filter (normalize_checked_path w) paths @ concat pss)))"

section \<open>Comparing\<close>

record artifact_check =
  ac_path :: string
  ac_local_exists :: bool
  ac_remote_exists :: bool
  ac_local_sha256 :: string
  ac_remote_sha256 :: string
  ac_status :: string

definition remote_sha256_command :: "string \<Rightarrow> string \<Rightarrow> string" where
  "remote_sha256_command remote_root relative_path =
     (let q = shlex_quote (rstrip_slash remote_root @ ''/'' @ relative_path) in
      ''if test -f '' @ q @ ''; then sha256sum '' @ q @ '' | awk '' @ [CHR 0x27] @ ''{print $1}''
      @ [CHR 0x27] @ ''; else exit 2; fi'')"

definition remote_sha256 :: "(string \<Rightarrow> int \<times> string) \<Rightarrow> string \<Rightarrow> string \<Rightarrow> bool \<times> string" where
  \<comment> \<open>\<open>run\<close>: return code and standard output of a command on the other machine\<close>
  "remote_sha256 run remote_root relative_path =
     (case run (remote_sha256_command remote_root relative_path) of (returncode, out) \<Rightarrow>
        if returncode \<noteq> 0 then (False, '''')
        else (True, case py_splitlines (py_strip out) of [] \<Rightarrow> '''' | l # _ \<Rightarrow> l))"

definition check_path ::
  "(string \<Rightarrow> string) \<Rightarrow> repo \<Rightarrow> (string, file_stat) pydict \<Rightarrow> string \<Rightarrow> artifact_check" where
  "check_path h t remote_batch relative_path =
     (let p = segs (to_path relative_path); local_exists = repo_is_file t p;
          local_hash = (case repo_content t p of
            None \<Rightarrow> '''' | Some b \<Rightarrow> h (concat (read_blocks (length b) (1024 * 1024) b)))
      in case dict_get remote_batch relative_path (False, 0, '''') of (remote_exists, remote_size, remote_hash) \<Rightarrow>
        \<lparr>ac_path = relative_path, ac_local_exists = local_exists, ac_remote_exists = remote_exists,
         ac_local_sha256 = local_hash, ac_remote_sha256 = remote_hash,
         ac_status =
           (if \<not> local_exists then ''missing_local''
            else if \<not> remote_exists then ''missing_remote''
            else if local_hash \<noteq> remote_hash then ''mismatch''
            else ''match'')\<rparr>)"

definition check_paths ::
  "(string list \<Rightarrow> int \<times> string \<times> json) \<Rightarrow> (string \<Rightarrow> string) \<Rightarrow> repo \<Rightarrow> string list \<Rightarrow> artifact_check list res" where
  "check_paths batch h t relative_paths =
     andthen (remote_stats_batch batch relative_paths) (\<lambda>remote_batch.
     Inr (map (check_path h t (dict_update [] remote_batch)) relative_paths))"

definition check_of_status :: "artifact_status \<Rightarrow> artifact_check" where
  "check_of_status s =
     \<lparr>ac_path = st_path s, ac_local_exists = st_local_exists s, ac_remote_exists = st_remote_exists s,
      ac_local_sha256 = st_local_sha256 s, ac_remote_sha256 = st_remote_sha256 s,
      ac_status = (if st_status s = ''match'' then ''match'' else st_status s)\<rparr>"

definition query_host :: "(string list \<Rightarrow> int \<times> string \<times> json) \<Rightarrow> unit remote" where
  "query_host batch = RemoteHost \<lparr>batch_run = \<lambda>_. batch, rsync_run = \<lambda>_ _ s. (0, '''', s)\<rparr> ()"

definition checks_from_manifest ::
  "(string list \<Rightarrow> int \<times> string \<times> json) \<Rightarrow> rworld \<Rightarrow> string list \<Rightarrow> artifact_check list res" where
  \<comment> \<open>the manifest by its resolved absolute segments\<close>
  "checks_from_manifest batch w manifest_path =
     andthen (below_root w manifest_path) (\<lambda>relative.
     andthen (read_text_strict (tree w) (segs (to_path relative))) (\<lambda>text.
     andthen (case json_loads text of Some data \<Rightarrow> Inr data | None \<Rightarrow> Inl (ValueError ''JSONDecodeError'')) (\<lambda>data.
     andthen (load_manifest (sha w) data relative (repo_fs (tree w))) (\<lambda>artifacts.
     andthen (check_artifacts (sha w) artifacts (repo_fs (tree w)) (query_host batch)) (\<lambda>statuses.
     Inr (map check_of_status statuses))))))"

section \<open>The command\<close>

record ckargs =
  ck_remote :: string
  ck_remote_root :: string
  ck_manifest :: string
  ck_paths :: "string list"
  ck_csvs :: "string list"
  ck_json_output :: string

definition check_dict :: "artifact_check \<Rightarrow> json" where
  "check_dict c = JObj [(''path'', JStr (ac_path c)), (''local_exists'', JBool (ac_local_exists c)),
     (''remote_exists'', JBool (ac_remote_exists c)), (''local_sha256'', JStr (ac_local_sha256 c)),
     (''remote_sha256'', JStr (ac_remote_sha256 c)), (''status'', JStr (ac_status c))]"

definition failed_checks :: "artifact_check list \<Rightarrow> artifact_check list" where
  "failed_checks checks = filter (\<lambda>c. ac_status c \<noteq> ''match'') checks"

definition check_report :: "ckargs \<Rightarrow> string \<Rightarrow> artifact_check list \<Rightarrow> report" where
  "check_report args local_root checks =
     [(''remote'', JStr (ck_remote args)), (''local_root'', JStr local_root),
      (''remote_root'', JStr (ck_remote_root args)), (''total'', JInt (int (length checks))),
      (''checked'', JInt (int (length checks))),
      (''missing'', JInt (int (length (filter (\<lambda>c. ac_status c \<in> {''missing_remote'', ''missing''}) checks)))),
      (''mismatch'', JInt (int (length (filter (\<lambda>c. ac_status c = ''mismatch'') checks)))),
      (''failures'', JInt (int (length (failed_checks checks)))),
      (''status'', JStr (if failed_checks checks = [] then ''pass'' else ''fail'')),
      (''artifacts'', JArr (map check_dict checks))]"

definition error_report :: "ckargs \<Rightarrow> string \<Rightarrow> string \<Rightarrow> report" where
  "error_report args local_root message =
     [(''remote'', JStr (ck_remote args)), (''local_root'', JStr local_root),
      (''remote_root'', JStr (ck_remote_root args)), (''checked'', JInt 0), (''missing'', JInt 0),
      (''mismatch'', JInt 0), (''status'', JStr ''fail''), (''error'', JStr message), (''artifacts'', JArr [])]"

definition write_check_report :: "ckargs \<Rightarrow> report \<Rightarrow> (rworld, unit) act" where
  "write_check_report args report =
     (if ck_json_output args = '''' then act_ret ()
      else act_bind (gets (\<lambda>w. key_of w (ck_json_output args))) (\<lambda>p. write_json_report p report))"

fun print_failures :: "artifact_check list \<Rightarrow> (rworld, unit) act" where
  "print_failures [] = act_ret ()"
| "print_failures (c # cs) =
     act_bind (print_error (''  '' @ ac_path c @ '': '' @ ac_status c)) (\<lambda>_. print_failures cs)"

definition manifest_segs :: "rworld \<Rightarrow> string \<Rightarrow> string list" where
  "manifest_segs w text =
     (let p = to_path text in if is_absolute p then segs p else root_segs w @ segs p)"

definition finish_check :: "ckargs \<Rightarrow> artifact_check list \<Rightarrow> (rworld, int) act" where
  "finish_check args checks =
     act_bind (gets (\<lambda>w. check_report args (abs_text w []) checks)) (\<lambda>report.
     act_bind (write_check_report args report) (\<lambda>_.
     if failed_checks checks \<noteq> []
     then act_bind (print_error ''remote artifact sync check failed:'') (\<lambda>_.
          act_bind (print_failures (failed_checks checks)) (\<lambda>_. act_ret 1))
     else act_bind (print_line (''remote artifact sync check passed: artifacts='' @ show_nat (length checks))) (\<lambda>_.
          act_ret 0)))"

definition check_main ::
  "(string list \<Rightarrow> int \<times> string \<times> json) \<Rightarrow> (py_error \<Rightarrow> string) \<Rightarrow> ckargs \<Rightarrow> (rworld, int) act" where
  "check_main batch render args =
     (if ck_manifest args \<noteq> ''''
      then act_bind (gets (\<lambda>w. checks_from_manifest batch w (manifest_segs w (ck_manifest args)))) (\<lambda>r.
           case r of
             Inl e \<Rightarrow>
               act_bind (gets (\<lambda>w. error_report args (abs_text w []) (render e))) (\<lambda>report.
               act_bind (write_check_report args report) (\<lambda>_.
               act_bind (print_error (''remote artifact sync check failed: '' @ render e)) (\<lambda>_.
               act_ret 1)))
           | Inr checks \<Rightarrow> finish_check args checks)
      else act_bind (gets (\<lambda>w. collect_artifact_paths w (ck_paths args) (ck_csvs args))) (\<lambda>r.
           act_bind (act_lift r) (\<lambda>relative_paths.
           act_bind (gets (\<lambda>w. check_paths batch (sha w) (tree w) relative_paths)) (\<lambda>r2.
           act_bind (act_lift r2) (\<lambda>checks. finish_check args checks)))))"

section \<open>What the exit status says\<close>

definition checks_of ::
  "(string list \<Rightarrow> int \<times> string \<times> json) \<Rightarrow> ckargs \<Rightarrow> rworld \<Rightarrow> artifact_check list res" where
  "checks_of batch args w =
     (if ck_manifest args \<noteq> '''' then checks_from_manifest batch w (manifest_segs w (ck_manifest args))
      else andthen (collect_artifact_paths w (ck_paths args) (ck_csvs args)) (check_paths batch (sha w) (tree w)))"

definition both_sides_agree :: "rworld \<Rightarrow> artifact_check \<Rightarrow> bool" where
  "both_sides_agree w c \<longleftrightarrow>
     (\<exists>b. repo_content (tree w) (segs (to_path (ac_path c))) = Some b \<and> ac_local_sha256 c = sha w b \<and>
        ac_remote_exists c \<and> ac_remote_sha256 c = sha w b)"

lemma check_path_match:
  "ac_status (check_path (sha w) (tree w) d p) = ''match'' \<Longrightarrow> both_sides_agree w (check_path (sha w) (tree w) d p)"
  by (auto simp: check_path_def both_sides_agree_def repo_is_file_def concat_read_blocks Let_def
      split: prod.splits if_splits option.splits)

lemma status_match:
  assumes "st_status (check_artifact (sha w) (repo_fs (tree w)) f a) = ''match''"
  shows "both_sides_agree w (check_of_status (check_artifact (sha w) (repo_fs (tree w)) f a))"
  using assms
  by (auto simp: check_of_status_def both_sides_agree_def check_artifact_def stat_in_tree_eq repo_fs_content
      split: prod.splits if_splits option.splits)

lemma checks_of_match:
  assumes "checks_of batch args w = Inr checks" and "c \<in> set checks" and "ac_status c = ''match''"
  shows "both_sides_agree w c"
proof (cases "ck_manifest args = ''''")
  case True
  then obtain ps d where "c = check_path (sha w) (tree w) d ps"
    using assms by (auto simp: checks_of_def check_paths_def andthen_eq_Inr)
  then show ?thesis using assms(3) check_path_match by blast
next
  case False
  then obtain f a where c: "c = check_of_status (check_artifact (sha w) (repo_fs (tree w)) f a)"
    using assms by (auto simp: checks_of_def checks_from_manifest_def check_artifacts_def andthen_eq_Inr)
  then have "st_status (check_artifact (sha w) (repo_fs (tree w)) f a) = ''match''"
    using assms(3) by (auto simp: check_of_status_def split: if_splits)
  then show ?thesis using c status_match by blast
qed

lemma failed_checks_Nil: "failed_checks checks = [] \<longleftrightarrow> list_all (\<lambda>c. ac_status c = ''match'') checks"
  by (auto simp: failed_checks_def filter_empty_conv list_all_iff)

lemma finish_check_rc:
  "finish_check args checks w = (Inr rc, w') \<Longrightarrow> rc = (if failed_checks checks = [] then 0 else 1)"
  by (auto simp: finish_check_def act_simps split: if_splits)

text \<open>
  C9: The remote verification ends with status 0 exactly when it could compare the artifacts it was
  asked for and found every one of them matching; then each is a local file whose SHA-256 digest is
  the one reported by the other machine.
\<close>

theorem check_exit_zero_iff:
  assumes "check_main batch render args w = (Inr rc, w')"
  shows "(rc = 0 \<longleftrightarrow> (\<exists>checks. checks_of batch args w = Inr checks \<and> list_all (\<lambda>c. ac_status c = ''match'') checks)) \<and>
    (rc = 0 \<longrightarrow> (\<exists>checks. checks_of batch args w = Inr checks \<and> list_all (both_sides_agree w) checks))"
proof -
  have "rc = 0 \<longleftrightarrow> (\<exists>checks. checks_of batch args w = Inr checks \<and> list_all (\<lambda>c. ac_status c = ''match'') checks)"
  proof (cases "checks_of batch args w")
    case (Inl e)
    then show ?thesis using assms
      by (auto simp: check_main_def checks_of_def act_simps andthen_eq_Inl split: if_splits sum.splits)
  next
    case (Inr checks)
    then have "finish_check args checks w = (Inr rc, w')" using assms
      by (auto simp: check_main_def checks_of_def act_simps andthen_eq_Inr split: if_splits sum.splits)
    then show ?thesis using finish_check_rc [of args checks w rc w'] Inr by (simp add: failed_checks_Nil)
  qed
  then show ?thesis using checks_of_match unfolding list_all_iff by blast
qed

definition echo_batch :: "string list \<Rightarrow> int \<times> string \<times> json" where
  "echo_batch ps = (0, '''', JObj [(''docs/a.md'', JObj [(''exists'', JBool True), (''size'', JInt 5), (''sha256'', JStr ''5'')])])"

definition note_args :: ckargs where
  "note_args = \<lparr>ck_remote = ''host'', ck_remote_root = ''/srv'', ck_manifest = '''', ck_paths = [''docs/a.md''],
     ck_csvs = [], ck_json_output = ''''\<rparr>"

lemma note_check_passes: "fst (check_main echo_batch (\<lambda>e. '''') note_args note_world) = Inr 0"
  by code_simp

theorem check_exit_zero_iff_witness:
  "\<exists>w' checks. check_main echo_batch (\<lambda>e. '''') note_args note_world = (Inr 0, w') \<and>
     checks_of echo_batch note_args note_world = Inr checks \<and> list_all (both_sides_agree note_world) checks"
proof -
  obtain w' where "check_main echo_batch (\<lambda>e. '''') note_args note_world = (Inr 0, w')"
    using note_check_passes by (cases "check_main echo_batch (\<lambda>e. '''') note_args note_world") auto
  then show ?thesis using check_exit_zero_iff [of echo_batch "\<lambda>e. ''''" note_args note_world 0 w'] by auto
qed

end
