(* ===== verification/Sync_Laws.thy ===== *)
theory Sync_Laws
  imports Artifact_Sync
begin

text \<open>
  Two laws of tools/release/sync_remote_artifacts.py: the block-wise reading of a file ends after
  finitely many reads and sees the whole file, and the synchronisation of a tree implements an
  abstract specification on maps from paths to contents.
\<close>

section \<open>Reading in blocks\<close>

lemma read_blocks_enough:
  assumes "0 < n" and "length b \<le> k" and "length b \<le> k'"
  shows "read_blocks k n b = read_blocks k' n b"
  using assms
proof (induction k n b arbitrary: k' rule: read_blocks.induct)
  case (1 n b)
  then show ?case by (cases k') auto
next
  case (2 k n b)
  show ?case
  proof (cases "b = []")
    case False
    then obtain m where k': "k' = Suc m" using 2 by (cases k') auto
    have "length (py_drop n b) < length b" using 2 False by (simp add: py_drop_drop)
    then show ?thesis using 2 k' False by simp
  qed (cases k'; simp)
qed

lemma read_blocks_sizes:
  "0 < n \<Longrightarrow> x \<in> set (read_blocks k n b) \<Longrightarrow> x \<noteq> [] \<and> int (length x) \<le> n"
  by (induction k n b rule: read_blocks.induct) (auto simp: py_take_take split: if_splits)

text \<open>
  C35: The loop that feeds a file to SHA-256 ends: reading \<open>length b\<close> times is always enough, more
  reads change nothing, no read before the last one is empty or longer than a block, and the
  blocks make up the whole content, so the digest is that of the file whatever the block size.
\<close>

theorem block_loop_terminates:
  assumes "0 < n" and "length b \<le> k"
  shows "read_blocks k n b = read_blocks (length b) n b \<and> concat (read_blocks (length b) n b) = b \<and>
    list_all (\<lambda>x. x \<noteq> [] \<and> int (length x) \<le> n) (read_blocks k n b)"
  using assms read_blocks_enough [of n b k "length b"] read_blocks_sizes [of n _ k b]
  by (simp add: concat_read_blocks list_all_iff)

theorem block_loop_terminates_witness:
  "read_blocks 9 2 ''abcde'' = [''ab'', ''cd'', ''e''] \<and> concat (read_blocks 5 2 ''abcde'') = ''abcde''"
  using block_loop_terminates [of 2 "''abcde''" 9] by (simp add: py_take_take py_drop_drop eval_nat_numeral)

section \<open>The specification of synchronisation\<close>

text \<open>
  Abstractly a synchronisation publishes a set of files: what the remote side has at these keys
  becomes what the local side has, wherever the local side has something, and nothing else changes.
\<close>

definition publish :: "('k \<rightharpoonup> 'v) \<Rightarrow> ('k \<rightharpoonup> 'v) \<Rightarrow> 'k set \<Rightarrow> ('k \<rightharpoonup> 'v)" where
  "publish src dst keys = dst ++ (src |` keys)"

definition required_keys :: "manifest_artifact list \<Rightarrow> string list set" where
  "required_keys arts = (\<lambda>a. segs (to_path (ma_path a))) ` set (filter ma_required arts)"

text \<open>
  SHA-256 maps all strings to digests of one length, so collisions exist; what the refinement needs
  is that the run meets none: at no path it publishes do the local and the remote file differ
  although they have the same length and the same digest.
\<close>

definition no_collision :: "(string \<Rightarrow> string) \<Rightarrow> fs \<Rightarrow> fs \<Rightarrow> string list set \<Rightarrow> bool" where
  "no_collision sha l t keys \<longleftrightarrow>
     (\<forall>k b b'. k \<in> keys \<and> file_content l k = Some b \<and> file_content t k = Some b' \<and>
        length b = length b' \<and> sha b = sha b' \<longrightarrow> b = b')"

lemma matching_equal:
  assumes "no_collision sha l t keys" and "akey (ma_path a) \<in> keys"
    and "st_status (check_artifact sha l (stat_in_tree sha t) a) = ''match''"
  shows "file_content t (akey (ma_path a)) = file_content l (akey (ma_path a))"
proof -
  obtain b where b: "file_content l (akey (ma_path a)) = Some b" and s: "stat_in_tree sha t (ma_path a) = (True, int (length b), sha b)"
    using assms(3) unfolding check_artifact_match by blast
  from s obtain b' where "file_content t (akey (ma_path a)) = Some b'" and "sha b' = sha b" and "length b' = length b"
    unfolding stat_in_tree_eq by (cases "file_content t (akey (ma_path a))") auto
  then show ?thesis using b assms(1,2) unfolding no_collision_def by metis
qed

text \<open>
  C7: Synchronisation refines publishing: seen as maps from paths to contents, the remote tree
  after a successful run is the old remote tree with the required artifacts of the manifest
  published over it, provided that no published file and the remote file it meets at its path are
  different contents of one length with one digest: such a pair counts as a match and is not copied.
\<close>

theorem sync_refines_publish:
  assumes "sync_from_manifest sha data mp l (RemoteTree t) ''sync'' = Inr (sm, r')"
    and "load_manifest sha data mp l = Inr arts" and "no_collision sha l t (required_keys arts)"
  shows "\<exists>t'. r' = RemoteTree t' \<and>
    file_content t' = publish (file_content l) (file_content t) (required_keys arts)"
proof -
  obtain t' where r': "r' = RemoteTree t'" and copy: "copy_local_artifacts l t
        (map ma_path (filter (needs_sync sha l (stat_in_tree sha t)) arts)) 0
      = Inr (length (filter (needs_sync sha l (stat_in_tree sha t)) arts), t')"
    using assms(1,2) by (elim sync_tree_steps) auto
  have "file_content t' k = publish (file_content l) (file_content t) (required_keys arts) k" for k
  proof (cases "k \<in> akey ` set (map ma_path (filter (needs_sync sha l (stat_in_tree sha t)) arts))")
    case True
    then have "k \<in> required_keys arts" "file_content l k \<noteq> None"
      by (auto simp: required_keys_def needs_sync_def)
    then show ?thesis using copy_local_artifacts_content [OF copy, of k] True
      by (auto simp: publish_def map_add_def)
  next
    case False
    have "file_content l k = None \<or> file_content t k = file_content l k" if in_keys: "k \<in> required_keys arts"
    proof -
      obtain a where a: "a \<in> set arts" "ma_required a" "k = akey (ma_path a)" using in_keys by (auto simp: required_keys_def)
      then have "\<not> needs_sync sha l (stat_in_tree sha t) a" using False by auto
      then show ?thesis using a in_keys matching_equal [OF assms(3), of a] unfolding needs_sync_def by blast
    qed
    then show ?thesis using copy_local_artifacts_content [OF copy, of k] False
      by (auto simp: publish_def map_add_def restrict_map_def split: option.splits)
  qed
  then show ?thesis using r' by blast
qed

theorem sync_refines_publish_witness:
  "\<exists>sm t'. sync_from_manifest demo_sha demo_manifest ''m.json'' demo_local
      (RemoteTree demo_remote :: unit remote) ''sync'' = Inr (sm, RemoteTree t') \<and>
     file_content t' = publish (file_content demo_local) (file_content demo_remote) (required_keys demo_arts)"
proof -
  obtain sm t' where run: "sync_from_manifest demo_sha demo_manifest ''m.json'' demo_local
      (RemoteTree demo_remote :: unit remote) ''sync'' = Inr (sm, RemoteTree t')"
    using demo_sync_ok by blast
  have "no_collision demo_sha demo_local demo_remote (required_keys demo_arts)"
    by (simp add: no_collision_def demo_sha_def)
  then show ?thesis using sync_refines_publish [OF run demo_load] run by auto
qed

end
