(* ===== verification/Step_Laws.thy ===== *)
theory Step_Laws
  imports Release_Steps
begin

text \<open>
  Laws of the steps of the release gates and of the digest of the source tree, both from
  tools/release/run_alpha_release_gate.py: the shape of a step result, that a list of steps is run
  to its end whatever the outcomes, and what the digest of the source tree depends on.
\<close>

section \<open>Step results\<close>

definition ERROR_CODES :: "string list" where
  "ERROR_CODES = [''unknown_error'', ''auth_required'', ''auth_failed'', ''changed_file'', ''manifest_corrupt'',
     ''checksum_mismatch'', ''data_tls_required'', ''data_tls_failed'', ''tls_required'', ''tls_failed'',
     ''remote_sync_failed'', ''path_rejected'', ''protocol_error'', ''io_error'', ''config_error'']"

definition well_typed_step :: "step_result \<Rightarrow> bool" where
  \<comment> \<open>the status, the return code and the error code of a step agree\<close>
  "well_typed_step s \<longleftrightarrow>
     (s_status s = ''pass'' \<and> s_returncode s = 0 \<and> s_error_code s = ''ok'') \<or>
     (s_status s = ''fail'' \<and> s_returncode s \<noteq> 0 \<and> s_error_code s \<in> set ERROR_CODES)"

lemma classify_error_codes: "classify_error_text s \<in> set ERROR_CODES"
  unfolding classify_error_text_def Let_def ERROR_CODES_def by (simp split: if_split)

lemma finished_step_typed: "well_typed_step (finished_step name log p)"
  using classify_error_codes by (auto simp: well_typed_step_def finished_step_def)

lemma run_steps_typed: "run_steps specs log_dir w = (Inr steps, w') \<Longrightarrow> list_all well_typed_step steps"
proof (induction specs log_dir arbitrary: w steps rule: run_steps.induct)
  case (2 name command specs log_dir)
  then obtain s w1 rest where s: "run_step name command log_dir w = (Inr s, w1)"
    and "run_steps specs log_dir w1 = (Inr rest, w')" and "steps = s # rest" by (auto simp: act_simps)
  then show ?case using "2.IH" run_step_ok [OF s] finished_step_typed by auto
qed (auto simp: act_simps)

text \<open>
  C31: Whatever the subprocesses do, the results of a list of steps are well typed: a result is
  either passed with return code 0 and error code \<open>ok\<close>, or failed with another return code and
  one of the fifteen error codes; the results are named as the list has them, and the names
  reported as failed are those of the steps whose return code is not 0.
\<close>

theorem step_results_well_typed:
  assumes "run_steps specs log_dir w = (Inr steps, w')"
  shows "list_all well_typed_step steps \<and> map s_name steps = map fst specs \<and>
    failed_names steps = map s_name (filter (\<lambda>s. s_returncode s \<noteq> 0) steps)"
proof -
  have typed: "list_all well_typed_step steps" using run_steps_typed assms by blast
  then have "filter (\<lambda>s. \<not> passed_step s) steps = filter (\<lambda>s. s_returncode s \<noteq> 0) steps"
    by (intro filter_cong) (auto simp: well_typed_step_def passed_step_def list_all_iff)
  then show ?thesis using typed run_steps_ok [OF assms] by (auto simp: failed_names_def)
qed

section \<open>Running to the end\<close>

definition log_usable :: "string list \<Rightarrow> repo \<Rightarrow> bool" where
  \<comment> \<open>the log of a step can be written: no file stands above it and no directory in its place\<close>
  "log_usable log_dir t \<longleftrightarrow>
     (\<forall>name. \<not> file_above t (log_dir @ [name @ ''.log'']) \<and> \<not> repo_is_dir t (log_dir @ [name @ ''.log'']))"

lemma take_log_dir: "n < Suc (length d) \<Longrightarrow> take n (d @ [x]) = take n d"
  by (simp add: less_Suc_eq_le)

lemma repo_is_dir_keys:
  "repo_is_dir t p \<longleftrightarrow> p = [] \<or> (\<exists>k \<in> fst ` set t. length p < length k \<and> take (length p) k = p)"
  by (auto simp: repo_is_dir_def list_ex_iff)

lemma log_usable_write:
  assumes "log_usable log_dir t"
  shows "log_usable log_dir (dict_set (log_dir @ [name @ ''.log'']) v t)"
  unfolding log_usable_def
proof (intro allI conjI)
  fix other
  let ?p = "log_dir @ [name @ ''.log'']" and ?q = "log_dir @ [other @ ''.log'']"
  have "repo_is_file (dict_set ?p v t) (take n ?q) \<longleftrightarrow> repo_is_file t (take n ?q)" if "n < length ?q" for n
  proof -
    have "length (take n ?q) \<noteq> length ?p" using that by simp
    then have "take n ?q \<noteq> ?p" by metis
    then show ?thesis by (simp add: repo_is_file_def repo_content_def)
  qed
  then show "\<not> file_above (dict_set ?p v t) ?q"
    using assms unfolding log_usable_def file_above_def list_ex_iff by (metis atLeastLessThan_iff atLeastLessThan_upt set_upt)
  have keys: "fst ` set (dict_set ?p v t) = insert ?p (fst ` set t)" by simp
  have "\<not> repo_is_dir t ?q" using assms unfolding log_usable_def by blast
  then show "\<not> repo_is_dir (dict_set ?p v t) ?q" unfolding repo_is_dir_keys keys by simp
qed

lemma run_step_returns:
  assumes "procs w = Some p # rest" and "log_usable log_dir (p_effect p (tree w))"
  shows "\<exists>s w'. run_step name command log_dir w = (Inr s, w') \<and> procs w' = rest \<and>
    commands w' = commands w @ [command] \<and> log_usable log_dir (tree w')"
  using assms log_usable_write
  by (auto simp: run_step_def act_bind_def act_ret_def run_process_def write_file_def gets_def log_usable_def Let_def)

text \<open>
  C28: A list of steps is always run to its end: when every program can be started and none of
  them makes the log directory unusable, every command of the list is started, in order and
  whatever the earlier ones returned, and there is one result for each.
\<close>

theorem run_steps_complete:
  assumes "procs w = map Some ps @ rest" and "length ps = length specs" and "log_usable log_dir (tree w)"
    and "\<And>p t. p \<in> set ps \<Longrightarrow> log_usable log_dir t \<Longrightarrow> log_usable log_dir (p_effect p t)"
  shows "\<exists>steps w'. run_steps specs log_dir w = (Inr steps, w') \<and> length steps = length specs \<and>
    commands w' = commands w @ map snd specs \<and> procs w' = rest"
  using assms
proof (induction specs log_dir arbitrary: w ps rule: run_steps.induct)
  case (1 log_dir)
  then show ?case by (simp add: act_ret_def)
next
  case (2 name command specs log_dir)
  then obtain p qs where ps: "ps = p # qs" by (cases ps) auto
  have next_process: "procs w = Some p # map Some qs @ rest" using 2 ps by simp
  have "log_usable log_dir (p_effect p (tree w))" using 2 ps by simp
  then obtain s w1 where s: "run_step name command log_dir w = (Inr s, w1)" "procs w1 = map Some qs @ rest"
     "commands w1 = commands w @ [command]" "log_usable log_dir (tree w1)"
    using run_step_returns [OF next_process] by blast
  then obtain steps w' where "run_steps specs log_dir w1 = (Inr steps, w')" "length steps = length specs"
     "commands w' = commands w1 @ map snd specs" "procs w' = rest"
    using "2.IH" [OF s(2) _ s(4)] 2 ps by auto
  then show ?case using s by (auto simp: act_bind_def act_ret_def)
qed

section \<open>The digest of the source tree\<close>

lemma keys_dict_set:
  "map fst (dict_set k v d) = (if k \<in> fst ` set d then map fst d else map fst d @ [k])"
  by (induction k v d rule: dict_set.induct) auto

lemma hash_input_filter:
  "distinct (map fst t) \<Longrightarrow> hash_input t = concat (map (hash_item t) (sort (filter should_hash_path (map fst t))))"
proof -
  have "filter (should_hash_file t) (sort (map fst t)) = filter should_hash_path (sort (map fst t))"
    by (intro filter_cong) (auto simp: should_hash_file_def repo_is_file_def repo_content_def dest: weak_map_of_SomeI)
  then show ?thesis by (simp add: hash_input_def filter_sort)
qed

lemma hash_item_other: "q \<noteq> p \<Longrightarrow> hash_item (dict_set p v t) q = hash_item t q"
  by (simp add: hash_item_def repo_content_def)

lemma hash_item_here: "hash_item (dict_set p (c, m) t) p = join ''/'' p @ [CHR 0x00] @ c"
  by (simp add: hash_item_def repo_content_def concat_read_blocks Let_def)

lemma hash_input_excluded:
  assumes "distinct (map fst t)" and "\<not> should_hash_path p"
  shows "hash_input (dict_set p v t) = hash_input t"
proof -
  have "filter should_hash_path (map fst (dict_set p v t)) = filter should_hash_path (map fst t)"
    using assms(2) by (simp add: keys_dict_set)
  moreover have "hash_item (dict_set p v t) q = hash_item t q" if "q \<in> set (sort (filter should_hash_path (map fst t)))" for q
    using that assms(2) by (intro hash_item_other) auto
  ultimately show ?thesis
    using assms(1) by (simp only: hash_input_filter distinct_dict_set cong: map_cong)
qed

lemma hash_input_changed:
  assumes "distinct (map fst t)" and "should_hash_path p" and "repo_content t p = Some b" and "c \<noteq> b"
  shows "hash_input (dict_set p (c, m) t) \<noteq> hash_input t"
proof -
  let ?t = "dict_set p (c, m) t" and ?ks = "sort (filter should_hash_path (map fst t))"
  have listed: "p \<in> fst ` set t" using assms(3) by (force simp: repo_content_def dest: map_of_SomeD)
  then have keys: "map fst ?t = map fst t" by (simp add: keys_dict_set)
  have once: "p \<in> set ?ks" "distinct ?ks" using listed assms by simp_all
  obtain xs ys where ks: "?ks = xs @ p # ys" using split_list [OF once(1)] by blast
  have "p \<notin> set xs" "p \<notin> set ys" using once(2) unfolding ks by simp_all
  then have same: "map (hash_item ?t) xs = map (hash_item t) xs" "map (hash_item ?t) ys = map (hash_item t) ys"
    by (auto intro!: hash_item_other)
  have "hash_item t p = join ''/'' p @ [CHR 0x00] @ b"
    using assms(3) by (simp add: hash_item_def concat_read_blocks Let_def)
  then show ?thesis
    using assms(1,4) hash_item_here [of p c m t]
    by (simp add: hash_input_filter distinct_dict_set keys ks same del: map_eq_conv)
qed

text \<open>
  C30: The digest of the source tree is taken over the files that are not excluded, and over all of
  them: storing a file at an excluded path never changes what is digested, while replacing the
  content of a single digested file always does.
\<close>

theorem source_hash_tracks_sources:
  assumes "distinct (map fst t)"
  shows "(\<not> should_hash_path p \<longrightarrow> hash_input (dict_set p v t) = hash_input t) \<and>
    (should_hash_path p \<and> repo_content t p = Some b \<and> c \<noteq> b \<longrightarrow> hash_input (dict_set p (c, m) t) \<noteq> hash_input t)"
  using hash_input_excluded hash_input_changed assms by blast

text \<open>
  Nothing marks the end of a file's content in what is digested. The tree \<open>swallow p q t\<close> has no
  file \<open>q\<close> any more; its file \<open>p\<close> goes on with the path of \<open>q\<close>, a zero byte and what \<open>q\<close> held.
\<close>

definition swallow :: "string list \<Rightarrow> string list \<Rightarrow> repo \<Rightarrow> repo" where
  "swallow p q t =
     (case (map_of t p, map_of t q) of
        (Some (a, m), Some (b, _)) \<Rightarrow>
          dict_set p (a @ join ''/'' q @ [CHR 0x00] @ b, m) (filter (\<lambda>e. fst e \<noteq> q) t)
      | _ \<Rightarrow> t)"

lemma sorted_adjacent:
  fixes p q :: "'a :: linorder"
  assumes "sorted ks" "distinct ks" "p \<in> set ks" "q \<in> set ks" "p < q"
    and gap: "\<And>r. r \<in> set ks \<Longrightarrow> \<not> (p < r \<and> r < q)"
  obtains xs ys where "ks = xs @ p # q # ys"
proof -
  obtain xs zs where ks: "ks = xs @ p # zs" using split_list [OF assms(3)] by blast
  have "q \<in> set zs" using assms(1,4,5) unfolding ks by (auto simp: sorted_append)
  then obtain r ys where zs: "zs = r # ys" by (cases zs) auto
  have "p < r" "r \<le> q" using assms(1,2) \<open>q \<in> set zs\<close> unfolding ks zs by (auto simp: sorted_append order.strict_iff_order)
  moreover have "\<not> (p < r \<and> r < q)" by (rule gap) (simp add: ks zs)
  ultimately have "r = q" by simp
  then show ?thesis using that ks zs by blast
qed

lemma sort_without:
  fixes q :: "'a :: linorder"
  shows "sort (filter (\<lambda>k. k \<noteq> q) ks) = filter (\<lambda>k. k \<noteq> q) (sort ks)"
  by (simp add: filter_sort)

lemma hash_input_swallow:
  assumes once: "distinct (map fst t)" and digested: "should_hash_path p" "should_hash_path q" and order: "p < q"
    and files: "map_of t p = Some (a, m)" "map_of t q = Some (b, n)"
    and gap: "\<And>r. r \<in> fst ` set t \<Longrightarrow> should_hash_path r \<Longrightarrow> \<not> (p < r \<and> r < q)"
  shows "hash_input (swallow p q t) = hash_input t"
proof -
  let ?t = "swallow p q t" and ?keys = "filter should_hash_path (map fst t)"
  have t: "?t = dict_set p (a @ join ''/'' q @ [CHR 0x00] @ b, m) (filter (\<lambda>e. fst e \<noteq> q) t)"
    using files by (simp add: swallow_def)
  have listed: "p \<in> set ?keys" "q \<in> set ?keys" "p \<noteq> q"
    using files digested order by (auto dest!: map_of_SomeD intro: rev_image_eqI)
  have "map fst ?t = filter (\<lambda>k. k \<noteq> q) (map fst t)"
    using listed by (auto simp: t keys_dict_set filter_map comp_def image_iff)
  then have keys: "sort (filter should_hash_path (map fst ?t)) = filter (\<lambda>k. k \<noteq> q) (sort ?keys)"
    and once': "distinct (map fst ?t)"
    using once by (simp_all add: sort_without [symmetric] filter_filter conj_commute del: filter_sort)
  obtain xs ys where ks: "sort ?keys = xs @ p # q # ys"
    using sorted_adjacent [of "sort ?keys" p q] listed once order gap by auto
  have "distinct (xs @ p # q # ys)" using once unfolding ks [symmetric] by simp
  then have parts: "p \<notin> set xs" "q \<notin> set xs" "p \<notin> set ys" "q \<notin> set ys" by auto
  then have "filter (\<lambda>k. k \<noteq> q) xs = xs" "filter (\<lambda>k. k \<noteq> q) ys = ys" by (auto simp: filter_id_conv)
  then have out: "filter (\<lambda>k. k \<noteq> q) (sort ?keys) = xs @ p # ys" using listed(3) unfolding ks by simp
  have "map_of (filter (\<lambda>e. fst e \<noteq> q) t) r = map_of t r" if "r \<noteq> q" for r
    using that by (induction t) auto
  then have other: "hash_item ?t r = hash_item t r" if "r \<noteq> p" "r \<noteq> q" for r
    using that by (simp add: t hash_item_def repo_content_def)
  then have same: "map (hash_item ?t) xs = map (hash_item t) xs" "map (hash_item ?t) ys = map (hash_item t) ys"
    using parts by (auto intro!: other)
  have "hash_item ?t p = hash_item t p @ hash_item t q"
    using files by (simp add: t hash_item_here) (simp add: hash_item_def repo_content_def concat_read_blocks Let_def)
  moreover have "hash_input ?t = concat (map (hash_item ?t) (xs @ p # ys))"
    by (simp only: hash_input_filter [OF once'] keys out)
  moreover have "hash_input t = concat (map (hash_item t) (xs @ p # q # ys))"
    by (simp only: hash_input_filter [OF once] ks)
  ultimately show ?thesis by (simp add: same del: map_eq_conv)
qed

text \<open>
  C38: What is digested does not determine the tree. In every tree, for every two digested files
  that follow each other in the digest's order, letting the first one swallow the second, its path
  and a zero byte before it, leaves the source tree hash as it was, whatever the digest is, although
  the second file is gone and the first one has grown.
\<close>

theorem source_hash_ambiguous:
  assumes "distinct (map fst (tree w))" and "should_hash_path p" and "should_hash_path q" and "p < q"
    and "map_of (tree w) p = Some (a, m)" and "map_of (tree w) q = Some (b, n)"
    and "\<forall>r \<in> fst ` set (tree w). should_hash_path r \<longrightarrow> \<not> (p < r \<and> r < q)"
  shows "source_tree_hash (w\<lparr>tree := swallow p q (tree w)\<rparr>) = source_tree_hash w \<and>
    map_of (swallow p q (tree w)) q = None \<and>
    map_of (swallow p q (tree w)) p = Some (a @ join ''/'' q @ [CHR 0x00] @ b, m)"
proof -
  have "hash_input (swallow p q (tree w)) = hash_input (tree w)"
    using assms by (intro hash_input_swallow) auto
  moreover have "map_of (filter (\<lambda>e. fst e \<noteq> q) (tree w)) q = None"
    by (auto simp: map_of_eq_None_iff)
  ultimately show ?thesis using assms(4,5,6) by (simp add: source_tree_hash_def swallow_def)
qed

section \<open>Instances\<close>

definition two_steps :: "(string \<times> string list) list" where
  "two_steps = [(''build'', [''cmake'', ''--build'', ''b'']), (''test'', [''ctest''])]"

definition ended :: "int \<Rightarrow> string \<Rightarrow> proc" where
  "ended rc out = \<lparr>p_rc = rc, p_out = out, p_err = '''', p_elapsed = float_zero, p_effect = (\<lambda>t. t)\<rparr>"

definition step_world :: rworld where
  "step_world = \<lparr>root_dir = ''/'', tree = [], ticks = 0, procs = map Some [ended 1 ''connect failed'', ended 0 ''''],
     process_env = (\<lambda>_. None), sshpass_installed = False, sha = (\<lambda>s. ''h''),
     utc_at = (\<lambda>i. ''T''), compact_at = (\<lambda>i. ''C''), interpreter = ''py'', pid = 7, lock_taken = False,
     commands = [], printed = [], printed_err = []\<rparr>"

lemma step_world_usable: "log_usable [''l''] (tree step_world)"
  by (auto simp: log_usable_def step_world_def file_above_def repo_is_dir_def repo_is_file_def repo_content_def)

theorem run_steps_complete_witness:
  "\<exists>steps w'. run_steps two_steps [''l''] step_world = (Inr steps, w') \<and> length steps = 2 \<and>
     commands w' = [[''cmake'', ''--build'', ''b''], [''ctest'']] \<and> procs w' = []"
proof -
  have "procs step_world = map Some [ended 1 ''connect failed'', ended 0 ''''] @ []" "commands step_world = []"
    and specs: "length [ended 1 ''connect failed'', ended 0 ''''] = length two_steps" "length two_steps = 2"
      "map snd two_steps = [[''cmake'', ''--build'', ''b''], [''ctest'']]"
    and calm: "\<And>p t. p \<in> set [ended 1 ''connect failed'', ended 0 ''''] \<Longrightarrow> p_effect p t = t"
    by (auto simp: step_world_def two_steps_def ended_def)
  then show ?thesis
    using run_steps_complete [of step_world "[ended 1 ''connect failed'', ended 0 '''']" "[]" two_steps "[''l'']"]
      step_world_usable by (metis append_Nil)
qed

lemma step_world_run:
  "case run_steps two_steps [''l''] step_world of (r, w) \<Rightarrow>
     r = Inr [\<lparr>s_name = ''build'', s_status = ''fail'', s_returncode = 1, s_log = ''/l/build.log'', s_elapsed = float_zero,
        s_error_code = ''io_error''\<rparr>,
      \<lparr>s_name = ''test'', s_status = ''pass'', s_returncode = 0, s_log = ''/l/test.log'', s_elapsed = float_zero,
        s_error_code = ''ok''\<rparr>]"
  by code_simp

theorem step_results_well_typed_witness:
  "\<exists>steps w'. run_steps two_steps [''l''] step_world = (Inr steps, w') \<and> list_all well_typed_step steps \<and>
     failed_names steps = [''build'']"
proof -
  obtain steps w' where run: "run_steps two_steps [''l''] step_world = (Inr steps, w')"
    and "map s_name (filter (\<lambda>s. s_returncode s \<noteq> 0) steps) = [''build'']"
    using step_world_run by (cases "run_steps two_steps [''l''] step_world") auto
  then show ?thesis using step_results_well_typed [OF run] by auto
qed

theorem source_hash_tracks_sources_witness:
  "hash_input (dict_set [''build'', ''x.py''] (''n'', 1) [([''a.py''], (''x'', 0))]) = hash_input [([''a.py''], (''x'', 0))] \<and>
   hash_input (dict_set [''a.py''] (''y'', 1) [([''a.py''], (''x'', 0))]) \<noteq> hash_input [([''a.py''], (''x'', 0))]"
proof -
  have "\<not> should_hash_path [''build'', ''x.py'']" "should_hash_path [''a.py'']" by code_simp+
  then show ?thesis
    using source_hash_tracks_sources [of "[([''a.py''], (''x'', 0))]" "[''build'', ''x.py'']" "(''n'', 1)"]
      source_hash_tracks_sources [of "[([''a.py''], (''x'', 0))]" "[''a.py'']" _ "''x''" "''y''" 1]
    by (simp add: repo_content_def)
qed

theorem source_hash_ambiguous_witness:
  "source_tree_hash (step_world\<lparr>sha := (\<lambda>s. s), tree := [([''a.py''], (''xb.py'' @ [CHR 0x00] @ ''y'', 0))]\<rparr>) =
     source_tree_hash (step_world\<lparr>sha := (\<lambda>s. s), tree := [([''a.py''], (''x'', 0)), ([''b.py''], (''y'', 0))]\<rparr>)"
proof -
  let ?w = "step_world\<lparr>sha := (\<lambda>s. s), tree := [([''a.py''], (''x'', 0)), ([''b.py''], (''y'', 0))]\<rparr>"
  have paths: "should_hash_path [''a.py'']" "should_hash_path [''b.py'']" by code_simp+
  have less: "[''a.py''] < [''b.py'']" by code_simp
  have "source_tree_hash (?w\<lparr>tree := swallow [''a.py''] [''b.py''] (tree ?w)\<rparr>) = source_tree_hash ?w"
    using source_hash_ambiguous [of ?w "[''a.py'']" "[''b.py'']" "''x''" 0 "''y''" 0] paths less by auto
  then show ?thesis by (simp add: swallow_def)
qed

end
