(* ===== verification/Gate_Laws.thy ===== *)
theory Gate_Laws
  imports Release_Candidates
begin

text \<open>
  Laws of the release gates beyond the meaning of the alpha gate's exit status: mutual exclusion by
  the lock file, what happens when the nested matrix leaves no result, how a gate finds the reports
  of the gates it starts, and what the exit status of the beta gate and of the alpha release
  candidate says.
\<close>

section \<open>Mutual exclusion\<close>

definition idle_but :: "string list \<Rightarrow> rworld \<Rightarrow> rworld \<Rightarrow> bool" where
  \<comment> \<open>nothing was started or printed, and no file but the one named has changed\<close>
  "idle_but p w w' \<longleftrightarrow>
     commands w' = commands w \<and> procs w' = procs w \<and> printed w' = printed w \<and> printed_err w' = printed_err w \<and>
     (\<forall>q. q \<noteq> p \<longrightarrow> repo_content (tree w') q = repo_content (tree w) q)"

lemma acquire_lock_taken:
  assumes "lock_taken w" and "acquire_lock kind name dir w = (r, w')"
  shows "isl r \<and> idle_but (dir @ [name]) w w'"
  using assms
  by (auto simp: acquire_lock_def act_bind_def make_dirs_def write_file_def gets_def act_raise_def idle_but_def
      repo_content_def Let_def split: if_splits)

lemma refused_bind: "m w = (r, w') \<Longrightarrow> isl r \<Longrightarrow> \<exists>e. act_bind m f w = (Inl e, w')"
  by (cases r) (auto simp: act_bind_def)

lemma start_gate_taken:
  assumes "lock_taken w"
  shows "\<exists>e w'. start_gate args w = (Inl e, w') \<and> idle_but (key_of w (ga_results_dir args) @ [''.alpha-release-gate.lock'']) w w'"
proof (cases "make_dirs (key_of w (ga_results_dir args)) w")
  case (Pair r w1)
  let ?dir = "key_of w (ga_results_dir args)"
  have same: "w1 = w" using Pair by (auto simp: make_dirs_def split: if_splits)
  obtain r2 w2 where lock: "acquire_gate_lock ?dir w = (r2, w2)" by (cases "acquire_gate_lock ?dir w")
  then have "isl r2" "idle_but (?dir @ [''.alpha-release-gate.lock'']) w w2"
    using acquire_lock_taken [OF assms] unfolding acquire_gate_lock_def by blast+
  then show ?thesis using Pair lock same
    by (cases r; cases r2) (auto simp: start_gate_def act_bind_def gets_def act_raise_def idle_but_def)
qed

lemma start_beta_gate_taken:
  assumes "lock_taken w"
  shows "\<exists>e w'. start_beta_gate args w = (Inl e, w') \<and> idle_but (key_of w (b_results_dir args) @ [''.beta-release-gate.lock'']) w w'"
proof (cases "make_dirs (key_of w (b_results_dir args)) w")
  case (Pair r w1)
  let ?dir = "key_of w (b_results_dir args)"
  have same: "w1 = w" using Pair by (auto simp: make_dirs_def split: if_splits)
  obtain r2 w2 where lock: "acquire_beta_lock ?dir w = (r2, w2)" by (cases "acquire_beta_lock ?dir w")
  then have "isl r2" "idle_but (?dir @ [''.beta-release-gate.lock'']) w w2"
    using acquire_lock_taken [OF assms] unfolding acquire_beta_lock_def by blast+
  then show ?thesis using Pair lock same
    by (cases r; cases r2) (auto simp: start_beta_gate_def act_bind_def gets_def act_raise_def idle_but_def)
qed

text \<open>
  C23: While another process holds the lock, a release gate does nothing: the alpha gate and the
  beta gate end with an exception, having started no subprocess, printed nothing and changed no
  file but the lock file of their results directory.
\<close>

theorem gate_lock_excludes:
  assumes "lock_taken w"
  shows "(\<exists>e w'. gate_main args w = (Inl e, w') \<and>
      idle_but (key_of w (ga_results_dir args) @ [''.alpha-release-gate.lock'']) w w') \<and>
    (\<exists>e w'. beta_main bargs w = (Inl e, w') \<and>
      idle_but (key_of w (b_results_dir bargs) @ [''.beta-release-gate.lock'']) w w')"
  using start_gate_taken [OF assms, of args] start_beta_gate_taken [OF assms, of bargs]
  unfolding gate_main_def beta_main_def act_bind_def by fastforce

section \<open>A matrix without results\<close>

text \<open>
  C36: When the nested matrix of a full gate ends without leaving a summary file (it failed
  early, say), the gate does not record a missing matrix: the empty path it passes on names the
  current directory, and the gate ends with the exception for opening a directory, before any
  report is written.
\<close>

theorem matrix_stage_no_summary:
  assumes "run_step ''private_baseline_matrix'' (matrix_command w args) (gp_log gp) w = (Inr step, w1)"
    and "snd (find_latest_matrix_csvs (tree w1) (gp_results gp)
           (glob_files (tree w) (gp_results gp) [''*_gridftp-private-matrix-*.csv''])) = None"
    and "repo_content (tree w1) [] = None"
  shows "\<exists>m. matrix_stage args gp w = (Inl (IsADirectoryError m), w1)"
proof -
  have "segs (to_path '''') = []" "\<not> is_absolute (to_path '''')" by code_simp+
  then have "key_of w1 '''' = []" by (simp add: key_of_def Let_def)
  moreover have "parse_matrix_summary (tree w1) [] = Inl (IsADirectoryError (join ''/'' []))"
    using assms(3) by (simp add: parse_matrix_summary_def repo_exists_def repo_is_dir_def repo_read_def)
  ultimately show ?thesis
    using assms(1,2)
    by (auto simp: matrix_stage_def act_bind_def gets_def act_lift_def opt_text_def split: prod.splits)
qed

lemma demo_matrix_run:
  "case run_step ''private_baseline_matrix'' (matrix_command demo_world demo_gargs)
      (gp_log (gate_paths_of [''r''] ''C'')) demo_world of
     (r, w) \<Rightarrow> \<not> isl r \<and> map fst (tree w) = [[''r'', ''C_alpha-release-gate'', ''private_baseline_matrix.log'']]"
  by code_simp

theorem matrix_stage_no_summary_witness:
  "\<exists>m w'. matrix_stage demo_gargs (gate_paths_of [''r''] ''C'') demo_world = (Inl (IsADirectoryError m), w')"
proof -
  let ?gp = "gate_paths_of [''r''] ''C''"
  obtain r w1 where ran: "run_step ''private_baseline_matrix'' (matrix_command demo_world demo_gargs) (gp_log ?gp) demo_world = (r, w1)"
    by (cases "run_step ''private_baseline_matrix'' (matrix_command demo_world demo_gargs) (gp_log ?gp) demo_world")
  then have "\<not> isl r" and keys: "map fst (tree w1) = [[''r'', ''C_alpha-release-gate'', ''private_baseline_matrix.log'']]"
    using demo_matrix_run by simp_all
  then obtain step where run: "run_step ''private_baseline_matrix'' (matrix_command demo_world demo_gargs) (gp_log ?gp) demo_world = (Inr step, w1)"
    using ran by (cases r) auto
  obtain v where tree: "tree w1 = [([''r'', ''C_alpha-release-gate'', ''private_baseline_matrix.log''], v)]"
    using keys by (cases "tree w1") auto
  show ?thesis
    using matrix_stage_no_summary [OF run]
    by (auto simp: tree find_latest_matrix_csvs_def glob_files_def gate_paths_of_def repo_content_def Let_def)
qed

section \<open>Announced reports\<close>

definition output_text :: "string list \<Rightarrow> string" where
  \<comment> \<open>the standard output of a process that printed these lines\<close>
  "output_text lines = concat (map (\<lambda>l. l @ [newline]) lines)"

lemma split_on_output:
  "list_all (\<lambda>l. newline \<notin> set l) lines \<Longrightarrow> split_on newline (output_text lines @ s) = lines @ split_on newline s"
  by (induction lines) (simp_all add: output_text_def split_on_append)


lemma log_lines:
  assumes "newline \<notin> set (join '' '' command)" and "p_out p = output_text lines"
    and "list_all (\<lambda>l. newline \<notin> set l) lines"
  shows "split_on newline (step_log_text_of command p) =
    (''$ '' @ join '' '' command) # [] # lines @ split_on newline (p_err p)"
proof -
  have "newline \<notin> set (''$ '' @ join '' '' command)" using assms(1) by simp
  then have "split_on newline ((''$ '' @ join '' '' command) @ newline # newline # p_out p @ p_err p) =
      (''$ '' @ join '' '' command) # [] # split_on newline (p_out p @ p_err p)"
    using split_on_append by simp
  then show ?thesis using split_on_output [OF assms(3)] assms(2) by (simp add: step_log_text_of_def)
qed

lemma abs_text_printed: "abs_text (w\<lparr>printed := x\<rparr>) p = abs_text w p"
proof -
  have "root_segs (w\<lparr>printed := x\<rparr>) = root_segs w" "root_dir (w\<lparr>printed := x\<rparr>) = root_dir w"
    by (simp_all add: root_segs_def)
  then show ?thesis unfolding abs_text_def by presburger
qed

definition plain_path :: "string \<Rightarrow> bool" where
  "plain_path s \<longleftrightarrow> s \<noteq> '''' \<and> newline \<notin> set s \<and> py_strip s = s"

text \<open>
  C29: A gate finds the reports of the gate it starts: from the log of a step whose process is a
  finished full alpha gate, the paths that gate announced are read back exactly, whatever the
  process wrote to its standard error.
\<close>

theorem announced_paths_found:
  assumes "announce_gate True gp passed w = (Inr (), w')" and "printed w = []"
    and "p_out p = output_text (printed w')" and "newline \<notin> set (join '' '' command)"
    and "plain_path (abs_text w (gp_report gp))" and "plain_path (abs_text w (gp_json gp))"
    and "plain_path (abs_text w (gp_manifest gp))"
  shows "parse_alpha_gate_paths (step_log_text_of command p) =
    [(''alpha_release_gate_report'', abs_text w (gp_report gp)), (''alpha_release_gate_json'', abs_text w (gp_json gp)),
     (''alpha_artifact_manifest'', abs_text w (gp_manifest gp))]"
proof -
  have lines: "printed w' = [''alpha_release_gate_report='' @ abs_text w (gp_report gp),
      ''alpha_release_gate_json='' @ abs_text w (gp_json gp), ''alpha_artifact_manifest='' @ abs_text w (gp_manifest gp),
      if passed then ''result=pass'' else ''result=fail'']"
    using assms(1,2)
    by (auto simp: announce_gate_def announce_def act_simps print_line_def act_when_def abs_text_printed)
  then have "list_all (\<lambda>l. newline \<notin> set l) (printed w')" using assms(5-7) by (simp add: plain_path_def)
  then show ?thesis
    using log_lines [OF assms(4,3)] lines assms(5-7)
    by (simp add: parse_alpha_gate_paths_def parse_output_paths_def output_value_def output_line_def plain_path_def)
qed

definition announcer :: proc where
  "announcer = \<lparr>p_rc = 0, p_out = output_text [''alpha_release_gate_report=/docs/release/ALPHA_RELEASE_GATE.md'',
       ''alpha_release_gate_json=/r/C_alpha-release-gate.json'', ''alpha_artifact_manifest=/r/C_alpha-artifacts.json'',
       ''result=pass''],
     p_err = ''warning'', p_elapsed = float_zero, p_effect = (\<lambda>t. t)\<rparr>"

theorem announced_paths_found_witness:
  "parse_alpha_gate_paths (step_log_text_of [''py'', ''run_alpha_release_gate.py'', ''--full''] announcer) =
    [(''alpha_release_gate_report'', ''/docs/release/ALPHA_RELEASE_GATE.md''),
     (''alpha_release_gate_json'', ''/r/C_alpha-release-gate.json''),
     (''alpha_artifact_manifest'', ''/r/C_alpha-artifacts.json'')]"
proof -
  let ?gp = "gate_paths_of [''r''] ''C''" and ?command = "[''py'', ''run_alpha_release_gate.py'', ''--full'']"
  have texts: "abs_text demo_world (gp_report ?gp) = ''/docs/release/ALPHA_RELEASE_GATE.md''"
      "abs_text demo_world (gp_json ?gp) = ''/r/C_alpha-release-gate.json''"
      "abs_text demo_world (gp_manifest ?gp) = ''/r/C_alpha-artifacts.json''"
    and plain: "plain_path (abs_text demo_world (gp_report ?gp))" "plain_path (abs_text demo_world (gp_json ?gp))"
      "plain_path (abs_text demo_world (gp_manifest ?gp))" "newline \<notin> set (join '' '' ?command)"
    by code_simp+
  obtain w' where run: "announce_gate True ?gp True demo_world = (Inr (), w')"
    and said: "p_out announcer = output_text (printed w')"
    using texts by (simp add: announce_gate_def announce_def act_bind_def gets_def print_line_def act_when_def
        abs_text_printed announcer_def) (simp add: demo_world_def)
  show ?thesis
    using announced_paths_found [OF run _ said plain(4) plain(1-3)] texts by (simp add: demo_world_def)
qed

section \<open>The beta gate\<close>

text \<open>\<open>backed tr steps\<close>: when the steps all pass, every subprocess of the trace returned 0.\<close>

definition backed :: "(string list \<times> proc) list \<Rightarrow> step_result list \<Rightarrow> bool" where
  "backed tr steps \<longleftrightarrow> (list_all passed_step steps \<longrightarrow> list_all (\<lambda>cp. p_rc (snd cp) = 0) tr)"

definition stage_backed :: "rworld \<Rightarrow> rworld \<Rightarrow> step_result list \<Rightarrow> bool" where
  "stage_backed w w' steps \<longleftrightarrow> (\<exists>tr. ran w tr w' \<and> backed tr steps)"

lemma stage_backed_refl [intro]: "stage_backed w w []"
  unfolding stage_backed_def backed_def by (intro exI [of _ "[]"]) auto

lemma stage_backed_trans [trans]:
  assumes "stage_backed w w1 xs" and "stage_backed w1 w2 ys"
  shows "stage_backed w w2 (xs @ ys)"
proof -
  obtain t u where "ran w t w1" "backed t xs" "ran w1 u w2" "backed u ys" using assms unfolding stage_backed_def by blast
  then have "ran w (t @ u) w2" "backed (t @ u) (xs @ ys)" by (auto simp: backed_def intro: ran_trans)
  then show ?thesis unfolding stage_backed_def by blast
qed

lemma run_step_backed: "run_step name command log_dir w = (Inr s, w') \<Longrightarrow> stage_backed w w' [s]"
  unfolding stage_backed_def by (drule run_step_ok) (fastforce simp: backed_def)

lemma run_steps_backed:
  assumes "run_steps specs log_dir w = (Inr steps, w')"
  shows "stage_backed w w' steps"
proof -
  obtain tr where "ran w tr w'" "list_all2 (\<lambda>s cp. passed_step s \<longleftrightarrow> p_rc (snd cp) = 0) steps tr"
    using run_steps_ok [OF assms] by blast
  moreover from this(2) have "backed tr steps" unfolding backed_def by (induction rule: list_all2_induct) auto
  ultimately show ?thesis unfolding stage_backed_def by blast
qed

lemma quiet_backed: "ran w [] w' \<Longrightarrow> stage_backed w w' [s]"
  unfolding stage_backed_def backed_def by (intro exI [of _ "[]"]) auto

lemma run_remote_steps_backed:
  "run_remote_steps specs log_dir remote w = (Inr steps, w') \<Longrightarrow> stage_backed w w' steps"
proof (induction specs log_dir remote arbitrary: w steps rule: run_remote_steps.induct)
  case (2 name command specs log_dir remote)
  then obtain s w1 rest where s: "run_remote_shell_step name command log_dir remote w = (Inr s, w1)"
    and rest: "run_remote_steps specs log_dir remote w1 = (Inr rest, w')" and steps: "steps = s # rest"
    by (auto simp: act_simps)
  have "stage_backed w w1 [s]"
    using s run_step_backed by (auto simp: run_remote_shell_step_def act_simps remote_prefix_def)
  then show ?case using "2.IH" [OF rest] steps stage_backed_trans by fastforce
qed (auto simp: act_simps)

lemma nested_step_backed:
  "nested_step name command keys log_dir w = (Inr (s, d), w') \<Longrightarrow> stage_backed w w' [s]"
  using run_step_backed by (auto simp: nested_step_def act_simps step_log_text_def)

lemma beta_nested_backed:
  "quick_alpha_step args gp w = (Inr (s, j), w') \<Longrightarrow> stage_backed w w' [s]"
  "full_alpha_step args gp w = (Inr (s, j), w') \<Longrightarrow> stage_backed w w' [s]"
  "alpha_rc_step args gp w = (Inr (s, j), w') \<Longrightarrow> stage_backed w w' [s]"
  "beta1c_stage args gp w = (Inr (s, r, xs, ys), w') \<Longrightarrow> stage_backed w w' [s]"
  "hygiene_step gp w = (Inr s, w') \<Longrightarrow> stage_backed w w' [s]"
  using nested_step_backed run_step_backed
  by (auto simp: quick_alpha_step_def full_alpha_step_def alpha_rc_step_def beta1c_stage_def hygiene_step_def act_simps)

lemma storage_stage_backed: "storage_stage args gp w = (Inr s, w') \<Longrightarrow> stage_backed w w' [s]"
  using run_step_backed quiet_backed quiet_primitives(1)
  by (auto simp: storage_stage_def beta1b_storage_freshness_def internal_step_def act_simps Let_def split: if_splits)

lemma soak_freeze_backed:
  "soak_stage args gp refs w = (Inr (steps, r), w') \<Longrightarrow> stage_backed w w' steps"
  "freeze_stage args gp refs w = (Inr (steps, r), w') \<Longrightarrow> stage_backed w w' steps"
  using run_step_backed nested_step_backed
  by (auto simp: soak_stage_def freeze_stage_def act_simps split: if_splits)

lemma beta_steps_backed:
  assumes "beta_steps args gp w = (Inr run, w')"
  shows "stage_backed w w' (br_steps run)"
proof -
  obtain ls w1 rs w2 q qj w3 f fj w4 r rj w5 b wr xs ys w6 st w7 refs so ra w8 fr rb w9 h where
    a: "run_steps (local_specs args) (gp_log gp) w = (Inr ls, w1)"
    and b: "run_remote_steps (remote_specs args) (gp_log gp) (b_remote args) w1 = (Inr rs, w2)"
    and c: "quick_alpha_step args gp w2 = (Inr (q, qj), w3)" and d: "full_alpha_step args gp w3 = (Inr (f, fj), w4)"
    and e: "alpha_rc_step args gp w4 = (Inr (r, rj), w5)" and g: "beta1c_stage args gp w5 = (Inr (b, wr, xs, ys), w6)"
    and i: "storage_stage args gp w6 = (Inr st, w7)" and j: "soak_stage args gp refs w7 = (Inr (so, ra), w8)"
    and k: "freeze_stage args gp ra w8 = (Inr (fr, rb), w9)" and l: "hygiene_step gp w9 = (Inr h, w')"
    and run: "br_steps run = ls @ rs @ [q, f, r, b, st] @ so @ fr @ [h]"
    using assms unfolding beta_steps_def
    by (auto simp only: act_bind_ok gets_ok act_lift_ok act_ret_ok split_paired_Ex prod.case beta_run.simps)
  note chain = stage_backed_trans [OF run_steps_backed [OF a] stage_backed_trans [OF run_remote_steps_backed [OF b]
      stage_backed_trans [OF beta_nested_backed(1) [OF c] stage_backed_trans [OF beta_nested_backed(2) [OF d]
      stage_backed_trans [OF beta_nested_backed(3) [OF e] stage_backed_trans [OF beta_nested_backed(4) [OF g]
      stage_backed_trans [OF storage_stage_backed [OF i] stage_backed_trans [OF soak_freeze_backed(1) [OF j]
      stage_backed_trans [OF soak_freeze_backed(2) [OF k] beta_nested_backed(5) [OF l]]]]]]]]]]
  then show ?thesis using run by simp
qed

lemma finalized_passed:
  assumes "finalized_report report steps residual required = Inr report1"
  shows "report_passed report1 \<longleftrightarrow>
    list_all passed_step steps \<and> \<not> residual_found residual \<and>
    smoke_missing report ''local_passed'' = Inr False \<and> smoke_missing report ''remote_passed'' = Inr False \<and>
    \<not> unpassed_part report ''beta1c_retr_smoke'' \<and> \<not> bad_part report ''artifact_manifest_freshness'' \<and>
    (required \<longrightarrow> \<not> bad_part report ''artifact_sync_summary'' \<and> \<not> bad_part report ''artifact_verify_summary'')"
  using assms
  by (auto simp: finalized_report_def andthen_eq_Inr report_passed_def remote_failures_def failed_names_Nil named_def Let_def)

definition untouched :: "string \<Rightarrow> bool" where
  \<comment> \<open>the entries of a beta report that no later stage writes\<close>
  "untouched k \<longleftrightarrow> k \<in> {''io_uring_smoke'', ''beta1c_retr_smoke''}"

lemma field_dict_update_untouched:
  "list_all (\<lambda>kv. fst kv \<noteq> k) kvs \<Longrightarrow> field (dict_update d kvs) k x = field d k x"
  by (induction d kvs rule: dict_update.induct) auto

lemma finalized_untouched:
  "finalized_report report steps residual required = Inr report1 \<Longrightarrow> untouched k \<Longrightarrow> field report1 k x = field report k x"
  by (auto simp: finalized_report_def andthen_eq_Inr untouched_def field_dict_update_untouched step_summary_def Let_def)

lemma finalize_stage_ok:
  "finalize_stage gp steps residual required report w = (Inr report1, w') \<Longrightarrow>
     finalized_report report steps residual required = Inr report1"
  by (auto simp: finalize_stage_def act_simps)

lemma stages_untouched:
  "beta_manifest_stage gp run h report w = (Inr report1, w') \<Longrightarrow> untouched k \<Longrightarrow> field report1 k x = field report k x"
  "summary_stage p q report w = (Inr report1, w') \<Longrightarrow> untouched k \<Longrightarrow> field report1 k x = field report k x"
  by (auto simp: beta_manifest_stage_def manifest_stage_def freshness_stage_def summary_stage_def act_simps untouched_def)

definition beta_ok :: "report \<Rightarrow> step_result list \<Rightarrow> string \<times> string \<Rightarrow> bool" where
  \<comment> \<open>the part of the verdict that the artifact stages have no influence on\<close>
  "beta_ok report steps residual \<longleftrightarrow>
     list_all passed_step steps \<and> \<not> residual_found residual \<and>
     smoke_missing report ''local_passed'' = Inr False \<and> smoke_missing report ''remote_passed'' = Inr False \<and>
     \<not> unpassed_part report ''beta1c_retr_smoke''"

lemma beta_ok_cong:
  "(\<And>k x. untouched k \<Longrightarrow> field report1 k x = field report k x) \<Longrightarrow> beta_ok report1 steps residual \<longleftrightarrow> beta_ok report steps residual"
  by (simp add: beta_ok_def smoke_missing_def unpassed_part_def untouched_def)

lemma beta_post_passed:
  assumes "beta_post_stage args gp steps residual report w = (Inr report1, w')" and "report_passed report1"
  shows "beta_ok report steps residual"
proof -
  obtain s1 s2 w1 where sync: "sync_and_verify (gp_log gp) (gp_manifest gp) (b_remote args) (b_remote_root args)
       (''remote_beta_artifact_post_report_sync'', ''remote-beta-artifact-post-report-sync.json'')
       (''remote_beta_artifact_post_report_verify'', ''remote-beta-artifact-post-report-verify.json'') w = (Inr (s1, s2), w1)"
    and rest: "(if passed_step s1 \<and> passed_step s2 then finalize_stage gp steps residual True report
       else act_bind (summary_stage (gp_log gp @ [''remote-beta-artifact-post-report-sync.json''])
            (gp_log gp @ [''remote-beta-artifact-post-report-verify.json'']) report) (\<lambda>report1.
          finalize_stage gp (steps @ [s1, s2]) residual True report1)) w1 = (Inr report1, w')"
    using assms(1) unfolding beta_post_stage_def by (auto simp only: act_bind_ok split_paired_Ex prod.case)
  have passed: "passed_step s1 \<and> passed_step s2"
  proof (rule ccontr)
    assume no: "\<not> (passed_step s1 \<and> passed_step s2)"
    then obtain r w2 where "finalize_stage gp (steps @ [s1, s2]) residual True r w2 = (Inr report1, w')"
      using rest by (auto simp only: act_bind_ok if_False)
    then show False using finalized_passed [OF finalize_stage_ok] assms(2) no by fastforce
  qed
  then have "finalize_stage gp steps residual True report w1 = (Inr report1, w')" using rest by simp
  then show ?thesis using finalized_passed [OF finalize_stage_ok] assms(2) unfolding beta_ok_def by blast
qed

lemma gate_run_log: "gate_run.grows (step_log_text step)"
  by (auto intro!: gate_run.growsI simp: step_log_text_def)

lemma gate_run_nested: "gate_run.grows (nested_step name command keys log_dir)"
  unfolding nested_step_def by (intro gate_run_rules gate_run_parts gate_run_log)

lemma gate_run_beta_stages:
  "gate_run.grows (quick_alpha_step args gp)" "gate_run.grows (full_alpha_step args gp)"
  "gate_run.grows (alpha_rc_step args gp)" "gate_run.grows (beta1c_stage args gp)"
  "gate_run.grows (hygiene_step gp)" "gate_run.grows (storage_stage args gp)"
  "gate_run.grows (soak_stage args gp refs)" "gate_run.grows (freeze_stage args gp refs)"
  unfolding quick_alpha_step_def full_alpha_step_def alpha_rc_step_def beta1c_stage_def hygiene_step_def
    storage_stage_def beta1b_storage_freshness_def internal_step_def soak_stage_def freeze_stage_def Let_def
  by (auto intro!: gate_run_rules gate_run_parts gate_run_nested split: prod.splits)

lemma gate_run_remote_steps: "gate_run.grows (run_remote_steps specs log_dir remote)"
  by (induction specs log_dir remote rule: run_remote_steps.induct)
    (auto intro!: gate_run_rules gate_run_parts simp: run_remote_shell_step_def)

lemma gate_run_beta_steps: "gate_run.grows (beta_steps args gp)"
  unfolding beta_steps_def
  by (auto intro!: gate_run_rules gate_run_parts gate_run_beta_stages gate_run_remote_steps split: prod.splits)

lemma gate_run_beta_parts:
  "gate_run.grows (finalize_stage gp steps residual b report)" "gate_run.grows (beta_manifest_stage gp run h report)"
  "gate_run.grows (announce_beta gp passed)" "gate_run.grows (start_beta_gate args)"
  "gate_run.grows (smoke_flag name steps)" "gate_run.grows (beta_report args run residual h x y)"
  unfolding finalize_stage_def write_beta_reports_def write_beta_gate_markdown_def beta_manifest_stage_def
    announce_beta_def announce_def start_beta_gate_def acquire_beta_lock_def acquire_lock_def smoke_flag_def
    beta_report_def Let_def
  by (auto intro!: gate_run_rules gate_run_stages gate_run_log split: prod.splits option.splits)

lemma gate_run_beta_post: "gate_run.grows (beta_post_stage args gp steps residual report)"
  unfolding beta_post_stage_def by (auto intro!: gate_run_rules gate_run_stages gate_run_beta_parts split: prod.splits)

lemma beta_manifest_fresh:
  assumes "beta_manifest_stage gp run h report w = (Inr report1, w')"
    and "status_of report1 ''artifact_manifest_freshness'' = JStr ''pass''"
  shows "fresh_checked (gp_manifest gp) w w'"
proof -
  obtain paths report0 w1 where m: "manifest_stage gp h True paths report w = (Inr report0, w1)"
    and f: "freshness_stage gp report0 w1 = (Inr report1, w')"
    using assms(1) by (auto simp: beta_manifest_stage_def act_simps)
  show ?thesis
    using fresh_checked_mono [OF gate_run.growsD [OF gate_run_report_stages(3) m] freshness_stage_checked [OF f assms(2)]]
    by blast
qed

definition beta_ending ::
  "bargs \<Rightarrow> gate_paths \<Rightarrow> step_result list \<Rightarrow> string \<times> string \<Rightarrow> report \<Rightarrow> (rworld, int) act" where
  \<comment> \<open>what follows the last manifest\<close>
  "beta_ending args gp steps residual report =
     (if status_of report ''artifact_manifest_freshness'' \<noteq> JStr ''pass''
      then act_bind (finalize_stage gp steps residual True report) (\<lambda>_.
           act_bind (announce_beta gp False) (\<lambda>_. act_ret 1))
      else act_bind (beta_post_stage args gp steps residual report) (\<lambda>report7.
           act_bind (announce_beta gp (report_passed report7)) (\<lambda>_.
           act_ret (if report_passed report7 then 0 else 1))))"

lemmas beta_closing_parts = beta_closing_def [unfolded Let_def, folded beta_ending_def]

lemma beta_closing_passed:
  assumes "beta_closing args gp run residual h report w = (Inr 0, w')"
  shows "beta_ok report (br_steps run) residual \<and> fresh_checked (gp_manifest gp) w w'"
proof -
  obtain r1 w1 r2 w2 r3 w3 s1 s2 w4 r4 w5 r5 w6 r6 w7 where
    a: "beta_manifest_stage gp run h report w = (Inr r1, w1)"
    and b: "finalize_stage gp (br_steps run) residual False r1 w1 = (Inr r2, w2)"
    and c: "beta_manifest_stage gp run h r2 w2 = (Inr r3, w3)"
    and d: "sync_and_verify (gp_log gp) (gp_manifest gp) (b_remote args) (b_remote_root args)
       (''remote_beta_artifact_sync'', ''remote-beta-artifact-sync.json'')
       (''remote_beta_artifact_verify'', ''remote-beta-artifact-verify.json'') w3 = (Inr (s1, s2), w4)"
    and e: "summary_stage (gp_log gp @ [''remote-beta-artifact-sync.json''])
       (gp_log gp @ [''remote-beta-artifact-verify.json'']) r3 w4 = (Inr r4, w5)"
    and f: "finalize_stage gp (br_steps run @ [s1, s2]) residual True r4 w5 = (Inr r5, w6)"
    and g: "beta_manifest_stage gp run h r5 w6 = (Inr r6, w7)"
    and last_part: "beta_ending args gp (br_steps run @ [s1, s2]) residual r6 w7 = (Inr 0, w')"
    using assms unfolding beta_closing_parts by (auto simp only: act_bind_ok split_paired_Ex prod.case)
  have fresh: "status_of r6 ''artifact_manifest_freshness'' = JStr ''pass''"
    using last_part by (auto simp: beta_ending_def act_simps split: if_splits)
  obtain r7 w8 where post: "beta_post_stage args gp (br_steps run @ [s1, s2]) residual r6 w7 = (Inr r7, w8)"
    and tell: "announce_beta gp (report_passed r7) w8 = (Inr (), w')" and passed: "report_passed r7"
    using last_part fresh by (auto simp: beta_ending_def act_simps split: if_splits)
  have same: "field r6 k x = field report k x" if "untouched k" for k x
    using stages_untouched(1) [OF a that] finalized_untouched [OF finalize_stage_ok [OF b] that]
      stages_untouched(1) [OF c that] stages_untouched(2) [OF e that]
      finalized_untouched [OF finalize_stage_ok [OF f] that] stages_untouched(1) [OF g that] by simp
  have "beta_ok report (br_steps run @ [s1, s2]) residual"
    using beta_post_passed [OF post passed] beta_ok_cong [OF same] by blast
  moreover have "leads_to w w6"
    using gate_run.growsD [OF gate_run_beta_parts(2) a] gate_run.growsD [OF gate_run_beta_parts(1) b]
      gate_run.growsD [OF gate_run_beta_parts(2) c] gate_run.growsD [OF gate_run_sync d]
      gate_run.growsD [OF gate_run_report_stages(4) e] gate_run.growsD [OF gate_run_beta_parts(1) f]
    by (meson rtranclp_trans)
  moreover have "leads_to w7 w'"
    using gate_run.growsD [OF gate_run_beta_post post] gate_run.growsD [OF gate_run_beta_parts(3) tell]
    by (meson rtranclp_trans)
  ultimately show ?thesis
    using fresh_checked_mono beta_manifest_fresh [OF g fresh] unfolding beta_ok_def by auto
qed

text \<open>
  When the beta gate exits with status 0, every subprocess of its steps, local, remote and
  nested gates, returned 0; the io_uring test passed on both sides according to the logs of the
  two test steps; the reduced RETR run passed; no server or client process was left over; and the
  artifact manifest was found fresh at a state of the run.
\<close>

theorem beta_exit_zero:
  assumes "beta_main args w = (Inr 0, w')"
  shows "\<exists>gp w1 run w2 tr residual w3 beta1c. start_beta_gate args w = (Inr gp, w1) \<and>
    beta_steps args gp w1 = (Inr run, w2) \<and> ran w1 tr w2 \<and> list_all (\<lambda>cp. p_rc (snd cp) = 0) tr \<and>
    list_all passed_step (br_steps run) \<and>
    run_remote_process_check (b_remote args) w2 = (Inr residual, w3) \<and> \<not> residual_found residual \<and>
    fst (smoke_flag ''local_ctest_iouring_smoke'' (br_steps run) w3) = Inr True \<and>
    fst (smoke_flag ''remote_ctest_iouring_smoke'' (br_steps run) w3) = Inr True \<and>
    summarize_beta1c_smoke (br_wrapper run) = Inr beta1c \<and> truthy (field beta1c ''passed'' (JBool False)) \<and>
    fresh_checked (gp_manifest gp) w w'"
proof -
  obtain gp w1 run w2 residual w3 x w4 y w5 report w6 report1 w7 where
    a: "start_beta_gate args w = (Inr gp, w1)" and b: "beta_steps args gp w1 = (Inr run, w2)"
    and c: "run_remote_process_check (b_remote args) w2 = (Inr residual, w3)"
    and d: "smoke_flag ''local_ctest_iouring_smoke'' (br_steps run) w3 = (Inr x, w4)"
    and e: "smoke_flag ''remote_ctest_iouring_smoke'' (br_steps run) w4 = (Inr y, w5)"
    and f: "beta_report args run residual (source_tree_hash w3) x y w5 = (Inr report, w6)"
    and g: "finalize_stage gp (br_steps run) residual False report w6 = (Inr report1, w7)"
    and h: "beta_closing args gp run residual (source_tree_hash w3) report1 w7 = (Inr 0, w')"
    using assms unfolding beta_main_def by (auto simp only: act_bind_ok gets_ok)
  have same: "field report1 k x = field report k x" if "untouched k" for k x
    using finalized_untouched [OF finalize_stage_ok [OF g] that] .
  have ok: "beta_ok report (br_steps run) residual" "fresh_checked (gp_manifest gp) w7 w'"
    using beta_closing_passed [OF h] beta_ok_cong [OF same] by blast+
  obtain beta1c where beta1c: "summarize_beta1c_smoke (br_wrapper run) = Inr beta1c"
    and fields: "field report ''io_uring_smoke'' d = JObj [(''local_passed'', JBool x), (''remote_passed'', JBool y)]"
      "field report ''beta1c_retr_smoke'' d = JObj beta1c" for d
    using f by (auto simp: beta_report_def act_simps field_def)
  have flags: "x" "y" and "truthy (field beta1c ''passed'' (JBool False))"
    using ok(1) fields by (auto simp: beta_ok_def smoke_missing_def unpassed_part_def field_def)
  moreover have "w4 = w3" using d by (auto simp: smoke_flag_def step_log_text_def act_simps split: option.splits)
  moreover obtain tr where "ran w1 tr w2" "list_all (\<lambda>cp. p_rc (snd cp) = 0) tr"
    using beta_steps_backed [OF b] ok(1) unfolding stage_backed_def backed_def beta_ok_def by blast
  moreover have "leads_to w w7"
    using gate_run.growsD [OF gate_run_beta_parts(4) a] gate_run.growsD [OF gate_run_beta_steps b]
      gate_run.growsD [OF gate_run_check c] gate_run.growsD [OF gate_run_beta_parts(5) d]
      gate_run.growsD [OF gate_run_beta_parts(5) e] gate_run.growsD [OF gate_run_beta_parts(6) f]
      gate_run.growsD [OF gate_run_beta_parts(1) g] by (meson rtranclp_trans)
  ultimately have "fresh_checked (gp_manifest gp) w w'" "ran w1 tr w2" "list_all (\<lambda>cp. p_rc (snd cp) = 0) tr"
      "truthy (field beta1c ''passed'' (JBool False))"
      "fst (smoke_flag ''local_ctest_iouring_smoke'' (br_steps run) w3) = Inr True"
      "fst (smoke_flag ''remote_ctest_iouring_smoke'' (br_steps run) w3) = Inr True"
    using d e fresh_checked_mono [OF _ ok(2) rtranclp.rtrancl_refl] by simp_all
  then show ?thesis using a b c beta1c ok(1) unfolding beta_ok_def by blast
qed

section \<open>The alpha release candidate\<close>

lemma candidate_verdict_passed:
  "report_passed (candidate_verdict args run steps residual report) \<longleftrightarrow>
     candidate_failures args run steps residual report = []"
  by (simp add: candidate_verdict_def report_passed_def Let_def)

lemma candidate_closing_passed:
  "candidate_closing args gp run steps h report w = (Inr report1, w') \<Longrightarrow> report_passed report1 \<Longrightarrow> report_passed report"
  by (auto simp: candidate_closing_def candidate_stale_exit_def candidate_post_stage_def act_simps report_passed_def Let_def
      split: if_splits prod.splits)

lemma candidate_exit_zero:
  assumes "alpha_candidate_main args w = (Inr 0, w')"
  shows "\<exists>gp w1 run w2 residual w3 steps report. start_alpha_candidate args w = (Inr gp, w1) \<and>
    alpha_candidate_steps args gp w1 = (Inr run, w2) \<and>
    run_remote_process_check (c_remote args) w2 = (Inr residual, w3) \<and>
    candidate_failures args run (cr_steps run @ steps) residual report = []"
proof -
  obtain gp w1 run w2 residual w3 report0 w4 w5 paths w6 report1 w7 report2 w8 ss report3 w9 report4 w10 where
    "start_alpha_candidate args w = (Inr gp, w1)" "alpha_candidate_steps args gp w1 = (Inr run, w2)"
    "run_remote_process_check (c_remote args) w2 = (Inr residual, w3)"
    and closing: "candidate_closing args gp run (cr_steps run @ ss) (source_tree_hash w3)
       (candidate_verdict args run (cr_steps run @ ss) residual report3) w9 = (Inr report4, w10)"
    and rc: "0 = (if report_passed report4 then 0 else 1 :: int)"
    using assms unfolding alpha_candidate_main_def Let_def
    by (auto simp only: act_bind_ok gets_ok act_ret_ok split_paired_Ex prod.case)
  moreover have "report_passed report4" using rc by (auto split: if_splits)
  ultimately show ?thesis using candidate_closing_passed [OF closing] candidate_verdict_passed by blast
qed

text \<open>
  A release candidate that was built locally only never passes: whatever the subprocesses do
  and whatever the repository holds, the script does not end with status 0 when \<open>--local-only\<close>
  was given.
\<close>

theorem local_candidate_never_passes:
  assumes "c_local_only args"
  shows "alpha_candidate_main args w \<noteq> (Inr 0, w')"
  using candidate_exit_zero [of args w w'] assms by (auto simp: candidate_failures_def named_def)

definition local_cargs :: cargs where
  "local_cargs = \<lparr>c_build_dir = ''b'', c_io_uring_build_dir = ''b'', c_remote = '''', c_remote_root = ''/'',
     c_server_host = '''', c_results_dir = ''r'', c_soak_iterations = 1, c_duration_seconds = float_zero,
     c_profile = ''tiny'', c_local_only = True\<rparr>"

theorem local_candidate_never_passes_witness:
  "c_local_only local_cargs \<and> (\<nexists>w'. alpha_candidate_main local_cargs demo_world = (Inr 0, w'))"
  using local_candidate_never_passes [of local_cargs demo_world] by (simp add: local_cargs_def)

definition demo_bargs :: bargs where
  "demo_bargs = \<lparr>b_build_dir = ''b'', b_io_uring_build_dir = ''b'', b_remote = ''u@h'', b_remote_root = ''/'',
     b_server_host = ''h'', b_results_dir = ''r'', b_run_storage_smoke = False, b_run_long_soak_short = False,
     b_run_freeze_check = False\<rparr>"

theorem gate_lock_excludes_witness:
  "(\<exists>e w'. gate_main demo_gargs (demo_world\<lparr>lock_taken := True\<rparr>) = (Inl e, w') \<and> commands w' = []) \<and>
   (\<exists>e w'. beta_main demo_bargs (demo_world\<lparr>lock_taken := True\<rparr>) = (Inl e, w') \<and> commands w' = [])"
  using gate_lock_excludes [of "demo_world\<lparr>lock_taken := True\<rparr>" demo_gargs demo_bargs]
  by (auto simp: idle_but_def demo_world_def)

end
