(* ===== verification/Beta_Candidate.thy ===== *)
theory Beta_Candidate
  imports Gate_Laws
begin

text \<open>
  The beta release candidate, tools/release/run_beta_release_candidate.py: it runs the beta gate or
  reads the report of an earlier run, collects the best throughput of every protocol from the newest
  comparison, the numbers of two performance pages and the newest soak run, and closes with a
  manifest that is synchronised and verified. \<open>read_json\<close>, the summary of steps and the search for
  the newest soak report equal those of the other release scripts and share their definitions.
\<close>

section \<open>Arguments and readers\<close>

record rcargs =
  rc_gate_json :: string
  rc_build_dir :: string
  rc_io_uring_build_dir :: string
  rc_remote :: string
  rc_remote_root :: string
  rc_server_host :: string
  rc_results_dir :: string
  rc_soak_json :: string
  rc_require_soak :: bool

definition parse_gate_paths_from_log :: "string \<Rightarrow> (string, string) pydict" where
  "parse_gate_paths_from_log log_text = parse_output_paths log_text
     [''beta_release_gate_report'', ''beta_release_gate_json'', ''beta_artifact_manifest'']"

definition csv_rows_at :: "repo \<Rightarrow> string list option \<Rightarrow> csv_row list res" where
  "csv_rows_at t path =
     (case path of
        None \<Rightarrow> Inr []
      | Some p \<Rightarrow>
          (if \<not> repo_is_file t p then Inr []
           else andthen (repo_read t p) (\<lambda>b. andthen (utf8_decode b) (\<lambda>text. Inr (dict_rows text)))))"

definition latest_perf_result :: "repo \<Rightarrow> string \<Rightarrow> string list option" where
  "latest_perf_result t pattern = latest_by_mtime t (glob_files t results_key [pattern])"

definition candidate_soak_summary :: "rworld \<Rightarrow> string option \<Rightarrow> report res" where
  \<comment> \<open>\<open>summarize_beta_long_soak\<close> of this file, which keeps the path as it is given\<close>
  "candidate_soak_summary w path =
     (case path of
        None \<Rightarrow> Inr (absent_summary '''')
      | Some s \<Rightarrow>
          andthen (read_json_if_exists (tree w) (key_of w s)) (\<lambda>payload.
          if payload = [] then Inr (absent_summary s)
          else andthen (int_or_zero (field payload ''fail_count'' (JInt 0))) (\<lambda>fail_count.
               Inr ((''path'', JStr s) # soak_fields payload fail_count))))"

section \<open>Performance numbers\<close>

definition as_float :: "string option \<Rightarrow> pyfloat" where
  "as_float value = (case value of None \<Rightarrow> float_zero | Some s \<Rightarrow> (case py_float s of None \<Rightarrow> float_zero | Some f \<Rightarrow> f))"

definition cell_float :: "csv_row \<Rightarrow> string \<Rightarrow> pyfloat" where
  \<comment> \<open>\<open>as_float(row.get(key, "0"))\<close>: an absent column and an absent cell both count as zero\<close>
  "cell_float row key = as_float (cell_get row key)"

definition cell_count :: "csv_row \<Rightarrow> string \<Rightarrow> int res" where
  \<comment> \<open>\<open>int(float(row.get(key, "0") or "0"))\<close>\<close>
  "cell_count row key =
     (let text = (case cell_get row key of None \<Rightarrow> '''' | Some s \<Rightarrow> s)
      in andthen (float_or_raise (if text = '''' then ''0'' else text)) float_trunc)"

definition cell_json :: "csv_row \<Rightarrow> string \<Rightarrow> json" where
  \<comment> \<open>\<open>row.get(key, "")\<close>\<close>
  "cell_json row key = (case map_of (cells row) key of
     None \<Rightarrow> JStr '''' | Some None \<Rightarrow> JNull | Some (Some s) \<Rightarrow> JStr s)"

definition clean_row :: "string \<Rightarrow> string \<Rightarrow> string \<Rightarrow> csv_row \<Rightarrow> bool res" where
  \<comment> \<open>the conditions of a candidate row in their order; a count is only read when all before it hold\<close>
  "clean_row protocol direction size_bytes row =
     (if cell_get row ''protocol'' = Some protocol \<and> cell_get row ''direction'' = Some direction \<and>
         cell_get row ''size_bytes'' = Some size_bytes
      then andthen (cell_count row ''sha256_mismatch_count'') (\<lambda>mismatches.
           if mismatches \<noteq> 0 then Inr False
           else andthen (cell_count row ''fail_count'') (\<lambda>failures. Inr (failures = 0)))
      else Inr False)"

fun filter_res :: "('a \<Rightarrow> bool res) \<Rightarrow> 'a list \<Rightarrow> 'a list res" where
  "filter_res p [] = Inr []"
| "filter_res p (x # xs) =
     andthen (p x) (\<lambda>b. andthen (filter_res p xs) (\<lambda>ys. Inr (if b then x # ys else ys)))"

definition first_filled :: "csv_row \<Rightarrow> string list \<Rightarrow> string" where
  \<comment> \<open>\<open>row.get(a) or row.get(b) or ""\<close>\<close>
  "first_filled row keys =
     (case List.find (\<lambda>v. v \<noteq> '''') (List.map_filter (cell_get row) keys) of None \<Rightarrow> '''' | Some v \<Rightarrow> v)"

definition best_row_summary :: "string \<Rightarrow> string \<Rightarrow> string \<Rightarrow> csv_row \<Rightarrow> report" where
  "best_row_summary protocol direction size_bytes best =
     [(''protocol'', JStr protocol), (''direction'', JStr direction), (''size_bytes'', JStr size_bytes),
      (''best_Gbps'', JReal (cell_float best ''best_Gbps'')),
      (''median_Gbps'', JReal (cell_float best ''median_Gbps'')),
      (''parallelism'', JStr (first_filled best [''parallelism'', ''connections''])),
      (''checksum'', cell_json best ''checksum'')]"

definition best_summary_value :: "csv_row list \<Rightarrow> string \<Rightarrow> string \<Rightarrow> string \<Rightarrow> report res" where
  "best_summary_value rows protocol direction size_bytes =
     andthen (filter_res (clean_row protocol direction size_bytes) rows) (\<lambda>candidates.
     case candidates of
       [] \<Rightarrow> Inr []
     | row # others \<Rightarrow> Inr (best_row_summary protocol direction size_bytes
         (max_by (\<lambda>r. cell_float r ''best_Gbps'') row others)))"

definition SIZE_1G :: string where
  "SIZE_1G = ''1073741824''"

definition BEST_ENTRIES :: "(string \<times> string \<times> string) list" where
  "BEST_ENTRIES =
     [(''plain_ftp_1g_upload_best'', ''plain_ftp'', ''upload''),
      (''plain_ftp_1g_download_best'', ''plain_ftp'', ''download''),
      (''native_gridftp_1g_upload_best'', ''native_gridftp'', ''upload''),
      (''native_gridftp_1g_download_best'', ''native_gridftp'', ''download''),
      (''gridflux_1g_stor_best'', ''gridflux'', ''stor''), (''gridflux_1g_retr_best'', ''gridflux'', ''retr'')]"

definition best_entry :: "csv_row list \<Rightarrow> string \<times> string \<times> string \<Rightarrow> (string \<times> json) res" where
  "best_entry rows spec =
     (case spec of (name, protocol, direction) \<Rightarrow>
        andthen (best_summary_value rows protocol direction SIZE_1G) (\<lambda>best. Inr (name, JObj best)))"

definition iperf_entry :: "csv_row \<Rightarrow> json" where
  "iperf_entry row = JObj [(''parallelism'', cell_json row ''parallelism''), (''Gbps'', JReal (cell_float row ''Gbps''))]"

definition storage_entry :: "csv_row \<Rightarrow> json" where
  "storage_entry row = JObj [(''machine'', cell_json row ''machine''), (''Gbps'', JReal (cell_float row ''Gbps''))]"

definition extract_three_way_performance :: "rworld \<Rightarrow> report res" where
  "extract_three_way_performance w =
     (let t = tree w;
          summary_path = latest_perf_result t ''*_ftp-gridftp-gridflux-summary.csv'';
          host_path = latest_perf_result t ''*_three-way-host-baseline.csv''
      in andthen (csv_rows_at t summary_path) (\<lambda>summary_rows.
         andthen (csv_rows_at t host_path) (\<lambda>host_rows.
         andthen (collect (best_entry summary_rows) BEST_ENTRIES) (\<lambda>bests.
         Inr ([(''summary_csv'', JStr (relative_to_root w (opt_text w summary_path))),
               (''host_baseline_csv'', JStr (relative_to_root w (opt_text w host_path)))]
              @ bests
              @ [(''iperf3_gbps'', JArr (map iperf_entry
                    (filter (\<lambda>row. cell_get row ''kind'' = Some ''iperf3'') host_rows))),
                 (''storage_write_gbps'', JArr (map storage_entry
                    (filter (\<lambda>row. cell_get row ''kind'' = Some ''storage'' \<and>
                       cell_get row ''operation'' = Some ''write_1GiB_tmp'') host_rows)))])))))"

definition backtick :: char where "backtick = CHR 0x60"

definition quoted_number_rx :: "string \<Rightarrow> rx" where
  \<comment> \<open>a label and, between back ticks, a text\<close>
  "quoted_number_rx label =
     rx_seq [rx_lit label, Cls (\<lambda>c. c = backtick), Grp 1 (rx_plus (Cls (\<lambda>c. c \<noteq> backtick))), Cls (\<lambda>c. c = backtick)]"

definition set_match :: "string \<Rightarrow> rx \<Rightarrow> string \<Rightarrow> report \<Rightarrow> report" where
  "set_match key r text numbers = (case re_group r 1 text of None \<Rightarrow> numbers | Some v \<Rightarrow> dict_set key (JStr v) numbers)"

definition page_numbers :: "repo \<Rightarrow> string \<times> string \<Rightarrow> report \<Rightarrow> report res" where
  "page_numbers t page numbers =
     (case page of (key, relative) \<Rightarrow>
        let p = segs (to_path relative); present = repo_is_file t p in
        andthen (if present then read_text_replace t p else Inr '''') (\<lambda>text.
        Inr (set_match ''retr_median_best'' (quoted_number_rx ''RETR summary median/best throughput: '') text
          (set_match ''stor_e2e_median_best'' (quoted_number_rx ''GridFlux STOR e2e median/best: '') text
            (dict_set key (JStr (if present then relative else '''')) numbers)))))"

definition extract_beta_report_numbers :: "repo \<Rightarrow> report res" where
  "extract_beta_report_numbers t =
     andthen (page_numbers t (''stor_storage_system_report'', ''docs/perf/BETA1B_STORAGE_SYSTEM_ATTRIBUTION.md'') [])
       (page_numbers t (''retr_stability_report'', ''docs/perf/BETA1C_RETR_STABILITY.md''))"

definition known_bottlenecks :: "string list" where
  "known_bottlenecks =
     [''Current cloud-server environment is not a 100G validation target.'',
      ''STOR remains constrained by receiver temp write/writeback and cloud storage/filesystem behavior.'',
      ''RETR correctness/stability is green, but throughput spread remains high in full-size focused data.'',
      ''TLS/data TLS, verified_chunks, io_uring, bounded/dirty_poll, and preallocate full remain opt-in.'',
      ''Full GSI/DCAU/PROT/AUTH TLS and raw FTP STOR/RETR are not implemented.'']"

section \<open>The page and the artifacts\<close>

definition gate_lines :: "json \<Rightarrow> string list" where
  "gate_lines gate =
     (if is_dict gate
      then [tick_line ''Gate JSON'' (dict_of gate) ''json'', tick_line ''Gate report'' (dict_of gate) ''report'',
            tick_line ''Gate passed'' (dict_of gate) ''passed'', tick_line ''Gate failed steps'' (dict_of gate) ''failed_steps'']
      else [])"

definition soak_lines :: "report \<Rightarrow> string list" where
  "soak_lines soak =
     (if soak = [] then [''- No long soak JSON recorded.'']
      else [tick_line ''Path'' soak ''path'', tick_line ''Present'' soak ''present'', tick_line ''Passed'' soak ''passed'',
            tick_line ''Profile'' soak ''profile'', tick_line ''Iterations'' soak ''iterations'',
            tick_line ''Fail count'' soak ''fail_count''])"

definition candidate_closure_lines :: "report \<Rightarrow> string list" where
  "candidate_closure_lines report =
     (let artifact = field report ''artifact_manifest'' (JObj []);
          fresh = field report ''artifact_manifest_freshness'' (JObj []);
          sync = part_of report ''artifact_sync_summary''; verify = part_of report ''artifact_verify_summary''
      in ['''', ''## Artifact Closure'', ''''] @
         (if is_dict artifact
          then [tick_line ''Manifest'' (dict_of artifact) ''path'',
                tick_line ''Artifact count'' (dict_of artifact) ''artifact_count''] else []) @
         (if is_dict fresh then [freshness_line (dict_of fresh)] else []) @
         (if sync = [] then [] else [sync_line sync]) @
         (if verify = [] then [] else [verify_line verify]) @ failure_lines report)"

definition beta_candidate_markdown :: "report \<Rightarrow> string" where
  "beta_candidate_markdown report =
     join [newline]
       ([''# GridFlux Beta Release Candidate'', '''', tick_line ''Timestamp'' report ''timestamp'',
         ''- Result: '' @ ticked (pass_text report), tick_line ''Source tree hash'' report ''source_tree_hash'',
         '''', ''## Default Strategy'', '''']
        @ strategy_lines BETA_STRATEGY
        @ ['''', ''## Beta Gate'', ''''] @ gate_lines (field report ''beta_release_gate'' (JObj []))
        @ ['''', ''## Key Performance Numbers'', '''']
        @ map (\<lambda>kv. ''- '' @ ticked (fst kv) @ '': '' @ ticked (py_str (snd kv))) (part_of report ''key_performance_numbers'')
        @ ['''', ''## Known Bottlenecks'', ''''] @ map (\<lambda>item. ''- '' @ item) known_bottlenecks
        @ ['''', ''## Beta 1E Long Soak'', ''''] @ soak_lines (part_of report ''beta_long_soak'')
        @ candidate_closure_lines report)
     @ [newline]"

definition write_beta_candidate :: "gate_paths \<Rightarrow> report \<Rightarrow> (rworld, unit) act" where
  \<comment> \<open>the Markdown page and the JSON report\<close>
  "write_beta_candidate gp report =
     act_bind (write_file (gp_report gp) (beta_candidate_markdown report)) (\<lambda>_. write_json_report (gp_json gp) report)"

definition soak_log_paths :: "rworld \<Rightarrow> report \<Rightarrow> string list" where
  "soak_log_paths w payload =
     filter (\<lambda>p. p \<noteq> '''') (List.map_filter (\<lambda>value. normalize_artifact_path w (py_str value))
       (concat (map (\<lambda>key. list_of (field payload key (JArr [])))
         [''event_log_paths'', ''case_log_paths'', ''server_log_paths'', ''client_log_paths''])))"

definition soak_artifacts :: "rworld \<Rightarrow> string option \<Rightarrow> string list res" where
  "soak_artifacts w soak =
     (case soak of
        None \<Rightarrow> Inr []
      | Some s \<Rightarrow>
          (if \<not> repo_is_file (tree w) (key_of w s) then Inr []
           else andthen (read_json_if_exists (tree w) (key_of w s)) (\<lambda>payload.
                Inr (relative_to_root w s # soak_log_paths w payload))))"

definition beta_candidate_artifact_paths :: "rworld \<Rightarrow> gate_paths \<Rightarrow> string \<Rightarrow> string option \<Rightarrow> string list res" where
  "beta_candidate_artifact_paths w gp gate_json soak =
     andthen (collect_beta_artifact_paths w (as_posix (to_path gate_json))
        (abs_text w [''docs'', ''release'', ''BETA_RELEASE_GATE.md'']) [] []) (\<lambda>gate_paths.
     andthen (soak_artifacts w soak) (\<lambda>soak_paths.
     (let own = map (\<lambda>p. relative_to_root w (abs_text w p));
          extra = filter (repo_is_file (tree w))
            [[''tools'', ''release'', ''run_beta_release_candidate.py''],
             [''docs'', ''release'', ''BETA_RELEASE_CANDIDATE.md'']]
      in Inr (List.map_filter (keep_artifact (tree w))
           (sorted_set (gate_paths @ own [gp_json gp, gp_report gp] @ soak_paths @ own extra))))))"

section \<open>The verdict\<close>

definition beta_candidate_failures :: "report \<Rightarrow> step_result list \<Rightarrow> bool \<Rightarrow> bool \<Rightarrow> string list" where
  "beta_candidate_failures report steps require_remote_artifacts require_soak =
     failed_names steps @ named ''beta_release_gate'' (unpassed_part report ''beta_release_gate'')
     @ named ''artifact_manifest_freshness'' (bad_part report ''artifact_manifest_freshness'')
     @ remote_failures require_remote_artifacts report
     @ named ''beta_long_soak'' (require_soak \<and>
         \<not> (is_dict (field report ''beta_long_soak'' (JObj [])) \<and>
            truthy (field (part_of report ''beta_long_soak'') ''passed'' (JBool False))))"

definition beta_candidate_verdict :: "report \<Rightarrow> step_result list \<Rightarrow> bool \<Rightarrow> bool \<Rightarrow> report" where
  "beta_candidate_verdict report steps require_remote_artifacts require_soak =
     (let failures = beta_candidate_failures report steps require_remote_artifacts require_soak in
      dict_update (dict_update (dict_set ''steps'' (JArr (map step_dict steps)) report) (step_summary steps))
        [(''failures'', JStrs failures), (''passed'', JBool (failures = []))])"

section \<open>The run\<close>

definition beta_gate_command :: "string \<Rightarrow> rcargs \<Rightarrow> string list" where
  "beta_gate_command py args =
     [py, ''tools/release/run_beta_release_gate.py'', ''--build-dir'', rc_build_dir args,
      ''--io-uring-build-dir'', rc_io_uring_build_dir args, ''--remote'', rc_remote args,
      ''--remote-root'', rc_remote_root args, ''--server-host'', rc_server_host args,
      ''--results-dir'', rc_results_dir args]"

record gate_reading =
  gr_steps :: "step_result list"
  gr_paths :: "(string, string) pydict"
  gr_json :: string
  gr_payload :: report

definition gate_reading_stage :: "rcargs \<Rightarrow> gate_paths \<Rightarrow> (rworld, gate_reading) act" where
  \<comment> \<open>the steps so far, the paths the gate announced, where its report is and what it says\<close>
  "gate_reading_stage args gp =
     act_bind
       (if rc_gate_json args \<noteq> '''' then act_ret ([], [], rc_gate_json args)
        else act_bind (gets interpreter) (\<lambda>py.
             act_bind (run_step ''beta_release_gate'' (beta_gate_command py args) (gp_log gp)) (\<lambda>step.
             act_bind (gets (\<lambda>w. read_text_replace (tree w) (key_of w (s_log step)))) (\<lambda>r.
             act_bind (act_lift r) (\<lambda>text.
             let paths = parse_gate_paths_from_log text in
             act_ret ([step], paths, dict_get paths ''beta_release_gate_json'' ''''))))))
       (\<lambda>(steps, paths, gate_json).
     act_bind (gets (\<lambda>w. read_json w gate_json)) (\<lambda>r.
     act_bind (act_lift r) (\<lambda>payload.
     act_ret \<lparr>gr_steps = steps, gr_paths = paths, gr_json = gate_json, gr_payload = payload\<rparr>)))"

definition gate_entry :: "rworld \<Rightarrow> gate_reading \<Rightarrow> report" where
  "gate_entry w g =
     (let payload = gr_payload g; manifest = field payload ''artifact_manifest'' (JObj []) in
      [(''json'', JStr (relative_to_root w (gr_json g))),
       (''report'', JStr (dict_get (gr_paths g) ''beta_release_gate_report'' ''docs/release/BETA_RELEASE_GATE.md'')),
       (''artifact_manifest'', JStr (dict_get (gr_paths g) ''beta_artifact_manifest''
          (if is_dict manifest then get_text (dict_of manifest) ''path'' else ''''))),
       (''passed'', JBool (truthy (field payload ''passed'' (JBool False)))),
       (''total_steps'', field payload ''total_steps'' (JInt 0)),
       (''failed_steps'', field payload ''failed_steps'' (JInt 0))])"

definition gate_summary_entry :: "report \<Rightarrow> json" where
  "gate_summary_entry payload =
     (let part = (\<lambda>k. field payload k (JObj [])) in
      JObj [(''ctest'', part ''ctest''), (''io_uring_smoke'', part ''io_uring_smoke''),
        (''quick_alpha_gate'', part ''quick_alpha_gate''), (''full_alpha_gate'', part ''full_alpha_gate''),
        (''alpha_release_candidate'', part ''alpha_release_candidate''), (''public_hygiene'', part ''hygiene''),
        (''residual_process_check'', part ''residual_process_check'')])"

definition soak_choice :: "rworld \<Rightarrow> rcargs \<Rightarrow> string option" where
  \<comment> \<open>\<open>Path(args.soak_json) if args.soak_json else latest_beta_long_soak(root)\<close>, as a text\<close>
  "soak_choice w args =
     (if rc_soak_json args \<noteq> '''' then Some (as_posix (to_path (rc_soak_json args)))
      else map_option (abs_text w) (latest_soak (tree w)))"

definition relative_path_entry :: "rworld \<Rightarrow> report \<Rightarrow> report" where
  \<comment> \<open>\<open>if summary.get("path"): summary["path"] = relative_to_root(str(summary["path"]), root)\<close>\<close>
  "relative_path_entry w summary =
     (if truthy (field summary ''path'' JNull)
      then dict_set ''path'' (JStr (relative_to_root w (py_str (field summary ''path'' JNull)))) summary
      else summary)"

definition beta_candidate_report ::
  "gate_reading \<Rightarrow> string \<Rightarrow> string option \<Rightarrow> (rworld, report) act" where
  "beta_candidate_report g source_hash soak =
     act_bind (gets extract_three_way_performance) (\<lambda>r1.
     act_bind (act_lift r1) (\<lambda>performance.
     act_bind (lift_tree extract_beta_report_numbers) (\<lambda>numbers.
     act_bind (gets (\<lambda>w. candidate_soak_summary w soak)) (\<lambda>r2.
     act_bind (act_lift r2) (\<lambda>summary.
     act_bind (gets (\<lambda>w. (relative_path_entry w summary, gate_entry w g))) (\<lambda>(soak_summary, gate).
     act_bind timestamp_utc (\<lambda>now.
     let part = (\<lambda>k. field (gr_payload g) k (JObj [])) in
     act_ret [(''timestamp'', JStr now), (''source_tree_hash'', JStr source_hash),
       (''default_strategy'', strategy_json BETA_STRATEGY), (''beta_release_gate'', JObj gate),
       (''gate_summary'', gate_summary_entry (gr_payload g)),
       (''key_performance_numbers'', JObj (dict_update performance numbers)), (''beta_long_soak'', JObj soak_summary),
       (''known_bottlenecks'', JStrs known_bottlenecks), (''artifact_manifest'', JObj []),
       (''artifact_manifest_freshness'', JObj []), (''artifact_sync_summary'', JObj []),
       (''artifact_verify_summary'', JObj []), (''public_hygiene_result'', part ''hygiene''),
       (''artifact_sync_result'', part ''artifact_sync_summary''),
       (''residual_process_status'', part ''residual_process_check''), (''steps'', JArr []), (''failures'', JArr []),
       (''passed'', JBool False)])))))))"

definition beta_candidate_finalize ::
  "rcargs \<Rightarrow> gate_paths \<Rightarrow> step_result list \<Rightarrow> bool \<Rightarrow> report \<Rightarrow> (rworld, report) act" where
  "beta_candidate_finalize args gp steps required report =
     (let report1 = beta_candidate_verdict report steps required (rc_require_soak args) in
      act_bind (write_beta_candidate gp report1) (\<lambda>_. act_ret report1))"

definition remote_given :: "rcargs \<Rightarrow> bool" where
  "remote_given args \<longleftrightarrow> rc_remote args \<noteq> ''''"

definition beta_candidate_manifest ::
  "rcargs \<Rightarrow> gate_paths \<Rightarrow> string \<Rightarrow> string \<Rightarrow> string option \<Rightarrow> report \<Rightarrow> (rworld, report) act" where
  \<comment> \<open>collect, write the manifest, check it\<close>
  "beta_candidate_manifest args gp source_hash gate_json soak report =
     act_bind (gets (\<lambda>w. beta_candidate_artifact_paths w gp gate_json soak)) (\<lambda>r.
     act_bind (act_lift r) (\<lambda>paths.
     act_bind (manifest_stage gp source_hash (remote_given args) paths report) (\<lambda>report1.
     freshness_stage gp report1)))"

definition rc_sync_stage ::
  "rcargs \<Rightarrow> gate_paths \<Rightarrow> step_result list \<Rightarrow> report \<Rightarrow> (rworld, step_result list \<times> report) act" where
  "rc_sync_stage args gp steps report =
     (if \<not> remote_given args then act_ret (steps, report)
      else act_bind (sync_and_verify (gp_log gp) (gp_manifest gp) (rc_remote args) (rc_remote_root args)
             (''remote_beta_rc_artifact_sync'', ''remote-beta-rc-artifact-sync.json'')
             (''remote_beta_rc_artifact_verify'', ''remote-beta-rc-artifact-verify.json'')) (\<lambda>(s1, s2).
           act_bind (summary_stage (gp_log gp @ [''remote-beta-rc-artifact-sync.json''])
             (gp_log gp @ [''remote-beta-rc-artifact-verify.json'']) report) (\<lambda>report1.
           act_ret (steps @ [s1, s2], report1))))"

definition rc_post_stage ::
  "rcargs \<Rightarrow> gate_paths \<Rightarrow> step_result list \<Rightarrow> report \<Rightarrow> (rworld, step_result list \<times> report) act" where
  "rc_post_stage args gp steps report =
     (if \<not> remote_given args then act_ret (steps, report)
      else act_bind (sync_and_verify (gp_log gp) (gp_manifest gp) (rc_remote args) (rc_remote_root args)
             (''remote_beta_rc_artifact_post_report_sync'', ''remote-beta-rc-artifact-post-report-sync.json'')
             (''remote_beta_rc_artifact_post_report_verify'', ''remote-beta-rc-artifact-post-report-verify.json'')) (\<lambda>(s1, s2).
           if passed_step s1 \<and> passed_step s2 then act_ret (steps, report)
           else act_bind (summary_stage (gp_log gp @ [''remote-beta-rc-artifact-post-report-sync.json''])
                  (gp_log gp @ [''remote-beta-rc-artifact-post-report-verify.json'']) report) (\<lambda>report1.
                act_ret (steps @ [s1, s2], report1))))"

definition beta_candidate_closing ::
  "rcargs \<Rightarrow> gate_paths \<Rightarrow> gate_reading \<Rightarrow> string \<Rightarrow> string option \<Rightarrow> report \<Rightarrow> (rworld, report) act" where
  "beta_candidate_closing args gp g source_hash soak report =
     act_bind (beta_candidate_finalize args gp (gr_steps g) False report) (\<lambda>report1.
     act_bind (beta_candidate_manifest args gp source_hash (gr_json g) soak report1) (\<lambda>report2.
     act_bind (beta_candidate_finalize args gp (gr_steps g) False report2) (\<lambda>report3.
     act_bind (beta_candidate_manifest args gp source_hash (gr_json g) soak report3) (\<lambda>report4.
     act_bind (rc_sync_stage args gp (gr_steps g) report4) (\<lambda>(steps, report5).
     act_bind (beta_candidate_finalize args gp steps (remote_given args) report5) (\<lambda>report6.
     act_bind (beta_candidate_manifest args gp source_hash (gr_json g) soak report6) (\<lambda>report7.
     act_bind (rc_post_stage args gp steps report7) (\<lambda>(all_steps, report8).
     beta_candidate_finalize args gp all_steps (remote_given args) report8))))))))"

definition beta_candidate_main :: "rcargs \<Rightarrow> (rworld, int) act" where
  "beta_candidate_main args =
     act_bind (start_candidate ''beta'' ''BETA_RELEASE_CANDIDATE.md'' (rc_results_dir args)) (\<lambda>gp.
     act_bind (gate_reading_stage args gp) (\<lambda>g.
     act_bind (gets (\<lambda>w. (source_tree_hash w, soak_choice w args))) (\<lambda>(source_hash, soak).
     act_bind (beta_candidate_report g source_hash soak) (\<lambda>report.
     act_bind (beta_candidate_closing args gp g source_hash soak report) (\<lambda>report1.
     act_bind (announce_candidate ''beta'' gp (report_passed report1)) (\<lambda>_.
     act_ret (if report_passed report1 then 0 else 1)))))))"

section \<open>The best row\<close>

lemma filter_res_ok:
  "filter_res p xs = Inr ys \<Longrightarrow> ys = filter (\<lambda>x. p x = Inr True) xs \<and> list_all (\<lambda>x. \<exists>b. p x = Inr b) xs"
  by (induction xs arbitrary: ys) (auto simp: andthen_eq_Inr)

lemma clean_row_True:
  "clean_row protocol direction size_bytes row = Inr True \<longleftrightarrow>
     cell_get row ''protocol'' = Some protocol \<and> cell_get row ''direction'' = Some direction \<and>
     cell_get row ''size_bytes'' = Some size_bytes \<and> cell_count row ''sha256_mismatch_count'' = Inr 0 \<and>
     cell_count row ''fail_count'' = Inr 0"
  by (auto simp: clean_row_def andthen_eq_Inr)

lemma count_cell_exact:
  assumes "cell_get row key = Some (show_nat n)" and "n < 2 ^ 53"
  shows "cell_count row key = Inr (int n)"
  using assms count_text_exact [OF assms(2)] by (simp add: cell_count_def float_or_raise_def)

text \<open>
  C26: The throughput reported for a protocol, a direction and a size is that of a clean row of the
  comparison, one of that protocol, direction and size without failures and digest mismatches,
  and no clean row has a greater one; nothing is reported exactly when there is no clean row. A row
  whose failure count is written as a whole number between 1 and \<open>2 ^ 53\<close> is never the one.
\<close>

theorem best_value_maximal:
  assumes "best_summary_value rows protocol direction size_bytes = Inr best"
  shows "(best = [] \<longleftrightarrow> \<not> list_ex (\<lambda>r. clean_row protocol direction size_bytes r = Inr True) rows) \<and>
    (best \<noteq> [] \<longrightarrow> (\<exists>row \<in> set rows. best = best_row_summary protocol direction size_bytes row \<and>
       cell_get row ''protocol'' = Some protocol \<and> cell_get row ''direction'' = Some direction \<and>
       cell_get row ''size_bytes'' = Some size_bytes \<and> cell_count row ''sha256_mismatch_count'' = Inr 0 \<and>
       cell_count row ''fail_count'' = Inr 0 \<and>
       (\<forall>n. 0 < n \<and> n < 2 ^ 53 \<longrightarrow> cell_get row ''fail_count'' \<noteq> Some (show_nat n)) \<and>
       (\<forall>r \<in> set rows. clean_row protocol direction size_bytes r = Inr True \<longrightarrow>
          \<not> float_less (cell_float row ''best_Gbps'') (cell_float r ''best_Gbps''))))"
proof -
  let ?clean = "\<lambda>r. clean_row protocol direction size_bytes r = Inr True"
  let ?key = "\<lambda>r. cell_float r ''best_Gbps''"
  obtain candidates where c: "filter_res (clean_row protocol direction size_bytes) rows = Inr candidates"
    and best: "best = (case candidates of [] \<Rightarrow> []
        | row # others \<Rightarrow> best_row_summary protocol direction size_bytes (max_by ?key row others))"
    using assms unfolding best_summary_value_def andthen_eq_Inr by (force split: list.splits)
  have cs: "candidates = filter ?clean rows" using filter_res_ok [OF c] by simp
  show ?thesis
  proof (cases candidates)
    case Nil
    then have "\<not> list_ex ?clean rows" using cs by (metis (no_types, lifting) filter_empty_conv list_ex_iff)
    then show ?thesis using best Nil by simp
  next
    case (Cons row others)
    let ?m = "max_by ?key row others"
    have "?m \<in> set candidates" using Cons max_by_member [of ?key row others] by simp
    then have m: "?m \<in> set rows" "?clean ?m" using cs by simp_all
    have ne: "best = best_row_summary protocol direction size_bytes ?m" "best \<noteq> []"
      using best Cons by (simp_all add: best_row_summary_def)
    have "\<not> float_less (?key ?m) (?key r)" if "r \<in> set rows" "?clean r" for r
    proof -
      have "r \<in> set candidates" using that cs by simp
      then show ?thesis using Cons max_by_maximal [of r row others ?key] by simp
    qed
    moreover have "cell_get ?m ''fail_count'' \<noteq> Some (show_nat n)" if "0 < n \<and> n < 2 ^ 53" for n
      using that count_cell_exact [of ?m "''fail_count''" n] m(2) by (auto simp: clean_row_True)
    moreover have "list_ex ?clean rows" using m by (auto simp: list_ex_iff)
    ultimately show ?thesis using m ne by (auto simp: clean_row_True)
  qed
qed

definition demo_rows :: "csv_row list" where
  "demo_rows = dict_rows (''protocol,direction,size_bytes,best_Gbps,fail_count'' @ [newline] @
     ''gridflux,stor,8,9.5,1'' @ [newline] @ ''gridflux,stor,8,2.5,0'' @ [newline] @ ''gridflux,stor,8,10.25,0'' @ [newline])"

theorem best_value_maximal_witness:
  "\<exists>best row. best_summary_value demo_rows ''gridflux'' ''stor'' ''8'' = Inr best \<and> row \<in> set demo_rows \<and>
     best = best_row_summary ''gridflux'' ''stor'' ''8'' row \<and> cell_count row ''fail_count'' = Inr 0"
proof -
  have run: "best_summary_value demo_rows ''gridflux'' ''stor'' ''8'' = Inr (best_row_summary ''gridflux'' ''stor'' ''8'' (demo_rows ! 2))"
    unfolding demo_rows_def by code_simp
  have "best_row_summary ''gridflux'' ''stor'' ''8'' (demo_rows ! 2) \<noteq> []" by (simp add: best_row_summary_def)
  then show ?thesis using best_value_maximal [OF run] run by blast
qed

section \<open>What exit status 0 means\<close>

text \<open>Stages that start no subprocess: a second reading of the contract on effects.\<close>

definition silent :: "rworld \<Rightarrow> rworld \<Rightarrow> bool" where
  "silent w w' \<longleftrightarrow> ran w [] w'"

interpretation quiet_run: effect_order silent
  by unfold_locales (auto simp: silent_def dest: ran_trans)

lemma quiet_run_moves:
  "quiet_run.grows (write_file p content)" "quiet_run.grows (make_dirs p)" "quiet_run.grows timestamp_utc"
  "quiet_run.grows compact_timestamp" "quiet_run.grows (print_line s)" "quiet_run.grows (gets f)"
  "quiet_run.grows (lift_tree g)" "quiet_run.grows (check_alpha_artifact_manifest_freshness p)"
  by (auto intro!: quiet_run.growsI simp: write_file_def make_dirs_def timestamp_utc_def compact_timestamp_def
      print_line_def gets_def lift_tree_def check_alpha_artifact_manifest_freshness_def silent_def ran_def split: if_splits)

lemmas quiet_run_rules = quiet_run.grows_rules quiet_run_moves

lemma quiet_run_stages:
  "quiet_run.grows (start_candidate kind page dir)" "quiet_run.grows (beta_candidate_report g h soak)"
  "quiet_run.grows (beta_candidate_finalize args gp steps required report)"
  "quiet_run.grows (beta_candidate_manifest args gp h gate_json soak report)"
  "quiet_run.grows (summary_stage p q report)" "quiet_run.grows (announce_candidate kind gp passed)"
  unfolding start_candidate_def beta_candidate_report_def beta_candidate_finalize_def write_beta_candidate_def
    write_json_report_def beta_candidate_manifest_def manifest_stage_def write_alpha_artifact_manifest_def
    freshness_stage_def summary_stage_def announce_candidate_def announce_def Let_def
  by (auto intro!: quiet_run_rules split: prod.splits)

lemma quiet_stage_backed: "quiet_run.grows m \<Longrightarrow> m w = (r, w') \<Longrightarrow> stage_backed w w' []"
  unfolding stage_backed_def backed_def by (drule (1) quiet_run.growsD) (auto simp: silent_def)

lemma sync_and_verify_backed:
  assumes "sync_and_verify log_dir m remote remote_root sn vn w = (Inr (s1, s2), w')"
  shows "stage_backed w w' [s1, s2]"
proof -
  obtain c1 w1 c2 where "run_step (fst sn) c1 log_dir w = (Inr s1, w1)" "run_step (fst vn) c2 log_dir w1 = (Inr s2, w')"
    using assms by (auto simp: sync_and_verify_def act_simps)
  from stage_backed_trans [OF this [THEN run_step_backed]] show ?thesis by simp
qed

lemma rc_sync_backed:
  assumes "rc_sync_stage args gp steps report w = (Inr (steps1, report1), w')"
  shows "\<exists>new. steps1 = steps @ new \<and> stage_backed w w' new"
proof (cases "remote_given args")
  case True
  then obtain s1 s2 w1 sn vn p q where
    "sync_and_verify (gp_log gp) (gp_manifest gp) (rc_remote args) (rc_remote_root args) sn vn w = (Inr (s1, s2), w1)"
    and sum: "summary_stage p q report w1 = (Inr report1, w')" and "steps1 = steps @ [s1, s2]"
    using assms unfolding rc_sync_stage_def by (auto simp: act_simps)
  moreover from this(1) have "stage_backed w w1 [s1, s2]" by (rule sync_and_verify_backed)
  moreover from sum have "stage_backed w1 w' []" by (rule quiet_stage_backed [OF quiet_run_stages(5)])
  ultimately show ?thesis using stage_backed_trans by fastforce
qed (use assms in \<open>auto simp: rc_sync_stage_def act_simps\<close>)

lemma rc_post_backed:
  assumes "rc_post_stage args gp steps report w = (Inr (steps1, report1), w')"
  shows "\<exists>new. steps1 = steps @ new \<and> stage_backed w w' new"
proof (cases "remote_given args")
  case True
  then obtain s1 s2 w1 sn vn p q where
    "sync_and_verify (gp_log gp) (gp_manifest gp) (rc_remote args) (rc_remote_root args) sn vn w = (Inr (s1, s2), w1)"
    and rest: "if passed_step s1 \<and> passed_step s2 then steps1 = steps \<and> w' = w1
      else summary_stage p q report w1 = (Inr report1, w') \<and> steps1 = steps @ [s1, s2]"
    using assms unfolding rc_post_stage_def by (auto simp: act_simps split: if_splits)
  from this(1) have b: "stage_backed w w1 [s1, s2]" by (rule sync_and_verify_backed)
  show ?thesis
  proof (cases "passed_step s1 \<and> passed_step s2")
    case True
    then have "stage_backed w w1 []" using b by (auto simp: stage_backed_def backed_def)
    then show ?thesis using rest True by auto
  next
    case False
    then have "stage_backed w1 w' []" using rest by (auto intro: quiet_stage_backed [OF quiet_run_stages(5)])
    then show ?thesis using rest False stage_backed_trans [OF b] by fastforce
  qed
qed (use assms in \<open>auto simp: rc_post_stage_def act_simps\<close>)

lemma gate_reading_backed:
  "gate_reading_stage args gp w = (Inr g, w') \<Longrightarrow> stage_backed w w' (gr_steps g)"
  unfolding gate_reading_stage_def using run_step_backed
  by (auto simp: act_simps Let_def split: if_splits)

lemma beta_candidate_passed:
  "report_passed (beta_candidate_verdict report steps required require_soak) \<longleftrightarrow>
     list_all passed_step steps \<and> \<not> unpassed_part report ''beta_release_gate'' \<and>
     \<not> bad_part report ''artifact_manifest_freshness'' \<and>
     (required \<longrightarrow> \<not> bad_part report ''artifact_sync_summary'' \<and> \<not> bad_part report ''artifact_verify_summary'') \<and>
     (require_soak \<longrightarrow> is_dict (field report ''beta_long_soak'' (JObj [])) \<and>
        truthy (field (part_of report ''beta_long_soak'') ''passed'' (JBool False)))"
  by (auto simp: beta_candidate_verdict_def beta_candidate_failures_def report_passed_def remote_failures_def
      failed_names_Nil named_def Let_def)

definition rc_kept :: "string \<Rightarrow> bool" where
  \<comment> \<open>the entries of the report that no later stage writes\<close>
  "rc_kept k \<longleftrightarrow> k \<in> {''beta_release_gate'', ''beta_long_soak''}"

lemma rc_stages_keep:
  assumes "rc_kept k"
  shows "beta_candidate_finalize args gp steps b report w = (Inr report1, w') \<Longrightarrow> field report1 k x = field report k x"
    and "beta_candidate_manifest args gp h j s report w = (Inr report1, w') \<Longrightarrow> field report1 k x = field report k x"
    and "rc_sync_stage args gp steps report w = (Inr (steps1, report1), w') \<Longrightarrow> field report1 k x = field report k x"
    and "rc_post_stage args gp steps report w = (Inr (steps1, report1), w') \<Longrightarrow> field report1 k x = field report k x"
  using assms
  by (auto simp: beta_candidate_finalize_def beta_candidate_verdict_def beta_candidate_manifest_def manifest_stage_def
      freshness_stage_def rc_sync_stage_def rc_post_stage_def summary_stage_def act_simps rc_kept_def
      field_dict_update_untouched step_summary_def Let_def split: if_splits prod.splits)

lemma gate_run_rc_stages:
  "gate_run.grows (beta_candidate_finalize args gp steps b report)"
  "gate_run.grows (beta_candidate_manifest args gp h j s report)"
  "gate_run.grows (rc_sync_stage args gp steps report)" "gate_run.grows (rc_post_stage args gp steps report)"
  "gate_run.grows (start_candidate kind page dir)" "gate_run.grows (gate_reading_stage args gp)"
  "gate_run.grows (beta_candidate_report g h soak)" "gate_run.grows (announce_candidate kind gp passed)"
  unfolding beta_candidate_finalize_def write_beta_candidate_def write_json_report_def beta_candidate_manifest_def
    rc_sync_stage_def rc_post_stage_def start_candidate_def gate_reading_stage_def beta_candidate_report_def
    announce_candidate_def announce_def Let_def
  by (auto intro!: gate_run_rules gate_run_stages split: prod.splits)

lemma post_keeps_freshness:
  "rc_post_stage args gp steps report w = (Inr (steps1, report1), w') \<Longrightarrow>
     bad_part report1 ''artifact_manifest_freshness'' \<longleftrightarrow> bad_part report ''artifact_manifest_freshness''"
  by (auto simp: rc_post_stage_def summary_stage_def act_simps bad_part_def part_of_def split: if_splits prod.splits)

lemma freshness_not_empty:
  assumes "check_alpha_artifact_manifest_freshness p w = (Inr fresh, w')"
  shows "fresh \<noteq> []"
proof -
  obtain s where "(case json_loads s of Some (JObj data) \<Rightarrow> freshness_of w p data
      | Some _ \<Rightarrow> Inl AttributeError | None \<Rightarrow> Inl (ValueError ''JSONDecodeError'')) = Inr fresh"
    using assms unfolding check_alpha_artifact_manifest_freshness_def prod.inject andthen_eq_Inr by blast
  then obtain data where "freshness_of w p data = Inr fresh"
    by (cases "json_loads s") (auto split: json.split_asm)
  then show ?thesis unfolding freshness_of_def andthen_eq_Inr by auto
qed

lemma rc_manifest_fresh:
  assumes run: "beta_candidate_manifest args gp h j s report w = (Inr report1, w')"
    and good: "\<not> bad_part report1 ''artifact_manifest_freshness''"
  shows "fresh_checked (gp_manifest gp) w w'"
proof -
  obtain paths report0 w1 where m: "manifest_stage gp h (remote_given args) paths report w = (Inr report0, w1)"
    and f: "freshness_stage gp report0 w1 = (Inr report1, w')"
    using run by (auto simp: beta_candidate_manifest_def act_simps)
  obtain fresh where fresh: "check_alpha_artifact_manifest_freshness (gp_manifest gp) w1 = (Inr fresh, w')"
    and report1: "report1 = dict_set ''artifact_manifest_freshness'' (JObj fresh) report0"
    using f by (auto simp: freshness_stage_def act_simps)
  have "fresh \<noteq> []" using freshness_not_empty [OF fresh] .
  then have "status_of report1 ''artifact_manifest_freshness'' = JStr ''pass''"
    using good by (simp add: report1 bad_part_def part_of_def status_of_def dict_of_def)
  from freshness_stage_checked [OF f this] show ?thesis
    using fresh_checked_mono gate_run.growsD [OF gate_run_report_stages(3) m] by blast
qed

lemma beta_candidate_closing_passed:
  assumes run: "beta_candidate_closing args gp g h soak report w = (Inr report9, w')" and passed: "report_passed report9"
  shows "(\<exists>new. stage_backed w w' new \<and> list_all passed_step (gr_steps g @ new)) \<and> fresh_checked (gp_manifest gp) w w' \<and>
    \<not> unpassed_part report ''beta_release_gate'' \<and>
    (rc_require_soak args \<longrightarrow> is_dict (field report ''beta_long_soak'' (JObj [])) \<and>
        truthy (field (part_of report ''beta_long_soak'') ''passed'' (JBool False)))"
proof -
  obtain r1 w1 r2 w2 r3 w3 r4 w4 steps r5 w5 r6 w6 r7 w7 all_steps r8 w8 where
    a: "beta_candidate_finalize args gp (gr_steps g) False report w = (Inr r1, w1)"
    and b: "beta_candidate_manifest args gp h (gr_json g) soak r1 w1 = (Inr r2, w2)"
    and c: "beta_candidate_finalize args gp (gr_steps g) False r2 w2 = (Inr r3, w3)"
    and d: "beta_candidate_manifest args gp h (gr_json g) soak r3 w3 = (Inr r4, w4)"
    and e: "rc_sync_stage args gp (gr_steps g) r4 w4 = (Inr (steps, r5), w5)"
    and f: "beta_candidate_finalize args gp steps (remote_given args) r5 w5 = (Inr r6, w6)"
    and i: "beta_candidate_manifest args gp h (gr_json g) soak r6 w6 = (Inr r7, w7)"
    and j: "rc_post_stage args gp steps r7 w7 = (Inr (all_steps, r8), w8)"
    and k: "beta_candidate_finalize args gp all_steps (remote_given args) r8 w8 = (Inr report9, w')"
    using run unfolding beta_candidate_closing_def by (auto simp only: act_bind_ok split_paired_Ex prod.case)
  have "report9 = beta_candidate_verdict r8 all_steps (remote_given args) (rc_require_soak args)"
    using k by (auto simp: beta_candidate_finalize_def act_simps Let_def)
  note ok = passed [unfolded this beta_candidate_passed]
  have same: "field r8 key x = field report key x" if "rc_kept key" for key x
    using rc_stages_keep(1) [OF that a] rc_stages_keep(2) [OF that b] rc_stages_keep(1) [OF that c]
      rc_stages_keep(2) [OF that d] rc_stages_keep(3) [OF that e] rc_stages_keep(1) [OF that f]
      rc_stages_keep(2) [OF that i] rc_stages_keep(4) [OF that j] by simp
  obtain new1 new2 where new: "steps = gr_steps g @ new1" "stage_backed w4 w5 new1"
      "all_steps = steps @ new2" "stage_backed w7 w8 new2"
    using rc_sync_backed [OF e] rc_post_backed [OF j] by blast
  note q = quiet_stage_backed [OF quiet_run_stages(3)] quiet_stage_backed [OF quiet_run_stages(4)]
  have "stage_backed w w' (new1 @ new2)"
    using stage_backed_trans [OF q(1) [OF a] stage_backed_trans [OF q(2) [OF b] stage_backed_trans [OF q(1) [OF c]
      stage_backed_trans [OF q(2) [OF d] stage_backed_trans [OF new(2) stage_backed_trans [OF q(1) [OF f]
      stage_backed_trans [OF q(2) [OF i] stage_backed_trans [OF new(4) q(1) [OF k]]]]]]]]] by simp
  moreover have "list_all passed_step (gr_steps g @ new1 @ new2)" using ok new by simp
  moreover have "fresh_checked (gp_manifest gp) w w'"
  proof (rule fresh_checked_mono)
    show "fresh_checked (gp_manifest gp) w6 w7" using rc_manifest_fresh [OF i] post_keeps_freshness [OF j] ok by blast
    show "leads_to w w6"
      using gate_run_rc_stages(1,2,3) [THEN gate_run.growsD] a b c d e f by (meson rtranclp_trans)
    show "leads_to w7 w'" using gate_run_rc_stages(1,4) [THEN gate_run.growsD] j k by (meson rtranclp_trans)
  qed
  moreover have kept: "rc_kept ''beta_release_gate''" "rc_kept ''beta_long_soak''" by (simp_all add: rc_kept_def)
  have "unpassed_part r8 ''beta_release_gate'' = unpassed_part report ''beta_release_gate''"
      "part_of r8 ''beta_long_soak'' = part_of report ''beta_long_soak''"
    unfolding unpassed_part_def part_of_def same [OF kept(1)] same [OF kept(2)] by (rule refl)+
  ultimately show ?thesis using ok unfolding same [OF kept(2)] by metis
qed

lemma beta_candidate_report_fields:
  assumes "beta_candidate_report g h soak w = (Inr report, w')"
  shows "unpassed_part report ''beta_release_gate'' \<longleftrightarrow> \<not> truthy (field (gr_payload g) ''passed'' (JBool False))"
    and "\<exists>summary. candidate_soak_summary w soak = Inr summary \<and>
      field (part_of report ''beta_long_soak'') ''passed'' x = field summary ''passed'' x"
proof -
  obtain summary where s: "candidate_soak_summary w soak = Inr summary"
    and g: "field report ''beta_release_gate'' d = JObj (gate_entry w g)"
    and k: "field report ''beta_long_soak'' d = JObj (relative_path_entry w summary)" for d
    using assms unfolding beta_candidate_report_def by (auto simp: act_simps)
  have "field (gate_entry w g) ''passed'' d = JBool (truthy (field (gr_payload g) ''passed'' (JBool False)))" for d
    by (simp add: gate_entry_def Let_def)
  then show "unpassed_part report ''beta_release_gate'' \<longleftrightarrow> \<not> truthy (field (gr_payload g) ''passed'' (JBool False))"
    unfolding unpassed_part_def g by simp
  have "field (relative_path_entry w summary) ''passed'' x = field summary ''passed'' x"
    by (simp add: relative_path_entry_def)
  then show "\<exists>summary. candidate_soak_summary w soak = Inr summary \<and>
      field (part_of report ''beta_long_soak'') ''passed'' x = field summary ''passed'' x"
    using s unfolding part_of_def k by (auto simp: dict_of_def)
qed

text \<open>
  When the beta candidate exits with status 0, the report of the beta gate it read says passed, every
  subprocess it started returned 0, the manifest was found fresh at a state of the run, and the soak
  run passed where one was asked for.
\<close>

theorem beta_candidate_exit_zero:
  assumes "beta_candidate_main args w = (Inr 0, w')"
  shows "\<exists>gp w1 g w2 tr. start_candidate ''beta'' ''BETA_RELEASE_CANDIDATE.md'' (rc_results_dir args) w = (Inr gp, w1) \<and>
    gate_reading_stage args gp w1 = (Inr g, w2) \<and> truthy (field (gr_payload g) ''passed'' (JBool False)) \<and>
    ran w tr w' \<and> list_all (\<lambda>cp. p_rc (snd cp) = 0) tr \<and> fresh_checked (gp_manifest gp) w w' \<and>
    (rc_require_soak args \<longrightarrow> (\<exists>summary. candidate_soak_summary w2 (soak_choice w2 args) = Inr summary \<and>
       truthy (field summary ''passed'' (JBool False))))"
proof -
  obtain gp w1 g w2 report w3 report1 w4 u where
    a: "start_candidate ''beta'' ''BETA_RELEASE_CANDIDATE.md'' (rc_results_dir args) w = (Inr gp, w1)"
    and b: "gate_reading_stage args gp w1 = (Inr g, w2)"
    and c: "beta_candidate_report g (source_tree_hash w2) (soak_choice w2 args) w2 = (Inr report, w3)"
    and d: "beta_candidate_closing args gp g (source_tree_hash w2) (soak_choice w2 args) report w3 = (Inr report1, w4)"
    and e: "announce_candidate ''beta'' gp (report_passed report1) w4 = (Inr u, w')"
    and rc: "0 = (if report_passed report1 then 0 else 1 :: int)"
    using assms unfolding beta_candidate_main_def by (auto simp only: act_bind_ok gets_ok act_ret_ok split_paired_Ex prod.case)
  have "report_passed report1" using rc by (auto split: if_splits)
  note closed = beta_candidate_closing_passed [OF d this]
  obtain new where new: "stage_backed w3 w4 new" "list_all passed_step (gr_steps g @ new)" using closed by blast
  have "stage_backed w w' (gr_steps g @ new)"
    using stage_backed_trans [OF quiet_stage_backed [OF quiet_run_stages(1) a] stage_backed_trans [OF gate_reading_backed [OF b]
      stage_backed_trans [OF quiet_stage_backed [OF quiet_run_stages(2) c] stage_backed_trans [OF new(1)
        quiet_stage_backed [OF quiet_run_stages(6) e]]]]] by simp
  then obtain tr where "ran w tr w'" "list_all (\<lambda>cp. p_rc (snd cp) = 0) tr"
    using new(2) unfolding stage_backed_def backed_def by blast
  moreover have "fresh_checked (gp_manifest gp) w w'"
    using fresh_checked_mono [of w w3 _ w4 w'] closed gate_run_rc_stages(5,6,7,8) [THEN gate_run.growsD] a b c e
    by (meson rtranclp_trans)
  moreover have "truthy (field (gr_payload g) ''passed'' (JBool False))"
    using closed beta_candidate_report_fields(1) [OF c] by blast
  moreover have "rc_require_soak args \<longrightarrow> (\<exists>summary. candidate_soak_summary w2 (soak_choice w2 args) = Inr summary \<and>
       truthy (field summary ''passed'' (JBool False)))"
    using closed beta_candidate_report_fields(2) [OF c, of "JBool False"] by metis
  ultimately show ?thesis using a b by blast
qed

lemma start_candidate_reads_same:
  "start_candidate kind page dir w = (Inr gp, w1) \<Longrightarrow> read_json w1 path = read_json w path"
  by (auto simp: start_candidate_def act_simps make_dirs_def compact_timestamp_def read_json_def key_of_def root_segs_def
      Let_def split: if_splits)

text \<open>
  C24: A beta candidate never passes on a gate that did not pass: when the report named by
  \<open>--gate-json\<close> is missing, is not readable as JSON or does not say passed, the script does not end
  with status 0, whatever the subprocesses do and whatever else the repository holds.
\<close>

theorem beta_candidate_needs_gate:
  assumes "rc_gate_json args \<noteq> ''''" and "read_json w (rc_gate_json args) = Inr payload"
    and "\<not> truthy (field payload ''passed'' (JBool False))"
  shows "beta_candidate_main args w \<noteq> (Inr 0, w')"
proof
  assume "beta_candidate_main args w = (Inr 0, w')"
  then obtain gp w1 g w2 where
    start: "start_candidate ''beta'' ''BETA_RELEASE_CANDIDATE.md'' (rc_results_dir args) w = (Inr gp, w1)"
    and gate: "gate_reading_stage args gp w1 = (Inr g, w2)" and passed: "truthy (field (gr_payload g) ''passed'' (JBool False))"
    using beta_candidate_exit_zero by blast
  have "gr_payload g = payload"
    using gate assms(1,2) start_candidate_reads_same [OF start] by (auto simp: gate_reading_stage_def act_simps)
  then show False using passed assms(3) by simp
qed

definition demo_rcargs :: rcargs where
  "demo_rcargs = \<lparr>rc_gate_json = ''gate.json'', rc_build_dir = ''b'', rc_io_uring_build_dir = ''b'', rc_remote = '''',
     rc_remote_root = ''/'', rc_server_host = '''', rc_results_dir = ''r'', rc_soak_json = '''', rc_require_soak = False\<rparr>"

theorem beta_candidate_needs_gate_witness:
  "read_json demo_world ''gate.json'' = Inr [] \<and> (\<nexists>w'. beta_candidate_main demo_rcargs demo_world = (Inr 0, w'))"
proof -
  have key: "key_of demo_world ''gate.json'' = [''gate.json'']" unfolding demo_world_def by code_simp
  have "tree demo_world = []" by (simp add: demo_world_def)
  then have "read_json demo_world ''gate.json'' = Inr []"
    unfolding read_json_def read_json_if_exists_def key by (simp add: repo_exists_def repo_is_dir_def)
  then show ?thesis
    using beta_candidate_needs_gate [of demo_rcargs demo_world "[]"] by (simp add: demo_rcargs_def)
qed

end
