(* ===== verification/Py_Float_Sort.thy ===== *)
theory Py_Float_Sort
  imports Py_Float "HOL-Library.Multiset"
begin

text \<open>
  Correctness of \<open>sorted\<close> on lists of floats without NaN: the result has the same elements and is in
  ascending order.
\<close>

section \<open>Sorting\<close>

lemma float_insert_mset [simp]: "mset (float_insert x ys) = add_mset x (mset ys)"
  by (induction x ys rule: float_insert.induct) auto

lemma float_insert_sorted:
  assumes "sorted_wrt (\<lambda>a b. \<not> float_less b a) ys" and "NaN \<notin> insert x (set ys)"
  shows "sorted_wrt (\<lambda>a b. \<not> float_less b a) (float_insert x ys)"
  using assms
proof (induction x ys rule: float_insert.induct)
  case (2 x y ys)
  have elems: "set (float_insert x ys) = insert x (set ys)" by (metis float_insert_mset set_mset_add_mset_insert set_mset_mset)
  have "\<not> float_less z x" if "float_less x y" "z \<in> set ys" for z
  proof (rule float_le_trans)
    show "y \<noteq> NaN" "\<not> float_less z y" using "2.prems" that by auto
    show "\<not> float_less y x" using that float_less_trans [of x y x] by auto
  qed
  moreover have "sorted_wrt (\<lambda>a b. \<not> float_less b a) (float_insert x ys)" if "\<not> float_less x y"
    using 2 that by simp
  ultimately show ?case using "2.prems" elems by (auto dest: float_less_trans)
qed simp

lemma float_sorted_correct:
  shows "mset (float_sorted xs) = mset xs"
    and "NaN \<notin> set xs \<Longrightarrow> sorted_wrt (\<lambda>a b. \<not> float_less b a) (float_sorted xs)"
proof -
  have "mset (foldl (\<lambda>ys x. float_insert x ys) acc xs) = mset acc + mset xs" for acc
    by (induction xs arbitrary: acc) auto
  then show "mset (float_sorted xs) = mset xs" by (simp add: float_sorted_def)
  have "sorted_wrt (\<lambda>a b. \<not> float_less b a) (foldl (\<lambda>ys x. float_insert x ys) acc xs)"
    if "NaN \<notin> set xs" "NaN \<notin> set acc" "sorted_wrt (\<lambda>a b. \<not> float_less b a) acc" for acc
    using that
  proof (induction xs arbitrary: acc)
    case (Cons x xs)
    have "set (float_insert x acc) = insert x (set acc)"
      by (metis float_insert_mset set_mset_add_mset_insert set_mset_mset)
    then show ?case using Cons float_insert_sorted [of acc x] by auto
  qed simp
  then show "NaN \<notin> set xs \<Longrightarrow> sorted_wrt (\<lambda>a b. \<not> float_less b a) (float_sorted xs)"
    by (simp add: float_sorted_def)
qed

end
