(* ===== verification/Matrix_Rows.thy ===== *)
theory Matrix_Rows
  imports Control_Client Py_Csv Py_Json_Text Py_Float_Sort
begin

text \<open>
  The measurement rows of tools/perf/run_gridftp_private_matrix.py: the columns of the result files, the
  row of a case before it runs, the metrics read from the logs of client and server, the counts of error
  events, the memory figures of the environment logs, and the summary of repeated cases with its
  statistics. A row is a dictionary from column names to texts. The files a function reads are given by
  their texts, \<open>None\<close> for a file that does not exist.
\<close>

section \<open>Columns\<close>

definition UPLOAD_CLIENT_ROLE :: string where "UPLOAD_CLIENT_ROLE = ''file_client''"

definition UPLOAD_SERVER_ROLE :: string where "UPLOAD_SERVER_ROLE = ''file_server''"

definition DOWNLOAD_SENDER_ROLE :: string where "DOWNLOAD_SENDER_ROLE = ''file_download_sender''"

definition DOWNLOAD_CLIENT_ROLE :: string where "DOWNLOAD_CLIENT_ROLE = ''file_download_client''"

definition STAGE_FIELDS :: "string list" where
  "STAGE_FIELDS =
     [''stage_recv_seconds'', ''stage_recv_bytes'', ''stage_send_seconds'', ''stage_send_bytes'',
      ''stage_read_seconds'', ''stage_read_bytes'', ''stage_write_seconds'', ''stage_write_bytes'',
      ''stage_checksum_seconds'', ''stage_checksum_bytes'', ''stage_manifest_flush_seconds'',
      ''stage_manifest_flush_bytes'', ''stage_manifest_sort_seconds'', ''stage_manifest_sort_bytes'',
      ''stage_manifest_serialize_seconds'', ''stage_manifest_serialize_bytes'',
      ''stage_manifest_write_seconds'', ''stage_manifest_write_bytes'', ''stage_resume_precheck_seconds'',
      ''stage_resume_precheck_bytes'', ''stage_final_verify_seconds'', ''stage_final_verify_bytes'',
      ''stage_rename_commit_seconds'', ''stage_rename_commit_bytes'', ''stage_overall_seconds'',
      ''stage_overall_bytes'', ''stage_read_calls'', ''stage_write_calls'',
      ''stage_read_avg_bytes_per_call'', ''stage_write_avg_bytes_per_call'', ''file_io_wait_seconds'',
      ''file_io_wait_bytes'', ''write_call_count'', ''write_syscall_count'', ''write_retry_count'',
      ''write_short_count'', ''write_zero_count'', ''write_total_bytes'', ''write_avg_bytes_per_call'',
      ''write_avg_bytes_per_syscall'', ''io_uring_submit_count'', ''io_uring_wait_count'',
      ''io_uring_completion_count'', ''io_uring_sqe_count'', ''io_uring_partial_completion_count'',
      ''io_uring_retry_count'', ''io_uring_avg_bytes_per_sqe'']"

definition ROLE_METRIC_FIELDS :: "string list" where
  "ROLE_METRIC_FIELDS =
     [''elapsed'', ''throughput_gbps'', ''skipped_bytes'', ''resent_bytes'', ''verified_bytes'',
      ''manifest_flush_count'', ''manifest_flush_policy'', ''manifest_flush_interval_chunks'',
      ''final_verify_policy'', ''final_verify_policy_requested'', ''final_verify_policy_effective'',
      ''commit_sync_policy'', ''preallocate'', ''file_io_backend'', ''file_io_buffer_size'',
      ''file_io_queue_depth'', ''file_io_batch_size'', ''file_io_advice'', ''posix_write_strategy'',
      ''posix_write_strategy_effective'']"

definition PHASE_ALIAS_FIELDS :: "string list" where
  "PHASE_ALIAS_FIELDS =
     [''data_receive_seconds'', ''data_receive_bytes'', ''temp_write_seconds'', ''temp_write_bytes'',
      ''checksum_seconds'', ''checksum_bytes'', ''manifest_flush_seconds'', ''manifest_flush_bytes'',
      ''manifest_sort_seconds'', ''manifest_sort_bytes'', ''manifest_serialize_seconds'',
      ''manifest_serialize_bytes'', ''manifest_write_seconds'', ''manifest_write_bytes'',
      ''manifest_bytes_written'', ''verified_chunk_count'', ''completed_range_count'',
      ''final_verify_seconds'', ''final_verify_bytes'', ''bytes_checksummed'', ''bytes_final_verified'',
      ''finalize_rename_seconds'', ''finalize_rename_bytes'', ''rename_commit_seconds'',
      ''source_read_seconds'', ''source_read_bytes'', ''network_send_seconds'', ''network_send_bytes'',
      ''download_temp_write_seconds'', ''download_temp_write_bytes'']"

definition prefixed :: "string \<Rightarrow> string list \<Rightarrow> string list" where
  "prefixed side names = map (\<lambda>name. side @ ''_'' @ name) names"

definition role_columns :: "string \<Rightarrow> string list" where
  "role_columns side = prefixed side ROLE_METRIC_FIELDS @ prefixed side STAGE_FIELDS @ prefixed side PHASE_ALIAS_FIELDS"

definition RECEIVER_COUNTERS :: "string list" where
  "RECEIVER_COUNTERS = [''receiver_pending_bytes_max'', ''receiver_backpressure_count'',
     ''receiver_backpressure_seconds'', ''receiver_write_yield_count'']"

definition MEMORY_COLUMNS :: "string list" where
  "MEMORY_COLUMNS =
     [''server_dirty_kb_before'', ''server_writeback_kb_before'', ''server_cached_kb_before'',
      ''server_dirty_kb_after'', ''server_writeback_kb_after'', ''server_cached_kb_after'',
      ''client_dirty_kb_before'', ''client_writeback_kb_before'', ''client_cached_kb_before'',
      ''client_dirty_kb_after'', ''client_writeback_kb_after'', ''client_cached_kb_after'']"

definition CSV_FIELDS :: "string list" where
  "CSV_FIELDS =
     [''timestamp'', ''mode'', ''direction'', ''bytes'', ''connections'', ''chunk_size'', ''buffer_size'',
      ''checksum_algorithm'', ''checksum_backend'', ''preallocate'', ''file_io_backend'',
      ''file_io_buffer_size'', ''file_io_queue_depth'', ''file_io_batch_size'', ''file_io_advice'',
      ''posix_write_strategy'', ''posix_write_strategy_effective'', ''receiver_write_profile'',
      ''receiver_max_pending_bytes'', ''receiver_write_yield_policy'', ''tls_mode'', ''data_tls_mode'',
      ''repeat_index'', ''elapsed'', ''throughput_gbps'', ''skipped_bytes'', ''resent_bytes'',
      ''verified_bytes'', ''manifest_flush_count'', ''manifest_flush_policy'',
      ''manifest_flush_interval_chunks'', ''commit_sync_policy'', ''final_verify_policy'',
      ''final_verify_policy_requested'', ''final_verify_policy_effective'']
     @ STAGE_FIELDS @ PHASE_ALIAS_FIELDS @ RECEIVER_COUNTERS @ role_columns ''sender'' @ role_columns ''receiver''
     @ [''host_baseline_csv'', ''storage_bench_csv'', ''source_sha256'', ''dest_sha256'', ''result'',
        ''server_log'', ''client_log'', ''event_log'', ''server_event_log'', ''client_event_log'',
        ''event_error_code_counts'', ''env_snapshot_before'', ''env_snapshot_after'',
        ''server_env_before_log'', ''server_env_after_log'', ''client_env_before_log'',
        ''client_env_after_log'']
     @ MEMORY_COLUMNS
     @ [''server_hostname'', ''client_hostname'', ''server_kernel'', ''client_kernel'',
        ''server_cpu_flags'', ''client_cpu_flags'', ''server_fs_type'', ''client_fs_type'',
        ''server_free_bytes'', ''client_free_bytes'', ''transfer_id'', ''control_port'',
        ''data_port_base'', ''temp_root'', ''remote_path'', ''local_path'', ''error'']"

definition SUMMARY_GROUP_FIELDS :: "string list" where
  "SUMMARY_GROUP_FIELDS =
     [''mode'', ''direction'', ''bytes'', ''connections'', ''chunk_size'', ''buffer_size'',
      ''checksum_algorithm'', ''checksum_backend'', ''preallocate'', ''file_io_backend'',
      ''file_io_buffer_size'', ''file_io_queue_depth'', ''file_io_batch_size'', ''file_io_advice'',
      ''posix_write_strategy'', ''posix_write_strategy_effective'', ''receiver_write_profile'',
      ''receiver_max_pending_bytes'', ''receiver_write_yield_policy'', ''tls_mode'', ''data_tls_mode'',
      ''manifest_flush_policy'', ''manifest_flush_interval_chunks'', ''commit_sync_policy'',
      ''final_verify_policy'', ''final_verify_policy_requested'', ''final_verify_policy_effective'']"

definition SUMMARY_METRIC_FIELDS :: "string list" where
  "SUMMARY_METRIC_FIELDS =
     [''throughput_gbps'', ''elapsed''] @ STAGE_FIELDS @ PHASE_ALIAS_FIELDS @ role_columns ''sender''
     @ role_columns ''receiver'' @ RECEIVER_COUNTERS @ MEMORY_COLUMNS"

definition SUMMARY_STATS :: "string list" where
  "SUMMARY_STATS = [''min'', ''median'', ''max'', ''spread_pct'', ''p95'']"

definition SUMMARY_FLAGS :: "string list" where
  "SUMMARY_FLAGS = [''repeat_count'', ''pass_count'', ''fail_count'', ''unstable_spread_gt_20pct'',
     ''unstable_minmax_outlier'', ''stage_throughput_mismatch'']"

definition SUMMARY_FIELDS :: "string list" where
  "SUMMARY_FIELDS = SUMMARY_GROUP_FIELDS @ SUMMARY_FLAGS
     @ concat (map (\<lambda>name. map (\<lambda>stat. name @ ''_'' @ stat) SUMMARY_STATS) SUMMARY_METRIC_FIELDS)"

section \<open>The row of a case\<close>

type_synonym row = "(string, string) pydict"

record environment_snapshot =
  server_hostname :: string
  client_hostname :: string
  server_kernel :: string
  client_kernel :: string
  server_cpu_flags :: string
  client_cpu_flags :: string
  server_fs_type :: string
  client_fs_type :: string
  server_free_bytes :: string
  client_free_bytes :: string

record matrix_args = rargs +
  a_output_dir :: string
  a_event_log_dir :: string
  a_host_baseline_csv :: string
  a_storage_bench_csv :: string
  a_run_root_base :: string
  a_keep_files :: bool

definition empty_cells :: "string list \<Rightarrow> row" where
  "empty_cells names = map (\<lambda>name. (name, '''')) names"

definition initial_row ::
  "string \<Rightarrow> 'a matrix_args_scheme \<Rightarrow> mcase \<Rightarrow> environment_snapshot \<Rightarrow> string \<Rightarrow> string \<Rightarrow> row" where
  \<comment> \<open>the time comes first\<close>
  "initial_row now args mc env server_log client_log =
     dict_update
       ([(''timestamp'', now), (''mode'', if a_smoke args then ''smoke'' else ''full''),
         (''direction'', direction mc), (''bytes'', show_int (total_bytes mc)),
         (''connections'', show_int (connections mc)), (''chunk_size'', show_int (chunk_size mc)),
         (''buffer_size'', show_int (buffer_size mc)), (''checksum_algorithm'', checksum mc),
         (''checksum_backend'', a_checksum_backend args), (''preallocate'', preallocate mc),
         (''file_io_backend'', file_io_backend mc), (''file_io_buffer_size'', show_int (file_io_buffer_size mc)),
         (''file_io_queue_depth'', show_int (file_io_queue_depth mc)),
         (''file_io_batch_size'', show_int (file_io_batch_size mc)), (''file_io_advice'', file_io_advice mc),
         (''posix_write_strategy'', posix_write_strategy mc), (''posix_write_strategy_effective'', ''''),
         (''receiver_write_profile'', receiver_write_profile mc),
         (''receiver_max_pending_bytes'', show_int (receiver_max_pending_bytes mc)),
         (''receiver_write_yield_policy'', receiver_write_yield_policy mc), (''tls_mode'', tls_mode mc),
         (''data_tls_mode'', data_tls_mode mc), (''repeat_index'', show_int (repeat_index mc))]
        @ empty_cells [''elapsed'', ''throughput_gbps'', ''skipped_bytes'', ''resent_bytes'', ''verified_bytes'',
            ''manifest_flush_count'']
        @ [(''manifest_flush_policy'', manifest_flush_policy mc),
           (''manifest_flush_interval_chunks'', show_int (manifest_flush_interval_chunks mc)),
           (''commit_sync_policy'', commit_sync_policy mc), (''final_verify_policy'', final_verify_policy mc),
           (''final_verify_policy_requested'', final_verify_policy mc), (''final_verify_policy_effective'', '''')]
        @ empty_cells RECEIVER_COUNTERS
        @ [(''host_baseline_csv'', a_host_baseline_csv args), (''storage_bench_csv'', a_storage_bench_csv args),
           (''source_sha256'', ''''), (''dest_sha256'', ''''), (''result'', ''fail''),
           (''server_log'', server_log), (''client_log'', client_log)]
        @ empty_cells [''event_log'', ''server_event_log'', ''client_event_log'', ''event_error_code_counts'',
            ''env_snapshot_before'', ''env_snapshot_after'', ''server_env_before_log'', ''server_env_after_log'',
            ''client_env_before_log'', ''client_env_after_log'']
        @ empty_cells MEMORY_COLUMNS
        @ [(''server_hostname'', server_hostname env), (''client_hostname'', client_hostname env),
           (''server_kernel'', server_kernel env), (''client_kernel'', client_kernel env),
           (''server_cpu_flags'', server_cpu_flags env), (''client_cpu_flags'', client_cpu_flags env),
           (''server_fs_type'', server_fs_type env), (''client_fs_type'', client_fs_type env),
           (''server_free_bytes'', server_free_bytes env), (''client_free_bytes'', client_free_bytes env),
           (''transfer_id'', ''''), (''control_port'', show_int (control_port args (index mc))),
           (''data_port_base'', show_int (data_port_base args (index mc)))]
        @ empty_cells [''temp_root'', ''remote_path'', ''local_path'', ''error''])
       (empty_cells (STAGE_FIELDS @ PHASE_ALIAS_FIELDS)
        @ empty_cells (role_columns ''sender'') @ empty_cells (role_columns ''receiver''))"

section \<open>Metrics from the logs\<close>

fun re_findall_groups :: "nat \<Rightarrow> rx \<Rightarrow> string \<Rightarrow> nat \<Rightarrow> caps list" where
  \<comment> \<open>\<open>re.findall\<close> with groups, of a pattern that never matches the empty text; every round moves on by
      a character at least, so the length of the text bounds the rounds\<close>
  "re_findall_groups 0 r s i = []"
| "re_findall_groups (Suc n) r s i =
     (case first_match r s [i..<Suc (length s)] of
        None \<Rightarrow> []
      | Some (a, b, cs) \<Rightarrow> cs # re_findall_groups n r s (max b (Suc a)))"

definition metric_rx :: rx where
  "metric_rx = rx_seq
     [Grp 1 (Seq (Cls (\<lambda>c. is_upper c \<or> is_lower c \<or> c = CHR ''_''))
        (Star (Cls (\<lambda>c. is_upper c \<or> is_lower c \<or> is_digit c \<or> c = CHR ''_'')))),
      rx_lit ''='', Grp 2 (rx_plus (Cls (\<lambda>c. c \<noteq> CHR '' '' \<and> c \<noteq> newline)))]"

definition group_text :: "caps \<Rightarrow> nat \<Rightarrow> string" where
  "group_text cs k = (case map_of cs k of None \<Rightarrow> '''' | Some v \<Rightarrow> v)"

definition metric_pairs :: "string \<Rightarrow> row" where
  \<comment> \<open>\<open>dict(re.findall(...))\<close>\<close>
  "metric_pairs line = dict_update [] (map (\<lambda>cs. (group_text cs 1, group_text cs 2))
     (re_findall_groups (Suc (length line)) metric_rx line 0))"

definition parse_role_metrics :: "string \<Rightarrow> string \<Rightarrow> row" where
  \<comment> \<open>the last line of the role that has metrics\<close>
  "parse_role_metrics text role =
     foldl (\<lambda>result line. if metric_pairs line = [] then result else metric_pairs line) []
       (filter (starts_with (role @ '' '')) (py_splitlines text))"

definition first_of :: "row \<Rightarrow> string list \<Rightarrow> string" where
  \<comment> \<open>\<open>d.get(a) or d.get(b) or d.get(c, "")\<close>\<close>
  "first_of metrics keys =
     (case find (\<lambda>v. v \<noteq> '''') (map (\<lambda>k. dict_get metrics k '''') keys) of None \<Rightarrow> '''' | Some v \<Rightarrow> v)"

definition metric_value :: "row \<Rightarrow> string \<Rightarrow> string" where
  "metric_value metrics name =
     (if name = ''rename_commit_seconds''
      then first_of metrics [''rename_commit_seconds'', ''stage_rename_commit_seconds'', ''finalize_rename_seconds'']
      else if name = ''bytes_checksummed''
      then first_of metrics [''bytes_checksummed'', ''checksum_bytes'', ''stage_checksum_bytes'']
      else if name = ''bytes_final_verified''
      then first_of metrics [''bytes_final_verified'', ''final_verify_bytes'', ''stage_final_verify_bytes'']
      else dict_get metrics name '''')"

definition role_source :: "string \<Rightarrow> string" where
  \<comment> \<open>\<open>role_map\<close>: only the elapsed time has another name in the log\<close>
  "role_source name = (if name = ''elapsed'' then ''elapsed_seconds'' else name)"

definition role_cells :: "string \<Rightarrow> row \<Rightarrow> row" where
  "role_cells side values =
     (if values = [] then []
      else map (\<lambda>name. (side @ ''_'' @ name, dict_get values (role_source name) '''')) ROLE_METRIC_FIELDS
           @ map (\<lambda>name. (side @ ''_'' @ name, metric_value values name)) (STAGE_FIELDS @ PHASE_ALIAS_FIELDS))"

definition set_metric :: "row \<Rightarrow> string \<Rightarrow> string \<Rightarrow> row \<Rightarrow> row" where
  \<comment> \<open>\<open>row[column] = metrics.get(key, "")\<close>\<close>
  "set_metric metrics column key r = dict_set column (dict_get metrics key '''') r"

definition keep_metric :: "row \<Rightarrow> string \<Rightarrow> row \<Rightarrow> row" where
  \<comment> \<open>\<open>row[column] = metrics.get(column, row[column])\<close>\<close>
  "keep_metric metrics column r = dict_set column (dict_get metrics column (dict_get r column '''')) r"

definition fill_metrics :: "row \<Rightarrow> string \<Rightarrow> string \<Rightarrow> string \<Rightarrow> row" where
  "fill_metrics r dir server_text client_text =
     (let stor = starts_with ''stor'' dir;
          receiver = parse_role_metrics (if stor then server_text else client_text)
            (if stor then UPLOAD_SERVER_ROLE else DOWNLOAD_CLIENT_ROLE);
          sender = parse_role_metrics (if stor then client_text else server_text)
            (if stor then UPLOAD_CLIENT_ROLE else DOWNLOAD_SENDER_ROLE);
          metrics = (if receiver \<noteq> [] then receiver else sender);
          r1 = set_metric metrics ''elapsed'' ''elapsed_seconds'' r;
          r2 = set_metric metrics ''throughput_gbps'' ''throughput_gbps'' r1;
          r3 = keep_metric metrics ''checksum_backend'' r2;
          r4 = foldl (\<lambda>x c. set_metric metrics c c x) r3
            [''skipped_bytes'', ''resent_bytes'', ''verified_bytes'', ''manifest_flush_count''];
          r5 = foldl (\<lambda>x c. keep_metric metrics c x) r4
            [''manifest_flush_policy'', ''manifest_flush_interval_chunks'', ''commit_sync_policy'', ''final_verify_policy''];
          r6 = dict_set ''final_verify_policy_requested''
            (dict_get metrics ''final_verify_policy_requested'' (dict_get r5 ''final_verify_policy'' '''')) r5;
          r7 = set_metric metrics ''final_verify_policy_effective'' ''final_verify_policy_effective'' r6;
          r8 = foldl (\<lambda>x c. keep_metric metrics c x) r7
            [''preallocate'', ''file_io_backend'', ''file_io_buffer_size'', ''file_io_queue_depth'',
             ''file_io_batch_size'', ''file_io_advice'', ''posix_write_strategy'', ''posix_write_strategy_effective'',
             ''receiver_write_profile'', ''receiver_max_pending_bytes'', ''receiver_write_yield_policy''];
          r9 = foldl (\<lambda>x c. set_metric metrics c c x) r8 RECEIVER_COUNTERS;
          r10 = dict_update r9 (map (\<lambda>name. (name, metric_value metrics name)) (STAGE_FIELDS @ PHASE_ALIAS_FIELDS))
      in dict_update r10 (role_cells ''sender'' sender @ role_cells ''receiver'' receiver))"

section \<open>Event and environment logs\<close>

definition str_or_empty :: "json \<Rightarrow> string \<Rightarrow> string res" where
  \<comment> \<open>\<open>str(event.get(key, "") or "")\<close>\<close>
  "str_or_empty event key = andthen (obj_get event key (JStr '''')) (\<lambda>v. Inr (if truthy v then py_str v else ''''))"

definition count_up :: "string \<Rightarrow> (string, int) pydict \<Rightarrow> (string, int) pydict" where
  "count_up k counts = dict_set k (dict_get counts k 0 + 1) counts"

definition count_event :: "string \<Rightarrow> (string, int) pydict \<Rightarrow> (string, int) pydict res" where
  "count_event line counts =
     (if py_strip line = '''' then Inr counts
      else case json_loads line of
             None \<Rightarrow> Inr counts
           | Some event \<Rightarrow>
               andthen (str_or_empty event ''error_code'') (\<lambda>code.
               andthen (str_or_empty event ''result'') (\<lambda>result.
               Inr (if code \<noteq> '''' \<and> code \<noteq> ''ok'' then count_up code counts
                    else if result = ''fail'' then count_up ''unknown_error'' counts
                    else counts))))"

fun count_events :: "string list \<Rightarrow> (string, int) pydict \<Rightarrow> (string, int) pydict res" where
  "count_events [] counts = Inr counts"
| "count_events (line # lines) counts = andthen (count_event line counts) (count_events lines)"

definition compact_counts :: "(string, int) pydict \<Rightarrow> string" where
  \<comment> \<open>\<open>json.dumps(counts, sort_keys=True, separators=(",", ":"))\<close>\<close>
  "compact_counts counts =
     ''{'' @ join '','' (map (\<lambda>kv. json_quote (fst kv) @ '':'' @ show_int (snd kv)) (sort_key fst counts)) @ ''}''"

definition event_error_code_counts :: "string option list \<Rightarrow> string res" where
  "event_error_code_counts logs =
     andthen (count_events (concat (map py_splitlines (List.map_filter id logs))) []) (\<lambda>counts. Inr (compact_counts counts))"

definition MEMINFO_NAMES :: "(string \<times> string) list" where
  "MEMINFO_NAMES = [(''Dirty'', ''dirty_kb''), (''Writeback'', ''writeback_kb''), (''Cached'', ''cached_kb'')]"

definition meminfo_rx :: rx where
  \<comment> \<open>\<open>^(Dirty|Writeback|Cached):\s+(\d+)\s+kB\b\<close>\<close>
  "meminfo_rx = rx_seq [Grp 1 (rx_alts (map (rx_lit \<circ> fst) MEMINFO_NAMES)), rx_lit '':'', rx_plus (Cls is_space),
     Grp 2 (rx_plus (Cls is_digit)), rx_plus (Cls is_space), rx_lit ''kB'', WordB]"

definition meminfo_line :: "string \<Rightarrow> row \<Rightarrow> row" where
  \<comment> \<open>\<open>re.match\<close>: only at the start of the line\<close>
  "meminfo_line line result =
     (case first_match meminfo_rx line [0] of
        None \<Rightarrow> result
      | Some (a, b, cs) \<Rightarrow> dict_set (dict_get MEMINFO_NAMES (group_text cs 1) '''') (group_text cs 2) result)"

definition env_sidecar_meminfo :: "string option \<Rightarrow> row" where
  "env_sidecar_meminfo log =
     (let start = empty_cells [''dirty_kb'', ''writeback_kb'', ''cached_kb''] in
      case log of None \<Rightarrow> start | Some text \<Rightarrow> foldl (\<lambda>r line. meminfo_line line r) start (py_splitlines text))"

definition fill_env_sidecar_fields :: "row \<Rightarrow> string \<Rightarrow> string \<Rightarrow> string option \<Rightarrow> row" where
  "fill_env_sidecar_fields r side label log =
     dict_update r (map (\<lambda>kv. (side @ ''_'' @ fst kv @ ''_'' @ label, snd kv)) (env_sidecar_meminfo log))"

section \<open>Statistics\<close>

definition float_values :: "row list \<Rightarrow> string \<Rightarrow> pyfloat list" where
  \<comment> \<open>a missing column and a text that is no number are passed over\<close>
  "float_values rows name =
     List.map_filter (\<lambda>r. case map_of r name of None \<Rightarrow> None | Some v \<Rightarrow> py_float v) rows"

definition tested_div :: "pyfloat \<Rightarrow> pyfloat \<Rightarrow> pyfloat" where
  \<comment> \<open>a division by a value that is known not to be zero\<close>
  "tested_div a b = (case float_div a b of Inr q \<Rightarrow> q | Inl _ \<Rightarrow> NaN)"

definition statistics_median :: "pyfloat list \<Rightarrow> pyfloat" where
  "statistics_median values =
     (let data = float_sorted values; n = length data in
      if odd n then data ! (n div 2)
      else tested_div (float_add (data ! (n div 2 - 1)) (data ! (n div 2))) (whole_float 2))"

definition median :: "pyfloat list \<Rightarrow> pyfloat option" where
  "median values = (if values = [] then None else Some (statistics_median values))"

definition p95_index :: "nat \<Rightarrow> int res" where
  \<comment> \<open>\<open>max(0, min(n - 1, int((n * 95 + 99) / 100) - 1))\<close>\<close>
  "p95_index n = andthen (float_trunc (make_float False (int n * 95 + 99) 100)) (\<lambda>k. Inr (max 0 (min (int n - 1) (k - 1))))"

definition nearest_rank_p95 :: "pyfloat list \<Rightarrow> pyfloat option res" where
  "nearest_rank_p95 values =
     (if values = [] then Inr None
      else andthen (p95_index (length (float_sorted values))) (\<lambda>i. Inr (Some (float_sorted values ! nat i))))"

definition float_eq :: "pyfloat \<Rightarrow> pyfloat \<Rightarrow> bool" where
  "float_eq a b \<longleftrightarrow> a \<noteq> NaN \<and> b \<noteq> NaN \<and> \<not> float_less a b \<and> \<not> float_less b a"

definition largest :: "pyfloat list \<Rightarrow> pyfloat" where
  "largest values = max_by id (hd values) (tl values)"

definition smallest :: "pyfloat list \<Rightarrow> pyfloat" where
  "smallest values = min_of (hd values) (tl values)"

definition spread_pct :: "pyfloat list \<Rightarrow> pyfloat option" where
  "spread_pct values =
     (if values = [] then None
      else let center = statistics_median values in
           if \<not> float_true center
           then (if float_eq (largest values) (smallest values) then Some float_zero else None)
           else Some (float_mul (tested_div (float_sub (largest values) (smallest values)) (float_abs center))
                       (whole_float 100)))"

definition or_zero :: "pyfloat option \<Rightarrow> pyfloat" where
  \<comment> \<open>\<open>value or 0.0\<close>\<close>
  "or_zero v = (case v of None \<Rightarrow> float_zero | Some f \<Rightarrow> (if float_true f then f else float_zero))"

section \<open>The summary\<close>

definition cell :: "row \<Rightarrow> string \<Rightarrow> string res" where
  \<comment> \<open>\<open>row[name]\<close>\<close>
  "cell r name = (case map_of r name of None \<Rightarrow> Inl (KeyError name) | Some v \<Rightarrow> Inr v)"

definition group_key :: "row \<Rightarrow> string list res" where
  "group_key r = collect (cell r) SUMMARY_GROUP_FIELDS"

fun add_to_groups :: "row list \<Rightarrow> (string list, row list) pydict \<Rightarrow> (string list, row list) pydict res" where
  \<comment> \<open>\<open>groups.setdefault(key, []).append(row)\<close>\<close>
  "add_to_groups [] groups = Inr groups"
| "add_to_groups (r # rs) groups =
     andthen (group_key r) (\<lambda>key. add_to_groups rs (dict_set key (dict_get groups key [] @ [r]) groups))"

definition STAGE_PROBES :: "string list" where
  "STAGE_PROBES = [''receiver_temp_write_seconds'', ''receiver_download_temp_write_seconds'',
     ''sender_network_send_seconds'', ''sender_source_read_seconds'', ''temp_write_seconds'',
     ''download_temp_write_seconds'', ''stage_write_seconds'', ''stage_send_seconds'']"

definition flag :: "bool \<Rightarrow> string" where
  "flag b = (if b then ''1'' else ''0'')"

definition stability_cells :: "row list \<Rightarrow> row" where
  "stability_cells rows =
     (let throughput = float_values rows ''throughput_gbps'';
          throughput_spread = or_zero (spread_pct throughput);
          elapsed_spread = or_zero (spread_pct (float_values rows ''elapsed''));
          stage_spreads = List.map_filter (\<lambda>name. spread_pct (float_values rows name)) STAGE_PROBES;
          max_stage_spread = (if stage_spreads = [] then float_zero else largest stage_spreads);
          min_throughput = (if throughput = [] then float_zero else smallest throughput);
          max_throughput = (if throughput = [] then float_zero else largest throughput);
          above = (\<lambda>f n. float_less (whole_float n) f); below = (\<lambda>f n. float_less f (whole_float n))
      in [(''unstable_spread_gt_20pct'', flag (above throughput_spread 20)),
          (''unstable_minmax_outlier'', flag (float_less float_zero min_throughput \<and>
             float_less (make_float False 3 2) (tested_div max_throughput min_throughput))),
          (''stage_throughput_mismatch'',
             flag (above throughput_spread 20 \<and> below max_stage_spread 10 \<or>
                   below throughput_spread 10 \<and> above max_stage_spread 30 \<and> below elapsed_spread 10))])"

definition six :: "pyfloat option \<Rightarrow> string" where
  \<comment> \<open>\<open>f"{value:.6f}" if value is not None else ""\<close>\<close>
  "six v = (case v of None \<Rightarrow> '''' | Some f \<Rightarrow> float_fixed 6 f)"

definition metric_cells :: "row list \<Rightarrow> string \<Rightarrow> row res" where
  "metric_cells rows name =
     (let values = float_values rows name in
      andthen (nearest_rank_p95 values) (\<lambda>p95.
      Inr [(name @ ''_min'', six (if values = [] then None else Some (smallest values))),
           (name @ ''_median'', six (median values)),
           (name @ ''_max'', six (if values = [] then None else Some (largest values))),
           (name @ ''_spread_pct'', six (spread_pct values)), (name @ ''_p95'', six p95)]))"

definition summary_of :: "string list \<Rightarrow> row list \<Rightarrow> row res" where
  "summary_of key rows =
     andthen (collect (\<lambda>r. cell r ''result'') rows) (\<lambda>results.
     andthen (collect (metric_cells rows) SUMMARY_METRIC_FIELDS) (\<lambda>metrics.
     (let pass_count = length (filter (\<lambda>v. v = ''pass'') results) in
      Inr (dict_update (zip SUMMARY_GROUP_FIELDS key)
        ([(''repeat_count'', show_int (int (length rows))), (''pass_count'', show_int (int pass_count)),
          (''fail_count'', show_int (int (length rows) - int pass_count))]
         @ stability_cells rows @ concat metrics)))))"

definition summarize_rows :: "row list \<Rightarrow> row list res" where
  "summarize_rows rows =
     andthen (add_to_groups rows []) (\<lambda>groups.
     collect (\<lambda>kg. summary_of (fst kg) (snd kg)) (sort_key fst groups))"

section \<open>The result files\<close>

definition dict_writer_text :: "string list \<Rightarrow> row list \<Rightarrow> string res" where
  \<comment> \<open>\<open>DictWriter\<close> with a header: a key that is no column is an error, a missing one is left empty\<close>
  "dict_writer_text columns rows =
     (if list_all (\<lambda>r. list_all (\<lambda>kv. fst kv \<in> set columns) r) rows
      then Inr (csv_text (columns # map (\<lambda>r. map (\<lambda>c. dict_get r c '''') columns) rows))
      else Inl (ValueError ''dict contains fields not in fieldnames''))"

end
