(* ===== verification/Matrix_Laws.thy ===== *)
theory Matrix_Laws
  imports Matrix_Rows Release_Steps
begin

text \<open>
  What the measurement rows and summaries of the matrix promise: rows fit the columns of the result
  file, summaries partition the rows, the percentile is the nearest rank, and the release gate reads the
  summary file as passed exactly when every row passed.
\<close>

section \<open>Rows fit the columns\<close>

lemma dict_update_keys [simp]: "fst ` set (dict_update d e) = fst ` set d \<union> fst ` set e"
  by (induction d e rule: dict_update.induct) auto

lemma empty_cells_keys [simp]: "fst ` set (empty_cells names) = set names"
  by (simp add: empty_cells_def image_image)

lemma initial_row_keys: "fst ` set (initial_row now args mc env sl cl) = set CSV_FIELDS"
  unfolding initial_row_def CSV_FIELDS_def
  by (simp only: dict_update_keys set_append image_Un empty_cells_keys set_simps image_insert image_empty fst_conv
      Un_insert_left Un_insert_right Un_empty_left Un_empty_right Un_ac insert_commute)

lemma csv_blocks:
  "set STAGE_FIELDS \<subseteq> set CSV_FIELDS" "set PHASE_ALIAS_FIELDS \<subseteq> set CSV_FIELDS"
  "set RECEIVER_COUNTERS \<subseteq> set CSV_FIELDS" "set MEMORY_COLUMNS \<subseteq> set CSV_FIELDS"
  "set (role_columns ''sender'') \<subseteq> set CSV_FIELDS" "set (role_columns ''receiver'') \<subseteq> set CSV_FIELDS"
  unfolding CSV_FIELDS_def set_append by blast+

lemma set_metric_keys [simp]: "fst ` set (set_metric m c k r) = insert c (fst ` set r)"
  by (simp add: set_metric_def)

lemma keep_metric_keys [simp]: "fst ` set (keep_metric m c r) = insert c (fst ` set r)"
  by (simp add: keep_metric_def)

lemma fold_metric_keys [simp]:
  "fst ` set (foldl (\<lambda>x c. set_metric m c c x) r cs) = set cs \<union> fst ` set r"
  "fst ` set (foldl (\<lambda>x c. keep_metric m c x) r cs) = set cs \<union> fst ` set r"
  by (induction cs arbitrary: r) auto

lemma role_cells_keys: "fst ` set (role_cells side vs) \<subseteq> set (role_columns side)"
  by (auto simp: role_cells_def role_columns_def prefixed_def image_image)

definition set_columns :: "string list" where
  "set_columns = [''elapsed'', ''throughput_gbps'', ''checksum_backend'', ''skipped_bytes'', ''resent_bytes'',
     ''verified_bytes'', ''manifest_flush_count'', ''manifest_flush_policy'', ''manifest_flush_interval_chunks'',
     ''commit_sync_policy'', ''final_verify_policy'', ''final_verify_policy_requested'',
     ''final_verify_policy_effective'', ''preallocate'', ''file_io_backend'', ''file_io_buffer_size'',
     ''file_io_queue_depth'', ''file_io_batch_size'', ''file_io_advice'', ''posix_write_strategy'',
     ''posix_write_strategy_effective'', ''receiver_write_profile'', ''receiver_max_pending_bytes'',
     ''receiver_write_yield_policy'']"

lemma set_columns_csv: "set set_columns \<subseteq> set CSV_FIELDS"
  by (simp add: set_columns_def CSV_FIELDS_def)

lemmas csv_members = set_columns_csv [unfolded set_columns_def list.set insert_subset]

lemma csv_absorb:
  "c \<in> set CSV_FIELDS \<Longrightarrow> insert c (set CSV_FIELDS) = set CSV_FIELDS"
  "A \<subseteq> set CSV_FIELDS \<Longrightarrow> set CSV_FIELDS \<union> A = set CSV_FIELDS"
  "A \<subseteq> set CSV_FIELDS \<Longrightarrow> A \<union> set CSV_FIELDS = set CSV_FIELDS"
  by auto

lemma fill_metrics_keys:
  assumes "fst ` set r = set CSV_FIELDS"
  shows "fst ` set (fill_metrics r dir server_text client_text) = set CSV_FIELDS"
proof -
  have cells: "fst ` set (role_cells ''sender'' vs) \<subseteq> set CSV_FIELDS"
    "fst ` set (role_cells ''receiver'' vs) \<subseteq> set CSV_FIELDS" for vs
    using csv_blocks role_cells_keys by blast+
  show ?thesis
    unfolding fill_metrics_def Let_def
    by (simp only: dict_update_keys fold_metric_keys set_metric_keys keep_metric_keys fst_set_dict_set assms
      list.set set_append image_Un list.set_map image_image fst_conv image_ident csv_members csv_absorb csv_blocks
      cells Un_subset_iff insert_subset empty_subsetI simp_thms)
qed

text \<open>The groups a match can carry are those of the pattern; the ones it had before stay below them.\<close>

primrec rx_groups :: "rx \<Rightarrow> nat set" where
  "rx_groups Eps = {}"
| "rx_groups (Cls P) = {}"
| "rx_groups (Seq r q) = rx_groups r \<union> rx_groups q"
| "rx_groups (Alt r q) = rx_groups r \<union> rx_groups q"
| "rx_groups (Star r) = rx_groups r"
| "rx_groups (Grp k r) = insert k (rx_groups r)"
| "rx_groups WordB = {}"
| "rx_groups (NotAhead r) = {}"
| "rx_groups (LazyStar r) = rx_groups r"

definition caps_below :: "nat set \<Rightarrow> caps \<Rightarrow> caps \<Rightarrow> bool" where
  "caps_below K cs cs' \<longleftrightarrow> (\<exists>e. cs' = e @ cs \<and> fst ` set e \<subseteq> K)"

lemma caps_below_refl [simp]: "caps_below K cs cs"
  by (simp add: caps_below_def)

lemma caps_below_trans:
  assumes "caps_below K cs cs1" and "caps_below L cs1 cs2"
  shows "caps_below (K \<union> L) cs cs2"
proof -
  from assms obtain e f where "cs1 = e @ cs" "cs2 = f @ cs1" "fst ` set e \<subseteq> K" "fst ` set f \<subseteq> L"
    by (auto simp: caps_below_def)
  then have "cs2 = (f @ e) @ cs" "fst ` set (f @ e) \<subseteq> K \<union> L" by auto
  then show ?thesis unfolding caps_below_def by blast
qed

lemma caps_below_mono: "caps_below K cs cs' \<Longrightarrow> K \<subseteq> L \<Longrightarrow> caps_below L cs cs'"
  unfolding caps_below_def by blast

lemma star_run_caps:
  assumes "\<And>st st'. st' \<in> set (f st) \<Longrightarrow> caps_below K (snd st) (snd st')"
    and "st' \<in> set (star_run f n st)"
  shows "caps_below K (snd st) (snd st')"
  using assms(2)
proof (induction n arbitrary: st)
  case (Suc n)
  then consider "st' = st" | st1 where "st1 \<in> set (f st)" "st' \<in> set (star_run f n st1)" by auto
  then show ?case
  proof cases
    case 2
    then show ?thesis using caps_below_trans [of K "snd st" "snd st1" K] assms(1) Suc.IH by simp
  qed simp
qed simp

lemma rx_run_caps: "st' \<in> set (rx_run r s st) \<Longrightarrow> caps_below (rx_groups r) (snd st) (snd st')"
proof (induction r arbitrary: st st')
  case (Seq r q)
  then obtain st1 where "st1 \<in> set (rx_run r s st)" "st' \<in> set (rx_run q s st1)" by auto
  then show ?case using caps_below_trans [OF Seq.IH(1) Seq.IH(2)] by simp
next
  case (Alt r q)
  then show ?case using caps_below_mono [OF Alt.IH(1)] caps_below_mono [OF Alt.IH(2)] by (cases "st' \<in> set (rx_run r s st)") simp_all
next
  case (Star r)
  have "st' \<in> set (star_run (rx_run r s) (length s - fst st) st)" using Star.prems by simp
  then show ?case using star_run_caps [of "rx_run r s"] Star.IH by simp
next
  case (LazyStar r)
  have "st' \<in> set (star_run (rx_run r s) (length s - fst st) st)"
    using LazyStar.prems by (simp add: lazy_star_members)
  then show ?case using star_run_caps [of "rx_run r s"] LazyStar.IH by simp
next
  case (Grp k r)
  then obtain j cs where "(j, cs) \<in> set (rx_run r s st)" and st': "snd st' = (k, take (j - fst st) (drop (fst st) s)) # cs"
    by auto
  with Grp.IH have "caps_below (rx_groups r) (snd st) cs" by fastforce
  then obtain e where "cs = e @ snd st" "fst ` set e \<subseteq> rx_groups r" unfolding caps_below_def by blast
  then show ?case unfolding st' caps_below_def
    by (intro exI [of _ "(k, take (j - fst st) (drop (fst st) s)) # e"]) auto
qed (auto split: if_splits)

lemma group_of_prefix:
  \<comment> \<open>the text of a group that leads the pattern and occurs nowhere else in it\<close>
  assumes "(j, cs) \<in> set (rx_run (Seq (Grp k r) q) s (i, []))" and "k \<notin> rx_groups q"
  shows "\<exists>m. \<exists>ds. (m, ds) \<in> set (rx_run r s (i, [])) \<and> group_text cs k = take (m - i) (drop i s)"
proof -
  from assms(1) obtain m ds where m: "(m, ds) \<in> set (rx_run r s (i, []))"
    and q: "(j, cs) \<in> set (rx_run q s (m, (k, take (m - i) (drop i s)) # ds))" by auto
  from rx_run_caps [OF q] obtain e where e: "cs = e @ (k, take (m - i) (drop i s)) # ds" "fst ` set e \<subseteq> rx_groups q"
    unfolding caps_below_def by auto
  with assms(2) have "map_of e k = None" by (auto simp: map_of_eq_None_iff)
  with e m show ?thesis by (auto simp: group_text_def map_add_def)
qed

lemma rx_alts_lit_text:
  assumes "(m, ds) \<in> set (rx_run (rx_alts (map rx_lit ws)) s (i, []))" and "i \<le> length s" and "ws \<noteq> []"
  shows "take (m - i) (drop i s) \<in> set ws"
  using assms
proof (induction ws rule: induct_list012)
  case (2 w)
  then show ?case by (auto simp: rx_run_lit starts_with_append split: if_splits)
next
  case (3 w v ws)
  then show ?case by (auto simp: rx_run_lit starts_with_append split: if_splits)
qed simp

lemma env_sidecar_meminfo_keys:
  "fst ` set (env_sidecar_meminfo log) = {''dirty_kb'', ''writeback_kb'', ''cached_kb''}"
proof -
  let ?K = "{''dirty_kb'', ''writeback_kb'', ''cached_kb''}"
  let ?q = "rx_seq [rx_lit '':'', rx_plus (Cls is_space), Grp 2 (rx_plus (Cls is_digit)), rx_plus (Cls is_space),
     rx_lit ''kB'', WordB]"
  have name: "dict_get MEMINFO_NAMES (group_text cs 1) '''' \<in> ?K"
    if "first_match meminfo_rx l [0] = Some (a, b, cs)" for l a b cs
  proof -
    have "meminfo_rx = Seq (Grp 1 (rx_alts (map rx_lit [''Dirty'', ''Writeback'', ''Cached'']))) ?q"
      by (simp add: meminfo_rx_def MEMINFO_NAMES_def)
    moreover have "1 \<notin> rx_groups ?q" by (simp add: rx_plus_def)
    moreover have "(b, cs) \<in> set (rx_run meminfo_rx l (0, []))" using first_match_Some [OF that] by auto
    ultimately obtain m ds where "(m, ds) \<in> set (rx_run (rx_alts (map rx_lit [''Dirty'', ''Writeback'', ''Cached''])) l (0, []))"
      and g: "group_text cs 1 = take (m - 0) (drop 0 l)"
      using group_of_prefix [of b cs 1 _ ?q l 0] by metis
    from rx_alts_lit_text [OF this(1)] have "group_text cs 1 \<in> set [''Dirty'', ''Writeback'', ''Cached'']"
      unfolding g by simp
    then show ?thesis by (auto simp: dict_get_def MEMINFO_NAMES_def)
  qed
  have line: "fst ` set (meminfo_line l r) = ?K" if "fst ` set r = ?K" for l r
  proof (cases "first_match meminfo_rx l [0]")
    case (Some m)
    obtain a b cs where m: "m = (a, b, cs)" by (cases m) auto
    with Some name have "dict_get MEMINFO_NAMES (group_text cs 1) '''' \<in> ?K" by blast
    then show ?thesis using Some that
      by (simp only: meminfo_line_def m option.case prod.case fst_set_dict_set insert_absorb)
  qed (simp add: meminfo_line_def that)
  have "fst ` set (foldl (\<lambda>r l. meminfo_line l r) r ls) = ?K" if "fst ` set r = ?K" for r ls
    using that by (induction ls arbitrary: r) (simp_all add: line)
  then show ?thesis by (simp add: env_sidecar_meminfo_def Let_def split: option.split)
qed

lemma fill_env_sidecar_keys:
  assumes "fst ` set r = set CSV_FIELDS" and "side \<in> {''server'', ''client''}" and "label \<in> {''before'', ''after''}"
  shows "fst ` set (fill_env_sidecar_fields r side label log) = set CSV_FIELDS"
proof -
  have "(\<lambda>k. side @ ''_'' @ k @ ''_'' @ label) ` {''dirty_kb'', ''writeback_kb'', ''cached_kb''} \<subseteq> set MEMORY_COLUMNS"
    using assms(2,3) by (auto simp: MEMORY_COLUMNS_def)
  then have "(\<lambda>k. side @ ''_'' @ k @ ''_'' @ label) ` fst ` set (env_sidecar_meminfo log) \<subseteq> set CSV_FIELDS"
    using csv_blocks unfolding env_sidecar_meminfo_keys by blast
  then show ?thesis
    using assms(1) by (simp add: fill_env_sidecar_fields_def image_image csv_absorb)
qed

section \<open>Summaries partition the rows\<close>

lemma map_of_dict_update_skip: "k \<notin> fst ` set e \<Longrightarrow> map_of (dict_update d e) k = map_of d k"
  by (simp add: map_of_dict_update map_add_def map_of_eq_None_iff [THEN iffD2] split: option.split)

lemma dict_update_append: "dict_update d (e @ f) = dict_update (dict_update d e) f"
  by (induction d e rule: dict_update.induct) auto

lemma add_to_groups_spec:
  assumes "add_to_groups rs gs = Inr out"
  shows "dict_get out k [] = dict_get gs k [] @ filter (\<lambda>r. group_key r = Inr k) rs \<and>
    fst ` set out = fst ` set gs \<union> {k. \<exists>r\<in>set rs. group_key r = Inr k} \<and>
    (distinct (map fst gs) \<longrightarrow> distinct (map fst out))"
  using assms
proof (induction rs gs rule: add_to_groups.induct)
  case (2 r rs gs)
  then obtain key where key: "group_key r = Inr key"
    and out: "add_to_groups rs (dict_set key (dict_get gs key [] @ [r]) gs) = Inr out"
    by (auto simp: andthen_eq_Inr)
  from "2.IH" [OF out] key show ?case
    by (auto simp: distinct_dict_set)
qed simp

lemma add_to_groups_total:
  assumes "\<forall>r\<in>set rs. \<exists>k. group_key r = Inr k"
  shows "\<exists>out. add_to_groups rs gs = Inr out"
  using assms by (induction rs arbitrary: gs) auto

lemma group_key_total:
  assumes "set SUMMARY_GROUP_FIELDS \<subseteq> fst ` set r"
  shows "group_key r = Inr (map (\<lambda>c. dict_get r c '''') SUMMARY_GROUP_FIELDS)"
  unfolding group_key_def
proof (rule collect_total)
  fix c assume "c \<in> set SUMMARY_GROUP_FIELDS"
  with assms have "map_of r c \<noteq> None" by (auto simp: map_of_eq_None_iff)
  then show "cell r c = Inr (dict_get r c '''')" by (auto simp: cell_def dict_get_def)
qed

lemma group_fields_csv: "set SUMMARY_GROUP_FIELDS \<subseteq> set CSV_FIELDS" "''result'' \<in> set CSV_FIELDS"
  by (simp_all add: SUMMARY_GROUP_FIELDS_def CSV_FIELDS_def)

section \<open>The percentile\<close>

lemma p95_index_rank:
  assumes "0 < n" and "n < 2 ^ 40"
  shows "p95_index n = Inr (int ((95 * n + 99) div 100 - 1))"
proof -
  have "int n < 2 ^ 40" using assms(2) by (metis of_nat_less_iff of_nat_numeral of_nat_power)
  then have "float_trunc (make_float False (int n * 95 + 99) 100) = Inr ((int n * 95 + 99) div 100)"
    by (intro float_trunc_quotient) auto
  moreover have "int ((95 * n + 99) div 100 - 1) = (int n * 95 + 99) div 100 - 1" using assms(1) by linarith
  moreover have "0 \<le> (int n * 95 + 99) div 100 - 1" "(int n * 95 + 99) div 100 - 1 \<le> int n - 1"
    using assms(1) by linarith+
  ultimately show ?thesis by (simp add: p95_index_def max_def min_def)
qed

lemma nearest_rank_total:
  assumes "length vs < 2 ^ 40"
  shows "nearest_rank_p95 vs = Inr (if vs = [] then None else Some (float_sorted vs ! ((95 * length vs + 99) div 100 - 1)))"
proof (cases "vs = []")
  case False
  have "length (float_sorted vs) = length vs"
    using float_sorted_correct(1) [of vs] by (metis size_mset)
  then show ?thesis using p95_index_rank [of "length vs"] False assms by (simp add: nearest_rank_p95_def)
qed (simp add: nearest_rank_p95_def)

lemma sorted_rank_counts:
  assumes so: "sorted_wrt (\<lambda>a b. \<not> lt b a) ys" and irr: "\<not> lt (ys ! k) (ys ! k)" and k: "k < length ys"
  shows "Suc k \<le> length (filter (\<lambda>x. \<not> lt (ys ! k) x) ys)" and "length (filter (\<lambda>x. lt x (ys ! k)) ys) \<le> k"
proof -
  have before: "\<not> lt (ys ! k) (ys ! i)" if "i \<le> k" for i
    using sorted_wrt_nth_less [OF so, of i k] that k irr by (cases "i = k") simp_all
  have after: "\<not> lt (ys ! i) (ys ! k)" if "k \<le> i" "i < length ys" for i
    using sorted_wrt_nth_less [OF so, of k i] that irr by (cases "i = k") simp_all
  have "Suc k = length (filter (\<lambda>x. \<not> lt (ys ! k) x) (take (Suc k) ys))"
    using before k by (subst filter_id_conv [THEN iffD2]) (auto simp: in_set_conv_nth)
  also have "\<dots> \<le> length (filter (\<lambda>x. \<not> lt (ys ! k) x) ys)"
    by (metis append_take_drop_id filter_append le_add1 length_append)
  finally show "Suc k \<le> length (filter (\<lambda>x. \<not> lt (ys ! k) x) ys)" .
  have "filter (\<lambda>x. lt x (ys ! k)) (drop k ys) = []"
    using after by (auto simp: filter_empty_conv in_set_conv_nth)
  then have "length (filter (\<lambda>x. lt x (ys ! k)) ys) = length (filter (\<lambda>x. lt x (ys ! k)) (take k ys))"
    by (metis append_Nil2 append_take_drop_id filter_append)
  also have "\<dots> \<le> k" by (metis length_filter_le length_take min.boundedE)
  finally show "length (filter (\<lambda>x. lt x (ys ! k)) ys) \<le> k" .
qed

text \<open>
  C27: The reported 95th percentile is the nearest rank: for up to \<open>2 ^ 40\<close> measurements without a NaN,
  \<open>nearest_rank_p95\<close> returns one of them, at least 95 percent of the measurements do not exceed it, and
  fewer than 95 percent lie strictly below it. The rounding of the division by 100 in double precision
  does not move the rank.
\<close>

theorem nearest_rank_p95_rank:
  assumes "vs \<noteq> []" and "length vs < 2 ^ 40" and "NaN \<notin> set vs"
  shows "\<exists>v. nearest_rank_p95 vs = Inr (Some v) \<and> v \<in> set vs \<and>
    95 * length vs \<le> 100 * length (filter (\<lambda>x. \<not> float_less v x) vs) \<and>
    100 * length (filter (\<lambda>x. float_less x v) vs) < 95 * length vs"
proof -
  define ys where "ys = float_sorted vs"
  define q where "q = (95 * length vs + 99) div 100"
  define k where "k = q - 1"
  have ms: "mset ys = mset vs" and so: "sorted_wrt (\<lambda>a b. \<not> float_less b a) ys"
    using float_sorted_correct assms(3) by (auto simp: ys_def)
  then have len: "length ys = length vs" by (metis size_mset)
  have count_eq: "length (filter P vs) = length (filter P ys)" for P by (metis mset_filter ms size_mset)
  have n: "0 < length vs" using assms(1) by simp
  have "100 * q \<le> 95 * length vs + 99" "95 * length vs + 99 < 100 * q + 100"
    using div_mult_mod_eq [of "95 * length vs + 99" 100] mod_less_divisor [of 100 "95 * length vs + 99"]
    unfolding q_def by linarith+
  moreover have "q = Suc k" using calculation n unfolding k_def by (cases q) simp_all
  ultimately have k: "k < length ys" "95 * length vs \<le> 100 * Suc k" "100 * k < 95 * length vs"
    using len n by simp_all
  note counts = sorted_rank_counts [OF so float_less_irrefl k(1)]
  have "ys ! k \<in> set vs" using k(1) ms by (metis nth_mem mset_eq_setD)
  moreover have "nearest_rank_p95 vs = Inr (Some (ys ! k))"
    using nearest_rank_total [OF assms(2)] assms(1) by (simp add: ys_def k_def q_def)
  moreover have "95 * length vs \<le> 100 * length (filter (\<lambda>x. \<not> float_less (ys ! k) x) vs)"
    unfolding count_eq by (rule order_trans [OF k(2) mult_le_mono2 [OF counts(1)]])
  moreover have "100 * length (filter (\<lambda>x. float_less x (ys ! k)) vs) < 95 * length vs"
    unfolding count_eq by (rule le_less_trans [OF mult_le_mono2 [OF counts(2)] k(3)])
  ultimately show ?thesis by blast
qed

theorem nearest_rank_p95_rank_witness:
  "\<exists>v. nearest_rank_p95 (map whole_float [3, 1, 2]) = Inr (Some v) \<and> v \<in> set (map whole_float [3, 1, 2]) \<and>
    95 * length (map whole_float [3, 1, 2]) \<le> 100 * length (filter (\<lambda>x. \<not> float_less v x) (map whole_float [3, 1, 2])) \<and>
    100 * length (filter (\<lambda>x. float_less x v) (map whole_float [3, 1, 2])) < 95 * length (map whole_float [3, 1, 2])"
proof (rule nearest_rank_p95_rank)
  show "NaN \<notin> set (map whole_float [3, 1, 2])" by code_simp
qed simp_all

section \<open>The summary of a group\<close>

lemma stat_suffix_free:
  assumes "c \<in> set (SUMMARY_GROUP_FIELDS @ SUMMARY_FLAGS)" and "stat \<in> set SUMMARY_STATS"
  shows "c \<noteq> name @ ''_'' @ stat"
proof -
  have "list_all (\<lambda>c. list_all (\<lambda>stat. \<not> ends_with (''_'' @ stat) c) SUMMARY_STATS) (SUMMARY_GROUP_FIELDS @ SUMMARY_FLAGS)"
    by code_simp
  then have "\<not> ends_with (''_'' @ stat) c" using assms by (simp add: list_all_iff)
  moreover have "ends_with (''_'' @ stat) (name @ ''_'' @ stat)" by (simp add: ends_with_def)
  ultimately show ?thesis by metis
qed

definition metric_stats :: "row list \<Rightarrow> string \<Rightarrow> row" where
  "metric_stats rows name = (case metric_cells rows name of Inr r \<Rightarrow> r | Inl _ \<Rightarrow> [])"

lemma float_values_length: "length (float_values rows name) \<le> length rows"
  by (simp add: float_values_def map_filter_def)

lemma metric_cells_total:
  assumes "length rows < 2 ^ 40"
  shows "metric_cells rows name = Inr (metric_stats rows name) \<and>
    map fst (metric_stats rows name) = map (\<lambda>stat. name @ ''_'' @ stat) SUMMARY_STATS"
proof -
  have "length (float_values rows name) < 2 ^ 40" using float_values_length [of rows name] assms by linarith
  from nearest_rank_total [OF this] show ?thesis
    by (simp add: metric_stats_def metric_cells_def Let_def SUMMARY_STATS_def)
qed

lemma stability_keys: "map fst (stability_cells rows) = drop 3 SUMMARY_FLAGS"
  by (simp add: stability_cells_def Let_def SUMMARY_FLAGS_def)

definition passed :: "row \<Rightarrow> bool" where
  "passed r \<longleftrightarrow> dict_get r ''result'' '''' = ''pass''"

definition summary_cells :: "string list \<Rightarrow> row list \<Rightarrow> row" where
  \<comment> \<open>the summary of a group whose rows are complete\<close>
  "summary_cells key rows =
     dict_update (zip SUMMARY_GROUP_FIELDS key)
       ([(''repeat_count'', show_int (int (length rows))),
         (''pass_count'', show_int (int (length (filter passed rows)))),
         (''fail_count'', show_int (int (length (filter (\<lambda>r. \<not> passed r) rows))))]
        @ stability_cells rows @ concat (map (metric_stats rows) SUMMARY_METRIC_FIELDS))"

lemma summary_of_cells:
  assumes "length rows < 2 ^ 40" and "\<forall>r\<in>set rows. ''result'' \<in> fst ` set r"
  shows "summary_of key rows = Inr (summary_cells key rows)"
proof -
  have "collect (\<lambda>r. cell r ''result'') rows = Inr (map (\<lambda>r. dict_get r ''result'' '''') rows)"
  proof (rule collect_total)
    fix r assume "r \<in> set rows"
    with assms(2) have "map_of r ''result'' \<noteq> None" by (auto simp: map_of_eq_None_iff)
    then show "cell r ''result'' = Inr (dict_get r ''result'' '''')" by (auto simp: cell_def dict_get_def)
  qed
  moreover have "collect (metric_cells rows) SUMMARY_METRIC_FIELDS = Inr (map (metric_stats rows) SUMMARY_METRIC_FIELDS)"
    by (rule collect_total) (simp add: metric_cells_total [OF assms(1)])
  moreover have "filter (\<lambda>v. v = ''pass'') (map (\<lambda>r. dict_get r ''result'' '''') rows)
      = map (\<lambda>r. dict_get r ''result'' '''') (filter passed rows)"
    unfolding filter_map comp_def passed_def [symmetric] by simp
  moreover have "int (length rows) - int (length (filter passed rows)) = int (length (filter (\<lambda>r. \<not> passed r) rows))"
    using sum_length_filter_compl [of passed rows] by linarith
  ultimately show ?thesis by (simp add: summary_of_def summary_cells_def Let_def)
qed

lemma metric_stats_keys:
  assumes "length rows < 2 ^ 40"
  shows "fst ` set (concat (map (metric_stats rows) names))
    = set (concat (map (\<lambda>name. map (\<lambda>stat. name @ ''_'' @ stat) SUMMARY_STATS) names))"
proof -
  have "fst ` set (metric_stats rows name) = set (map (\<lambda>stat. name @ ''_'' @ stat) SUMMARY_STATS)" for name
    using metric_cells_total [OF assms, of name] by (metis list.set_map)
  then show ?thesis by (induction names) (simp_all add: image_Un del: set_map)
qed

lemma stability_key_set: "fst ` set (stability_cells rows) = set (drop 3 SUMMARY_FLAGS)"
  by (metis stability_keys list.set_map)

lemma summary_cells_keys:
  assumes "length rows < 2 ^ 40" and "length key = length SUMMARY_GROUP_FIELDS"
  shows "fst ` set (summary_cells key rows) = set SUMMARY_FIELDS"
proof -
  have "fst ` set (zip SUMMARY_GROUP_FIELDS key) = set SUMMARY_GROUP_FIELDS"
    using assms(2) by (metis list.set_map map_fst_zip)
  moreover have "set SUMMARY_FLAGS = {''repeat_count'', ''pass_count'', ''fail_count''} \<union> set (drop 3 SUMMARY_FLAGS)"
    by (simp add: SUMMARY_FLAGS_def insert_commute)
  ultimately show ?thesis
    unfolding summary_cells_def SUMMARY_FIELDS_def
    by (simp add: metric_stats_keys [OF assms(1)] stability_key_set image_Un Un_assoc insert_commute del: set_concat)
qed

lemma stat_key_free:
  assumes "length rows < 2 ^ 40" and "c \<in> set (SUMMARY_GROUP_FIELDS @ SUMMARY_FLAGS)"
  shows "c \<notin> fst ` set (concat (map (metric_stats rows) names))"
  unfolding metric_stats_keys [OF assms(1)] using stat_suffix_free [OF assms(2)] by auto

lemma flags_group_free: "set SUMMARY_GROUP_FIELDS \<inter> set SUMMARY_FLAGS = {}"
  by (simp add: SUMMARY_GROUP_FIELDS_def SUMMARY_FLAGS_def)

lemma summary_cells_group:
  assumes "length rows < 2 ^ 40" and "length key = length SUMMARY_GROUP_FIELDS"
  shows "map (\<lambda>c. dict_get (summary_cells key rows) c '''') SUMMARY_GROUP_FIELDS = key"
proof -
  have "distinct SUMMARY_GROUP_FIELDS" by (simp add: SUMMARY_GROUP_FIELDS_def)
  have "map_of (summary_cells key rows) c = map_of (zip SUMMARY_GROUP_FIELDS key) c"
    if "c \<in> set SUMMARY_GROUP_FIELDS" for c
  proof -
    from that have "c \<notin> set SUMMARY_FLAGS" using flags_group_free by blast
    then have "c \<notin> {''repeat_count'', ''pass_count'', ''fail_count''}" "c \<notin> fst ` set (stability_cells rows)"
      unfolding stability_key_set by (auto simp: SUMMARY_FLAGS_def)
    with stat_key_free [OF assms(1), of c SUMMARY_METRIC_FIELDS] that show ?thesis
      unfolding summary_cells_def by (subst map_of_dict_update_skip) (auto simp: image_Un)
  qed
  then have "map (\<lambda>c. dict_get (summary_cells key rows) c '''') SUMMARY_GROUP_FIELDS
      = map (\<lambda>c. the (map_of (zip SUMMARY_GROUP_FIELDS key) c)) SUMMARY_GROUP_FIELDS"
    using assms(2) by (auto simp: dict_get_def map_of_zip_is_Some split: option.split)
  also have "\<dots> = key"
    using \<open>distinct SUMMARY_GROUP_FIELDS\<close> assms(2)
    by (auto intro: nth_equalityI simp: map_of_zip_nth)
  finally show ?thesis .
qed

lemma summary_cells_counts:
  assumes "length rows < 2 ^ 40"
  shows "dict_get (summary_cells key rows) ''repeat_count'' '''' = show_int (int (length rows))"
    and "dict_get (summary_cells key rows) ''pass_count'' '''' = show_int (int (length (filter passed rows)))"
    and "dict_get (summary_cells key rows) ''fail_count'' '''' = show_int (int (length (filter (\<lambda>r. \<not> passed r) rows)))"
proof -
  have "map_of (summary_cells key rows) c = map_of
      [(''repeat_count'', show_int (int (length rows))), (''pass_count'', show_int (int (length (filter passed rows)))),
       (''fail_count'', show_int (int (length (filter (\<lambda>r. \<not> passed r) rows))))] c"
    if "c \<in> {''repeat_count'', ''pass_count'', ''fail_count''}" for c
  proof -
    from that have "c \<in> set SUMMARY_FLAGS" "c \<notin> fst ` set (stability_cells rows)"
      unfolding stability_key_set by (auto simp: SUMMARY_FLAGS_def)
    with stat_key_free [OF assms, of c SUMMARY_METRIC_FIELDS]
    have "c \<notin> fst ` set (stability_cells rows @ concat (map (metric_stats rows) SUMMARY_METRIC_FIELDS))"
      by (simp add: image_Un del: set_concat)
    note skip = map_of_dict_update_skip [OF this]
    have "map_of (summary_cells key rows) c = map_of (dict_update (zip SUMMARY_GROUP_FIELDS key)
        [(''repeat_count'', show_int (int (length rows))), (''pass_count'', show_int (int (length (filter passed rows)))),
         (''fail_count'', show_int (int (length (filter (\<lambda>r. \<not> passed r) rows))))]) c"
      unfolding summary_cells_def by (subst dict_update_append) (rule skip)
    with that show ?thesis by (elim insertE emptyE) simp_all
  qed
  then show "dict_get (summary_cells key rows) ''repeat_count'' '''' = show_int (int (length rows))"
    and "dict_get (summary_cells key rows) ''pass_count'' '''' = show_int (int (length (filter passed rows)))"
    and "dict_get (summary_cells key rows) ''fail_count'' '''' = show_int (int (length (filter (\<lambda>r. \<not> passed r) rows)))"
    by (simp_all add: dict_get_def)
qed

definition row_key :: "row \<Rightarrow> string list" where
  "row_key r = map (\<lambda>c. dict_get r c '''') SUMMARY_GROUP_FIELDS"

definition complete :: "row \<Rightarrow> bool" where
  "complete r \<longleftrightarrow> fst ` set r = set CSV_FIELDS"

definition group_of :: "row list \<Rightarrow> string list \<Rightarrow> row list" where
  "group_of rows k = filter (\<lambda>r. row_key r = k) rows"

lemma complete_key: "complete r \<Longrightarrow> group_key r = Inr (row_key r)"
  unfolding complete_def row_key_def using group_fields_csv(1) by (intro group_key_total) simp

lemma row_key_length [simp]: "length (row_key r) = length SUMMARY_GROUP_FIELDS"
  by (simp add: row_key_def)

lemma group_of_short: "length rows < 2 ^ 40 \<Longrightarrow> length (group_of rows k) < 2 ^ 40"
  unfolding group_of_def by (rule le_less_trans [OF length_filter_le])

text \<open>The summaries are those of the groups, in the order of their keys.\<close>

lemma summarize_rows_cells:
  assumes "length rows < 2 ^ 40" and "list_all complete rows"
  shows "\<exists>keys. summarize_rows rows = Inr (map (\<lambda>k. summary_cells k (group_of rows k)) keys) \<and>
    sorted keys \<and> distinct keys \<and> set keys = row_key ` set rows"
proof -
  have keyed: "\<forall>r\<in>set rows. group_key r = Inr (row_key r)"
    using assms(2) by (simp add: list_all_iff complete_key)
  then obtain gs where gs: "add_to_groups rows [] = Inr gs" using add_to_groups_total [of rows "[]"] by blast
  define sorted_gs where "sorted_gs = sort_key fst gs"
  have "filter (\<lambda>r. group_key r = Inr k) rows = group_of rows k" for k
    unfolding group_of_def using keyed by (intro filter_cong) auto
  then have get: "dict_get gs k [] = group_of rows k" for k
    using add_to_groups_spec [OF gs, of k] by (simp add: dict_get_def)
  have "{k. \<exists>r\<in>set rows. group_key r = Inr k} = row_key ` set rows" using keyed by force
  then have keys: "fst ` set gs = row_key ` set rows" and dist: "distinct (map fst gs)"
    using add_to_groups_spec [OF gs] by simp_all
  have pair: "snd kg = group_of rows (fst kg)" if "kg \<in> set sorted_gs" for kg
    using that get [of "fst kg"] map_of_is_SomeI [OF dist, of "fst kg" "snd kg"]
    by (simp add: sorted_gs_def dict_get_def)
  have short: "summary_of k (group_of rows k) = Inr (summary_cells k (group_of rows k))" for k
    using group_of_short [OF assms(1)] assms(2) group_fields_csv(2)
    by (intro summary_of_cells) (auto simp: group_of_def list_all_iff complete_def)
  have "collect (\<lambda>kg. summary_of (fst kg) (snd kg)) sorted_gs
      = Inr (map (\<lambda>kg. summary_cells (fst kg) (group_of rows (fst kg))) sorted_gs)"
    by (rule collect_total) (simp add: pair short)
  then have "summarize_rows rows = Inr (map (\<lambda>k. summary_cells k (group_of rows k)) (map fst sorted_gs))"
    by (simp add: summarize_rows_def gs sorted_gs_def comp_def)
  moreover have "sorted (map fst sorted_gs)" by (simp add: sorted_gs_def)
  moreover have "distinct (map fst sorted_gs)"
    using dist by (simp add: sorted_gs_def distinct_map)
  moreover have "set (map fst sorted_gs) = row_key ` set rows" using keys by (simp add: sorted_gs_def)
  ultimately show ?thesis by blast
qed

lemma dict_writer_ok:
  assumes "\<And>r. r \<in> set rows \<Longrightarrow> fst ` set r \<subseteq> set columns"
  shows "dict_writer_text columns rows = Inr (csv_text (columns # map (\<lambda>r. map (\<lambda>c. dict_get r c '''') columns) rows))"
  using assms unfolding dict_writer_text_def list_all_iff by auto

text \<open>
  C15: Summaries partition the measurements. For complete rows (every column of the result file) the
  summary has exactly one line per configuration that occurs, in ascending order of the configuration;
  its columns are those of the summary file, so writing it never fails; its configuration cells name the
  configuration; and its counts are the number of rows with that configuration, of those that passed and
  of those that did not.
\<close>

theorem summarize_rows_partition:
  assumes "length rows < 2 ^ 40" and "list_all complete rows"
  shows "\<exists>keys summaries. summarize_rows rows = Inr summaries \<and> sorted keys \<and> distinct keys \<and>
    set keys = row_key ` set rows \<and>
    list_all2 (\<lambda>k s. fst ` set s = set SUMMARY_FIELDS \<and> row_key s = k \<and>
        dict_get s ''repeat_count'' '''' = show_int (int (length (group_of rows k))) \<and>
        dict_get s ''pass_count'' '''' = show_int (int (length (filter passed (group_of rows k)))) \<and>
        dict_get s ''fail_count'' '''' = show_int (int (length (filter (\<lambda>r. \<not> passed r) (group_of rows k)))))
      keys summaries \<and>
    ok (dict_writer_text SUMMARY_FIELDS summaries)"
proof -
  from summarize_rows_cells [OF assms] obtain keys where
    s: "summarize_rows rows = Inr (map (\<lambda>k. summary_cells k (group_of rows k)) keys)"
    and keys: "sorted keys" "distinct keys" "set keys = row_key ` set rows" by blast
  have len: "length k = length SUMMARY_GROUP_FIELDS" if "k \<in> set keys" for k using that keys(3) by auto
  note short = group_of_short [OF assms(1)]
  have cols: "fst ` set (summary_cells k (group_of rows k)) = set SUMMARY_FIELDS" if "k \<in> set keys" for k
    using summary_cells_keys [OF short len [OF that]] .
  have "list_all2 (\<lambda>k s. fst ` set s = set SUMMARY_FIELDS \<and> row_key s = k \<and>
        dict_get s ''repeat_count'' '''' = show_int (int (length (group_of rows k))) \<and>
        dict_get s ''pass_count'' '''' = show_int (int (length (filter passed (group_of rows k)))) \<and>
        dict_get s ''fail_count'' '''' = show_int (int (length (filter (\<lambda>r. \<not> passed r) (group_of rows k)))))
      keys (map (\<lambda>k. summary_cells k (group_of rows k)) keys)"
    using cols summary_cells_group [OF short len] summary_cells_counts [OF short]
    by (simp add: list.rel_map list.rel_refl_strong row_key_def)
  moreover have "ok (dict_writer_text SUMMARY_FIELDS (map (\<lambda>k. summary_cells k (group_of rows k)) keys))"
    using cols by (subst dict_writer_ok) auto
  ultimately show ?thesis using s keys by blast
qed

definition sample_matrix_args :: matrix_args where
  "sample_matrix_args = rargs.extend sample_args \<lparr>a_output_dir = ''results'', a_event_log_dir = '''',
     a_host_baseline_csv = '''', a_storage_bench_csv = '''', a_run_root_base = '''', a_keep_files = False\<rparr>"

definition sample_env :: environment_snapshot where
  "sample_env = \<lparr>server_hostname = ''a'', client_hostname = ''b'', server_kernel = ''6.1'', client_kernel = ''6.1'',
     server_cpu_flags = '''', client_cpu_flags = '''', server_fs_type = ''ext4'', client_fs_type = ''ext4'',
     server_free_bytes = ''1'', client_free_bytes = ''1''\<rparr>"

definition sample_row :: row where
  "sample_row = initial_row ''2025-01-01T00:00:00Z'' sample_matrix_args sample_case sample_env ''s.log'' ''c.log''"

lemma sample_row_complete: "complete sample_row"
  by (simp add: complete_def sample_row_def initial_row_keys)

theorem summarize_rows_partition_witness:
  "\<exists>keys summaries. summarize_rows [sample_row, sample_row] = Inr summaries \<and> sorted keys \<and> distinct keys \<and>
    set keys = row_key ` set [sample_row, sample_row] \<and>
    list_all2 (\<lambda>k s. fst ` set s = set SUMMARY_FIELDS \<and> row_key s = k \<and>
        dict_get s ''repeat_count'' '''' = show_int (int (length (group_of [sample_row, sample_row] k))) \<and>
        dict_get s ''pass_count'' '''' = show_int (int (length (filter passed (group_of [sample_row, sample_row] k)))) \<and>
        dict_get s ''fail_count'' ''''
          = show_int (int (length (filter (\<lambda>r. \<not> passed r) (group_of [sample_row, sample_row] k)))))
      keys summaries \<and>
    ok (dict_writer_text SUMMARY_FIELDS summaries)"
  by (rule summarize_rows_partition) (simp_all add: sample_row_complete)

section \<open>The release gate reads the summary\<close>

lemma zip_row_map:
  "map_of (cells (zip_row ks (map g ks))) k = (if k \<in> set ks then Some (Some (g k)) else None)"
  by (induction ks) (auto split: option.splits if_splits)

lemma dict_rows_written:
  assumes "columns \<noteq> []"
  shows "dict_rows (csv_text (columns # map (\<lambda>r. map (h r) columns) rs)) = map (\<lambda>r. zip_row columns (map (h r) columns)) rs"
proof -
  have "filter (\<lambda>r. r \<noteq> []) (map (\<lambda>r. map (h r) columns) rs) = map (\<lambda>r. map (h r) columns) rs"
    using assms by (induction rs) auto
  then show ?thesis by (simp add: dict_rows_def csv_records_text comp_def)
qed

lemma fail_column: "''fail_count'' \<in> set SUMMARY_FIELDS"
  by (simp add: SUMMARY_FIELDS_def SUMMARY_FLAGS_def)

lemma row_fail_count_written:
  assumes "g ''fail_count'' = show_int n"
  shows "row_fail_count (zip_row SUMMARY_FIELDS (map g SUMMARY_FIELDS)) = n"
proof -
  have "show_int n \<noteq> ''''" using show_int_safe by blast
  then show ?thesis by (simp add: row_fail_count_def zip_row_map fail_column assms)
qed

lemma sum_list_one_hot:
  assumes "distinct ks" and "y \<in> set ks"
  shows "sum_list (map (\<lambda>k. if y = k then 1 else 0 :: int) ks) = 1"
proof -
  have absent: "sum_list (map (\<lambda>k. if y = k then 1 else 0 :: int) ls) = 0" if "y \<notin> set ls" for ls
    using that by (induction ls) auto
  show ?thesis using assms by (induction ks) (auto simp: absent)
qed

lemma partition_sum:
  assumes "distinct ks" and "f ` set xs \<subseteq> set ks"
  shows "sum_list (map (\<lambda>k. int (length (filter P (filter (\<lambda>x. f x = k) xs)))) ks) = int (length (filter P xs))"
  using assms(2)
proof (induction xs)
  case (Cons x xs)
  have "int (length (filter P (filter (\<lambda>x. f x = k) (x # xs))))
      = (if P x then (if f x = k then 1 else 0) else 0) + int (length (filter P (filter (\<lambda>x. f x = k) xs)))" for k
    by simp
  then show ?case
    using Cons sum_list_one_hot [OF assms(1), of "f x"] by (simp add: sum_list_addf)
qed (simp add: sum_list_0)

lemma matrix_summary_read:
  assumes "length rows < 2 ^ 40" and "list_all complete rows" and "summarize_rows rows = Inr summaries"
    and "dict_writer_text SUMMARY_FIELDS summaries = Inr content"
    and "repo_content t p = Some content" and "utf8_valid content"
  shows "\<exists>report. parse_matrix_summary t p = Inr report \<and>
    map_of report ''status'' = Some (JStr (if rows \<noteq> [] \<and> list_all passed rows then ''pass'' else ''fail'')) \<and>
    map_of report ''rows'' = Some (JInt (int (card (row_key ` set rows)))) \<and>
    map_of report ''fail_count'' = Some (JInt (int (length (filter (\<lambda>r. \<not> passed r) rows))))"
proof -
  from summarize_rows_cells [OF assms(1,2)] obtain keys where
    s: "summaries = map (\<lambda>k. summary_cells k (group_of rows k)) keys"
    and keys: "distinct keys" "set keys = row_key ` set rows" using assms(3) by auto
  note short = group_of_short [OF assms(1)]
  have "fst ` set (summary_cells k (group_of rows k)) = set SUMMARY_FIELDS" if "k \<in> set keys" for k
    using that keys(2) by (intro summary_cells_keys [OF short]) auto
  then have "fst ` set r \<subseteq> set SUMMARY_FIELDS" if "r \<in> set summaries" for r
    using that unfolding s by auto
  with assms(4) have content: "content
      = csv_text (SUMMARY_FIELDS # map (\<lambda>r. map (\<lambda>c. dict_get r c '''') SUMMARY_FIELDS) summaries)"
    by (simp add: dict_writer_ok)
  define lines where "lines = dict_rows content"
  have lines: "lines = map (\<lambda>k. zip_row SUMMARY_FIELDS
      (map (\<lambda>c. dict_get (summary_cells k (group_of rows k)) c '''') SUMMARY_FIELDS)) keys"
    using fail_column unfolding lines_def content s by (subst dict_rows_written) (auto simp: comp_def)
  have "map row_fail_count lines = map (\<lambda>k. int (length (filter (\<lambda>r. \<not> passed r) (group_of rows k)))) keys"
    unfolding lines using row_fail_count_written summary_cells_counts(3) [OF short] by simp
  then have sum: "sum_list (map row_fail_count lines) = int (length (filter (\<lambda>r. \<not> passed r) rows))"
    using partition_sum [OF keys(1), of row_key rows] keys(2) by (simp add: group_of_def)
  have "length lines = card (row_key ` set rows)" using keys distinct_card [of keys] by (simp add: lines)
  moreover have "lines = [] \<longleftrightarrow> rows = []" using keys(2) by (auto simp: lines)
  moreover have "int (length (filter (\<lambda>r. \<not> passed r) rows)) = 0 \<longleftrightarrow> list_all passed rows"
    by (auto simp: filter_empty_conv list_all_iff)
  ultimately show ?thesis
    using assms(5,6) sum unfolding parse_matrix_summary_def repo_exists_def repo_read_def
    by (auto simp: utf8_decode_def Let_def lines_def [symmetric])
qed

text \<open>
  C13: The release gate and the matrix runner agree on what passed. When the summary file holds what the
  runner wrote for its rows, \<open>parse_matrix_summary\<close> reports one line per configuration that was run, a
  failure count equal to the number of rows that did not pass, and the status pass exactly when there
  was a row and every row passed.
\<close>

theorem gate_reads_matrix_summary:
  assumes "length rows < 2 ^ 40" and "list_all complete rows" and "summarize_rows rows = Inr summaries"
    and "dict_writer_text SUMMARY_FIELDS summaries = Inr content"
    and "repo_content t p = Some content" and "utf8_valid content"
  shows "\<exists>report. parse_matrix_summary t p = Inr report \<and>
    map_of report ''status'' = Some (JStr (if rows \<noteq> [] \<and> list_all passed rows then ''pass'' else ''fail'')) \<and>
    map_of report ''rows'' = Some (JInt (int (card (row_key ` set rows)))) \<and>
    map_of report ''fail_count'' = Some (JInt (int (length (filter (\<lambda>r. \<not> passed r) rows))))"
  by (rule matrix_summary_read [OF assms])

section \<open>Summary files are plain text\<close>

definition ascii :: "string \<Rightarrow> bool" where
  "ascii s \<longleftrightarrow> list_all (\<lambda>c. code c < 128) s"

lemma ascii_simps [simp]:
  "ascii []" "ascii (c # s) \<longleftrightarrow> code c < 128 \<and> ascii s" "ascii (s @ t) \<longleftrightarrow> ascii s \<and> ascii t"
  by (simp_all add: ascii_def)

lemma ascii_parts: "ascii s \<Longrightarrow> ascii (take n s)" "ascii s \<Longrightarrow> ascii (drop n s)"
  by (auto simp: ascii_def list_all_iff dest: in_set_takeD in_set_dropD)

lemma ascii_concat: "list_all ascii ss \<Longrightarrow> ascii (concat ss)"
  by (induction ss) auto

lemma ascii_join: "ascii sep \<Longrightarrow> list_all ascii ws \<Longrightarrow> ascii (join sep ws)"
  by (induction sep ws rule: join.induct) auto

lemma ascii_show_nat: "ascii (show_nat n)"
  using show_nat_digits [of n] by (auto simp: ascii_def list_all_iff is_digit_def)

lemma ascii_show_int: "ascii (show_int n)"
  by (simp add: show_int_def ascii_show_nat code_def)

lemma ascii_float_fixed: "ascii (float_fixed n f)"
proof (cases f)
  case (Fin s m e)
  have "ascii (zeros k)" for k by (simp add: zeros_def ascii_def list_all_iff code_def)
  then show ?thesis
    by (simp add: Fin float_fixed_def Let_def ascii_show_nat ascii_parts code_def)
qed (simp_all add: float_fixed_def float_repr_def code_def)

lemma ascii_csv_text:
  assumes "list_all (list_all ascii) rows"
  shows "ascii (csv_text rows)"
proof -
  have quoted: "ascii (csv_quoted f)" if "ascii f" for f
    using that by (auto simp: csv_quoted_def double_quotes_def ascii_def list_all_iff code_def quote_char_def)
  have "ascii (csv_line r)" if "list_all ascii r" for r
  proof -
    have "list_all ascii (map csv_field r)"
      using that quoted by (auto simp: list_all_iff csv_field_def)
    moreover have "ascii [comma]" "ascii [carriage_return, newline]"
      by (simp_all add: code_def comma_def)
    ultimately show ?thesis using quoted ascii_join by (simp add: csv_line_def)
  qed
  with assms have "list_all ascii (map csv_line rows)" by (auto simp: list_all_iff)
  then show ?thesis unfolding csv_text_def by (rule ascii_concat)
qed

lemma dict_set_values: "snd ` set (dict_set k v d) \<subseteq> insert v (snd ` set d)"
  by (induction k v d rule: dict_set.induct) auto

lemma dict_update_values: "snd ` set (dict_update d e) \<subseteq> snd ` set d \<union> snd ` set e"
proof (induction d e rule: dict_update.induct)
  case (2 d k v e)
  then show ?case using dict_set_values [of k v d] by auto
qed simp

lemma dict_get_values: "dict_get d k v \<in> insert v (snd ` set d)"
proof (cases "map_of d k")
  case (Some w)
  then show ?thesis using map_of_SomeD [OF Some] by (force simp: dict_get_def)
qed (simp add: dict_get_def)

lemma ascii_metric_stats:
  assumes "length rows < 2 ^ 40" and "v \<in> snd ` set (metric_stats rows name)"
  shows "ascii v"
proof -
  have six: "ascii (six f)" for f by (simp add: six_def ascii_float_fixed split: option.split)
  have "length (float_values rows name) < 2 ^ 40" using float_values_length [of rows name] assms(1) by linarith
  from nearest_rank_total [OF this] assms(2) show ?thesis
    by (auto simp: metric_stats_def metric_cells_def Let_def six)
qed

lemma ascii_summary_cells:
  assumes "list_all ascii key" and "length rows < 2 ^ 40"
  shows "ascii (dict_get (summary_cells key rows) c '''')"
proof -
  have group: "ascii v" if "v \<in> snd ` set (zip SUMMARY_GROUP_FIELDS key)" for v
    using that assms(1) by (auto simp: list_all_iff dest: set_zip_rightD)
  have flags: "ascii v" if "v \<in> snd ` set (stability_cells rows)" for v
    using that by (auto simp: stability_cells_def Let_def flag_def code_def)
  have stats: "ascii v" if "v \<in> snd ` set (concat (map (metric_stats rows) SUMMARY_METRIC_FIELDS))" for v
    using that ascii_metric_stats [OF assms(2)] by auto
  have counts: "ascii v" if "v \<in> {show_int a, show_int b, show_int c}" for v a b c
    using that ascii_show_int by blast
  have parts: "snd ` set (summary_cells key rows) \<subseteq> snd ` set (zip SUMMARY_GROUP_FIELDS key)
      \<union> {show_int (int (length rows)), show_int (int (length (filter passed rows))),
         show_int (int (length (filter (\<lambda>r. \<not> passed r) rows)))}
      \<union> snd ` set (stability_cells rows) \<union> snd ` set (concat (map (metric_stats rows) SUMMARY_METRIC_FIELDS))"
    unfolding summary_cells_def by (rule order_trans [OF dict_update_values]) (simp add: image_Un Un_assoc del: set_concat)
  have "ascii v" if "v \<in> snd ` set (summary_cells key rows)" for v
    using subsetD [OF parts that] by (elim UnE) (erule group counts flags stats)+
  then show ?thesis using dict_get_values [of "summary_cells key rows" c "''''"] by auto
qed

lemma ascii_char: "code (Char a b c d e f g False) < 128"
  by (cases a; cases b; cases c; cases d; cases e; cases f; cases g) (simp_all add: code_def)

lemma ascii_fields: "list_all ascii SUMMARY_FIELDS"
proof -
  have stage: "list_all ascii STAGE_FIELDS" "list_all ascii PHASE_ALIAS_FIELDS" "list_all ascii ROLE_METRIC_FIELDS"
    "list_all ascii SUMMARY_GROUP_FIELDS" "list_all ascii SUMMARY_FLAGS" "list_all ascii SUMMARY_STATS"
    "list_all ascii RECEIVER_COUNTERS" "list_all ascii MEMORY_COLUMNS"
    by (simp_all add: STAGE_FIELDS_def PHASE_ALIAS_FIELDS_def ROLE_METRIC_FIELDS_def SUMMARY_GROUP_FIELDS_def
      SUMMARY_FLAGS_def SUMMARY_STATS_def RECEIVER_COUNTERS_def MEMORY_COLUMNS_def ascii_char)
  have "ascii ''sender''" "ascii ''receiver''" "ascii ''throughput_gbps''" "ascii ''elapsed''" "code CHR ''_'' < 128"
    by (simp_all add: ascii_char)
  with stage have "list_all ascii SUMMARY_METRIC_FIELDS"
    by (auto simp: SUMMARY_METRIC_FIELDS_def role_columns_def prefixed_def list_all_iff)
  with stage \<open>code CHR ''_'' < 128\<close> show ?thesis
    by (auto simp: SUMMARY_FIELDS_def list_all_iff)
qed

definition passing_row :: row where
  "passing_row = dict_set ''result'' ''pass'' sample_row"

lemma passing_row_facts: "complete passing_row" "passed passing_row" "list_all ascii (row_key passing_row)"
proof -
  have "''result'' \<in> set CSV_FIELDS" using group_fields_csv by blast
  with sample_row_complete show "complete passing_row"
    by (simp add: complete_def passing_row_def insert_absorb)
  show "passed passing_row" by (simp add: passed_def passing_row_def)
  have blank: "snd ` set (empty_cells names) \<subseteq> {''''}" for names by (auto simp: empty_cells_def)
  have sample: "ascii v" if "v \<in> snd ` set sample_row" for v
  proof -
    have "v \<in> snd ` set (empty_cells names) \<Longrightarrow> ascii v" for names using blank [of names] by auto
    with subsetD [OF dict_update_values that [unfolded sample_row_def initial_row_def]] show ?thesis
      unfolding set_append image_Un list.set image_insert image_empty snd_conv
      by (elim UnE insertE emptyE)
        (simp_all add: ascii_show_int sample_matrix_args_def sample_args_def sample_case_def sample_env_def
          smoke_args_def rargs.defs margs.defs ascii_char)
  qed
  have "ascii v" if "v \<in> snd ` set passing_row" for v
    using subsetD [OF dict_set_values that [unfolded passing_row_def]] sample by (auto simp: code_def)
  then have "ascii (dict_get passing_row c '''')" for c
    using dict_get_values [of passing_row c "''''"] by auto
  then show "list_all ascii (row_key passing_row)" by (simp add: row_key_def list_all_iff)
qed

theorem gate_reads_matrix_summary_witness:
  "\<exists>summaries content report. summarize_rows [passing_row] = Inr summaries \<and>
    dict_writer_text SUMMARY_FIELDS summaries = Inr content \<and>
    parse_matrix_summary [([''m.csv''], (content, 0))] [''m.csv''] = Inr report \<and>
    map_of report ''status'' = Some (JStr ''pass'') \<and> map_of report ''rows'' = Some (JInt 1) \<and>
    map_of report ''fail_count'' = Some (JInt 0)"
proof -
  let ?s = "summary_cells (row_key passing_row) [passing_row]"
  have "set keys = {row_key passing_row} \<Longrightarrow> distinct keys \<Longrightarrow> keys = [row_key passing_row]" for keys
    by (metis distinct_card distinct.simps(2) empty_iff insert_iff length_Suc_conv card.empty card_insert_disjoint
        finite.emptyI length_0_conv list.set_intros(1) set_empty list.set(2) One_nat_def singletonD)
  moreover obtain keys where keys: "summarize_rows [passing_row]
      = Inr (map (\<lambda>k. summary_cells k (group_of [passing_row] k)) keys)"
      "distinct keys" "set keys = {row_key passing_row}"
    using summarize_rows_cells [of "[passing_row]"] passing_row_facts(1) by auto
  ultimately have "keys = [row_key passing_row]" by blast
  with keys(1) have s: "summarize_rows [passing_row] = Inr [?s]" by (simp add: group_of_def)
  let ?content = "csv_text (SUMMARY_FIELDS # map (\<lambda>r. map (\<lambda>c. dict_get r c '''') SUMMARY_FIELDS) [?s])"
  have c: "dict_writer_text SUMMARY_FIELDS [?s] = Inr ?content"
    by (rule dict_writer_ok) (simp add: summary_cells_keys)
  have "ascii ?content"
    using ascii_fields ascii_summary_cells [OF passing_row_facts(3), of "[passing_row]"]
    by (intro ascii_csv_text) (simp add: list_all_iff)
  then have "utf8_valid ?content" unfolding ascii_def by (rule utf8_valid_ascii)
  from gate_reads_matrix_summary [OF _ _ s c _ this, of "[([''m.csv''], (?content, 0))]" "[''m.csv'']"]
  show ?thesis using s c passing_row_facts by (auto simp: repo_content_def)
qed

end
