(* ===== verification/Matrix_Run.thy ===== *)
theory Matrix_Run
  imports Matrix_Rows Artifact_Sync
begin

text \<open>
  The run of the measurement matrix of tools/perf/run_gridftp_private_matrix.py: the server process of a
  case, the files on this machine, the environment logs, \<open>run_case\<close> with its handler and its
  \<open>finally\<close> block, and \<open>main\<close>. The dialogues with the server and the commands on the other machine are
  those of theory Control_Client, the rows and result files those of Matrix_Rows.
\<close>

section \<open>The world\<close>

datatype mevent =
    Spawned nat "string list"
  | LocalRun "string list"
  | Signalled nat string
  | Reaped nat
  | Hashed string string
  | Transferred string
  | Wrote string string

text \<open>
  \<open>net\<close> is the world of the control client; \<open>files\<close> the files of this machine and \<open>work_dir\<close> the
  directory relative paths start from. Other programs, the server above all, change files while the
  script waits: \<open>others\<close> holds the changes of the next waits. \<open>local_results\<close>, \<open>spawns\<close> and
  \<open>answers\<close> say how the next local commands end, whether the next programs can be started, and how the
  next questions about the server process are answered. \<open>digest\<close> is SHA-256, \<open>utc_time\<close> and
  \<open>compact_time\<close> render the time of a tick of \<open>clock\<close>, \<open>library_text\<close> gives the texts of exceptions
  raised by the library. \<open>this_row\<close> and \<open>server\<close> are the local variables of \<open>run_case\<close> that its
  handlers read, \<open>remove_run_root\<close>, \<open>remote_ca\<close> and \<open>tls_dir\<close> those of \<open>main\<close>. \<open>trace\<close> records what
  was done.
\<close>

record mworld =
  net :: world
  files :: fs
  work_dir :: "string list"
  others :: "(fs \<Rightarrow> fs) list"
  local_results :: "completed option list"
  spawns :: "bool list"
  answers :: "bool list"
  temp_dirs :: "string list"
  openssl :: "string option"
  digest :: "string \<Rightarrow> string"
  utc_time :: "int \<Rightarrow> string"
  compact_time :: "int \<Rightarrow> string"
  library_text :: "py_error \<Rightarrow> string"
  clock :: int
  this_row :: row
  server :: "nat option"
  spawned :: nat
  remove_run_root :: bool
  remote_ca :: string
  tls_dir :: "string option"
  trace :: "mevent list"
  out_lines :: "string list"
  err_lines :: "string list"

definition see :: "(mworld \<Rightarrow> 'a) \<Rightarrow> (mworld, 'a) act" where
  "see f w = (Inr (f w), w)"

definition change :: "(mworld \<Rightarrow> mworld) \<Rightarrow> (mworld, unit) act" where
  "change f w = (Inr (), f w)"

definition traced :: "mevent \<Rightarrow> (mworld, unit) act" where
  "traced e = change (\<lambda>w. w\<lparr>trace := trace w @ [e]\<rparr>)"

definition waited :: "mworld \<Rightarrow> mworld" where
  \<comment> \<open>what other programs did to the files meanwhile\<close>
  "waited w =
     (case others w of [] \<Rightarrow> w | f # fs \<Rightarrow> w\<lparr>files := f (files w), others := fs\<rparr>)"

definition net_act :: "(world, 'a) act \<Rightarrow> (mworld, 'a) act" where
  "net_act m w = (case m (net w) of (r, n) \<Rightarrow> (r, waited (w\<lparr>net := n\<rparr>)))"

definition run_local :: "string list \<Rightarrow> (mworld, completed) act" where
  \<comment> \<open>\<open>subprocess.run(..., check=False)\<close> on this machine\<close>
  "run_local command w =
     (let w1 = waited (w\<lparr>local_results := tl (local_results w), trace := trace w @ [LocalRun command]\<rparr>) in
      case local_results w of
        Some c # _ \<Rightarrow> (Inr c, w1)
      | _ \<Rightarrow> (Inl (FileNotFoundError (join '' '' (take 1 command))), w1))"

definition answer :: "(mworld, bool) act" where
  "answer w = (case answers w of [] \<Rightarrow> (Inr False, waited w) | b # bs \<Rightarrow> (Inr b, waited (w\<lparr>answers := bs\<rparr>)))"

definition timestamp_utc :: "(mworld, string) act" where
  "timestamp_utc w = (Inr (utc_time w (clock w)), w\<lparr>clock := clock w + 1\<rparr>)"

definition compact_timestamp :: "(mworld, string) act" where
  "compact_timestamp w = (Inr (compact_time w (clock w)), w\<lparr>clock := clock w + 1\<rparr>)"

definition print_out :: "string \<Rightarrow> (mworld, unit) act" where
  "print_out s = change (\<lambda>w. w\<lparr>out_lines := out_lines w @ [s]\<rparr>)"

definition print_err :: "string \<Rightarrow> (mworld, unit) act" where
  "print_err s = change (\<lambda>w. w\<lparr>err_lines := err_lines w @ [s]\<rparr>)"

definition error_text :: "mworld \<Rightarrow> py_error \<Rightarrow> string" where
  \<comment> \<open>\<open>str(error)\<close>\<close>
  "error_text w e =
     (case e of RuntimeError m \<Rightarrow> m | ValueError m \<Rightarrow> m | OSError m \<Rightarrow> m | _ \<Rightarrow> library_text w e)"

section \<open>Files\<close>

definition file_key :: "mworld \<Rightarrow> string \<Rightarrow> string list" where
  "file_key w path =
     (let p = to_path path in if is_absolute p then segs p else work_dir w @ segs p)"

definition at_path :: "string \<Rightarrow> string \<Rightarrow> string" where
  \<comment> \<open>\<open>str(Path(dir) / name)\<close>\<close>
  "at_path dir name = as_posix (path_join (to_path dir) name)"

definition parent_path :: "string \<Rightarrow> string" where
  "parent_path path = as_posix ((to_path path)\<lparr>segs := butlast (segs (to_path path))\<rparr>)"

definition path_stem :: "string \<Rightarrow> string" where
  "path_stem path =
     (let name = path_name (to_path path) in take (length name - length (name_suffix name)) name)"

definition with_name :: "string \<Rightarrow> string \<Rightarrow> string" where
  "with_name path name = as_posix ((to_path path)\<lparr>segs := butlast (segs (to_path path)) @ [name]\<rparr>)"

definition update_files :: "(fs \<Rightarrow> string list \<Rightarrow> fs res) \<Rightarrow> string \<Rightarrow> (mworld, unit) act" where
  "update_files f path w =
     (case f (files w) (file_key w path) of Inl e \<Rightarrow> (Inl e, w) | Inr t \<Rightarrow> (Inr (), w\<lparr>files := t\<rparr>))"

definition make_dirs :: "string \<Rightarrow> (mworld, unit) act" where
  "make_dirs = update_files (\<lambda>t p. mkdirs [] p t)"

definition make_new_dirs :: "string \<Rightarrow> (mworld, unit) act" where
  \<comment> \<open>\<open>mkdir(parents=True)\<close> without \<open>exist_ok\<close>\<close>
  "make_new_dirs = update_files (\<lambda>t p. if path_exists t p then Inl (FileExistsError (join ''/'' p)) else mkdirs [] p t)"

definition open_write :: "string \<Rightarrow> string \<Rightarrow> (mworld, unit) act" where
  \<comment> \<open>\<open>open("w")\<close> and the text written to it\<close>
  "open_write path text =
     act_bind (update_files (\<lambda>t p. write_bytes t p text) path) (\<lambda>_. traced (Wrote path text))"

definition write_text :: "string \<Rightarrow> string \<Rightarrow> (mworld, unit) act" where
  "write_text path text = act_bind (make_dirs (parent_path path)) (\<lambda>_. open_write path text)"

definition file_exists :: "string \<Rightarrow> mworld \<Rightarrow> bool" where
  "file_exists path w = path_exists (files w) (file_key w path)"

definition read_replaced :: "string \<Rightarrow> (mworld, string) act" where
  \<comment> \<open>\<open>read_text(encoding="utf-8", errors="replace")\<close>\<close>
  "read_replaced path w =
     (andthen (read_bytes (files w) (file_key w path)) (\<lambda>b. Inr (universal_newlines (utf8_replace b))), w)"

definition read_if_exists :: "string \<Rightarrow> (mworld, string option) act" where
  "read_if_exists path =
     act_bind (see (file_exists path)) (\<lambda>present.
     if present then act_bind (read_replaced path) (\<lambda>text. act_ret (Some text)) else act_ret None)"

definition local_sha256 :: "string \<Rightarrow> (mworld, string) act" where
  "local_sha256 path =
     act_bind (see (\<lambda>w. sha256_file (digest w) (files w) (file_key w path))) (\<lambda>r.
     act_bind (act_lift r) (\<lambda>h.
     act_bind (traced (Hashed path h)) (\<lambda>_. act_ret h)))"

definition remove_tree :: "string \<Rightarrow> (mworld, unit) act" where
  \<comment> \<open>\<open>shutil.rmtree(path, ignore_errors=True)\<close>\<close>
  "remove_tree path =
     change (\<lambda>w. let p = file_key w path in
       w\<lparr>files := (\<lambda>q. if take (length p) q = p then None else files w q)\<rparr>)"

definition pattern_block :: "nat \<Rightarrow> string" where
  "pattern_block n = map (\<lambda>i. char_of ((i * 31 + 7) mod 251)) [0..<n]"

function pattern_content :: "nat \<Rightarrow> int \<Rightarrow> string" where
  \<comment> \<open>the loop of \<open>make_local_file\<close> with blocks of \<open>n\<close> bytes\<close>
  "pattern_content n remaining =
     (if 0 < remaining \<and> 0 < n
      then take (nat (min remaining (int n))) (pattern_block n)
           @ pattern_content n (remaining - min remaining (int n))
      else [])"
  by pat_completeness auto
termination by (relation "measure (\<lambda>(n, remaining). nat remaining)") auto

declare pattern_content.simps [simp del]

definition make_local_file :: "string \<Rightarrow> int \<Rightarrow> (mworld, unit) act" where
  "make_local_file path size_bytes = write_text path (pattern_content (1024 * 1024) size_bytes)"

section \<open>The other machine\<close>

definition fetch_remote_file :: "string \<Rightarrow> string \<Rightarrow> string \<Rightarrow> (mworld, bool) act" where
  "fetch_remote_file remote remote_path local_path =
     act_bind (net_act (run_remote remote (''cat '' @ shlex_quote remote_path) '''' False)) (\<lambda>(rc, out, err).
     if rc \<noteq> 0 then act_ret False
     else act_bind (write_text local_path out) (\<lambda>_. act_ret True))"

definition write_remote_text :: "string \<Rightarrow> string \<Rightarrow> string \<Rightarrow> (mworld, unit) act" where
  "write_remote_text remote path text =
     act_bind (net_act (run_remote remote
       (''umask 077 && mkdir -p '' @ shlex_quote (parent_path path) @ '' && cat > '' @ shlex_quote path) text True))
       (\<lambda>_. act_ret ())"

definition remote_sha256 :: "string \<Rightarrow> string \<Rightarrow> (mworld, string) act" where
  "remote_sha256 remote path =
     act_bind (net_act (run_remote remote (''sha256sum '' @ shlex_quote path) '''' True)) (\<lambda>(rc, out, err).
     case py_split out of
       [] \<Rightarrow> act_raise IndexError
     | h # _ \<Rightarrow> act_bind (traced (Hashed path h)) (\<lambda>_. act_ret h))"

definition REMOTE_FILE_SCRIPT :: string where
  "REMOTE_FILE_SCRIPT = [newline] @ join [newline]
     [''import os'', ''import sys'', ''path = sys.argv[1]'', ''remaining = int(sys.argv[2])'',
      ''os.makedirs(os.path.dirname(path), exist_ok=True)'',
      ''block = bytes((index * 31 + 7) % 251 for index in range(1024 * 1024))'',
      ''with open(path, '' @ [double_quote] @ ''wb'' @ [double_quote] @ '') as handle:'',
      ''    while remaining > 0:'', ''        size = min(remaining, len(block))'',
      ''        handle.write(block[:size])'', ''        remaining -= size'', '''']"

definition make_remote_file :: "string \<Rightarrow> string \<Rightarrow> int \<Rightarrow> (mworld, unit) act" where
  "make_remote_file remote path size_bytes =
     act_bind (net_act (run_remote remote (''python3 - '' @ shlex_quote path @ '' '' @ show_int size_bytes)
       REMOTE_FILE_SCRIPT True)) (\<lambda>_. act_ret ())"

definition command_output :: "string list \<Rightarrow> (mworld, string) act" where
  "command_output command =
     act_bind (run_local command) (\<lambda>(rc, out, err). act_ret (if rc = 0 then py_strip out else ''''))"

definition remote_output :: "string \<Rightarrow> string \<Rightarrow> (mworld, string) act" where
  "remote_output remote command =
     act_bind (net_act (run_remote remote command '''' False)) (\<lambda>(rc, out, err).
     act_ret (if rc \<noteq> 0 then '''' else py_strip out))"

section \<open>The environment\<close>

definition fs_figures :: "string list \<Rightarrow> string \<times> string" where
  \<comment> \<open>type and free bytes from the words of a line of \<open>df -PT\<close>\<close>
  "fs_figures words =
     (if length words > 1 then words ! 1 else '''',
      if length words > 4 \<and> py_isdigit (words ! 4)
      then show_int (int (digits_value (words ! 4)) * 1024) else '''')"

definition fs_snapshot :: "string \<Rightarrow> (mworld, string \<times> string) act" where
  "fs_snapshot path =
     act_bind (run_local [''df'', ''-PT'', path]) (\<lambda>(rc, out, err).
     if rc \<noteq> 0 then act_ret ('''', '''')
     else let lines = py_splitlines (py_strip out) in
          act_ret (if length lines < 2 then ('''', '''') else fs_figures (py_split (lines ! 1))))"

definition remote_fs_snapshot :: "string \<Rightarrow> string \<Rightarrow> (mworld, string \<times> string) act" where
  "remote_fs_snapshot remote path =
     act_bind (remote_output remote (''df -PT '' @ shlex_quote path @ '' | tail -n 1'')) (\<lambda>out.
     act_ret (fs_figures (py_split out)))"

fun flags_line :: "string list \<Rightarrow> string res" where
  \<comment> \<open>the first line that begins with \<open>flags\<close>\<close>
  "flags_line [] = Inr ''''"
| "flags_line (line # lines) =
     (if starts_with ''flags'' (map lower_char line)
      then (case dropWhile (\<lambda>c. c \<noteq> CHR '':'') line of [] \<Rightarrow> Inl IndexError | _ # rest \<Rightarrow> Inr (py_strip rest))
      else flags_line lines)"

definition cpu_flags_from_proc :: "(mworld, string) act" where
  "cpu_flags_from_proc w =
     ((case read_bytes (files w) (file_key w ''/proc/cpuinfo'') of
         Inl _ \<Rightarrow> Inr ''''
       | Inr b \<Rightarrow> andthen (read_text b) (\<lambda>text. flags_line (split_on newline text))), w)"

definition FLAGS_COMMAND :: string where
  "FLAGS_COMMAND = ''awk -F: '' @ [single_quote] @ ''/^flags/ {gsub(/^ /, '' @ [double_quote, double_quote]
     @ '', $2); print $2; exit}'' @ [single_quote] @ '' /proc/cpuinfo''"

definition collect_environment :: "string \<Rightarrow> (mworld, environment_snapshot) act" where
  "collect_environment remote =
     act_bind (fs_snapshot ''/tmp'') (\<lambda>(server_fs, server_free).
     act_bind (remote_fs_snapshot remote ''/tmp'') (\<lambda>(client_fs, client_free).
     act_bind (remote_output remote FLAGS_COMMAND) (\<lambda>remote_flags.
     act_bind (command_output [''hostname'']) (\<lambda>server_host.
     act_bind (remote_output remote ''hostname'') (\<lambda>client_host.
     act_bind (command_output [''uname'', ''-r'']) (\<lambda>server_uname.
     act_bind (remote_output remote ''uname -r'') (\<lambda>client_uname.
     act_bind cpu_flags_from_proc (\<lambda>local_flags.
     act_ret \<lparr>server_hostname = server_host, client_hostname = client_host, server_kernel = server_uname,
       client_kernel = client_uname, server_cpu_flags = local_flags, client_cpu_flags = remote_flags,
       server_fs_type = server_fs, client_fs_type = client_fs, server_free_bytes = server_free,
       client_free_bytes = client_free\<rparr>))))))))"

definition environment_command :: "string \<Rightarrow> string" where
  "environment_command path = [newline] @ join [newline]
     [''set +e'', ''echo '' @ [double_quote] @ ''timestamp=$(date -u +%Y-%m-%dT%H:%M:%SZ)'' @ [double_quote],
      ''echo '' @ [double_quote] @ ''hostname=$(hostname)'' @ [double_quote],
      ''echo '' @ [double_quote] @ ''path='' @ shlex_quote path @ [double_quote],
      ''echo '' @ [double_quote] @ ''section=free_m'' @ [double_quote], ''free -m 2>&1 || true'',
      ''echo '' @ [double_quote] @ ''section=meminfo'' @ [double_quote],
      ''grep -E '' @ [single_quote] @ ''^(Dirty|Writeback|Cached):'' @ [single_quote] @ '' /proc/meminfo 2>&1 || true'',
      ''echo '' @ [double_quote] @ ''section=df_h'' @ [double_quote],
      ''df -h '' @ shlex_quote path @ '' 2>&1 || true'',
      ''echo '' @ [double_quote] @ ''section=iostat'' @ [double_quote],
      ''if command -v iostat >/dev/null 2>&1; then'', ''  iostat -xz 1 1 2>&1 || true'', ''else'',
      ''  echo '' @ [double_quote] @ ''iostat=unavailable'' @ [double_quote], ''fi'', '''']"

definition local_environment_text :: "string \<Rightarrow> (mworld, string) act" where
  "local_environment_text path =
     act_bind (run_local [''bash'', ''-lc'', environment_command path]) (\<lambda>(rc, out, err). act_ret (out @ err))"

definition remote_environment_text :: "string \<Rightarrow> string \<Rightarrow> (mworld, string) act" where
  "remote_environment_text remote path =
     act_bind (net_act (run_remote remote (environment_command path) '''' False)) (\<lambda>(rc, out, err). act_ret (out @ err))"

definition capture_environment_sidecars ::
  "'a matrix_args_scheme \<Rightarrow> string \<Rightarrow> string \<Rightarrow> string \<Rightarrow> string \<Rightarrow> string \<Rightarrow> (mworld, string \<times> string) act" where
  "capture_environment_sidecars args server_path client_path server_log client_log label =
     (let server_env = with_name server_log (path_stem server_log @ ''_env_'' @ label @ ''.log'');
          client_env = with_name client_log (path_stem client_log @ ''_env_'' @ label @ ''.log'') in
      act_bind (local_environment_text server_path) (\<lambda>text.
      act_bind (write_text server_env text) (\<lambda>_.
      act_bind (remote_environment_text (a_remote args) client_path) (\<lambda>text2.
      act_bind (write_text client_env text2) (\<lambda>_.
      act_ret (server_env, client_env))))))"

section \<open>The server process\<close>

definition start_control_server ::
  "'a matrix_args_scheme \<Rightarrow> mcase \<Rightarrow> string \<Rightarrow> string \<Rightarrow> string \<Rightarrow> (mworld, unit) act" where
  \<comment> \<open>the process becomes \<open>server\<close>\<close>
  "start_control_server args mc root server_log server_event_log =
     (let server_bin = at_path (a_local_build_dir args) ''gridflux-gridftp-server'';
          command = server_command args mc server_bin root server_event_log in
      act_bind (open_write server_log '''') (\<lambda>_.
      act_bind (see spawns) (\<lambda>oks.
      act_bind (change (\<lambda>w. w\<lparr>spawns := tl oks\<rparr>)) (\<lambda>_.
      if oks = [] \<or> \<not> hd oks then act_raise (FileNotFoundError server_bin)
      else change (\<lambda>w. w\<lparr>spawned := spawned w + 1, server := Some (spawned w),
             trace := trace w @ [Spawned (spawned w) command]\<rparr>)))))"

definition wait_five :: "nat \<Rightarrow> (mworld, unit) act" where
  \<comment> \<open>\<open>process.wait(timeout=5)\<close>\<close>
  "wait_five p =
     act_bind answer (\<lambda>ended. if ended then traced (Reaped p) else act_raise TimeoutExpired)"

definition kill_group :: "nat \<Rightarrow> string \<Rightarrow> (mworld, bool) act" where
  \<comment> \<open>\<open>os.killpg\<close>: \<open>False\<close> stands for \<open>ProcessLookupError\<close>\<close>
  "kill_group p signal =
     act_bind (traced (Signalled p signal)) (\<lambda>_. answer)"

definition stop_process :: "nat option \<Rightarrow> (mworld, unit) act" where
  "stop_process process =
     (case process of
        None \<Rightarrow> act_ret ()
      | Some p \<Rightarrow>
          act_bind answer (\<lambda>exited.
          if exited then traced (Reaped p)
          else
            act_bind (kill_group p ''TERM'') (\<lambda>found.
            act_bind (if found then answer else act_ret False) (\<lambda>ended.
            if found \<and> ended then traced (Reaped p)
            else act_bind (kill_group p ''KILL'') (\<lambda>_. wait_five p)))))"

section \<open>One case\<close>

definition zero_pad :: "nat \<Rightarrow> int \<Rightarrow> string" where
  \<comment> \<open>\<open>f"{i:0nd}"\<close>\<close>
  "zero_pad n i =
     (let ds = show_nat (nat \<bar>i\<bar>); sign = (if i < 0 then ''-'' else '''') in
      sign @ replicate (n - length sign - length ds) CHR ''0'' @ ds)"

definition case_id :: "mcase \<Rightarrow> string" where
  "case_id mc =
     ''c'' @ zero_pad 4 (index mc) @ ''r'' @ zero_pad 2 (repeat_index mc) @ ''_'' @ direction mc
     @ ''_b'' @ show_int (total_bytes mc) @ ''_c'' @ show_int (connections mc)
     @ ''_k'' @ show_int (chunk_size mc) @ ''_nb'' @ show_int (buffer_size mc) @ ''_'' @ case_token (checksum mc)
     @ ''_pre'' @ case_token (preallocate mc) @ ''_fv'' @ case_token (final_verify_policy mc)
     @ ''_mf'' @ case_token (manifest_flush_policy mc) @ show_int (manifest_flush_interval_chunks mc)
     @ ''_cs'' @ case_token (commit_sync_policy mc)
     @ ''_fio'' @ case_token (file_io_backend mc) @ show_int (file_io_buffer_size mc)
     @ ''_q'' @ show_int (file_io_queue_depth mc) @ ''x'' @ show_int (file_io_batch_size mc)
     @ ''_adv'' @ case_token (file_io_advice mc) @ ''_pws'' @ case_token (posix_write_strategy mc)
     @ ''_rw'' @ case_token (receiver_write_profile mc) @ budget_token (receiver_max_pending_bytes mc)
     @ case_token (receiver_write_yield_policy mc)
     @ ''_tls'' @ case_token (tls_mode mc) @ ''_dtls'' @ case_token (data_tls_mode mc)"

record case_paths =
  case_root :: string
  server_root :: string
  server_log :: string
  client_log :: string
  server_event_log :: string
  client_event_log :: string
  remote_event_log :: string
  remote_source :: string
  remote_target :: string
  output_name :: string
  local_source :: string
  local_output :: string
  env_client_path :: string

definition is_stor :: "mcase \<Rightarrow> bool" where
  "is_stor mc \<longleftrightarrow> starts_with ''stor'' (direction mc)"

definition paths_of :: "mcase \<Rightarrow> string \<Rightarrow> string \<Rightarrow> string \<Rightarrow> string \<Rightarrow> string \<Rightarrow> string \<Rightarrow> case_paths" where
  "paths_of mc root slog clog selog celog remote_celog =
     (let cid = case_id mc; sroot = at_path root ''server-root'';
          source = ''/tmp/gridflux_phase4a_'' @ cid @ ''.src''; target = ''/tmp/gridflux_phase4a_'' @ cid @ ''.dst'' in
      \<lparr>case_root = root, server_root = sroot, server_log = slog, client_log = clog, server_event_log = selog,
       client_event_log = celog, remote_event_log = remote_celog, remote_source = source, remote_target = target,
       output_name = cid @ ''.bin'', local_source = at_path sroot (cid @ ''.source.bin''),
       local_output = at_path sroot (cid @ ''.bin''),
       env_client_path = (if is_stor mc then source else parent_path target)\<rparr>)"

definition set_cells :: "row \<Rightarrow> (mworld, unit) act" where
  \<comment> \<open>assignments to the row\<close>
  "set_cells assigned = change (\<lambda>w. w\<lparr>this_row := dict_update (this_row w) assigned\<rparr>)"

definition map_row :: "(row \<Rightarrow> row) \<Rightarrow> (mworld, unit) act" where
  "map_row f = change (\<lambda>w. w\<lparr>this_row := f (this_row w)\<rparr>)"

definition choose_paths :: "'a matrix_args_scheme \<Rightarrow> mcase \<Rightarrow> string \<Rightarrow> (mworld, case_paths) act" where
  \<comment> \<open>the directory of the server and the names of the logs, each with its own time\<close>
  "choose_paths args mc run_root =
     (let cid = case_id mc; root = at_path run_root cid;
          event_dir = (if a_event_log_dir args \<noteq> '''' then a_event_log_dir args else a_output_dir args) in
      act_bind (make_new_dirs (at_path root ''server-root'')) (\<lambda>_.
      act_bind compact_timestamp (\<lambda>t1.
      act_bind compact_timestamp (\<lambda>t2.
      act_bind (make_dirs event_dir) (\<lambda>_.
      act_bind compact_timestamp (\<lambda>t3.
      act_bind compact_timestamp (\<lambda>t4.
      act_ret (paths_of mc root
        (at_path (a_output_dir args) (t1 @ ''_'' @ cid @ ''_server.log''))
        (at_path (a_output_dir args) (t2 @ ''_'' @ cid @ ''_client.log''))
        (at_path event_dir (t3 @ ''_'' @ cid @ ''_server_events.jsonl''))
        (at_path event_dir (t4 @ ''_'' @ cid @ ''_client_events.jsonl''))
        (''/tmp/'' @ cid @ ''_client_events.jsonl'')))))))))"

definition start_row :: "'a matrix_args_scheme \<Rightarrow> mcase \<Rightarrow> environment_snapshot \<Rightarrow> case_paths \<Rightarrow> (mworld, unit) act" where
  "start_row args mc env p =
     act_bind timestamp_utc (\<lambda>now.
     act_bind (change (\<lambda>w. w\<lparr>server := None,
       this_row := initial_row now args mc env (server_log p) (client_log p)\<rparr>)) (\<lambda>_.
     set_cells [(''repeat_index'', show_int (repeat_index mc)), (''temp_root'', case_root p),
       (''server_event_log'', server_event_log p), (''client_event_log'', client_event_log p),
       (''event_log'', server_event_log p @ '';'' @ client_event_log p)]))"

definition prepare_case ::
  "'a matrix_args_scheme \<Rightarrow> mcase \<Rightarrow> string \<Rightarrow> environment_snapshot \<Rightarrow> (mworld, case_paths) act" where
  "prepare_case args mc run_root env =
     act_bind (choose_paths args mc run_root) (\<lambda>p.
     act_bind (start_row args mc env p) (\<lambda>_. act_ret p))"

definition clean_remote :: "'a matrix_args_scheme \<Rightarrow> case_paths \<Rightarrow> (mworld, unit) act" where
  "clean_remote args p =
     net_act (cleanup_remote_paths args [remote_source p, remote_target p, remote_event_log p])"

definition capture :: "'a matrix_args_scheme \<Rightarrow> case_paths \<Rightarrow> string \<Rightarrow> (mworld, unit) act" where
  \<comment> \<open>the environment logs of both machines and the cells read from them\<close>
  "capture args p label =
     act_bind (capture_environment_sidecars args (server_root p) (env_client_path p) (server_log p) (client_log p) label)
       (\<lambda>(server_env, client_env).
     act_bind (set_cells [(''server_env_'' @ label @ ''_log'', server_env), (''client_env_'' @ label @ ''_log'', client_env),
       (''env_snapshot_'' @ label, server_env @ '';'' @ client_env)]) (\<lambda>_.
     act_bind (read_if_exists server_env) (\<lambda>s.
     act_bind (map_row (\<lambda>r. fill_env_sidecar_fields r ''server'' label s)) (\<lambda>_.
     act_bind (read_if_exists client_env) (\<lambda>c.
     map_row (\<lambda>r. fill_env_sidecar_fields r ''client'' label c))))))"

definition transfer_of :: "'a matrix_args_scheme \<Rightarrow> mcase \<Rightarrow> case_paths \<Rightarrow> (mworld, string \<times> string) act" where
  "transfer_of args mc p =
     act_bind (net_act
       (if direction mc = ''stor'' then run_stor_once args mc (remote_source p) (output_name p) (remote_event_log p)
        else if is_stor mc then run_stor_resume args mc (remote_source p) (output_name p) (remote_event_log p)
        else if direction mc = ''retr''
        then run_retr_once args mc (path_name (to_path (local_source p))) (remote_target p) (remote_event_log p)
        else run_retr_resume args mc (path_name (to_path (local_source p))) (remote_target p) (remote_event_log p)))
     (\<lambda>(transfer_id, client_text).
     act_bind (traced (Transferred transfer_id)) (\<lambda>_. act_ret (transfer_id, client_text)))"

definition count_case_events :: "case_paths \<Rightarrow> (mworld, unit) act" where
  "count_case_events p =
     act_bind (read_if_exists (server_event_log p)) (\<lambda>s.
     act_bind (read_if_exists (client_event_log p)) (\<lambda>c.
     act_bind (act_lift (event_error_code_counts [s, c])) (\<lambda>counts.
     set_cells [(''event_error_code_counts'', counts)])))"

definition transfer_stage ::
  "'a matrix_args_scheme \<Rightarrow> mcase \<Rightarrow> case_paths \<Rightarrow> (mworld, string \<times> string \<times> string \<times> string) act" where
  \<comment> \<open>source digest, destination digest, transfer id and the output of the data client\<close>
  "transfer_stage args mc p =
     (if is_stor mc then
        act_bind (make_remote_file (a_remote args) (remote_source p) (total_bytes mc)) (\<lambda>_.
        act_bind (remote_sha256 (a_remote args) (remote_source p)) (\<lambda>source_sha.
        act_bind (set_cells [(''remote_path'', remote_source p), (''local_path'', local_output p)]) (\<lambda>_.
        act_bind (capture args p ''before'') (\<lambda>_.
        act_bind (transfer_of args mc p) (\<lambda>(transfer_id, client_text).
        act_bind (local_sha256 (local_output p)) (\<lambda>dest_sha.
        act_ret (source_sha, dest_sha, transfer_id, client_text)))))))
      else
        act_bind (make_local_file (local_source p) (total_bytes mc)) (\<lambda>_.
        act_bind (local_sha256 (local_source p)) (\<lambda>source_sha.
        act_bind (set_cells [(''remote_path'', remote_target p), (''local_path'', local_source p)]) (\<lambda>_.
        act_bind (capture args p ''before'') (\<lambda>_.
        act_bind (transfer_of args mc p) (\<lambda>(transfer_id, client_text).
        act_bind (remote_sha256 (a_remote args) (remote_target p)) (\<lambda>dest_sha.
        act_ret (source_sha, dest_sha, transfer_id, client_text))))))))"

definition measure_case :: "'a matrix_args_scheme \<Rightarrow> mcase \<Rightarrow> case_paths \<Rightarrow> (mworld, unit) act" where
  "measure_case args mc p =
     act_bind (transfer_stage args mc p) (\<lambda>(source_sha, dest_sha, transfer_id, client_text).
     act_bind (capture args p ''after'') (\<lambda>_.
     act_bind (fetch_remote_file (a_remote args) (remote_event_log p) (client_event_log p)) (\<lambda>_.
     act_bind (write_text (client_log p) client_text) (\<lambda>_.
     act_bind (read_replaced (server_log p)) (\<lambda>server_text.
     act_bind (set_cells [(''transfer_id'', transfer_id), (''source_sha256'', source_sha), (''dest_sha256'', dest_sha)]) (\<lambda>_.
     act_bind (map_row (\<lambda>r. fill_metrics r (direction mc) server_text client_text)) (\<lambda>_.
     act_bind (count_case_events p) (\<lambda>_.
     act_when (source_sha \<noteq> dest_sha)
       (act_raise (RuntimeError (''sha256 mismatch: '' @ source_sha @ '' != '' @ dest_sha)))))))))))"

definition try_case :: "'a matrix_args_scheme \<Rightarrow> mcase \<Rightarrow> case_paths \<Rightarrow> (mworld, unit) act" where
  \<comment> \<open>the body of \<open>try\<close>\<close>
  "try_case args mc p =
     act_bind (clean_remote args p) (\<lambda>_.
     act_bind (start_control_server args mc (server_root p) (server_log p) (server_event_log p)) (\<lambda>_.
     act_bind (measure_case args mc p) (\<lambda>_.
     set_cells [(''result'', ''pass'')])))"

fun take_chars :: "nat \<Rightarrow> string \<Rightarrow> string" where
  \<comment> \<open>\<open>s[:n]\<close>, counting characters of the UTF-8 text\<close>
  "take_chars 0 s = []"
| "take_chars (Suc n) s =
     (if s = [] then [] else take (snd (utf8_head s)) s @ take_chars n (drop (snd (utf8_head s)) s))"

definition capture_after_failure :: "'a matrix_args_scheme \<Rightarrow> case_paths \<Rightarrow> (mworld, unit) act" where
  "capture_after_failure args p =
     act_catch (capture args p ''after'')
       (\<lambda>e. act_bind (see (\<lambda>w. error_text w e)) (\<lambda>text.
            map_row (\<lambda>r. dict_set ''error''
              (take_chars 1000 (py_strip (dict_get r ''error'' '''' @ '' env_sidecar_after='' @ text))) r)))"

definition handle_case :: "'a matrix_args_scheme \<Rightarrow> case_paths \<Rightarrow> py_error \<Rightarrow> (mworld, unit) act" where
  \<comment> \<open>the body of \<open>except\<close>\<close>
  "handle_case args p e =
     act_bind (see (\<lambda>w. error_text w e)) (\<lambda>text.
     act_bind (set_cells [(''error'', take_chars 1000 (py_replace [newline] '' '' text))]) (\<lambda>_.
     act_bind (see this_row) (\<lambda>r.
     act_bind (act_when (dict_get r ''server_env_before_log'' '''' \<noteq> '''' \<and> dict_get r ''server_env_after_log'' '''' = '''')
       (capture_after_failure args p)) (\<lambda>_.
     act_bind (fetch_remote_file (a_remote args) (remote_event_log p) (client_event_log p)) (\<lambda>_.
     act_bind (count_case_events p) (\<lambda>_.
     act_bind (see (file_exists (client_log p))) (\<lambda>present.
     act_when (\<not> present) (write_text (client_log p) ''''))))))))"

definition finish_case :: "'a matrix_args_scheme \<Rightarrow> case_paths \<Rightarrow> (mworld, unit) act" where
  \<comment> \<open>the body of \<open>finally\<close>\<close>
  "finish_case args p =
     act_bind (see server) (\<lambda>process.
     act_bind (stop_process process) (\<lambda>_.
     act_bind (see this_row) (\<lambda>r.
     act_when (dict_get r ''result'' '''' = ''pass'' \<and> \<not> a_keep_files args)
       (act_bind (remove_tree (case_root p)) (\<lambda>_. clean_remote args p)))))"

definition run_case ::
  "'a matrix_args_scheme \<Rightarrow> mcase \<Rightarrow> string \<Rightarrow> environment_snapshot \<Rightarrow> (mworld, row) act" where
  "run_case args mc run_root env =
     act_bind (prepare_case args mc run_root env) (\<lambda>p.
     act_finally
       (act_bind (act_catch (try_case args mc p) (handle_case args p)) (\<lambda>_. see this_row))
       (finish_case args p))"

section \<open>The matrix\<close>

definition check_binaries :: "'a matrix_args_scheme \<Rightarrow> (mworld, unit) act" where
  "check_binaries args =
     (let local_server = at_path (a_local_build_dir args) ''gridflux-gridftp-server'';
          remote_dir = rstrip_chars (\<lambda>c. c = CHR ''/'') (a_remote_build_dir args) in
      act_bind (see (file_exists local_server)) (\<lambda>present.
      act_bind (act_when (\<not> present) (act_raise (RuntimeError (''missing local server: '' @ local_server)))) (\<lambda>_.
      act_bind (net_act (run_remote (a_remote args)
        (join '' && '' [''test -x '' @ shlex_quote (remote_dir @ ''/gridflux-file-client''),
           ''test -x '' @ shlex_quote (remote_dir @ ''/gridflux-file-download-client'')]) '''' True)) (\<lambda>_.
      act_ret ()))))"

definition generate_self_signed_cert :: "string \<Rightarrow> string \<Rightarrow> (mworld, unit) act" where
  "generate_self_signed_cert cert key =
     act_bind (see openssl) (\<lambda>program.
     case program of
       None \<Rightarrow> act_raise (RuntimeError ''openssl CLI is required for TLS matrix cases'')
     | Some exe \<Rightarrow>
         act_bind (make_dirs (parent_path cert)) (\<lambda>_.
         act_bind (run_local [exe, ''req'', ''-x509'', ''-newkey'', ''rsa:2048'', ''-keyout'', key, ''-out'', cert,
           ''-sha256'', ''-days'', ''1'', ''-nodes'', ''-subj'', ''/CN=localhost'']) (\<lambda>(rc, out, err).
         act_bind (act_when (rc \<noteq> 0) (act_raise CalledProcessError)) (\<lambda>_.
         act_bind (see (file_exists key)) (\<lambda>present.
         act_when (\<not> present) (act_raise (FileNotFoundError key)))))))"

definition make_temp_dir :: "(mworld, string) act" where
  \<comment> \<open>\<open>tempfile.mkdtemp\<close>: a fresh directory\<close>
  "make_temp_dir =
     act_bind (see temp_dirs) (\<lambda>names.
     case names of
       [] \<Rightarrow> act_raise (FileExistsError ''No usable temporary directory name found'')
     | d # ds \<Rightarrow>
         act_bind (change (\<lambda>w. w\<lparr>temp_dirs := ds\<rparr>)) (\<lambda>_.
         act_bind (make_new_dirs d) (\<lambda>_. act_ret d)))"

definition needs_tls :: "mcase list \<Rightarrow> bool" where
  "needs_tls cases \<longleftrightarrow> list_ex (\<lambda>mc. tls_mode mc = ''required'' \<or> data_tls_mode mc = ''required'') cases"

definition read_strict :: "string \<Rightarrow> (mworld, string) act" where
  "read_strict path w = (andthen (read_bytes (files w) (file_key w path)) read_text, w)"

definition setup_tls :: "matrix_args \<Rightarrow> string \<Rightarrow> (mworld, matrix_args) act" where
  "setup_tls args run_id =
     act_bind make_temp_dir (\<lambda>dir.
     act_bind (change (\<lambda>w. w\<lparr>tls_dir := Some dir\<rparr>)) (\<lambda>_.
     let cert = at_path dir ''cert.pem''; key = at_path dir ''key.pem'';
         ca = ''/tmp/gridflux_beta1a_'' @ run_id @ ''_ca.pem'' in
     act_bind (generate_self_signed_cert cert key) (\<lambda>_.
     act_bind (read_strict cert) (\<lambda>text.
     act_bind (write_remote_text (a_remote args) ca text) (\<lambda>_.
     act_bind (change (\<lambda>w. w\<lparr>remote_ca := ca\<rparr>)) (\<lambda>_.
     act_ret (args\<lparr>a_tls_cert_file := cert, a_tls_key_file := key, a_tls_ca_file := cert,
                   a_remote_tls_ca_file := ca\<rparr>)))))))"

definition progress_line :: "nat \<Rightarrow> mcase \<Rightarrow> string" where
  "progress_line case_total mc =
     ''['' @ show_int (index mc + 1) @ ''/'' @ show_nat case_total @ ''] '' @ direction mc
     @ '' bytes='' @ show_int (total_bytes mc) @ '' connections='' @ show_int (connections mc)
     @ '' chunk='' @ show_int (chunk_size mc) @ '' buffer='' @ show_int (buffer_size mc)
     @ '' checksum='' @ checksum mc @ '' manifest_flush='' @ manifest_flush_policy mc
     @ ''/'' @ show_int (manifest_flush_interval_chunks mc) @ '' commit_sync='' @ commit_sync_policy mc
     @ '' receiver_write='' @ receiver_write_profile mc @ ''/'' @ show_int (receiver_max_pending_bytes mc)
     @ ''/'' @ receiver_write_yield_policy mc @ '' tls='' @ tls_mode mc @ ''/'' @ data_tls_mode mc"

definition write_table :: "string \<Rightarrow> string list \<Rightarrow> row list res \<Rightarrow> (mworld, unit) act" where
  \<comment> \<open>the header is written before the rows are computed\<close>
  "write_table path columns rows =
     act_bind (open_write path (csv_text [columns])) (\<lambda>_.
     act_bind (act_lift (andthen rows (dict_writer_text columns))) (\<lambda>text. open_write path text))"

fun run_cases ::
  "matrix_args \<Rightarrow> nat \<Rightarrow> string \<Rightarrow> environment_snapshot \<Rightarrow> string \<Rightarrow> string \<Rightarrow> mcase list \<Rightarrow> row list
    \<Rightarrow> (mworld, row list) act" where
  "run_cases args case_total run_root env csv_path summary_path [] rows = act_ret rows"
| "run_cases args case_total run_root env csv_path summary_path (mc # cases) rows =
     act_bind (print_out (progress_line case_total mc)) (\<lambda>_.
     act_bind (run_case args mc run_root env) (\<lambda>r.
     act_bind (write_table csv_path CSV_FIELDS (Inr (rows @ [r]))) (\<lambda>_.
     act_bind (write_table summary_path SUMMARY_FIELDS (summarize_rows (rows @ [r]))) (\<lambda>_.
     act_bind (print_out (''  result='' @ dict_get r ''result'' '''' @ '' throughput_gbps='' @ dict_get r ''throughput_gbps'' '''')) (\<lambda>_.
     run_cases args case_total run_root env csv_path summary_path cases (rows @ [r]))))))"

definition PROCESS_PATTERN :: string where
  "PROCESS_PATTERN = [single_quote] @ ''[g]ridflux-gridftp-server|[g]ridflux-file-'' @ [single_quote]"

definition process_rx :: rx where
  "process_rx = rx_alts [rx_lit ''gridflux-gridftp-server'', rx_lit ''gridflux-file-'']"

definition process_lines :: "string \<Rightarrow> string" where
  "process_lines text = join [newline] (filter (re_found process_rx) (py_splitlines text))"

definition process_check :: "string \<Rightarrow> (mworld, string \<times> string) act" where
  "process_check remote =
     act_bind (run_local [''bash'', ''-lc'', ''pgrep -af '' @ PROCESS_PATTERN @ '' || true'']) (\<lambda>(rc, out, err).
     act_bind (net_act (run_remote remote (''pgrep -af '' @ PROCESS_PATTERN @ '' || true'') '''' False)) (\<lambda>(rc2, out2, err2).
     act_ret (process_lines (py_strip out), process_lines (py_strip out2))))"

definition print_leftovers :: "string \<Rightarrow> string \<Rightarrow> (mworld, unit) act" where
  "print_leftovers local_processes remote_processes =
     act_bind (print_err ''leftover gridflux process detected'') (\<lambda>_.
     act_bind (act_when (local_processes \<noteq> '''') (print_err (''local:'' @ [newline] @ local_processes))) (\<lambda>_.
     act_when (remote_processes \<noteq> '''') (print_err (''remote:'' @ [newline] @ remote_processes))))"

definition failed_rows :: "row list \<Rightarrow> row list" where
  "failed_rows rows = filter (\<lambda>r. dict_get r ''result'' '''' \<noteq> ''pass'') rows"

definition verdict_of :: "matrix_args \<Rightarrow> string \<Rightarrow> string \<Rightarrow> row list \<Rightarrow> (mworld, int) act" where
  "verdict_of args csv_path summary_path rows =
     act_bind (process_check (a_remote args)) (\<lambda>(local_processes, remote_processes).
     if local_processes \<noteq> '''' \<or> remote_processes \<noteq> ''''
     then act_bind (print_leftovers local_processes remote_processes) (\<lambda>_. act_ret 1)
     else
       act_bind (act_when (failed_rows rows \<noteq> []) (change (\<lambda>w. w\<lparr>remove_run_root := False\<rparr>))) (\<lambda>_.
       act_bind (print_out (''csv='' @ csv_path)) (\<lambda>_.
       act_bind (print_out (''summary_csv='' @ summary_path)) (\<lambda>_.
       act_bind (print_out (''cases='' @ show_nat (length rows) @ '' failures='' @ show_nat (length (failed_rows rows)))) (\<lambda>_.
       act_ret (if failed_rows rows \<noteq> [] then 1 else 0))))))"

definition run_matrix :: "matrix_args \<Rightarrow> string \<Rightarrow> string \<Rightarrow> string \<Rightarrow> string \<Rightarrow> (mworld, int) act" where
  \<comment> \<open>the body of \<open>try\<close> in \<open>main\<close>\<close>
  "run_matrix args run_id run_root csv_path summary_path =
     act_bind (act_lift (generate_cases args)) (\<lambda>cases.
     act_bind (act_lift (validate_ports args cases)) (\<lambda>_.
     act_bind (check_binaries args) (\<lambda>_.
     act_bind (if needs_tls cases then setup_tls args run_id else act_ret args) (\<lambda>args'.
     act_bind (collect_environment (a_remote args')) (\<lambda>env.
     act_bind (run_cases args' (length cases) run_root env csv_path summary_path cases []) (\<lambda>rows.
     verdict_of args' csv_path summary_path rows))))))"

definition finish_matrix :: "matrix_args \<Rightarrow> string \<Rightarrow> (mworld, unit) act" where
  \<comment> \<open>the body of \<open>finally\<close> in \<open>main\<close>\<close>
  "finish_matrix args run_root =
     act_bind (see remote_ca) (\<lambda>ca.
     act_bind (act_when (ca \<noteq> '''') (act_bind (net_act (run_remote (a_remote args) (''rm -f '' @ shlex_quote ca) '''' False))
       (\<lambda>_. act_ret ()))) (\<lambda>_.
     act_bind (see tls_dir) (\<lambda>dir.
     act_bind (case dir of None \<Rightarrow> act_ret () | Some d \<Rightarrow> remove_tree d) (\<lambda>_.
     act_bind (see remove_run_root) (\<lambda>remove.
     act_when remove (remove_tree run_root))))))"

definition table_path :: "matrix_args \<Rightarrow> string \<Rightarrow> string \<Rightarrow> string" where
  "table_path args run_id ending =
     at_path (a_output_dir args)
       (run_id @ ''_gridftp-private-matrix-'' @ (if a_smoke args then ''smoke'' else ''full'') @ ending)"

definition matrix_main :: "matrix_args \<Rightarrow> (mworld, int) act" where
  "matrix_main args =
     act_bind (act_when (a_repeat args \<le> 0) (act_raise (SystemExit ''--repeat must be greater than zero''))) (\<lambda>_.
     act_bind (make_dirs (a_output_dir args)) (\<lambda>_.
     act_bind compact_timestamp (\<lambda>run_id.
     act_bind (if a_run_root_base args \<noteq> ''''
               then let root = at_path (a_run_root_base args) (''gridflux-phase4a-'' @ run_id) in
                    act_bind (make_new_dirs root) (\<lambda>_. act_ret root)
               else make_temp_dir) (\<lambda>run_root.
     act_bind (change (\<lambda>w. w\<lparr>remove_run_root := \<not> a_keep_files args, remote_ca := '''', tls_dir := None\<rparr>)) (\<lambda>_.
     act_finally
       (run_matrix (args\<lparr>a_tls_cert_file := '''', a_tls_key_file := '''', a_tls_ca_file := '''', a_remote_tls_ca_file := ''''\<rparr>)
          run_id run_root (table_path args run_id ''.csv'') (table_path args run_id ''-summary.csv''))
       (finish_matrix args run_root))))))"

end
