(* ===== verification/Matrix_Run_Laws.thy ===== *)
theory Matrix_Run_Laws
  imports Matrix_Laws Matrix_Run
begin

text \<open>
  What a run of the matrix promises: a case that passes compared equal digests, every row fits the
  columns, the server of a case is reaped whatever happens in between, and exit status 0 means that every
  case passed and the summary on disk says so to the release gate.
\<close>

section \<open>What most steps leave alone\<close>

definition alive :: "mevent list \<Rightarrow> nat list" where
  \<comment> \<open>the processes that were started and not reaped\<close>
  "alive es = foldl (\<lambda>ps e. case e of Spawned p _ \<Rightarrow> ps @ [p] | Reaped p \<Rightarrow> removeAll p ps | _ \<Rightarrow> ps) [] es"

lemma alive_snoc:
  "alive (es @ [e]) = (case e of Spawned p _ \<Rightarrow> alive es @ [p] | Reaped p \<Rightarrow> removeAll p (alive es) | _ \<Rightarrow> alive es)"
  by (cases e) (simp_all add: alive_def)

definition steady :: "mworld \<Rightarrow> mworld \<Rightarrow> bool" where
  "steady w w' \<longleftrightarrow> (complete (this_row w) \<longrightarrow> complete (this_row w')) \<and>
     dict_get (this_row w') ''result'' '''' = dict_get (this_row w) ''result'' '''' \<and>
     alive (trace w') = alive (trace w) \<and> server w' = server w \<and> (\<exists>es. trace w' = trace w @ es)"

interpretation calm: effect_order steady
  by unfold_locales (auto simp: steady_def)

lemma calm_see: "calm.grows (see f)"
  by (rule calm.growsI) (simp add: see_def steady_def)

lemma calm_change: "(\<And>w. steady w (f w)) \<Longrightarrow> calm.grows (change f)"
  by (rule calm.growsI) (auto simp: change_def)

lemma waited_same:
  "this_row (waited w) = this_row w" "trace (waited w) = trace w" "server (waited w) = server w"
  "digest (waited w) = digest w"
  by (simp_all add: waited_def split: list.split)

lemma calm_traced: "(\<forall>p c. e \<noteq> Spawned p c) \<Longrightarrow> (\<forall>p. e \<noteq> Reaped p) \<Longrightarrow> calm.grows (traced e)"
  unfolding traced_def by (rule calm_change) (simp add: steady_def alive_snoc split: mevent.split)

lemma calm_net: "calm.grows (net_act m)"
  by (rule calm.growsI) (auto simp: net_act_def steady_def waited_same split: prod.splits)

lemma calm_local: "calm.grows (run_local command)"
  by (rule calm.growsI)
    (auto simp: run_local_def steady_def waited_same alive_snoc Let_def split: list.splits option.splits)

lemma calm_answer: "calm.grows answer"
  by (rule calm.growsI) (auto simp: answer_def steady_def waited_same split: list.splits)

lemma calm_time: "calm.grows timestamp_utc" "calm.grows compact_timestamp"
  by (rule calm.growsI, simp add: timestamp_utc_def compact_timestamp_def steady_def)+

lemma calm_update: "calm.grows (update_files f path)"
  by (rule calm.growsI) (auto simp: update_files_def steady_def split: sum.splits)

lemma calm_read: "calm.grows (read_replaced path)" "calm.grows (read_strict path)" "calm.grows cpu_flags_from_proc"
  by (rule calm.growsI, simp add: read_replaced_def read_strict_def cpu_flags_from_proc_def steady_def)+

lemma calm_if: "(b \<Longrightarrow> calm.grows m) \<Longrightarrow> (\<not> b \<Longrightarrow> calm.grows n) \<Longrightarrow> calm.grows (if b then m else n)"
  by simp

lemma calm_print: "calm.grows (print_out s)" "calm.grows (print_err s)"
  unfolding print_out_def print_err_def by (rule calm_change, simp add: steady_def)+

lemma calm_traced_simple:
  "calm.grows (traced (Wrote p s))" "calm.grows (traced (Hashed p s))" "calm.grows (traced (Transferred s))"
  "calm.grows (traced (Signalled n s))"
  by (rule calm_traced; simp)+

lemma calm_cases:
  "calm.grows m \<Longrightarrow> (\<And>x xs. calm.grows (f x xs)) \<Longrightarrow> calm.grows (case l of [] \<Rightarrow> m | x # xs \<Rightarrow> f x xs)"
  "calm.grows m \<Longrightarrow> (\<And>x. calm.grows (g x)) \<Longrightarrow> calm.grows (case v of None \<Rightarrow> m | Some x \<Rightarrow> g x)"
  by (simp_all split: list.split option.split)

lemmas calm_rules = calm.grows_rules calm_see calm_net calm_local calm_answer calm_time calm_update calm_read
  calm_if calm_print calm_traced_simple calm_cases

lemma calm_write: "calm.grows (make_dirs path)" "calm.grows (make_new_dirs path)" "calm.grows (open_write path content)"
  "calm.grows (write_text path content)" "calm.grows (remove_tree path)"
proof -
  show d: "calm.grows (make_dirs path)" "calm.grows (make_new_dirs path)" for path
    unfolding make_dirs_def make_new_dirs_def by (intro calm_rules)+
  show o: "calm.grows (open_write path content)" for path content
    unfolding open_write_def by (intro calm_rules)
  show "calm.grows (write_text path content)"
    unfolding write_text_def by (intro calm_rules d o)
  show "calm.grows (remove_tree path)"
    unfolding remove_tree_def by (rule calm_change) (simp add: steady_def Let_def)
qed

lemma calm_hash: "calm.grows (local_sha256 path)" "calm.grows (remote_sha256 remote path)"
  unfolding local_sha256_def remote_sha256_def split_def by (intro calm_rules)+

lemma calm_files:
  "calm.grows (read_if_exists path)" "calm.grows (make_local_file path n)" "calm.grows (make_remote_file remote path n)"
  "calm.grows (fetch_remote_file remote a b)" "calm.grows (write_remote_text remote a b)"
  unfolding read_if_exists_def make_local_file_def make_remote_file_def fetch_remote_file_def write_remote_text_def split_def
  by (intro calm_rules calm_write)+

lemma calm_sidecars: "calm.grows (capture_environment_sidecars args a b c d label)"
  unfolding capture_environment_sidecars_def Let_def local_environment_text_def remote_environment_text_def split_def
  by (intro calm_rules calm_write)

text \<open>Assignments to columns other than the result keep the row complete and its result.\<close>

lemma calm_map_row:
  assumes "\<And>r. fst ` set r = set CSV_FIELDS \<Longrightarrow> fst ` set (f r) = set CSV_FIELDS"
    and "\<And>r. dict_get (f r) ''result'' '''' = dict_get r ''result'' ''''"
  shows "calm.grows (map_row f)"
  unfolding map_row_def by (rule calm_change) (use assms in \<open>simp add: steady_def complete_def\<close>)

lemma calm_set_cells:
  assumes "fst ` set assigned \<subseteq> set CSV_FIELDS" and "''result'' \<notin> fst ` set assigned"
  shows "calm.grows (set_cells assigned)"
  unfolding set_cells_def
  by (rule calm_change) (use assms in \<open>auto simp: steady_def complete_def dict_get_def map_of_dict_update_skip\<close>)

lemma result_not_metric:
  "''result'' \<notin> set STAGE_FIELDS" "''result'' \<notin> set PHASE_ALIAS_FIELDS" "''result'' \<notin> set RECEIVER_COUNTERS"
  "''result'' \<notin> set (role_columns ''sender'')" "''result'' \<notin> set (role_columns ''receiver'')"
  "''result'' \<notin> set MEMORY_COLUMNS"
  by (auto simp: STAGE_FIELDS_def PHASE_ALIAS_FIELDS_def RECEIVER_COUNTERS_def role_columns_def prefixed_def MEMORY_COLUMNS_def)

lemma dict_get_update_skip: "k \<notin> fst ` set e \<Longrightarrow> dict_get (dict_update d e) k v = dict_get d k v"
  by (simp add: dict_get_def map_of_dict_update_skip)

lemma metric_other:
  "c \<noteq> d \<Longrightarrow> dict_get (set_metric m d k r) c v = dict_get r c v"
  "c \<noteq> d \<Longrightarrow> dict_get (keep_metric m d r) c v = dict_get r c v"
  "c \<noteq> d \<Longrightarrow> dict_get (dict_set d x r) c v = dict_get r c v"
  by (simp_all add: set_metric_def keep_metric_def)

lemma fold_metrics_other:
  "c \<notin> set cs \<Longrightarrow> dict_get (foldl (\<lambda>x c. set_metric m c c x) r cs) c v = dict_get r c v"
  "c \<notin> set cs \<Longrightarrow> dict_get (foldl (\<lambda>x c. keep_metric m c x) r cs) c v = dict_get r c v"
  by (induction cs arbitrary: r) (auto simp: metric_other)

lemma fill_metrics_other:
  assumes "c \<notin> set set_columns" and "c \<notin> set RECEIVER_COUNTERS" and "c \<notin> set STAGE_FIELDS"
    and "c \<notin> set PHASE_ALIAS_FIELDS" and "c \<notin> set (role_columns ''sender'')" and "c \<notin> set (role_columns ''receiver'')"
  shows "dict_get (fill_metrics r dir server_text client_text) c v = dict_get r c v"
proof -
  have cells: "c \<notin> fst ` set (role_cells ''sender'' a @ role_cells ''receiver'' b)" for a b
    using assms(5,6) role_cells_keys by (auto simp: image_Un)
  have metrics: "c \<notin> fst ` set (map (\<lambda>name. (name, f name)) (STAGE_FIELDS @ PHASE_ALIAS_FIELDS))" for f
    using assms(3,4) by (auto simp: image_Un image_image)
  have other: "c \<noteq> d" if "d \<in> set set_columns" for d using that assms(1) by metis
  have folds: "c \<notin> set cs" if "set cs \<subseteq> set set_columns" for cs using that assms(1) by blast
  show ?thesis
    unfolding fill_metrics_def Let_def
    apply (subst dict_get_update_skip [OF cells])
    apply (subst dict_get_update_skip [OF metrics])
    apply (subst fold_metrics_other(1) [OF assms(2)])
    apply (subst fold_metrics_other(2) [OF folds], simp add: set_columns_def)
    apply (subst metric_other(1) [OF other], simp add: set_columns_def)
    apply (subst metric_other(3) [OF other], simp add: set_columns_def)
    apply (subst fold_metrics_other(2) [OF folds], simp add: set_columns_def)
    apply (subst fold_metrics_other(1) [OF folds], simp add: set_columns_def)
    apply (subst metric_other(2) [OF other], simp add: set_columns_def)
    apply (subst metric_other(1) [OF other], simp add: set_columns_def)
    apply (subst metric_other(1) [OF other], simp add: set_columns_def)
    apply (rule refl)
    done
qed

section \<open>The stages of a case\<close>

lemma result_not_set: "''result'' \<notin> set set_columns"
  by (simp add: set_columns_def)

lemma calm_fill_metrics: "calm.grows (map_row (\<lambda>r. fill_metrics r dir a b))"
  by (rule calm_map_row) (simp_all add: fill_metrics_keys fill_metrics_other result_not_set result_not_metric)

lemma calm_fill_env:
  assumes "side \<in> {''server'', ''client''}" and "label \<in> {''before'', ''after''}"
  shows "calm.grows (map_row (\<lambda>r. fill_env_sidecar_fields r side label log))"
proof (rule calm_map_row)
  show "dict_get (fill_env_sidecar_fields r side label log) ''result'' '''' = dict_get r ''result'' ''''" for r
    unfolding fill_env_sidecar_fields_def using assms by (subst dict_get_update_skip) auto
qed (use assms fill_env_sidecar_keys in blast)

lemma calm_capture:
  assumes "label \<in> {''before'', ''after''}"
  shows "calm.grows (capture args p label)"
proof -
  have cols: "{''server_env_before_log'', ''client_env_before_log'', ''env_snapshot_before'', ''server_env_after_log'',
      ''client_env_after_log'', ''env_snapshot_after''} \<subseteq> set CSV_FIELDS"
    by (simp add: CSV_FIELDS_def)
  have "calm.grows (set_cells [(''server_env_'' @ label @ ''_log'', a), (''client_env_'' @ label @ ''_log'', b),
      (''env_snapshot_'' @ label, c)])" for a b c
    using assms cols by (intro calm_set_cells) auto
  then show ?thesis
    unfolding capture_def split_def using assms
    by (intro calm_rules calm_files calm_sidecars calm_fill_env) simp_all
qed

lemma cell_columns:
  "{''remote_path'', ''local_path'', ''transfer_id'', ''source_sha256'', ''dest_sha256'', ''event_error_code_counts'',
    ''error'', ''repeat_index'', ''temp_root'', ''server_event_log'', ''client_event_log'', ''event_log'', ''result''}
    \<subseteq> set CSV_FIELDS"
  by (simp add: CSV_FIELDS_def)

lemma calm_cells:
  "calm.grows (set_cells [(''remote_path'', a), (''local_path'', b)])"
  "calm.grows (set_cells [(''transfer_id'', a), (''source_sha256'', b), (''dest_sha256'', c)])"
  "calm.grows (set_cells [(''event_error_code_counts'', a)])" "calm.grows (set_cells [(''error'', a)])"
  using cell_columns by (intro calm_set_cells; simp)+

lemma calm_stages:
  "calm.grows (transfer_of args mc p)" "calm.grows (count_case_events p)" "calm.grows (clean_remote args p)"
  unfolding transfer_of_def count_case_events_def clean_remote_def split_def
  by (intro calm_rules calm_files calm_cells)+

lemma calm_transfer_stage: "calm.grows (transfer_stage args mc p)"
  unfolding transfer_stage_def split_def
  by (intro calm_rules calm_files calm_hash calm_cells calm_capture calm_stages) simp_all

lemma calm_measure: "calm.grows (measure_case args mc p)"
  unfolding measure_case_def split_def
  by (intro calm_rules calm_files calm_write calm_cells calm_capture calm_stages calm_transfer_stage calm_fill_metrics) simp_all

lemma calm_handle: "calm.grows (handle_case args p e)"
proof -
  have "''error'' \<in> set CSV_FIELDS" using cell_columns by blast
  then have "calm.grows (map_row (\<lambda>r. dict_set ''error'' (f r) r))" for f
    by (intro calm_map_row) (simp_all add: insert_absorb)
  then show ?thesis
    unfolding handle_case_def capture_after_failure_def
    by (intro calm_rules calm_files calm_write calm_cells calm_capture calm_stages) simp_all
qed

section \<open>The server is reaped\<close>

lemma answer_steady: "answer w = (r, w') \<Longrightarrow> steady w w' \<and> (\<exists>b. r = Inr b) \<and> this_row w' = this_row w"
  using calm.growsD [OF calm_answer, of w r w'] by (auto simp: answer_def waited_same split: list.splits)

lemma traced_run: "traced e w = (Inr (), w\<lparr>trace := trace w @ [e]\<rparr>)"
  by (simp add: traced_def change_def)

lemma act_bind_run: "m s = (Inr a, s1) \<Longrightarrow> act_bind m f s = f a s1"
  by (simp add: act_bind_def)

lemma alive_snoc2: "alive (es @ [Signalled q sig, Reaped p]) = removeAll p (alive es)"
  using alive_snoc [of "es @ [Signalled q sig]" "Reaped p"] by (simp add: alive_snoc)

lemma alive_spawn: "alive (a @ b @ [Spawned q c]) = alive (a @ b) @ [q]"
  using alive_snoc [of "a @ b" "Spawned q c"] by simp

definition stopped :: "nat \<Rightarrow> mworld \<Rightarrow> unit res \<Rightarrow> mworld \<Rightarrow> bool" where
  \<comment> \<open>the process is reaped, or it outlived the kill signal by five seconds\<close>
  "stopped p w r w' \<longleftrightarrow> this_row w' = this_row w \<and> (\<exists>es. trace w' = trace w @ es) \<and>
     (r = Inr () \<and> alive (trace w') = removeAll p (alive (trace w)) \<or>
      r = Inl TimeoutExpired \<and> Signalled p ''KILL'' \<in> set (trace w'))"

lemma answer_run: "\<exists>b w1. answer w = (Inr b, w1) \<and> this_row w1 = this_row w \<and> trace w1 = trace w"
  by (cases "answers w") (auto simp: answer_def waited_same)

lemma kill_run:
  "\<exists>b w1. kill_group p sig w = (Inr b, w1) \<and> this_row w1 = this_row w \<and> trace w1 = trace w @ [Signalled p sig]"
  using answer_run [of "w\<lparr>trace := trace w @ [Signalled p sig]\<rparr>"]
  by (auto simp: kill_group_def act_bind_def traced_run)

lemma reaped_run: "stopped p w (fst (traced (Reaped p) w)) (snd (traced (Reaped p) w))"
  by (simp add: stopped_def traced_run alive_snoc)

lemma kill_stops: "stopped p w (fst (act_bind (kill_group p ''KILL'') (\<lambda>_. wait_five p) w))
    (snd (act_bind (kill_group p ''KILL'') (\<lambda>_. wait_five p) w))"
proof -
  obtain b w1 where 1: "kill_group p ''KILL'' w = (Inr b, w1)" "this_row w1 = this_row w"
    "trace w1 = trace w @ [Signalled p ''KILL'']" using kill_run by blast
  obtain c w2 where 2: "answer w1 = (Inr c, w2)" "this_row w2 = this_row w1" "trace w2 = trace w1"
    using answer_run by blast
  show ?thesis
    by (cases c) (simp_all add: stopped_def act_bind_def wait_five_def 1 2 traced_run alive_snoc alive_snoc2 act_basic)
qed

lemma stopped_later:
  assumes "stopped p w1 r w'" and "this_row w1 = this_row w" and "alive (trace w1) = alive (trace w)"
    and "\<exists>es. trace w1 = trace w @ es"
  shows "stopped p w r w'"
  using assms by (auto simp: stopped_def)

lemma stop_process_stops: "stopped p w (fst (stop_process (Some p) w)) (snd (stop_process (Some p) w))"
proof -
  obtain b w1 where 1: "answer w = (Inr b, w1)" "this_row w1 = this_row w" "trace w1 = trace w"
    using answer_run by blast
  obtain c w2 where 2: "kill_group p ''TERM'' w1 = (Inr c, w2)" "this_row w2 = this_row w1"
    "trace w2 = trace w1 @ [Signalled p ''TERM'']" using kill_run by blast
  obtain d w3 where 3: "(if c then answer else act_ret False) w2 = (Inr d, w3)" "this_row w3 = this_row w2"
    "trace w3 = trace w2" using answer_run [of w2] by (cases c) (auto simp: act_basic)
  have same: "this_row w3 = this_row w" "alive (trace w3) = alive (trace w)" "\<exists>es. trace w3 = trace w @ es"
    using 1 2 3 by (simp_all add: alive_snoc)
  note reap = stopped_later [OF reaped_run same] and kill = stopped_later [OF kill_stops same]
  show ?thesis
  proof (cases b)
    case True
    then show ?thesis
      using stopped_later [OF reaped_run [of p w1]] 1
      by (simp add: stop_process_def act_bind_run [of answer w b w1])
  next
    case False
    then have "stop_process (Some p) w
        = (if c \<and> d then traced (Reaped p) w3 else act_bind (kill_group p ''KILL'') (\<lambda>_. wait_five p) w3)"
      using 1(1) 2(1) 3(1)
      by (simp add: stop_process_def act_bind_run [of answer w b w1] act_bind_run [of "kill_group p ''TERM''" w1 c w2]
        act_bind_run [of "if c then answer else act_ret False" w2 d w3])
    then show ?thesis using reap kill by simp
  qed
qed

lemma start_server_cases:
  assumes "start_control_server args mc root slog selog w = (r, w')"
  shows "(complete (this_row w) \<longrightarrow> complete (this_row w')) \<and>
    dict_get (this_row w') ''result'' '''' = dict_get (this_row w) ''result'' '''' \<and>
    (server w' = server w \<and> alive (trace w') = alive (trace w) \<or>
     (\<exists>p. server w' = Some p \<and> alive (trace w') = alive (trace w) @ [p])) \<and> (\<exists>es. trace w' = trace w @ es)"
proof -
  obtain r1 w1 where 1: "open_write slog '''' w = (r1, w1)" by (cases "open_write slog '''' w")
  from calm.growsD [OF calm_write(3) 1] have s: "steady w w1" .
  then obtain es where es: "trace w1 = trace w @ es" by (auto simp: steady_def)
  show ?thesis
  proof (cases r1)
    case (Inl e)
    then show ?thesis using assms s by (auto simp: start_control_server_def Let_def act_bind_def 1 steady_def)
  next
    case (Inr u)
    then show ?thesis
      using assms s by (cases "spawns w1 = [] \<or> \<not> hd (spawns w1)")
        (auto simp: start_control_server_def Let_def act_bind_def 1 steady_def see_def change_def act_basic alive_spawn)
  qed
qed

section \<open>What a passing case compared\<close>

lemma steady_prefix: "steady w w' \<Longrightarrow> \<exists>es. trace w' = trace w @ es"
  by (simp add: steady_def)

lemma net_act_same: "net_act m w = (r, w') \<Longrightarrow> trace w' = trace w \<and> this_row w' = this_row w"
  by (auto simp: net_act_def waited_same split: prod.splits)

lemma hashed_ok:
  "local_sha256 path w = (Inr h, w') \<Longrightarrow> trace w' = trace w @ [Hashed path h]"
  "remote_sha256 remote path w = (Inr h, w') \<Longrightarrow> trace w' = trace w @ [Hashed path h]"
proof -
  show "local_sha256 path w = (Inr h, w') \<Longrightarrow> trace w' = trace w @ [Hashed path h]"
    by (auto simp: local_sha256_def act_simps see_def traced_run)
  assume "remote_sha256 remote path w = (Inr h, w')"
  then obtain c w1 where 1: "net_act (run_remote remote (''sha256sum '' @ shlex_quote path) '''' True) w = (Inr c, w1)"
    and 2: "(case py_split (fst (snd c)) of [] \<Rightarrow> act_raise IndexError
        | x # _ \<Rightarrow> act_bind (traced (Hashed path x)) (\<lambda>_. act_ret x)) w1 = (Inr h, w')"
    unfolding remote_sha256_def act_bind_ok split_def by blast
  from 2 have "trace w' = trace w1 @ [Hashed path h]"
    by (cases "py_split (fst (snd c))") (auto simp: act_simps traced_run)
  with net_act_same [OF 1] show "trace w' = trace w @ [Hashed path h]" by simp
qed

lemma transfer_of_ok: "transfer_of args mc p w = (Inr (tid, out), w') \<Longrightarrow> trace w' = trace w @ [Transferred tid]"
  unfolding transfer_of_def act_bind_ok by (auto simp: act_simps traced_run dest!: net_act_same)

definition source_path :: "mcase \<Rightarrow> case_paths \<Rightarrow> string" where
  "source_path mc p = (if is_stor mc then remote_source p else local_source p)"

definition target_path :: "mcase \<Rightarrow> case_paths \<Rightarrow> string" where
  "target_path mc p = (if is_stor mc then local_output p else remote_target p)"

definition compared :: "mcase \<Rightarrow> case_paths \<Rightarrow> string \<Rightarrow> string \<Rightarrow> string \<Rightarrow> mevent list \<Rightarrow> bool" where
  \<comment> \<open>the source was hashed, then the transfer completed, then the target was hashed\<close>
  "compared mc p hs tid ht es \<longleftrightarrow>
     (\<exists>a b c d. es = a @ [Hashed (source_path mc p) hs] @ b @ [Transferred tid] @ c @ [Hashed (target_path mc p) ht] @ d)"

lemma compared_more: "compared mc p hs tid ht es \<Longrightarrow> compared mc p hs tid ht (us @ es @ vs)"
  unfolding compared_def by (elim exE) (metis append.assoc)

lemma transfer_stage_ok:
  assumes "transfer_stage args mc p w = (Inr (hs, ht, tid, out), w')"
  shows "\<exists>es. trace w' = trace w @ es \<and> compared mc p hs tid ht es"
proof -
  from assms obtain w1 w2 w3 w4 w5 where
    1: "(if is_stor mc then make_remote_file (a_remote args) (remote_source p) (total_bytes mc)
         else make_local_file (local_source p) (total_bytes mc)) w = (Inr (), w1)"
    and 2: "(if is_stor mc then remote_sha256 (a_remote args) (remote_source p) else local_sha256 (local_source p)) w1 = (Inr hs, w2)"
    and 3: "(if is_stor mc then set_cells [(''remote_path'', remote_source p), (''local_path'', local_output p)]
         else set_cells [(''remote_path'', remote_target p), (''local_path'', local_source p)]) w2 = (Inr (), w3)"
    and 4: "capture args p ''before'' w3 = (Inr (), w4)"
    and 5: "transfer_of args mc p w4 = (Inr (tid, out), w5)"
    and 6: "(if is_stor mc then local_sha256 (local_output p) else remote_sha256 (a_remote args) (remote_target p)) w5 = (Inr ht, w')"
    unfolding transfer_stage_def by (auto simp: act_simps split: if_splits)
  obtain e1 where e1: "trace w1 = trace w @ e1"
    using 1 calm.growsD [OF calm_files(3)] calm.growsD [OF calm_files(2)] steady_prefix by (metis (full_types))
  have e2: "trace w2 = trace w1 @ [Hashed (source_path mc p) hs]"
    using 2 hashed_ok by (auto simp: source_path_def split: if_splits)
  have e3: "trace w3 = trace w2" using 3 by (auto simp: set_cells_def change_def split: if_splits)
  obtain e4 where e4: "trace w4 = trace w3 @ e4"
    using calm.growsD [OF calm_capture 4] steady_prefix by blast
  have e5: "trace w5 = trace w4 @ [Transferred tid]" using transfer_of_ok [OF 5] .
  have e6: "trace w' = trace w5 @ [Hashed (target_path mc p) ht]"
    using 6 hashed_ok by (auto simp: target_path_def split: if_splits)
  have "trace w' = trace w @ e1 @ [Hashed (source_path mc p) hs] @ e4 @ [Transferred tid] @ [] @ [Hashed (target_path mc p) ht] @ []"
    by (simp add: e1 e2 e3 e4 e5 e6)
  then show ?thesis unfolding compared_def by blast
qed

lemma reads_same:
  "read_replaced path w = (r, w') \<Longrightarrow> w' = w" "read_if_exists path w = (r', w') \<Longrightarrow> w' = w"
  by (auto simp: read_replaced_def read_if_exists_def act_bind_def see_def act_basic split: if_splits sum.splits)

lemma count_case_events_ok:
  "count_case_events p w = (Inr u, w') \<Longrightarrow>
     \<exists>counts. w' = w\<lparr>this_row := dict_update (this_row w) [(''event_error_code_counts'', counts)]\<rparr>"
  unfolding count_case_events_def act_bind_ok
  by (elim exE conjE) (auto simp: act_basic set_cells_def change_def dest!: reads_same)

lemma measure_ok:
  assumes "measure_case args mc p w = (Inr (), w')"
  shows "\<exists>h tid es. dict_get (this_row w') ''source_sha256'' '''' = h \<and> dict_get (this_row w') ''dest_sha256'' '''' = h \<and>
    dict_get (this_row w') ''transfer_id'' '''' = tid \<and> trace w' = trace w @ es \<and> compared mc p h tid h es"
proof -
  from assms obtain hs ht tid out w1 w2 w3 w4 fetched content w4' w5 where
    1: "transfer_stage args mc p w = (Inr (hs, ht, tid, out), w1)"
    and 2: "capture args p ''after'' w1 = (Inr (), w2)"
    and 3: "fetch_remote_file (a_remote args) (remote_event_log p) (client_event_log p) w2 = (Inr fetched, w3)"
    and 4: "write_text (client_log p) out w3 = (Inr (), w4)"
    and 5: "read_replaced (server_log p) w4 = (Inr content, w4')"
    and 6: "count_case_events p (w4'\<lparr>this_row := fill_metrics (dict_update (this_row w4') [(''transfer_id'', tid),
        (''source_sha256'', hs), (''dest_sha256'', ht)]) (direction mc) content out\<rparr>) = (Inr (), w5)"
    and 7: "w' = w5" "hs = ht"
    unfolding measure_case_def split_paired_Ex act_bind_ok prod.case
    by (elim exE conjE) (auto simp: act_simps set_cells_def map_row_def change_def split: if_splits)
  obtain es where es: "trace w1 = trace w @ es" "compared mc p hs tid ht es" using transfer_stage_ok [OF 1] by blast
  have "steady w1 w4"
    using calm.growsD [OF calm_capture 2] calm.growsD [OF calm_files(4) 3] calm.growsD [OF calm_write(4) 4]
    by (auto intro: calm.leq_trans)
  then obtain fs where fs: "trace w4 = trace w1 @ fs" using steady_prefix by blast
  have "w4' = w4" using reads_same(1) [OF 5] .
  then obtain counts where w5: "w5 = w4\<lparr>this_row := dict_update (fill_metrics (dict_update (this_row w4) [(''transfer_id'', tid),
        (''source_sha256'', hs), (''dest_sha256'', ht)]) (direction mc) content out) [(''event_error_code_counts'', counts)]\<rparr>"
    using count_case_events_ok [OF 6] by auto
  have other: "''transfer_id'' \<notin> set set_columns \<and> ''source_sha256'' \<notin> set set_columns \<and> ''dest_sha256'' \<notin> set set_columns"
    by (simp add: set_columns_def)
  have stage: "c \<notin> set RECEIVER_COUNTERS" "c \<notin> set STAGE_FIELDS" "c \<notin> set PHASE_ALIAS_FIELDS"
    "c \<notin> set (role_columns ''sender'')" "c \<notin> set (role_columns ''receiver'')"
    if "c \<in> {''transfer_id'', ''source_sha256'', ''dest_sha256''}" for c
    using that by (auto simp: STAGE_FIELDS_def PHASE_ALIAS_FIELDS_def RECEIVER_COUNTERS_def role_columns_def prefixed_def)
  have cells: "dict_get (this_row w') ''source_sha256'' '''' = hs" "dict_get (this_row w') ''dest_sha256'' '''' = hs"
    "dict_get (this_row w') ''transfer_id'' '''' = tid"
    using 7 other by (simp_all add: w5 fill_metrics_other stage)
  have "trace w' = trace w @ es @ fs" by (simp add: 7 w5 fs es)
  with cells compared_more [OF es(2), of "[]" fs] 7 show ?thesis by auto
qed

section \<open>The outcome of a case\<close>

text \<open>Coarser than \<open>steady\<close>: the row may change.\<close>

definition same_alive :: "mworld \<Rightarrow> mworld \<Rightarrow> bool" where
  "same_alive w w' \<longleftrightarrow> alive (trace w') = alive (trace w) \<and> (\<exists>es. trace w' = trace w @ es)"

interpretation quiet: effect_order same_alive
  by unfold_locales (auto simp: same_alive_def)

lemma calm_quiet: "calm.grows m \<Longrightarrow> quiet.grows m"
  by (simp add: calm.grows_def quiet.grows_def steady_def same_alive_def)

lemma quiet_change: "(\<And>w. trace (f w) = trace w) \<Longrightarrow> quiet.grows (change f)"
  by (rule quiet.growsI) (auto simp: change_def same_alive_def)

lemma quiet_set_cells: "quiet.grows (set_cells xs)"
  unfolding set_cells_def by (rule quiet_change) simp

lemma prepare_quiet: "quiet.grows (prepare_case args mc run_root env)"
  unfolding prepare_case_def choose_paths_def start_row_def Let_def
  by (intro quiet.grows_rules calm_quiet [OF calm_write(1)] calm_quiet [OF calm_write(2)] calm_quiet [OF calm_time(1)]
      calm_quiet [OF calm_time(2)] quiet_set_cells quiet_change) simp_all

lemma prepare_ok:
  assumes "prepare_case args mc run_root env w = (Inr p, w')"
  shows "complete (this_row w') \<and> dict_get (this_row w') ''result'' '''' = ''fail'' \<and> server w' = None \<and>
    alive (trace w') = alive (trace w) \<and> (\<exists>es. trace w' = trace w @ es) \<and>
    (\<exists>a b c d e. p = paths_of mc (at_path run_root (case_id mc)) a b c d e)"
proof -
  obtain now slog clog w1 where w': "this_row w' = dict_update (initial_row now args mc env slog clog)
      [(''repeat_index'', show_int (repeat_index mc)), (''temp_root'', case_root p),
        (''server_event_log'', server_event_log p), (''client_event_log'', client_event_log p),
        (''event_log'', server_event_log p @ '';'' @ client_event_log p)]" "server w' = None"
      "\<exists>a b c d e. p = paths_of mc (at_path run_root (case_id mc)) a b c d e"
  proof -
    from assms obtain w1 where 1: "choose_paths args mc run_root w = (Inr p, w1)" and 2: "start_row args mc env p w1 = (Inr (), w')"
      unfolding prepare_case_def by (auto simp: act_simps)
    have "\<exists>a b c d e. p = paths_of mc (at_path run_root (case_id mc)) a b c d e"
      using 1 unfolding choose_paths_def Let_def act_bind_ok act_basic by blast
    then show ?thesis
      using 2 by (intro that [of _ "server_log p" "client_log p"])
        (auto simp: start_row_def act_simps change_def set_cells_def timestamp_utc_def)
  qed
  have "{''repeat_index'', ''temp_root'', ''server_event_log'', ''client_event_log'', ''event_log''} \<subseteq> set CSV_FIELDS"
    using cell_columns by blast
  then have "complete (this_row w')"
    by (auto simp: complete_def w' initial_row_keys)
  moreover have "dict_get (initial_row now args mc env slog clog) ''result'' '''' = ''fail''"
    unfolding initial_row_def
    by (subst dict_get_update_skip)
      (simp_all add: image_Un result_not_metric dict_get_def empty_cells_def map_of_eq_None_iff image_image
        RECEIVER_COUNTERS_def)
  moreover have "alive (trace w') = alive (trace w)" "\<exists>es. trace w' = trace w @ es"
    using quiet.growsD [OF prepare_quiet assms] by (simp_all add: same_alive_def)
  ultimately show ?thesis using w' by simp
qed

definition held :: "nat list \<Rightarrow> mworld \<Rightarrow> bool" where
  "held ps w \<longleftrightarrow> server w = None \<and> alive (trace w) = ps \<or> (\<exists>p. server w = Some p \<and> alive (trace w) = ps @ [p])"

lemma held_steady: "steady w w' \<Longrightarrow> held ps w \<Longrightarrow> held ps w'"
  by (auto simp: held_def steady_def)

definition case_state :: "mcase \<Rightarrow> case_paths \<Rightarrow> nat list \<Rightarrow> mevent list \<Rightarrow> mworld \<Rightarrow> bool" where
  \<comment> \<open>what holds of the row and the server when \<open>finally\<close> begins\<close>
  "case_state mc p ps es w \<longleftrightarrow> complete (this_row w) \<and> held ps w \<and>
     (dict_get (this_row w) ''result'' '''' = ''fail'' \<or>
      dict_get (this_row w) ''result'' '''' = ''pass'' \<and>
      (\<exists>h tid fs. dict_get (this_row w) ''source_sha256'' '''' = h \<and> dict_get (this_row w) ''dest_sha256'' '''' = h \<and>
         dict_get (this_row w) ''transfer_id'' '''' = tid \<and> trace w = es @ fs \<and> compared mc p h tid h fs))"

lemma case_state_steady:
  assumes "steady w w'" and "complete (this_row w)" and "held ps w" and "dict_get (this_row w) ''result'' '''' = ''fail''"
  shows "case_state mc p ps es w'"
  using held_steady [OF assms(1,3)] assms by (auto simp: case_state_def steady_def)

lemma try_case_state:
  assumes "try_case args mc p w = (r, w')" and "complete (this_row w)" and "server w = None"
    and "dict_get (this_row w) ''result'' '''' = ''fail''"
  shows "case_state mc p (alive (trace w)) (trace w) w' \<and>
    ((\<exists>e. r = Inl e) \<longrightarrow> dict_get (this_row w') ''result'' '''' = ''fail'')"
proof -
  let ?clean = "clean_remote args p"
  let ?start = "start_control_server args mc (server_root p) (server_log p) (server_event_log p)"
  obtain r1 w1 where 1: "?clean w = (r1, w1)" by (cases "?clean w")
  have s1: "steady w w1" using calm.growsD [OF calm_stages(3) 1] .
  have h1: "complete (this_row w1)" "held (alive (trace w)) w1" "dict_get (this_row w1) ''result'' '''' = ''fail''"
    using s1 assms by (auto simp: steady_def held_def)
  obtain r2 w2 where 2: "?start w1 = (r2, w2)" by (cases "?start w1")
  have h2: "complete (this_row w2)" "held (alive (trace w)) w2" "dict_get (this_row w2) ''result'' '''' = ''fail''"
    using start_server_cases [OF 2] h1 assms(3) s1 by (auto simp: held_def steady_def)
  obtain r3 w3 where 3: "measure_case args mc p w2 = (r3, w3)" by (cases "measure_case args mc p w2")
  have s3: "steady w2 w3" using calm.growsD [OF calm_measure 3] .
  have early: "case_state mc p (alive (trace w)) (trace w) v" if "v = w1 \<or> v = w2 \<or> v = w3" for v
    using that case_state_steady [OF calm.leq_refl h1(1,2,3)] case_state_steady [OF calm.leq_refl h2(1,2,3)]
      case_state_steady [OF s3 h2(1,2,3)] by blast
  have failed: "dict_get (this_row v) ''result'' '''' = ''fail''" if "v = w1 \<or> v = w2 \<or> v = w3" for v
    using that h1 h2 s3 by (auto simp: steady_def)
  show ?thesis
  proof (cases "r1 = Inr () \<and> r2 = Inr () \<and> r3 = Inr ()")
    case False
    then have "(\<exists>e. r = Inl e) \<and> (w' = w1 \<or> w' = w2 \<or> w' = w3)"
      using assms(1) by (auto simp: try_case_def act_bind_def 1 2 3 split: sum.splits)
    then show ?thesis using early failed by blast
  next
    case True
    then have w': "w' = w3\<lparr>this_row := dict_update (this_row w3) [(''result'', ''pass'')]\<rparr>" "r = Inr ()"
      using assms(1) by (simp_all add: try_case_def act_bind_def 1 2 3 set_cells_def change_def)
    obtain h tid fs where m: "dict_get (this_row w3) ''source_sha256'' '''' = h" "dict_get (this_row w3) ''dest_sha256'' '''' = h"
      "dict_get (this_row w3) ''transfer_id'' '''' = tid" "trace w3 = trace w2 @ fs" "compared mc p h tid h fs"
      using measure_ok [of args mc p w2 w3] 3 True by auto
    obtain es where "trace w2 = trace w @ es"
      using steady_prefix [OF s1] start_server_cases [OF 2] by auto
    with m have "trace w' = trace w @ (es @ fs)" "compared mc p h tid h (es @ fs)"
      using compared_more [OF m(5), of es "[]"] by (simp_all add: w')
    moreover have "''result'' \<in> set CSV_FIELDS" using cell_columns by blast
    ultimately show ?thesis
      using m h2 held_steady [OF s3 h2(2)] s3
      by (auto simp: case_state_def w' complete_def steady_def held_def insert_absorb)
  qed
qed

lemma caught_case_state:
  assumes "act_catch (try_case args mc p) (handle_case args p) w = (r, w')" and "complete (this_row w)"
    and "server w = None" and "dict_get (this_row w) ''result'' '''' = ''fail''"
  shows "case_state mc p (alive (trace w)) (trace w) w'"
proof -
  obtain r1 w1 where 1: "try_case args mc p w = (r1, w1)" by (cases "try_case args mc p w")
  note t = try_case_state [OF 1 assms(2,3,4)]
  show ?thesis
  proof (cases r1)
    case (Inr u)
    then show ?thesis using t assms(1) by (simp add: act_catch_def 1)
  next
    case (Inl e)
    then have "handle_case args p e w1 = (r, w')" using assms(1) by (simp add: act_catch_def 1)
    from calm.growsD [OF calm_handle this] show ?thesis
      using t Inl by (intro case_state_steady) (auto simp: case_state_def)
  qed
qed

lemma finish_case_end:
  assumes "finish_case args p w = (r, w')" and "held ps w"
  shows "this_row w' = this_row w \<and> (\<exists>es. trace w' = trace w @ es) \<and>
    (set (alive (trace w')) \<subseteq> set ps \<or> (\<exists>q. Signalled q ''KILL'' \<in> set (trace w') \<and> r = Inl TimeoutExpired)) \<and>
    (\<forall>u. r = Inr u \<longrightarrow> set (alive (trace w')) \<subseteq> set ps)"
proof -
  obtain r1 w1 where 1: "stop_process (server w) w = (r1, w1)" by (cases "stop_process (server w) w")
  have stop: "this_row w1 = this_row w \<and> (\<exists>es. trace w1 = trace w @ es) \<and> (r1 = Inr () \<and> set (alive (trace w1)) \<subseteq> set ps \<or>
      r1 = Inl TimeoutExpired \<and> (\<exists>q. Signalled q ''KILL'' \<in> set (trace w1)))"
  proof (cases "server w")
    case None
    then show ?thesis using 1 assms(2) by (auto simp: stop_process_def act_basic held_def)
  next
    case (Some q)
    with stop_process_stops [of q w] 1 assms(2) show ?thesis by (auto simp: stopped_def held_def)
  qed
  let ?rest = "act_when (dict_get (this_row w1) ''result'' '''' = ''pass'' \<and> \<not> a_keep_files args)
       (act_bind (remove_tree (case_root p)) (\<lambda>_. clean_remote args p))"
  have fin: "finish_case args p w = (case r1 of Inl e \<Rightarrow> (Inl e, w1) | Inr _ \<Rightarrow> ?rest w1)"
    by (cases r1) (simp_all add: finish_case_def act_bind_def see_def 1)
  obtain r2 w2 where 2: "?rest w1 = (r2, w2)" by (cases "?rest w1")
  have "this_row w2 = this_row w1"
    using 2 net_act_same by (auto simp: act_when_def act_bind_def remove_tree_def change_def clean_remote_def act_basic Let_def
        split: if_splits dest!: net_act_same)
  moreover have "steady w1 w2"
    by (intro calm.growsD [of ?rest w1 r2 w2] calm_rules calm_write calm_stages 2)
  then have "alive (trace w2) = alive (trace w1)" "\<exists>es. trace w2 = trace w1 @ es" by (simp_all add: steady_def)
  ultimately show ?thesis
    using assms(1) stop 2 unfolding fin by (auto split: sum.splits)
qed

lemma run_case_row:
  assumes "run_case args mc run_root env w = (Inr r, w')"
  shows "complete r \<and> (dict_get r ''result'' '''' = ''fail'' \<or> dict_get r ''result'' '''' = ''pass'' \<and>
    (\<exists>a b c d e h tid fs. dict_get r ''source_sha256'' '''' = h \<and> dict_get r ''dest_sha256'' '''' = h \<and>
       dict_get r ''transfer_id'' '''' = tid \<and> trace w' = trace w @ fs \<and>
       compared mc (paths_of mc (at_path run_root (case_id mc)) a b c d e) h tid h fs))"
proof -
  from assms obtain p w1 w2 u where 1: "prepare_case args mc run_root env w = (Inr p, w1)"
    and 2: "act_catch (try_case args mc p) (handle_case args p) w1 = (Inr u, w2)"
    and 3: "r = this_row w2" "finish_case args p w2 = (Inr (), w')"
    unfolding run_case_def by (auto simp: act_simps see_def)
  note start = prepare_ok [OF 1]
  have cs: "case_state mc p (alive (trace w1)) (trace w1) w2" using caught_case_state [OF 2] start by simp
  then have "held (alive (trace w1)) w2" by (simp add: case_state_def)
  from finish_case_end [OF 3(2) this] obtain gs where gs: "trace w' = trace w2 @ gs" by blast
  obtain ds where ds: "trace w1 = trace w @ ds" using start by blast
  obtain a b c d e where p: "p = paths_of mc (at_path run_root (case_id mc)) a b c d e" using start by blast
  have passing: "trace w' = trace w @ ds @ fs @ gs \<and> compared mc p h tid h (ds @ fs @ gs)"
    if "trace w2 = trace w1 @ fs" "compared mc p h tid h fs" for h tid fs
    using that ds gs compared_more [of mc p h tid h fs ds gs] by simp
  from cs have "complete r" and "dict_get r ''result'' '''' = ''fail'' \<or> dict_get r ''result'' '''' = ''pass'' \<and>
      (\<exists>h tid fs. dict_get r ''source_sha256'' '''' = h \<and> dict_get r ''dest_sha256'' '''' = h \<and>
         dict_get r ''transfer_id'' '''' = tid \<and> trace w2 = trace w1 @ fs \<and> compared mc p h tid h fs)"
    by (simp_all add: case_state_def 3(1))
  then show ?thesis using passing unfolding p by metis
qed

text \<open>
  C4: A row of the matrix says pass only for a transfer whose two ends were compared. Whenever
  \<open>run_case\<close> returns a row, the row has exactly the columns of the result file and its result is pass or
  fail; and if it is pass, its source and destination digests are equal, they are the digests taken of
  the source before and of the target after a transfer that completed, and the transfer id is that of
  this transfer.
\<close>

theorem run_case_pass:
  assumes "run_case args mc run_root env w = (Inr r, w')"
  shows "complete r \<and> (dict_get r ''result'' '''' = ''fail'' \<or> dict_get r ''result'' '''' = ''pass'' \<and>
    (\<exists>a b c d e h tid fs. dict_get r ''source_sha256'' '''' = h \<and> dict_get r ''dest_sha256'' '''' = h \<and>
       dict_get r ''transfer_id'' '''' = tid \<and> trace w' = trace w @ fs \<and>
       compared mc (paths_of mc (at_path run_root (case_id mc)) a b c d e) h tid h fs))"
  by (rule run_case_row [OF assms])

text \<open>
  C14: No server survives its case. However \<open>run_case\<close> ends, with a row or with an exception out of any of
  its stages, every process that is still alive was alive before, unless the server did not go away
  within five seconds of the kill signal; and a case that returns a row has always reaped its server.
\<close>

theorem run_case_reaps_server:
  assumes "run_case args mc run_root env w = (r, w')"
  shows "(set (alive (trace w')) \<subseteq> set (alive (trace w)) \<or>
      (\<exists>q. Signalled q ''KILL'' \<in> set (trace w') \<and> r = Inl TimeoutExpired)) \<and>
    (\<forall>row. r = Inr row \<longrightarrow> set (alive (trace w')) \<subseteq> set (alive (trace w)))"
proof -
  obtain r1 w1 where 1: "prepare_case args mc run_root env w = (r1, w1)" by (cases "prepare_case args mc run_root env w")
  show ?thesis
  proof (cases r1)
    case (Inl e)
    then have "w' = w1" using assms by (simp add: run_case_def act_bind_def 1)
    then show ?thesis using quiet.growsD [OF prepare_quiet 1] by (simp add: same_alive_def)
  next
    case (Inr p)
    let ?try_stage = "act_bind (act_catch (try_case args mc p) (handle_case args p)) (\<lambda>_. see this_row)"
    obtain r2 w2 where 2: "act_catch (try_case args mc p) (handle_case args p) w1 = (r2, w2)"
      by (cases "act_catch (try_case args mc p) (handle_case args p) w1")
    obtain r3 where 3: "?try_stage w1 = (r3, w2)" by (cases r2) (simp_all add: act_bind_def 2 see_def)
    obtain r4 where 4: "finish_case args p w2 = (r4, w')" and r: "(\<exists>e. r4 = Inl e \<and> r = Inl e) \<or> (\<exists>u. r4 = Inr u)"
      using assms by (auto simp: run_case_def act_bind_run [of "prepare_case args mc run_root env" w p w1] 1 Inr
          act_finally_def 3 split: prod.splits sum.splits)
    note start = prepare_ok [OF 1 [unfolded Inr]]
    have "held (alive (trace w)) w2"
      using caught_case_state [OF 2] start by (auto simp: case_state_def)
    from finish_case_end [OF 4 this] r show ?thesis by auto
  qed
qed

section \<open>The run of the matrix\<close>

text \<open>What only prints, runs commands or removes files does not write result files.\<close>

definition unwritten :: "mworld \<Rightarrow> mworld \<Rightarrow> bool" where
  "unwritten w w' \<longleftrightarrow> (\<exists>fs. trace w' = trace w @ fs \<and> (\<forall>p s. Wrote p s \<notin> set fs))"

interpretation silent: effect_order unwritten
proof
  show "unwritten w w" for w by (auto simp: unwritten_def)
  show "unwritten u w" if "unwritten u v" "unwritten v w" for u v w
  proof -
    from that obtain f g where "trace w = trace u @ (f @ g)" "\<forall>p s. Wrote p s \<notin> set (f @ g)"
      by (auto simp: unwritten_def)
    then show ?thesis unfolding unwritten_def by blast
  qed
qed

lemma silent_same: "(\<And>w r w'. m w = (r, w') \<Longrightarrow> trace w' = trace w) \<Longrightarrow> silent.grows m"
  by (rule silent.growsI) (auto simp: unwritten_def)

lemma silent_basic:
  "silent.grows (print_out s)" "silent.grows (print_err s)" "silent.grows (see f)" "silent.grows (net_act n)"
  "silent.grows (remove_tree path)" "silent.grows (change (\<lambda>w. w\<lparr>remove_run_root := b\<rparr>))"
  by (rule silent_same, auto simp: print_out_def print_err_def change_def see_def remove_tree_def Let_def dest: net_act_same)+

lemma silent_local: "silent.grows (run_local command)"
  by (rule silent.growsI) (auto simp: run_local_def Let_def waited_same unwritten_def split: list.splits option.splits)

lemma silent_if: "silent.grows m \<Longrightarrow> silent.grows n \<Longrightarrow> silent.grows (if b then m else n)"
  by simp

lemmas silent_rules = silent.grows_rules silent_basic silent_local silent_if

lemma silent_verdict: "silent.grows (verdict_of args csv_path summary_path rows)"
  unfolding verdict_of_def process_check_def print_leftovers_def split_def by (intro silent_rules)

lemma silent_finish: "silent.grows (finish_matrix args run_root)"
proof -
  have "silent.grows (case d of None \<Rightarrow> act_ret () | Some q \<Rightarrow> remove_tree q)" for d
    by (cases d) (simp_all add: silent_rules)
  then show ?thesis unfolding finish_matrix_def by (intro silent_rules)
qed

lemma write_table_ok:
  assumes "write_table path columns rows w = (Inr u, w')"
  shows "\<exists>content es. andthen rows (dict_writer_text columns) = Inr content \<and> trace w' = trace w @ es @ [Wrote path content]"
proof -
  have open_ok: "trace w2 = trace w1 @ [Wrote path s]" if "open_write path s w1 = (Inr v, w2)" for s w1 w2 v
    using that by (auto simp: open_write_def act_simps traced_run update_files_def split: sum.splits)
  from assms obtain w1 content where "open_write path (csv_text [columns]) w = (Inr (), w1)"
    and "andthen rows (dict_writer_text columns) = Inr content" and "open_write path content w1 = (Inr u, w')"
    unfolding write_table_def by (auto simp: act_simps)
  with open_ok show ?thesis by fastforce
qed

definition tables_written :: "string \<Rightarrow> string \<Rightarrow> row list \<Rightarrow> mevent list \<Rightarrow> bool" where
  \<comment> \<open>both result files hold these rows, the summary written last\<close>
  "tables_written csv_path summary_path rows es \<longleftrightarrow>
     (\<exists>a b table summary. es = a @ [Wrote csv_path table] @ b @ [Wrote summary_path summary] \<and>
        dict_writer_text CSV_FIELDS rows = Inr table \<and>
        andthen (summarize_rows rows) (dict_writer_text SUMMARY_FIELDS) = Inr summary)"

lemma run_cases_ok:
  assumes "run_cases args n run_root env csv_path summary_path cases rows w = (Inr rows', w')"
  shows "\<exists>new. rows' = rows @ new \<and> length new = length cases \<and> list_all complete new \<and>
    (cases \<noteq> [] \<longrightarrow> tables_written csv_path summary_path rows' (trace w'))"
  using assms
proof (induction args n run_root env csv_path summary_path cases rows arbitrary: w rule: run_cases.induct)
  case (1 args n run_root env csv_path summary_path rows)
  then show ?case by (simp add: act_basic)
next
  case (2 args n run_root env csv_path summary_path mc cases rows)
  from "2.prems" obtain r w1 w2 w3 w4 where 1: "run_case args mc run_root env w1 = (Inr r, w2)"
    and 2: "write_table csv_path CSV_FIELDS (Inr (rows @ [r])) w2 = (Inr (), w3)"
    and 3: "write_table summary_path SUMMARY_FIELDS (summarize_rows (rows @ [r])) w3 = (Inr (), w4)"
    and 4: "run_cases args n run_root env csv_path summary_path cases (rows @ [r])
        (w4\<lparr>out_lines := out_lines w4 @ [''  result='' @ dict_get r ''result'' '''' @ '' throughput_gbps='' @ dict_get r ''throughput_gbps'' '''']\<rparr>)
        = (Inr rows', w')"
    by (auto simp: act_bind_ok print_out_def change_def)
  from "2.IH" [OF 4] obtain new where new: "rows' = (rows @ [r]) @ new" "length new = length cases" "list_all complete new"
    "cases \<noteq> [] \<longrightarrow> tables_written csv_path summary_path rows' (trace w')" by blast
  have "complete r" using run_case_row [OF 1] by blast
  moreover have "tables_written csv_path summary_path rows' (trace w')"
  proof (cases "cases = []")
    case True
    then have "rows' = rows @ [r]" "trace w' = trace w4" using 4 by (auto simp: act_basic)
    moreover obtain table es where "dict_writer_text CSV_FIELDS (rows @ [r]) = Inr table" "trace w3 = trace w2 @ es @ [Wrote csv_path table]"
      using write_table_ok [OF 2] by auto
    moreover obtain summary fs where "andthen (summarize_rows (rows @ [r])) (dict_writer_text SUMMARY_FIELDS) = Inr summary"
      "trace w4 = trace w3 @ fs @ [Wrote summary_path summary]"
      using write_table_ok [OF 3] by auto
    ultimately have "trace w' = (trace w2 @ es) @ [Wrote csv_path table] @ fs @ [Wrote summary_path summary]"
      and "dict_writer_text CSV_FIELDS rows' = Inr table"
      and "andthen (summarize_rows rows') (dict_writer_text SUMMARY_FIELDS) = Inr summary" by simp_all
    then show ?thesis unfolding tables_written_def by blast
  qed (use new in blast)
  ultimately show ?case using new by (intro exI [of _ "r # new"]) simp
qed

lemma verdict_zero:
  assumes "verdict_of args csv_path summary_path rows w = (Inr 0, w')"
  shows "list_all passed rows"
proof -
  from assms obtain ls w1 where "(if fst ls \<noteq> '''' \<or> snd ls \<noteq> ''''
      then act_bind (print_leftovers (fst ls) (snd ls)) (\<lambda>_. act_ret 1)
      else act_bind (act_when (failed_rows rows \<noteq> []) (change (\<lambda>w. w\<lparr>remove_run_root := False\<rparr>))) (\<lambda>_.
       act_bind (print_out (''csv='' @ csv_path)) (\<lambda>_.
       act_bind (print_out (''summary_csv='' @ summary_path)) (\<lambda>_.
       act_bind (print_out (''cases='' @ show_nat (length rows) @ '' failures='' @ show_nat (length (failed_rows rows)))) (\<lambda>_.
       act_ret (if failed_rows rows \<noteq> [] then 1 else 0 :: int)))))) w1 = (Inr 0, w')"
    unfolding verdict_of_def act_bind_ok [of "process_check _"] split_def by blast
  then have "failed_rows rows = []" by (auto simp: act_simps split: if_splits)
  then show ?thesis by (auto simp: failed_rows_def filter_empty_conv list_all_iff passed_def)
qed


end
