(* ===== verification/Matrix_Demo.thy ===== *)
theory Matrix_Demo
  imports Matrix_Run_Laws
begin

text \<open>
  A machine and an answering server on which a case passes, followed by total correctness of every stage:
  the runs of Matrix_Run_Laws exist.
\<close>

section \<open>A machine on which a case passes\<close>

definition runs :: "(mworld, 'a) act \<Rightarrow> (mworld \<Rightarrow> bool) \<Rightarrow> ('a \<Rightarrow> mworld \<Rightarrow> bool) \<Rightarrow> bool" where
  \<comment> \<open>total correctness: from every state with \<open>P\<close> the program returns, in a state with \<open>Q\<close>\<close>
  "runs m P Q \<longleftrightarrow> (\<forall>w. P w \<longrightarrow> (\<exists>a w'. m w = (Inr a, w') \<and> Q a w'))"

lemma runs_bind: "runs m P Q \<Longrightarrow> (\<And>a. runs (f a) (Q a) R) \<Longrightarrow> runs (act_bind m f) P R"
  unfolding runs_def act_bind_def by fastforce

lemma runs_ret: "(\<And>w. P w \<Longrightarrow> Q a w) \<Longrightarrow> runs (act_ret a) P Q"
  by (simp add: runs_def act_basic)

lemma runs_weaken: "runs m P' Q' \<Longrightarrow> (\<And>w. P w \<Longrightarrow> P' w) \<Longrightarrow> (\<And>a w. Q' a w \<Longrightarrow> Q a w) \<Longrightarrow> runs m P Q"
  unfolding runs_def by meson

definition demo_case :: mcase where
  "demo_case = sample_case\<lparr>index := 0\<rparr>"

definition demo_args :: matrix_args where
  "demo_args = sample_matrix_args\<lparr>a_local_build_dir := ''results'', a_keep_files := True, a_directions := ''stor'',
     a_bytes := ''64'', a_connections := ''2'', a_chunk_sizes := ''8'', a_buffer_sizes := ''4'', a_checksums := ''crc32c'',
     a_manifest_flush_policies := ''final_only'', a_manifest_flush_interval_chunks_list := ''4'',
     a_posix_write_strategies := ''auto'', a_receiver_write_profiles := ''default''\<rparr>"

lemma demo_case: "is_stor demo_case" "direction demo_case = ''stor''" "tls_mode demo_case = ''off''" "data_tls_mode demo_case = ''off''"
  by (simp_all add: is_stor_def demo_case_def sample_case_def)

lemma demo_cases: "generate_cases demo_args = Inr [demo_case]" "validate_ports demo_args [demo_case] = Inr ()"
  by code_simp+

definition demo_name :: string where
  "demo_name = ''c0000r00_stor_b64_c2_k8_nb4_crc32c_preoff_fvfull_mffo4_csn_fioposix0_q1x1_advoff_pwsauto_rwdef0n_tlsoff_dtlsoff''"

lemma demo_name: "case_id demo_case = demo_name"
  unfolding demo_name_def by code_simp

definition demo_paths :: case_paths where
  "demo_paths = paths_of demo_case (at_path ''run'' demo_name)
     (at_path ''results'' (''T_'' @ demo_name @ ''_server.log'')) (at_path ''results'' (''T_'' @ demo_name @ ''_client.log''))
     (at_path ''results'' (''T_'' @ demo_name @ ''_server_events.jsonl''))
     (at_path ''results'' (''T_'' @ demo_name @ ''_client_events.jsonl''))
     (''/tmp/'' @ demo_name @ ''_client_events.jsonl'')"

definition log_key :: "string \<Rightarrow> string list" where
  "log_key ending = [''results'', ''T_'' @ demo_name @ ending]"

definition good_files :: "fs \<Rightarrow> bool" where
  \<comment> \<open>the result directory holds files only, the event logs are empty, and the server has stored the file\<close>
  "good_files t \<longleftrightarrow> t [] = Some Dir \<and> t [''results''] = Some Dir \<and> (\<forall>n. is_file t [''results'', n]) \<and>
     t (log_key ''_server_events.jsonl'') = Some (File '''') \<and> t (log_key ''_client_events.jsonl'') = Some (File '''') \<and>
     is_file t (segs (to_path (local_output demo_paths)))"

definition staged ::
  "(fs \<Rightarrow> bool) \<Rightarrow> completed option list \<Rightarrow> completed option list \<Rightarrow> attempt list \<Rightarrow> bool list \<Rightarrow> bool list \<Rightarrow> mworld \<Rightarrow> bool" where
  \<comment> \<open>the file systems satisfy \<open>G\<close>; the answers of the machines that are still to come\<close>
  "staged G rs ls as sp an w \<longleftrightarrow> G (files w) \<and> list_all (\<lambda>f. \<forall>t. G (f t)) (others w) \<and> work_dir w = [] \<and>
     digest w = (\<lambda>_. ''aa'') \<and> compact_time w = (\<lambda>_. ''T'') \<and> run_results (net w) = rs \<and> local_results w = ls \<and>
     attempts (net w) = as \<and> send_results (net w) = [] \<and> spawns w = sp \<and> answers w = an \<and> remote_ca w = ''''"

abbreviation stage where
  "stage \<equiv> staged good_files"

lemma staged_weaken: "staged G rs ls as sp an w \<Longrightarrow> (\<And>t. G t \<Longrightarrow> H t) \<Longrightarrow> staged H rs ls as sp an w"
  by (auto simp: staged_def list_all_iff)

lemma stage_waited: "staged G rs ls as sp an w \<Longrightarrow> staged G rs ls as sp an (waited w)"
  by (auto simp: staged_def waited_def split: list.split)

lemma runs_known: "runs (f c) P Q \<Longrightarrow> runs (f a) (\<lambda>w. P w \<and> a = c) Q"
  by (cases "a = c") (simp_all add: runs_def)

lemma runs_see: "runs (see f) P (\<lambda>a w. P w \<and> a = f w)"
  by (simp add: runs_def see_def)

lemma runs_change: "(\<And>w. P w \<Longrightarrow> Q () (f w)) \<Longrightarrow> runs (change f) P Q"
  by (simp add: runs_def change_def)

lemma runs_row: "runs (set_cells xs) (staged G rs ls as sp an) (\<lambda>_. staged G rs ls as sp an)"
  "runs (map_row g) (staged G rs ls as sp an) (\<lambda>_. staged G rs ls as sp an)"
  "runs (traced e) (staged G rs ls as sp an) (\<lambda>_. staged G rs ls as sp an)"
  unfolding set_cells_def map_row_def traced_def by (rule runs_change, simp add: staged_def)+

lemma runs_remote:
  assumes "chk \<longrightarrow> rc = 0"
  shows "runs (net_act (run_remote remote command input chk)) (staged G (Some (rc, out, err) # rs) ls as sp an)
    (\<lambda>a w. staged G rs ls as sp an w \<and> a = (rc, out, err))"
  unfolding runs_def
proof (intro allI impI)
  fix w assume s: "staged G (Some (rc, out, err) # rs) ls as sp an w"
  define n where "n = (net w)\<lparr>events := events (net w) @ [Ran (Control_Client.ssh_prefix (environ (net w)) remote @ [command])
    (remote_env (environ (net w))) input], run_results := rs\<rparr>"
  have "run_remote remote command input chk (net w) = (Inr (rc, out, err), n)"
    using s assms by (auto simp: run_remote_def Let_def staged_def n_def)
  moreover have "staged G rs ls as sp an (w\<lparr>net := n\<rparr>)" using s by (simp add: staged_def n_def)
  ultimately show "\<exists>a w'. net_act (run_remote remote command input chk) w = (Inr a, w') \<and> staged G rs ls as sp an w' \<and> a = (rc, out, err)"
    using stage_waited by (simp add: net_act_def)
qed

lemma runs_local:
  "runs (run_local command) (staged G rs (Some c # ls) as sp an) (\<lambda>a w. staged G rs ls as sp an w \<and> a = c)"
  unfolding runs_def
proof (intro allI impI)
  fix w assume s: "staged G rs (Some c # ls) as sp an w"
  then have "staged G rs ls as sp an (w\<lparr>local_results := ls, trace := trace w @ [LocalRun command]\<rparr>)" by (simp add: staged_def)
  from stage_waited [OF this] show "\<exists>a w'. run_local command w = (Inr a, w') \<and> staged G rs ls as sp an w' \<and> a = c"
    using s by (simp add: run_local_def staged_def)
qed

lemma runs_answer: "runs answer (staged G rs ls as sp (b # an)) (\<lambda>a w. staged G rs ls as sp an w \<and> a = b)"
  unfolding runs_def
proof (intro allI impI)
  fix w assume s: "staged G rs ls as sp (b # an) w"
  then have "staged G rs ls as sp an (w\<lparr>answers := an\<rparr>)" by (simp add: staged_def)
  from stage_waited [OF this] show "\<exists>a w'. answer w = (Inr a, w') \<and> staged G rs ls as sp an w' \<and> a = b"
    using s by (simp add: answer_def staged_def)
qed

definition result_file :: "string \<Rightarrow> bool" where
  "result_file path \<longleftrightarrow> \<not> is_absolute (to_path path) \<and> length (segs (to_path path)) = 2 \<and> hd (segs (to_path path)) = ''results'' \<and>
     \<not> is_absolute (to_path (parent_path path)) \<and> segs (to_path (parent_path path)) = [''results''] \<and>
     segs (to_path path) \<noteq> log_key ''_server_events.jsonl'' \<and> segs (to_path path) \<noteq> log_key ''_client_events.jsonl''"

lemma result_file_key:
  assumes "result_file path" and "work_dir w = []"
  shows "\<exists>n. file_key w path = [''results'', n] \<and> file_key w (parent_path path) = [''results''] \<and>
     file_key w path \<noteq> log_key ''_server_events.jsonl'' \<and> file_key w path \<noteq> log_key ''_client_events.jsonl''"
proof -
  obtain n where "segs (to_path path) = [''results'', n]"
    using assms(1) by (cases "segs (to_path path)"; cases "tl (segs (to_path path))") (auto simp: result_file_def)
  then show ?thesis using assms by (simp add: result_file_def file_key_def)
qed

lemma good_write:
  assumes "good_files t" and "k = [''results'', n]" and "k \<noteq> log_key ''_server_events.jsonl''" "k \<noteq> log_key ''_client_events.jsonl''"
    and "segs (to_path (local_output demo_paths)) \<noteq> k"
  shows "write_bytes t k b = Inr (t(k \<mapsto> File b)) \<and> good_files (t(k \<mapsto> File b))"
proof -
  have "is_file t k" using assms by (simp add: good_files_def)
  then have "write_bytes t k b = Inr (t(k \<mapsto> File b))"
    by (auto simp: is_file_def write_bytes_def split: option.splits node.splits)
  moreover have "good_files (t(k \<mapsto> File b))"
    using assms by (simp add: good_files_def is_file_def)
  ultimately show ?thesis by simp
qed

lemma output_key: "length (segs (to_path (local_output demo_paths))) = 4" "\<not> is_absolute (to_path (local_output demo_paths))"
  unfolding demo_paths_def by code_simp+

lemma runs_open:
  assumes "result_file path"
  shows "runs (open_write path content) (stage rs ls as sp an) (\<lambda>_. stage rs ls as sp an)"
  unfolding open_write_def
proof (rule runs_bind [OF _ runs_row(3)], unfold runs_def, intro allI impI)
  fix w assume s: "stage rs ls as sp an w"
  then have "work_dir w = []" "good_files (files w)" by (simp_all add: staged_def)
  from result_file_key [OF assms this(1)] obtain n where k: "file_key w path = [''results'', n]"
     "file_key w path \<noteq> log_key ''_server_events.jsonl''" "file_key w path \<noteq> log_key ''_client_events.jsonl''" by blast
  have "segs (to_path (local_output demo_paths)) \<noteq> file_key w path" using output_key(1) k(1) by auto
  from good_write [OF \<open>good_files (files w)\<close> k this] s
  show "\<exists>a w'. update_files (\<lambda>t p. write_bytes t p content) path w = (Inr a, w') \<and> stage rs ls as sp an w'"
    by (auto simp: update_files_def staged_def)
qed

lemma runs_write:
  assumes "result_file path"
  shows "runs (write_text path content) (stage rs ls as sp an) (\<lambda>_. stage rs ls as sp an)"
  unfolding write_text_def
proof (rule runs_bind [OF _ runs_open [OF assms]], unfold runs_def, intro allI impI)
  fix w assume s: "stage rs ls as sp an w"
  then have g: "work_dir w = []" "good_files (files w)" by (simp_all add: staged_def)
  from result_file_key [OF assms g(1)] have "file_key w (parent_path path) = [''results'']" by blast
  then show "\<exists>a w'. make_dirs (parent_path path) w = (Inr a, w') \<and> stage rs ls as sp an w'"
    using s g(2) by (auto simp: make_dirs_def update_files_def good_files_def)
qed

lemma runs_read_if:
  assumes "result_file path"
  shows "runs (read_if_exists path) (stage rs ls as sp an) (\<lambda>_. stage rs ls as sp an)"
  unfolding runs_def
proof (intro allI impI)
  fix w assume s: "stage rs ls as sp an w"
  then have g: "work_dir w = []" "good_files (files w)" by (simp_all add: staged_def)
  from result_file_key [OF assms g(1)] obtain n where "file_key w path = [''results'', n]" by blast
  with g(2) have "is_file (files w) (file_key w path)" by (simp add: good_files_def)
  then obtain b where "files w (file_key w path) = Some (File b)" by (auto simp: is_file_def split: option.splits node.splits)
  then show "\<exists>a w'. read_if_exists path w = (Inr a, w') \<and> stage rs ls as sp an w'"
    using s by (simp add: read_if_exists_def act_bind_def see_def file_exists_def path_exists_def read_replaced_def
        read_bytes_def act_basic)
qed

lemma runs_read:
  assumes "result_file path"
  shows "runs (read_replaced path) (stage rs ls as sp an) (\<lambda>_. stage rs ls as sp an)"
  unfolding runs_def
proof (intro allI impI)
  fix w assume s: "stage rs ls as sp an w"
  then have g: "work_dir w = []" "good_files (files w)" by (simp_all add: staged_def)
  from result_file_key [OF assms g(1)] obtain n where "file_key w path = [''results'', n]" by blast
  with g(2) have "is_file (files w) (file_key w path)" by (simp add: good_files_def)
  then obtain b where "files w (file_key w path) = Some (File b)" by (auto simp: is_file_def split: option.splits node.splits)
  then show "\<exists>a w'. read_replaced path w = (Inr a, w') \<and> stage rs ls as sp an w'"
    using s by (simp add: read_replaced_def read_bytes_def)
qed

lemma to_path_plain: "CHR ''/'' \<notin> set n \<Longrightarrow> good_seg n \<Longrightarrow> to_path n = \<lparr>anchor = '''', segs = [n]\<rparr>"
  using to_path_as_posix [of "\<lparr>anchor = '''', segs = [n]\<rparr>"] by (simp add: path_wf_def as_posix_def)

lemma result_path:
  assumes "CHR ''/'' \<notin> set n" and "good_seg n"
  shows "to_path (as_posix \<lparr>anchor = '''', segs = [''results'', n]\<rparr>) = \<lparr>anchor = '''', segs = [''results'', n]\<rparr>"
  using assms by (intro to_path_as_posix) (simp add: path_wf_def good_seg_def)

lemma result_at: "CHR ''/'' \<notin> set n \<Longrightarrow> good_seg n \<Longrightarrow> at_path ''results'' n = as_posix \<lparr>anchor = '''', segs = [''results'', n]\<rparr>"
  using to_path_plain [of n] to_path_plain [of "''results''"]
  by (simp add: at_path_def path_join_def is_absolute_def good_seg_def)

lemma result_file_named:
  assumes "CHR ''/'' \<notin> set n" and "good_seg n" and "last n \<noteq> CHR ''l''"
  shows "result_file (as_posix \<lparr>anchor = '''', segs = [''results'', n]\<rparr>)"
proof -
  have "parent_path (as_posix \<lparr>anchor = '''', segs = [''results'', n]\<rparr>) = ''results''"
    unfolding parent_path_def result_path [OF assms(1,2)] by (simp add: as_posix_def)
  moreover have "to_path ''results'' = \<lparr>anchor = '''', segs = [''results'']\<rparr>"
    by (intro to_path_plain) (simp_all add: good_seg_def)
  moreover have "last (''T_'' @ demo_name @ ''_server_events.jsonl'') = CHR ''l''"
    "last (''T_'' @ demo_name @ ''_client_events.jsonl'') = CHR ''l''" by simp_all
  then have "n \<noteq> ''T_'' @ demo_name @ ''_server_events.jsonl''" "n \<noteq> ''T_'' @ demo_name @ ''_client_events.jsonl''"
    using assms(3) by metis+
  ultimately show ?thesis
    unfolding result_file_def result_path [OF assms(1,2)] by (simp add: log_key_def is_absolute_def)
qed

lemma demo_name_plain: "CHR ''/'' \<notin> set demo_name"
  by (simp add: demo_name_def)

lemma demo_log:
  assumes "path = at_path ''results'' (''T_'' @ demo_name @ ending)" and "ending \<in> {''_server.log'', ''_client.log''}"
  shows "result_file path"
    and "label \<in> {''before'', ''after''} \<Longrightarrow> result_file (with_name path (path_stem path @ ''_env_'' @ label @ ''.log''))"
proof -
  let ?n = "''T_'' @ demo_name @ ending"
  have n: "CHR ''/'' \<notin> set ?n" "good_seg ?n" "last ?n \<noteq> CHR ''l''"
    using assms(2) demo_name_plain by (auto simp: good_seg_def)
  then have path: "path = as_posix \<lparr>anchor = '''', segs = [''results'', ?n]\<rparr>" using assms(1) result_at by simp
  then show "result_file path" using n result_file_named by simp
  assume l: "label \<in> {''before'', ''after''}"
  let ?m = "path_stem path @ ''_env_'' @ label @ ''.log''"
  have "path_stem path = take (length ?n - length (name_suffix ?n)) ?n"
    unfolding path_stem_def path path_name_def Let_def result_path [OF n(1,2)] by (simp add: last_seg_def)
  then have "set (path_stem path) \<subseteq> set ?n" by (metis set_take_subset)
  then have "CHR ''/'' \<notin> set (path_stem path)" using n(1) by blast
  then have "CHR ''/'' \<notin> set ?m" using l by auto
  moreover have "good_seg ?m" "last ?m \<noteq> CHR ''l''" using l by (auto simp: good_seg_def)
  moreover have "with_name path ?m = as_posix \<lparr>anchor = '''', segs = [''results'', ?m]\<rparr>"
    unfolding with_name_def path result_path [OF n(1,2)] by simp
  ultimately show "result_file (with_name path ?m)" using result_file_named by simp
qed

lemma demo_files:
  "result_file (server_log demo_paths)" "result_file (client_log demo_paths)"
  "label \<in> {''before'', ''after''} \<Longrightarrow>
    result_file (with_name (server_log demo_paths) (path_stem (server_log demo_paths) @ ''_env_'' @ label @ ''.log''))"
  "label \<in> {''before'', ''after''} \<Longrightarrow>
    result_file (with_name (client_log demo_paths) (path_stem (client_log demo_paths) @ ''_env_'' @ label @ ''.log''))"
  by (simp_all only: demo_paths_def paths_of_def Let_def case_paths.simps)
    (rule demo_log [OF refl]; simp)+

lemma runs_capture:
  assumes "label \<in> {''before'', ''after''}"
  shows "runs (capture demo_args demo_paths label) (stage (Some (0, out, err) # rs) (Some (0, out', err') # ls) as sp an)
    (\<lambda>_. stage rs ls as sp an)"
proof -
  let ?s = "with_name (server_log demo_paths) (path_stem (server_log demo_paths) @ ''_env_'' @ label @ ''.log'')"
  let ?c = "with_name (client_log demo_paths) (path_stem (client_log demo_paths) @ ''_env_'' @ label @ ''.log'')"
  note files = demo_files(3) [OF assms] demo_files(4) [OF assms]
  have local: "runs (local_environment_text path) (stage rs' (Some (0, out', err') # ls) as sp an) (\<lambda>_. stage rs' ls as sp an)"
    for path rs'
    unfolding local_environment_text_def split_def
    by (rule runs_bind [OF runs_local]) (rule runs_ret, simp)
  have remote: "runs (remote_environment_text r path) (stage (Some (0, out, err) # rs) ls as sp an) (\<lambda>_. stage rs ls as sp an)" for r path
    unfolding remote_environment_text_def split_def
    by (rule runs_bind [OF runs_remote], simp) (rule runs_ret, simp)
  have side: "runs (capture_environment_sidecars demo_args sv cl (server_log demo_paths) (client_log demo_paths) label)
      (stage (Some (0, out, err) # rs) (Some (0, out', err') # ls) as sp an) (\<lambda>a w. stage rs ls as sp an w \<and> a = (?s, ?c))" for sv cl
    unfolding capture_environment_sidecars_def Let_def
    by (rule runs_bind [OF local], rule runs_bind [OF runs_write [OF files(1)]], rule runs_bind [OF remote],
        rule runs_bind [OF runs_write [OF files(2)]], rule runs_ret, simp)
  have tail: "runs (act_bind (set_cells cs) (\<lambda>_. act_bind (read_if_exists ?s) (\<lambda>s. act_bind (map_row (f s)) (\<lambda>_.
      act_bind (read_if_exists ?c) (\<lambda>c. map_row (g c)))))) (stage rs ls as sp an) (\<lambda>_. stage rs ls as sp an)"
    for cs f g
    by (rule runs_bind [OF runs_row(1)], rule runs_bind [OF runs_read_if [OF files(1)]], rule runs_bind [OF runs_row(2)],
        rule runs_bind [OF runs_read_if [OF files(2)]], rule runs_row(2))
  show ?thesis
    unfolding capture_def split_def
    by (rule runs_bind [OF side], rule runs_known, unfold fst_conv snd_conv, rule tail)
qed

section \<open>The answering server\<close>

definition rest_of :: "nat \<Rightarrow> recv_item list" where
  "rest_of k = drop k good_stream"

lemma good_replies:
  "read_reply (rest_of 0) [] = (Inr [''220 ready''], rest_of 1, [])"
  "read_reply (rest_of 1) [] = (Inr [''331 user''], rest_of 2, [])"
  "read_reply (rest_of 2) [] = (Inr [''230 in''], rest_of 3, [])"
  "read_reply (rest_of 3) [] = (Inr [''200 binary''], rest_of 4, [])"
  "read_reply (rest_of 4) [] = (Inr [''229 passive (|||31|)''], rest_of 5, [])"
  "read_reply (rest_of 5) [] = (Inr [''150 go transfer_id=GFID:t-7''], rest_of 6, [])"
  "read_reply (rest_of 6) [] = (Inr [''226 done''], rest_of 7, [])"
  "read_reply (rest_of 7) [] = (Inr [''221 bye''], rest_of 8, [])"
  by code_simp+

lemma good_codes:
  "reply_code [''220 ready''] = 220" "reply_code [''331 user''] = 331" "reply_code [''230 in''] = 230"
  "reply_code [''200 binary''] = 200" "reply_code [''229 passive (|||31|)''] = 229"
  "reply_code [''150 go transfer_id=GFID:t-7''] = 150" "reply_code [''226 done''] = 226"
  "parse_epsv_port [''229 passive (|||31|)''] = Inr 31"
  "parse_transfer_id [''150 go transfer_id=GFID:t-7''] = Inr ''t-7''"
  by code_simp+

lemma stor_answers:
  assumes "attempts n = [Accepted True (rest_of 0)]" and "send_results n = []" and "run_results n = Some (0, out, err) # rs"
    and "tls_mode c = ''off''"
  shows "\<exists>n'. run_stor_once args c source name elog n = (Inr (''t-7'', out @ err), n') \<and> run_results n' = rs \<and>
    attempts n' = [] \<and> send_results n' = []"
proof -
  note step = act_bind_def act_finally_def act_catch_def act_when_def act_basic expect_reply_def good_codes
    good_replies [unfolded One_nat_def]
    send_def sendall_def recv_reply_def
  obtain n1 where n1: "login_control args c n = (Inr (), n1)" "inbox n1 = rest_of 4" "pending n1 = []" "attempts n1 = []"
    "send_results n1 = []" "run_results n1 = run_results n"
    by (simp add: login_control_def open_control_def connect_control_def login_type_i_def step assms)
  obtain n2 where n2: "start_transfer ''STOR'' name n1 = (Inr (31, ''t-7''), n2)" "inbox n2 = rest_of 6" "pending n2 = []"
    "attempts n2 = []" "send_results n2 = []" "run_results n2 = run_results n"
    by (simp add: start_transfer_def open_epsv_def step n1)
  obtain n3 where n3: "run_upload_client args c source 31 ''t-7'' elog False None n2 = (Inr (0, out, err), n3)"
    "inbox n3 = rest_of 6" "pending n3 = []" "attempts n3 = []" "send_results n3 = []" "run_results n3 = rs"
    by (simp add: run_upload_client_def run_remote_def Let_def n2 assms)
  show ?thesis
    by (simp add: run_stor_once_def transfer_once_def step n1 n2 n3 quit_def close_control_def log_event_def)
qed

section \<open>The case passes\<close>

definition accepting :: "attempt list" where
  "accepting = [Accepted True (rest_of 0)]"

lemma runs_transfer:
  "runs (transfer_of demo_args demo_case demo_paths) (stage (Some (0, out, err) # rs) ls accepting sp an)
    (\<lambda>a w. stage rs ls [] sp an w \<and> a = (''t-7'', out @ err))"
proof -
  let ?run = "run_stor_once demo_args demo_case (remote_source demo_paths) (output_name demo_paths) (remote_event_log demo_paths)"
  have stor: "runs (net_act ?run) (stage (Some (0, out, err) # rs) ls accepting sp an)
      (\<lambda>a w. stage rs ls [] sp an w \<and> a = (''t-7'', out @ err))"
    unfolding runs_def
  proof (intro allI impI)
    fix w assume s: "stage (Some (0, out, err) # rs) ls accepting sp an w"
    then obtain n where n: "?run (net w) = (Inr (''t-7'', out @ err), n)" "run_results n = rs" "attempts n = []" "send_results n = []"
      using stor_answers [of "net w" out err rs demo_case demo_args "remote_source demo_paths"
          "output_name demo_paths" "remote_event_log demo_paths"]
      by (auto simp: staged_def accepting_def demo_case)
    then have "stage rs ls [] sp an (w\<lparr>net := n\<rparr>)" using s by (simp add: staged_def)
    from stage_waited [OF this] n show "\<exists>a w'. net_act ?run w = (Inr a, w') \<and> stage rs ls [] sp an w' \<and> a = (''t-7'', out @ err)"
      by (simp add: net_act_def)
  qed
  show ?thesis
    unfolding transfer_of_def if_P [OF demo_case(2)]
    by (rule runs_bind [OF stor], rule runs_known, unfold prod.case, rule runs_bind [OF runs_row(3)]) (rule runs_ret, simp)
qed

lemma runs_local_sha: "runs (local_sha256 (local_output demo_paths)) (stage rs ls as sp an) (\<lambda>a w. stage rs ls as sp an w \<and> a = ''aa'')"
  unfolding runs_def
proof (intro allI impI)
  fix w assume s: "stage rs ls as sp an w"
  then have "is_file (files w) (file_key w (local_output demo_paths))"
    using output_key(2) by (simp add: staged_def good_files_def file_key_def)
  then obtain b where "read_bytes (files w) (file_key w (local_output demo_paths)) = Inr b"
    by (auto simp: is_file_def read_bytes_def split: option.splits node.splits)
  then have "sha256_file (digest w) (files w) (file_key w (local_output demo_paths)) = Inr ''aa''"
    using s by (simp add: sha256_file_def staged_def)
  then show "\<exists>a w'. local_sha256 (local_output demo_paths) w = (Inr a, w') \<and> stage rs ls as sp an w' \<and> a = ''aa''"
    using s by (simp add: local_sha256_def act_bind_def see_def act_basic traced_run staged_def)
qed

lemma runs_remote_sha:
  assumes "py_split out = h # hs"
  shows "runs (remote_sha256 remote path) (stage (Some (0, out, err) # rs) ls as sp an) (\<lambda>a w. stage rs ls as sp an w \<and> a = h)"
  unfolding remote_sha256_def
  by (rule runs_bind [OF runs_remote], simp, rule runs_known, unfold prod.case assms list.case,
      rule runs_bind [OF runs_row(3)]) (rule runs_ret, simp)

lemma runs_events:
  "runs (count_case_events demo_paths) (stage rs ls as sp an) (\<lambda>_. stage rs ls as sp an)"
proof -
  have path: "to_path (at_path ''results'' (''T_'' @ demo_name @ ending)) = \<lparr>anchor = '''', segs = log_key ending\<rparr>"
    if "ending \<in> {''_server_events.jsonl'', ''_client_events.jsonl''}" for ending
  proof -
    have n: "CHR ''/'' \<notin> set (''T_'' @ demo_name @ ending)" "good_seg (''T_'' @ demo_name @ ending)"
      using that demo_name_plain by (auto simp: good_seg_def)
    show ?thesis unfolding result_at [OF n] result_path [OF n] log_key_def by simp
  qed
  have empty: "event_error_code_counts [Some [], Some []] = Inr ''{}''" by code_simp
  have "utf8_replace [] = []" by (simp add: utf8_replace_def utf8_lossy.simps)
  then have read: "read_if_exists path w = (Inr (Some []), w)"
    if "stage rs ls as sp an w" "path \<in> {server_event_log demo_paths, client_event_log demo_paths}" for path w
    using that path
    by (auto simp: read_if_exists_def act_bind_def see_def file_exists_def path_exists_def read_replaced_def read_bytes_def
        act_basic staged_def good_files_def demo_paths_def paths_of_def Let_def file_key_def is_absolute_def)
  show ?thesis
    unfolding runs_def using runs_row(1) [unfolded runs_def]
    by (auto simp: count_case_events_def act_bind_def read act_basic empty)
qed

text \<open>What the machines answer during the case.\<close>

definition case_remote :: "completed option list" where
  "case_remote = [Some (0, [], []), Some (0, [], []), Some (0, ''aa  /tmp/x'', []), Some (0, [], []), Some (0, ''ok'', []),
     Some (0, [], []), Some (1, [], [])]"

definition case_local :: "completed option list" where
  "case_local = [Some (0, [], []), Some (0, [], [])]"

lemma case_remote: "case_remote @ rs = Some (0, [], []) # tl case_remote @ rs"
  by (simp add: case_remote_def)

lemma runs_measure:
  "runs (measure_case demo_args demo_case demo_paths)
    (stage (tl case_remote @ rs) (case_local @ ls) accepting sp an) (\<lambda>_. stage rs ls [] sp an)"
proof -
  have split: "py_split ''aa  /tmp/x'' = [''aa'', ''/tmp/x'']" by code_simp
  note sha = runs_remote_sha [OF split]
  have make: "runs (make_remote_file r q k) (stage (Some (0, [], []) # rs) ls as sp an) (\<lambda>_. stage rs ls as sp an)" for r q k rs ls as
    unfolding make_remote_file_def by (rule runs_bind [OF runs_remote], simp) (rule runs_ret, simp)
  have fetch: "runs (fetch_remote_file r a b) (stage (Some (1, [], []) # rs) ls as sp an) (\<lambda>_. stage rs ls as sp an)" for r a b rs ls as
    unfolding fetch_remote_file_def
    by (rule runs_bind [OF runs_remote], simp, rule runs_known) (simp add: runs_ret)
  note before = runs_capture [of "''before''", simplified] and after = runs_capture [of "''after''", simplified]
  have transfer: "runs (transfer_stage demo_args demo_case demo_paths)
      (stage (Some (0, [], []) # Some (0, ''aa  /tmp/x'', []) # Some (0, [], []) # Some (0, ''ok'', []) # rs)
         (Some (0, [], []) # ls) accepting sp an)
      (\<lambda>a w. stage rs ls [] sp an w \<and> a = (''aa'', ''aa'', ''t-7'', ''ok''))" for rs ls
    unfolding transfer_stage_def if_P [OF demo_case(1)]
    by (rule runs_bind [OF make], rule runs_bind [OF sha], rule runs_known, rule runs_bind [OF runs_row(1)],
        rule runs_bind [OF before], rule runs_bind [OF runs_transfer], rule runs_known, unfold prod.case append_Nil2,
        rule runs_bind [OF runs_local_sha], rule runs_known, rule runs_ret, simp)
  show ?thesis
    unfolding measure_case_def case_remote_def case_local_def list.sel append.simps
    by (rule runs_bind [OF transfer], rule runs_known, unfold prod.case, rule runs_bind [OF after], rule runs_bind [OF fetch],
        rule runs_bind [OF runs_write [OF demo_files(2)]], rule runs_bind [OF runs_read [OF demo_files(1)]],
        rule runs_bind [OF runs_row(1)], rule runs_bind [OF runs_row(2)], rule runs_bind [OF runs_events])
      (simp add: act_when_def runs_ret)
qed

lemma runs_try:
  "runs (try_case demo_args demo_case demo_paths)
    (stage (case_remote @ rs) (case_local @ ls) accepting [True] an)
    (\<lambda>_ w. stage rs ls [] [] an w \<and> dict_get (this_row w) ''result'' '''' = ''pass'')"
proof -
  have clean: "runs (clean_remote demo_args demo_paths) (stage (Some (0, [], []) # rs) ls as sp an) (\<lambda>_. stage rs ls as sp an)"
    for rs ls as sp an
  proof -
    have all: "filter (\<lambda>path. path \<noteq> '''') [remote_source demo_paths, remote_target demo_paths, remote_event_log demo_paths]
        = [remote_source demo_paths, remote_target demo_paths, remote_event_log demo_paths]"
      by (simp add: demo_paths_def paths_of_def Let_def)
    have "clean_remote demo_args demo_paths w = (Inr (), snd (net_act (run_remote (a_remote demo_args)
        (join '' ; '' (map cleanup_command [remote_source demo_paths, remote_target demo_paths, remote_event_log demo_paths])) [] False) w))"
      if "stage (Some (0, [], []) # rs) ls as sp an w" for w
      using that unfolding clean_remote_def cleanup_remote_paths_def all Let_def
      by (simp add: net_act_def act_when_def act_bind_def run_remote_def Let_def staged_def act_basic)
    moreover have "runs (net_act (run_remote r c [] False)) (stage (Some (0, [], []) # rs) ls as sp an) (\<lambda>_. stage rs ls as sp an)" for r c
      by (rule runs_weaken [OF runs_remote]) simp_all
    ultimately show ?thesis unfolding runs_def by (metis snd_conv)
  qed
  have start: "runs (start_control_server demo_args demo_case (server_root demo_paths) (server_log demo_paths) (server_event_log demo_paths))
      (stage rs ls as [True] an) (\<lambda>_. stage rs ls as [] an)" for rs ls as an
    unfolding start_control_server_def Let_def
    by (rule runs_bind [OF runs_open [OF demo_files(1)]]) (auto simp: runs_def act_bind_def see_def change_def staged_def)
  have mark: "runs (set_cells [(''result'', ''pass'')]) (stage rs ls as sp an)
      (\<lambda>_ w. stage rs ls as sp an w \<and> dict_get (this_row w) ''result'' '''' = ''pass'')" for rs ls as sp an
    unfolding set_cells_def by (rule runs_change) (simp add: staged_def)
  show ?thesis
    unfolding try_case_def case_remote by (rule runs_bind [OF clean], rule runs_bind [OF start], rule runs_bind [OF runs_measure], rule mark)
qed

definition demo_fs :: fs where
  "demo_fs = (\<lambda>q. if q = [] \<or> q = [''results''] then Some Dir
     else if length q = 2 \<and> hd q = ''results'' \<or> q = segs (to_path (local_output demo_paths)) then Some (File '''') else None)"

definition lab_files :: "fs \<Rightarrow> bool" where
  \<comment> \<open>before the case: with or without the run directory\<close>
  "lab_files t \<longleftrightarrow> t = demo_fs \<or> t = demo_fs([''run''] \<mapsto> Dir)"

lemma demo_fs_good: "good_files demo_fs"
  using output_key(1) by (auto simp: good_files_def demo_fs_def is_file_def log_key_def)

lemma lab_good: "lab_files t \<Longrightarrow> good_files t"
  using demo_fs_good output_key(1) by (auto simp: lab_files_def good_files_def is_file_def log_key_def)

lemma good_mkdirs: "mkdirs pre ws t = Inr t' \<Longrightarrow> good_files t \<Longrightarrow> good_files t'"
proof -
  assume m: "mkdirs pre ws t = Inr t'" and g: "good_files t"
  have "is_file t' p" if "is_file t p" for p
    using that mkdirs_file [OF m] by (auto simp: is_file_def split: option.splits node.splits)
  then show "good_files t'" using g mkdirs_file [OF m] unfolding good_files_def by blast
qed

lemma make_results: "good_files (files w) \<Longrightarrow> work_dir w = [] \<Longrightarrow> make_dirs ''results'' w = (Inr (), w)"
proof -
  have "to_path ''results'' = \<lparr>anchor = '''', segs = [''results'']\<rparr>"
    by (intro to_path_plain) (simp_all add: good_seg_def)
  then show "good_files (files w) \<Longrightarrow> work_dir w = [] \<Longrightarrow> make_dirs ''results'' w = (Inr (), w)"
    by (simp add: make_dirs_def update_files_def file_key_def is_absolute_def good_files_def)
qed

lemma demo_args_dirs: "a_event_log_dir demo_args = ''''" "a_output_dir demo_args = ''results''" "a_keep_files demo_args"
  "a_local_build_dir demo_args = ''results''" "a_run_root_base demo_args = ''''" "a_repeat demo_args = 1"
  by (simp_all add: demo_args_def sample_matrix_args_def sample_args_def smoke_args_def rargs.defs margs.defs)

lemma runs_prepare:
  "runs (prepare_case demo_args demo_case ''run'' env) (staged lab_files rs ls as sp an)
     (\<lambda>p w. stage rs ls as sp an w \<and> p = demo_paths)"
  unfolding runs_def
proof (intro allI impI)
  fix w assume lab: "staged lab_files rs ls as sp an w"
  then have start: "lab_files (files w)" "work_dir w = []" "compact_time w = (\<lambda>_. ''T'')" by (simp_all add: staged_def)
  let ?dirs = "[''run'', demo_name, ''server-root'']"
  have root: "segs (to_path (at_path (at_path ''run'' demo_name) ''server-root'')) = ?dirs"
    "\<not> is_absolute (to_path (at_path (at_path ''run'' demo_name) ''server-root''))"
    unfolding demo_name_def by code_simp+
  have short: "demo_fs q = None" if "q \<noteq> []" "hd q = ''run''" "length q \<le> 3" for q
  proof -
    have "q \<noteq> segs (to_path (local_output demo_paths))" using that(3) output_key(1) by auto
    then show ?thesis using that by (auto simp: demo_fs_def)
  qed
  have free: "\<not> is_file (files w) ([] @ take k ?dirs)" for k
  proof (cases "k = 0")
    case True
    then show ?thesis using start(1) by (auto simp: is_file_def demo_fs_def lab_files_def)
  next
    case False
    then have "demo_fs (take k ?dirs) = None" by (intro short) (simp_all add: take_Cons')
    then show ?thesis using start(1) by (auto simp: is_file_def lab_files_def split: if_splits)
  qed
  then obtain t where t: "mkdirs [] ?dirs (files w) = Inr t"
    using mkdirs_ok [of ?dirs "files w" "[]"] by auto
  have g: "good_files t" using good_mkdirs [OF t lab_good [OF start(1)]] .
  have "demo_fs ?dirs = None" by (rule short) simp_all
  then have "files w ?dirs = None" using start(1) by (auto simp: lab_files_def)
  then have 1: "make_new_dirs (at_path (at_path ''run'' demo_name) ''server-root'') w = (Inr (), w\<lparr>files := t\<rparr>)"
    using t start(2) by (simp add: make_new_dirs_def update_files_def file_key_def root path_exists_def)
  let ?v = "w\<lparr>files := t, clock := clock w + 4\<rparr>"
  have choose: "choose_paths demo_args demo_case ''run'' w = (Inr demo_paths, ?v)"
    using g start by (simp add: choose_paths_def demo_name Let_def demo_args_dirs act_bind_def 1 make_results compact_timestamp_def
        act_basic demo_paths_def)
  have s: "stage rs ls as sp an ?v"
    using staged_weaken [of lab_files rs ls as sp an w good_files, OF lab lab_good] g by (auto simp: staged_def)
  have row: "stage rs ls as sp an w' \<and> u = Inr ()"
    if "stage rs ls as sp an w" "start_row demo_args demo_case env p w = (u, w')" for p w w' u
    using that by (auto simp: start_row_def act_bind_def timestamp_utc_def change_def set_cells_def staged_def)
  obtain u x where x: "start_row demo_args demo_case env demo_paths ?v = (u, x)"
    by (cases "start_row demo_args demo_case env demo_paths ?v")
  from row [OF s this] x choose have "prepare_case demo_args demo_case ''run'' env w = (Inr demo_paths, x)"
    by (simp add: prepare_case_def act_bind_def act_basic)
  with row [OF s x] show "\<exists>a w'. prepare_case demo_args demo_case ''run'' env w = (Inr a, w') \<and>
      stage rs ls as sp an w' \<and> a = demo_paths" by blast
qed

lemma runs_finish:
  "runs (finish_case demo_args demo_paths) (stage rs ls as sp [False, True, True]) (\<lambda>_ w. \<exists>an. stage rs ls as sp an w)"
proof -
  have stop: "runs (stop_process q) (stage rs ls as sp [False, True, True]) (\<lambda>_ w. \<exists>an. stage rs ls as sp an w)" for q
  proof (cases q)
    case None
    then show ?thesis by (auto simp: stop_process_def runs_def act_basic)
  next
    case (Some p)
    have kill: "runs (kill_group p s) (stage rs ls as sp (True # an)) (\<lambda>a w. stage rs ls as sp an w \<and> a = True)" for s an
      unfolding kill_group_def by (rule runs_bind [OF runs_row(3)]) (rule runs_answer)
    have reap: "runs (traced (Reaped p)) (stage rs ls as sp []) (\<lambda>_ w. \<exists>an. stage rs ls as sp an w)"
      by (rule runs_weaken [OF runs_row(3)]) blast+
    show ?thesis
      unfolding stop_process_def Some option.case
      by (rule runs_bind [OF runs_answer], rule runs_known, unfold if_False, rule runs_bind [OF kill], rule runs_known,
          unfold if_True simp_thms, rule runs_bind [OF runs_answer], rule runs_known, unfold if_True, rule reap)
  qed
  have last: "runs (act_when (c \<and> \<not> a_keep_files demo_args) m) P (\<lambda>_. P)" for c m P
    by (simp add: demo_args_dirs act_when_def runs_ret)
  show ?thesis
    unfolding finish_case_def
    by (rule runs_bind [OF runs_see], rule runs_bind, rule runs_weaken [OF stop], blast, assumption, rule runs_bind [OF runs_see],
        rule runs_weaken [OF last]) auto
qed

text \<open>The case of the demonstration passes.\<close>

lemma runs_case:
  "runs (run_case demo_args demo_case ''run'' env)
     (staged lab_files (case_remote @ rs) (case_local @ ls) accepting [True] [False, True, True])
     (\<lambda>r w. (\<exists>an. stage rs ls [] [] an w) \<and> passed r \<and> complete r)"
  unfolding runs_def
proof (intro allI impI)
  fix w assume "staged lab_files (case_remote @ rs) (case_local @ ls) accepting [True] [False, True, True] w"
  then obtain w1 where 1: "prepare_case demo_args demo_case ''run'' env w = (Inr demo_paths, w1)"
    and s1: "stage (case_remote @ rs) (case_local @ ls) accepting [True] [False, True, True] w1"
    using runs_prepare unfolding runs_def by blast
  obtain u w2 where 2: "try_case demo_args demo_case demo_paths w1 = (Inr u, w2)"
    and s2: "stage rs ls [] [] [False, True, True] w2" "dict_get (this_row w2) ''result'' '''' = ''pass''"
    using runs_try s1 unfolding runs_def by blast
  obtain v w3 where 3: "finish_case demo_args demo_paths w2 = (Inr v, w3)" "\<exists>an. stage rs ls [] [] an w3"
    using runs_finish s2(1) unfolding runs_def by blast
  have run: "run_case demo_args demo_case ''run'' env w = (Inr (this_row w2), w3)"
    by (simp add: run_case_def act_bind_def 1 act_finally_def act_catch_def 2 see_def 3)
  with s2(2) 3(2) run_case_row [OF run] show "\<exists>r w'. run_case demo_args demo_case ''run'' env w = (Inr r, w') \<and>
      (\<exists>an. stage rs ls [] [] an w') \<and> passed r \<and> complete r" by (auto simp: passed_def)
qed

definition demo_world :: "completed option list \<Rightarrow> completed option list \<Rightarrow> mworld" where
  "demo_world remote_answers local_answers = \<lparr>net = \<lparr>environ = [], attempts = accepting, send_results = [],
       run_results = remote_answers, inbox = [], pending = [], events = []\<rparr>,
     files = demo_fs, work_dir = [], others = replicate 20 (\<lambda>_. demo_fs),
     local_results = local_answers, spawns = [True], answers = [False, True, True],
     temp_dirs = [''run''], openssl = None, digest = (\<lambda>_. ''aa''), utc_time = (\<lambda>_. ''now''), compact_time = (\<lambda>_. ''T''),
     library_text = (\<lambda>_. ''''), clock = 0, this_row = [], server = None, spawned = 0, remove_run_root = False,
     remote_ca = '''', tls_dir = None, trace = [], out_lines = [], err_lines = []\<rparr>"

lemma demo_world: "staged lab_files rs ls accepting [True] [False, True, True] (demo_world rs ls)"
  by (simp add: staged_def demo_world_def lab_files_def list_all_iff)

lemma demo_case_passes:
  "\<exists>r w. run_case demo_args demo_case ''run'' sample_env (demo_world case_remote case_local) = (Inr r, w) \<and> passed r"
  using runs_case [of sample_env "[]" "[]"] demo_world [of case_remote case_local] unfolding runs_def append_Nil2 by blast

section \<open>The matrix exits with status 0\<close>

lemma runs_lift: "m = Inr a \<Longrightarrow> runs (act_lift m) P (\<lambda>b w. P w \<and> b = a)"
  by (simp add: runs_def act_lift_def)

lemma runs_print:
  "runs (print_out s) (staged G rs ls as sp an) (\<lambda>_. staged G rs ls as sp an)"
  unfolding print_out_def by (rule runs_change) (simp add: staged_def)

lemma runs_check:
  "runs (check_binaries demo_args) (staged lab_files (Some (0, out, err) # rs) ls as sp an) (\<lambda>_. staged lab_files rs ls as sp an)"
proof -
  have "to_path (at_path ''results'' ''gridflux-gridftp-server'') = \<lparr>anchor = '''', segs = [''results'', ''gridflux-gridftp-server'']\<rparr>"
    by code_simp
  then have key: "file_exists (at_path ''results'' ''gridflux-gridftp-server'') w" if "staged lab_files rs' ls as sp an w" for w rs'
    using that by (auto simp: file_exists_def file_key_def path_exists_def is_absolute_def staged_def lab_files_def demo_fs_def)
  have present: "runs (see (file_exists (at_path ''results'' ''gridflux-gridftp-server''))) (staged lab_files rs' ls as sp an)
      (\<lambda>a w. staged lab_files rs' ls as sp an w \<and> a = True)" for rs'
    by (rule runs_weaken [OF runs_see]) (auto dest: key)
  show ?thesis
    unfolding check_binaries_def Let_def demo_args_dirs split_def
    by (rule runs_bind [OF present], rule runs_known, unfold act_when_def not_True_eq_False if_False,
        rule runs_bind, rule runs_ret, assumption, rule runs_bind [OF runs_remote], simp) (rule runs_ret, simp)
qed

lemma runs_collect:
  "runs (collect_environment remote)
    (staged lab_files (Some (1, [], []) # Some (1, [], []) # Some (1, [], []) # Some (1, [], []) # rs)
       (Some (1, [], []) # Some (1, [], []) # Some (1, [], []) # ls) as sp an)
    (\<lambda>_. staged lab_files rs ls as sp an)"
proof -
  have out: "runs (remote_output r c) (staged lab_files (Some (1, [], []) # rs) ls as sp an) (\<lambda>_. staged lab_files rs ls as sp an)" for r c rs ls
    unfolding remote_output_def split_def by (rule runs_bind [OF runs_remote], simp) (rule runs_ret, simp)
  have cmd: "runs (command_output c) (staged lab_files rs (Some (1, [], []) # ls) as sp an) (\<lambda>_. staged lab_files rs ls as sp an)" for c rs ls
    unfolding command_output_def split_def by (rule runs_bind [OF runs_local]) (rule runs_ret, simp)
  have snap: "runs (fs_snapshot p) (staged lab_files rs (Some (1, [], []) # ls) as sp an) (\<lambda>_. staged lab_files rs ls as sp an)" for p rs ls
    unfolding fs_snapshot_def by (rule runs_bind [OF runs_local], rule runs_known) (simp add: runs_ret)
  have rsnap: "runs (remote_fs_snapshot r p) (staged lab_files (Some (1, [], []) # rs) ls as sp an) (\<lambda>_. staged lab_files rs ls as sp an)"
    for r p rs ls
    unfolding remote_fs_snapshot_def by (rule runs_bind [OF out]) (rule runs_ret, simp)
  have key: "file_key w ''/proc/cpuinfo'' = [''proc'', ''cpuinfo'']" for w
  proof -
    have "is_absolute (to_path ''/proc/cpuinfo'')" "segs (to_path ''/proc/cpuinfo'') = [''proc'', ''cpuinfo'']" by code_simp+
    then show ?thesis by (simp add: file_key_def)
  qed
  have "[''proc'', ''cpuinfo''] \<noteq> segs (to_path (local_output demo_paths))"
  proof
    assume "[''proc'', ''cpuinfo''] = segs (to_path (local_output demo_paths))"
    from arg_cong [OF this, of length] show False unfolding output_key(1) by simp
  qed
  then have none: "lab_files t \<Longrightarrow> t [''proc'', ''cpuinfo''] = None" for t
    by (auto simp: lab_files_def demo_fs_def)
  have "cpu_flags_from_proc w = (Inr '''', w)" if "lab_files (files w)" for w
    using none [OF that] by (simp add: cpu_flags_from_proc_def read_bytes_def key)
  then have flags: "runs cpu_flags_from_proc (staged lab_files rs ls as sp an) (\<lambda>_. staged lab_files rs ls as sp an)" for rs ls
    by (simp add: runs_def staged_def)
  show ?thesis
    unfolding collect_environment_def split_def
    by (rule runs_bind [OF snap], rule runs_bind [OF rsnap], rule runs_bind [OF out], rule runs_bind [OF cmd],
        rule runs_bind [OF out], rule runs_bind [OF cmd], rule runs_bind [OF out], rule runs_bind [OF flags]) (rule runs_ret, simp)
qed

lemma runs_table:
  assumes "result_file path" and "andthen rows (dict_writer_text columns) = Inr content"
  shows "runs (write_table path columns rows) (stage rs ls as sp an) (\<lambda>_. stage rs ls as sp an)"
  unfolding write_table_def
  by (rule runs_bind [OF runs_open [OF assms(1)]], rule runs_bind [OF runs_lift [OF assms(2)]], rule runs_known,
      rule runs_open [OF assms(1)])

lemma complete_tables:
  assumes "complete r"
  shows "\<exists>s. andthen (Inr ([] @ [r])) (dict_writer_text CSV_FIELDS) = Inr s"
    and "\<exists>s. andthen (summarize_rows ([] @ [r])) (dict_writer_text SUMMARY_FIELDS) = Inr s"
proof -
  have "dict_writer_text CSV_FIELDS [r] = Inr (csv_text (CSV_FIELDS # map (\<lambda>r. map (\<lambda>c. dict_get r c '''') CSV_FIELDS) [r]))"
    using assms by (intro dict_writer_ok) (simp add: complete_def)
  then show "\<exists>s. andthen (Inr ([] @ [r])) (dict_writer_text CSV_FIELDS) = Inr s" by (simp add: andthen_def)
  obtain keys where keys: "summarize_rows [r] = Inr (map (\<lambda>k. summary_cells k (group_of [r] k)) keys)" "set keys = {row_key r}"
    using summarize_rows_cells [of "[r]"] assms by auto
  let ?sums = "map (\<lambda>k. summary_cells k (group_of [r] k)) keys"
  have "dict_writer_text SUMMARY_FIELDS ?sums
      = Inr (csv_text (SUMMARY_FIELDS # map (\<lambda>r. map (\<lambda>c. dict_get r c '''') SUMMARY_FIELDS) ?sums))"
    using keys(2) group_of_short [of "[r]"] by (intro dict_writer_ok) (auto simp: summary_cells_keys)
  with keys(1) show "\<exists>s. andthen (summarize_rows ([] @ [r])) (dict_writer_text SUMMARY_FIELDS) = Inr s" by (simp add: andthen_def)
qed

lemma demo_tables: "result_file (table_path demo_args ''T'' ''.csv'')" "result_file (table_path demo_args ''T'' ''-summary.csv'')"
  by code_simp+

lemma runs_pull: "(x \<Longrightarrow> runs m P Q) \<Longrightarrow> runs m (\<lambda>w. P w \<and> x) Q"
  by (cases x) (simp_all add: runs_def)

lemma runs_exists: "(\<And>x. runs m (P x) Q) \<Longrightarrow> runs m (\<lambda>w. \<exists>x. P x w) Q"
  unfolding runs_def by blast

lemma runs_one_case:
  "runs (run_cases demo_args n ''run'' env (table_path demo_args ''T'' ''.csv'') (table_path demo_args ''T'' ''-summary.csv'') [demo_case] [])
     (staged lab_files (case_remote @ rs) (case_local @ ls) accepting [True] [False, True, True])
     (\<lambda>rows w. (\<exists>an. stage rs ls [] [] an w) \<and> list_all passed rows)"
proof -
  have rest: "runs (act_bind (write_table (table_path demo_args ''T'' ''.csv'') CSV_FIELDS (Inr ([] @ [r]))) (\<lambda>_.
     act_bind (write_table (table_path demo_args ''T'' ''-summary.csv'') SUMMARY_FIELDS (summarize_rows ([] @ [r]))) (\<lambda>_.
     act_bind (print_out s) (\<lambda>_. act_ret ([] @ [r]))))) (stage rs ls [] [] an)
     (\<lambda>rows w. (\<exists>an. stage rs ls [] [] an w) \<and> list_all passed rows)" if r: "passed r" "complete r" for r s an
  proof -
    obtain t u where "andthen (Inr ([] @ [r])) (dict_writer_text CSV_FIELDS) = Inr t"
      "andthen (summarize_rows ([] @ [r])) (dict_writer_text SUMMARY_FIELDS) = Inr u"
      using complete_tables [OF r(2)] by blast
    note tables = runs_table [OF demo_tables(1) this(1)] runs_table [OF demo_tables(2) this(2)]
    show ?thesis
      by (rule runs_bind [OF tables(1)], rule runs_bind [OF tables(2)], rule runs_bind [OF runs_print], rule runs_ret)
        (use r in auto)
  qed
  show ?thesis
    unfolding run_cases.simps
    by (rule runs_bind [OF runs_print], rule runs_bind [OF runs_case], rule runs_pull, rule runs_exists) (rule rest; simp)
qed

lemma runs_verdict:
  "runs (verdict_of demo_args csv_path summary_path rows) (\<lambda>w. (\<exists>an. stage [Some (0, [], [])] [Some (0, [], [])] [] [] an w) \<and> list_all passed rows)
     (\<lambda>a w. a = 0 \<and> (\<exists>an. stage [] [] [] [] an w))"
proof (rule runs_pull, rule runs_exists)
  fix an assume p: "list_all passed rows"
  have none: "failed_rows rows = []" using p by (auto simp: failed_rows_def passed_def list_all_iff filter_empty_conv)
  have empty: "process_lines (py_strip []) = []" by code_simp
  have check: "runs (process_check r) (stage [Some (0, [], [])] [Some (0, [], [])] [] [] an) (\<lambda>a w. stage [] [] [] [] an w \<and> a = ([], []))" for r
    unfolding process_check_def
    by (rule runs_bind [OF runs_local], rule runs_known, unfold prod.case, rule runs_bind [OF runs_remote], simp, rule runs_known,
        unfold prod.case empty, rule runs_ret, simp)
  show "runs (verdict_of demo_args csv_path summary_path rows) (stage [Some (0, [], [])] [Some (0, [], [])] [] [] an)
     (\<lambda>a w. a = 0 \<and> (\<exists>an. stage [] [] [] [] an w))"
    unfolding verdict_of_def none
    by (rule runs_bind [OF check], rule runs_known, unfold prod.case act_when_def simp_thms if_False, rule runs_bind,
        rule runs_ret, assumption, rule runs_bind [OF runs_print], rule runs_bind [OF runs_print], rule runs_bind [OF runs_print])
      (auto intro: runs_ret)
qed

definition demo_remote :: "completed option list" where
  "demo_remote = replicate 1 (Some (0, [], [])) @ replicate 4 (Some (1, [], [])) @ case_remote @ [Some (0, [], [])]"

definition demo_local :: "completed option list" where
  "demo_local = replicate 3 (Some (1, [], [])) @ case_local @ [Some (0, [], [])]"

lemma runs_matrix:
  "runs (run_matrix demo_args ''T'' ''run'' (table_path demo_args ''T'' ''.csv'') (table_path demo_args ''T'' ''-summary.csv''))
     (staged lab_files demo_remote demo_local accepting [True] [False, True, True]) (\<lambda>a w. a = 0 \<and> (\<exists>an. stage [] [] [] [] an w))"
proof -
  have tls: "\<not> needs_tls [demo_case]" by (simp add: needs_tls_def demo_case)
  have same: "runs (act_ret demo_args) P (\<lambda>a w. P w \<and> a = demo_args)" for P by (rule runs_ret) simp
  have unroll: "demo_remote = Some (0, [], []) # Some (1, [], []) # Some (1, [], []) # Some (1, [], []) # Some (1, [], []) #
      case_remote @ [Some (0, [], [])]"
    "demo_local = Some (1, [], []) # Some (1, [], []) # Some (1, [], []) # case_local @ [Some (0, [], [])]"
    by (simp_all add: demo_remote_def demo_local_def numeral_eq_Suc)
  show ?thesis
    unfolding run_matrix_def unroll
    by (rule runs_bind [OF runs_lift [OF demo_cases(1)]], rule runs_known, rule runs_bind [OF runs_lift [OF demo_cases(2)]],
        rule runs_known, rule runs_bind [OF runs_check], unfold if_not_P [OF tls], rule runs_bind [OF same],
        rule runs_known, unfold list.size add_0_left)
      (rule runs_bind [OF runs_collect], rule runs_bind [OF runs_one_case], rule runs_verdict)
qed

lemma demo_main: "\<exists>w. matrix_main demo_args (demo_world demo_remote demo_local) = (Inr 0, w)"
proof -
  let ?w = "demo_world demo_remote demo_local"
  let ?a = "?w\<lparr>clock := 1, temp_dirs := [], files := demo_fs([''run''] \<mapsto> Dir)\<rparr>"
  let ?b = "?a\<lparr>remove_run_root := False, remote_ca := '''', tls_dir := None\<rparr>"
  have lab: "staged lab_files demo_remote demo_local accepting [True] [False, True, True] ?b"
    by (simp add: staged_def demo_world_def lab_files_def list_all_iff)
  have run: "to_path ''run'' = \<lparr>anchor = '''', segs = [''run'']\<rparr>"
    by (intro to_path_plain) (simp_all add: good_seg_def)
  have "[''run''] \<noteq> segs (to_path (local_output demo_paths))"
  proof
    assume "[''run''] = segs (to_path (local_output demo_paths))"
    from arg_cong [OF this, of length] show False unfolding output_key(1) by simp
  qed
  then have free: "demo_fs [''run''] = None" by (auto simp: demo_fs_def)
  moreover have "demo_fs [] = Some Dir" by (simp add: demo_fs_def)
  ultimately have "mkdirs [] [''run''] demo_fs = Inr (demo_fs([''run''] \<mapsto> Dir))"
    by (simp add: make_dir_def)
  with free have temp: "make_temp_dir (?w\<lparr>clock := 1\<rparr>) = (Inr ''run'', ?a)"
    by (simp add: make_temp_dir_def act_bind_def see_def change_def make_new_dirs_def update_files_def file_key_def run
        is_absolute_def path_exists_def act_basic demo_world_def)
  have dirs: "make_dirs ''results'' ?w = (Inr (), ?w)"
    by (rule make_results) (simp_all add: demo_world_def demo_fs_good)
  have stamp: "compact_timestamp ?w = (Inr ''T'', ?w\<lparr>clock := 1\<rparr>)"
    by (simp add: compact_timestamp_def demo_world_def)
  have same: "demo_args\<lparr>a_tls_cert_file := '''', a_tls_key_file := '''', a_tls_ca_file := '''', a_remote_tls_ca_file := ''''\<rparr> = demo_args"
    by (simp add: demo_args_def sample_matrix_args_def sample_args_def smoke_args_def rargs.defs margs.defs)
  obtain w1 an where 1: "run_matrix demo_args ''T'' ''run'' (table_path demo_args ''T'' ''.csv'') (table_path demo_args ''T'' ''-summary.csv'') ?b
      = (Inr 0, w1)" and s: "stage [] [] [] [] an w1"
    using runs_matrix lab unfolding runs_def by blast
  from s have ca: "remote_ca w1 = ''''" by (simp add: staged_def)
  obtain w2 where 2: "finish_matrix demo_args ''run'' w1 = (Inr (), w2)"
    by (cases "tls_dir w1"; cases "remove_run_root w1") (simp_all add: finish_matrix_def act_bind_def see_def ca act_when_def act_basic remove_tree_def
        change_def Let_def)
  have "matrix_main demo_args ?w = (Inr 0, w2)"
    by (simp add: matrix_main_def demo_args_dirs same act_when_def act_bind_def act_basic dirs stamp temp change_def
        act_finally_def 1 2)
  then show ?thesis by blast
qed

section \<open>The laws at this run\<close>

theorem run_case_pass_witness:
  "\<exists>r w' h tid fs a b c d e. run_case demo_args demo_case ''run'' sample_env (demo_world case_remote case_local) = (Inr r, w') \<and>
    complete r \<and> dict_get r ''result'' '''' = ''pass'' \<and>
    dict_get r ''source_sha256'' '''' = h \<and> dict_get r ''dest_sha256'' '''' = h \<and> dict_get r ''transfer_id'' '''' = tid \<and>
    trace w' = fs \<and> compared demo_case (paths_of demo_case (at_path ''run'' (case_id demo_case)) a b c d e) h tid h fs"
proof -
  let ?w = "demo_world case_remote case_local"
  obtain r w' where run: "run_case demo_args demo_case ''run'' sample_env ?w = (Inr r, w')" and "passed r"
    using demo_case_passes by blast
  then have "dict_get r ''result'' '''' = ''pass''" by (simp add: passed_def)
  moreover have "trace ?w = []" by (simp add: demo_world_def)
  ultimately show ?thesis using run run_case_pass [OF run] by auto
qed

theorem run_case_reaps_server_witness:
  "\<exists>r w'. run_case demo_args demo_case ''run'' sample_env (demo_world case_remote case_local) = (Inr r, w') \<and>
    set (alive (trace w')) \<subseteq> set (alive (trace (demo_world case_remote case_local)))"
  using demo_case_passes run_case_reaps_server by blast


end
