(* ===== verification/Spec2Isabelle.thy ===== *)
theory Spec2Isabelle
  imports Artifact_Sync Public_Export Remote_Auth Matrix_Cases Control_Client
    Release_Candidates Beta_Freeze Remote_Check Py_Json_Round
    Sync_Laws Step_Laws Gate_Laws Manifest_Freshness Beta_Candidate Matrix_Demo
begin

text \<open>
  Verification of the GridFlux tooling.

  \<^bold>\<open>The program.\<close> GridFlux is a file transfer engine in C++ with Python tooling around it under
  tools/. The tooling decides whether a version may be released and moves the evidence: it runs
  builds, tests and transfers as subprocesses, on this machine and on another one over ssh, writes
  Markdown and JSON reports, lists the artifacts of a run with their digests in a manifest,
  synchronises them to the other machine and verifies them there, and exports a copy of the
  repository from which private files and values are removed. A second part, under tools/perf/, speaks
  the control protocol of the server to run matrices of transfers. The development models the release
  tooling completely, and of the performance tooling the whole of the GridFTP matrix runner.

  \<^bold>\<open>How the parts interact.\<close> A gate (alpha or beta) takes a lock, runs its steps, reads what they left
  behind, writes its report, selects artifacts, writes the manifest, checks that it is fresh,
  starts the synchronisation and the verification scripts, reads their JSON reports, and turns all
  of it into an exit status. A candidate runs a gate, finds the gate's report by the paths in its
  log, and repeats the closing stages for a larger set of artifacts. The freeze check reads the
  reports of all of them. Everything passes through files, logs and exit statuses, so the theorems
  that span components are about texts: what one script writes, another reads back. The matrix runner
  generates cases, starts a server for each, drives it over the control connection, compares digests, and
  writes one row per case and one summary line per configuration, which the gates read.

  \<^bold>\<open>Foundations.\<close>
  \<^item> Prelude: exceptions as the datatype \<open>py_error\<close>, results \<open>py_error + 'a\<close> with \<open>andthen\<close>,
    dictionaries as association lists in insertion order, effects as functions on a state that
    return a result and the new state (\<open>act_bind\<close>, \<open>act_finally\<close>, \<open>act_catch\<close>), and the contracts
    \<open>text_codec\<close> (a text that is read back), \<open>cell_store\<close> (reading and writing single cells) and
    \<open>effect_order\<close> (an order on states that every effect respects).
  \<^item> Py_Strings, Py_Paths, Py_Regex, Py_Shell, Py_Csv, Py_Float, Py_Float_Sort, Py_Json, Py_Json_Text: the parts of Python the
    sources use. \<open>str\<close> is its UTF-8 bytes; case mapping, white space and digits are those of ASCII.
    \<open>re\<close> is a backtracking matcher that lists matches in the order Python finds them. \<open>float\<close> is the
    IEEE double with correct rounding, its arithmetic and shortest \<open>repr\<close>; Py_Float_Sort is \<open>sorted\<close> on
    doubles. \<open>json\<close> and \<open>csv\<close> work on the texts of files.
  \<^item> Py_Json_Round: \<open>json.loads\<close> returns what \<open>json.dumps\<close> wrote, keys sorted.

  \<^bold>\<open>Components.\<close> Every operation of a source file has the definition of the same name, or one that
  names its stage; \<open>main\<close> of a script is composed of its stages in their order.
  \<^item> Artifact_Sync (release/sync_remote_artifacts.py): \<open>validate_artifact_path\<close>, \<open>load_manifest\<close>,
    \<open>check_artifacts\<close>, \<open>sync_from_manifest\<close>, \<open>sync_main\<close>. Shown: accepted paths are harmless and in normal
    form; a synchronisation passes exactly when both sides agree with the manifest, and changes
    nothing else; the batch script gives what the tree gives. Sync_Laws adds that the
    synchronisation refines publishing on maps from paths to contents, as long as no published file
    collides under SHA-256 with the remote file it meets (\<open>no_collision\<close>), and that the block loop ends.
  \<^item> Public_Export (release/export_public_repo.py, release/check_public_hygiene.py): \<open>should_exclude\<close>,
    \<open>sanitize_text\<close>, \<open>copy_tree\<close>, \<open>scan\<close>, \<open>export_main\<close>. Shown: the copy is exactly the admitted files,
    private values do not survive, an export with status 0 was scanned without a finding, and the
    scan never depends on a file below tools/perf/results.
  \<^item> Remote_Auth (release/remote_auth.py): password sources and command lines. Shown: the order of the
    sources, and that no command line depends on the password.
  \<^item> Release_Steps, Step_Laws, Manifest_Freshness, Alpha_Gate (release/run_alpha_release_gate.py): the
    repository with modification times and the world of subprocesses (\<open>rworld\<close>), \<open>run_step\<close>, error
    classification, \<open>source_tree_hash\<close>, artifact selection, \<open>write_alpha_artifact_manifest\<close> and
    \<open>check_alpha_artifact_manifest_freshness\<close>, then the stages of \<open>gate_main\<close>. The run of a script is a
    path of the step relation \<open>gate_step\<close>; laws about runs are closure rules of \<open>effect_order\<close>. Shown: what
    exit status 0 means, \<open>full_closing\<close> being the order in which a full run ends, that a list of steps
    is run to its end, that a manifest detects exactly the changes of what it lists, what the source
    digest depends on and where it does not tell trees apart.
  \<^item> Beta_Gate (release/run_beta_release_gate.py), Release_Candidates (release/run_alpha_release_candidate.py) and
    Gate_Laws: stages of the beta gate and of the alpha candidate. Shown: the lock excludes a
    second run, announced paths are found again in the log, what exit status 0 of the beta gate
    means, and that a local candidate never passes.
  \<^item> Beta_Candidate (release/run_beta_release_candidate.py): gate report, throughput numbers, soak summary and
    closing stages. Shown: what exit status 0 means, that no candidate passes on a gate that did
    not, and that the throughput it reports is the greatest of a clean measurement.
  \<^item> Beta_Freeze (release/run_beta_freeze_check.py) and Remote_Check (release/check_remote_artifact_sync.py): readers,
    verdict, report. Shown: when exactly they end with status 0, the freeze check by the state in which it builds
    its second report, that this check cannot fail on the page it has written itself, and below in this theory
    that the report of the one is accepted by the other exactly when the verification succeeded.
  \<^item> Matrix_Cases and Control_Client (perf/run_gridftp_private_matrix.py): size tokens, \<open>generate_cases\<close>,
    ports; \<open>read_line\<close>, \<open>read_reply\<close>, login, EPSV, STOR, RETR and REST dialogues, and the command lines of
    the data clients. Shown: the generated cases are exactly the admitted ones, a reply is read
    whatever the segmentation of the stream, the order of a dialogue, that a connection is closed on
    every path, that the remote shell reads the intended words, and that both ends of a transfer get
    the same settings. \<open>sh_command\<close> and \<open>flag_values\<close> stand for the POSIX shell and for the option loops
    of the C++ programs; they are not translated from Python.
  \<^item> Matrix_Rows and Matrix_Laws (the same script): the 356 columns, \<open>initial_row\<close>, \<open>fill_metrics\<close>,
    \<open>event_error_code_counts\<close>, \<open>env_sidecar_meminfo\<close>, the statistics and \<open>summarize_rows\<close>. Shown: the 95th percentile is
    the nearest rank in spite of rounding, the summary partitions the rows, and the release gate reads
    from the summary file what the rows say.
  \<^item> Matrix_Run, Matrix_Run_Laws and Matrix_Demo (the same script): \<open>run_case\<close> with its handler and its \<open>finally\<close>
    block, the server process, the environment logs, and \<open>main\<close>. The state \<open>mworld\<close> holds the files, which other
    programs may change whenever the script waits, and the answers still to come of the two machines. Shown: a row
    passes only for a transfer whose ends were compared, no server outlives its case, and what exit status 0
    means for the files and the gate. Matrix_Demo exhibits a machine and a server on which a whole run succeeds,
    by total correctness rules for every stage.

  \<^bold>\<open>The world and its parameters.\<close> The release scripts work on \<open>rworld\<close>: the files below the root with
    their times, the list of subprocess outcomes still to come, each with an arbitrary effect on the
    files, the environment, the clock as a rendering of ticks, and the trace of commands and printed
    lines. A process is started in the root, so relative paths are below it. Directories exist as far as they
    hold files, and symbolic links and permissions are outside the model. Parameters are SHA-256, \<open>ssh\<close> and
    \<open>rsync\<close> as functions or outcomes, and the renderings of the clock. Hypotheses about them are named
    in the theorems that use them; each such theorem has a witness with concrete values.

  \<^bold>\<open>Bounds.\<close> \<open>json_loads\<close> carries a bound on the number of nested calls, twice the length of the text
  plus one; the round trip theorem shows that it is enough for what \<open>json_dumps\<close> writes.
  \<open>read_blocks\<close> carries the length of the file, shown to be enough in Sync_Laws. \<open>shortest_digits\<close> tries
  up to seventeen digits, which is enough for a double. Every other recursion has a termination proof.

  \<^bold>\<open>Not modelled.\<close> The C++ engine; the other measurement, analysis and plotting scripts of tools/perf/, which start
  servers, probe the system and reduce timings to tables and figures; the demo and benchmark drivers and the
  smoke tests, which only start compiled programs; \<open>argparse\<close>, whose result is the record of arguments;
  concurrency of several scripts beyond the lock file.
\<close>

section \<open>From the remote verification to the freeze check\<close>

lemma finish_check_writes:
  assumes "finish_check args checks w = (Inr rc, w')" and "ck_json_output args \<noteq> ''''"
  shows "repo_content (tree w') (key_of w (ck_json_output args)) =
    Some (json_dumps (JObj (check_report args (abs_text w []) checks)) @ [newline])"
proof -
  have prints: "tree w2 = tree w1" if "print_failures cs w1 = (Inr (), w2)" for cs w1 w2
    using that by (induction cs arbitrary: w1) (auto simp: act_simps print_error_def)
  obtain w1 where wr: "write_check_report args (check_report args (abs_text w []) checks) w = (Inr (), w1)"
    and "tree w' = tree w1"
    using assms(1) prints
    by (auto simp: finish_check_def act_simps print_error_def print_line_def split: if_splits)
  then show ?thesis
    using assms(2) by (auto simp: write_check_report_def write_json_report_def act_simps write_file_ok repo_content_def)
qed

lemma report_accepted:
  assumes "sorted_json (JObj (check_report args root checks)) = JObj payload"
  shows "artifact_verify_pass payload \<longleftrightarrow> failed_checks checks = []"
proof -
  let ?kvs = "check_report args root checks"
  have "distinct (map fst ?kvs)" by (simp add: check_report_def)
  note f = field_sorted [OF this]
  have payload: "payload = sort_key fst (map (\<lambda>kv. (fst kv, sorted_json (snd kv))) ?kvs)" using assms by simp
  have fields: "field payload ''passed'' JNull = JNull" "field payload ''result'' (JStr '''') = JStr ''''"
      "field payload ''status'' (JStr '''') = JStr (if failed_checks checks = [] then ''pass'' else ''fail'')"
      "field payload ''failures'' (JInt 0) = JInt (int (length (failed_checks checks)))"
      "field payload ''missing'' (JInt 0) = JInt (int (length (filter (\<lambda>c. ac_status c \<in> {''missing_remote'', ''missing''}) checks)))"
      "field payload ''mismatch'' (JInt 0) = JInt (int (length (filter (\<lambda>c. ac_status c = ''mismatch'') checks)))"
    unfolding payload f by (simp_all add: check_report_def)
  have "payload \<noteq> []" using fields(3) by (auto simp: field_def split: if_splits)
  moreover have "py_lower ''pass'' = ''pass''" "py_lower ''fail'' = ''fail''" "py_lower '''' = ''''" by code_simp+
  moreover have "filter (\<lambda>c. ac_status c \<in> {''missing_remote'', ''missing''}) checks = []"
      "filter (\<lambda>c. ac_status c = ''mismatch'') checks = []" if "failed_checks checks = []"
    using that by (auto simp: failed_checks_def filter_empty_conv)
  ultimately show ?thesis
    by (auto simp: artifact_verify_pass_def status_is_pass_def says_pass_def get_text_def counts_zero_def fields)
qed

text \<open>
  C10: The freeze check accepts the report of a remote verification exactly when that
  verification ended with status 0: the JSON file written by check_remote_artifact_sync.py is read
  back by run_beta_freeze_check.py, and its verdict agrees with the exit status, which in turn is 0
  exactly when every artifact matched. The texts of the report are taken to be ASCII.
\<close>

theorem verify_report_accepted:
  assumes "finish_check args checks w = (Inr rc, w')" and "ck_json_output args \<noteq> ''''"
    and "plain_json (JObj (check_report args (abs_text w []) checks))"
  shows "\<exists>payload. read_json_file (tree w') (Some (key_of w (ck_json_output args))) = Inr payload \<and>
    (artifact_verify_pass payload \<longleftrightarrow> rc = 0) \<and>
    (rc = 0 \<longleftrightarrow> list_all (\<lambda>c. ac_status c = ''match'') checks)"
proof -
  let ?p = "key_of w (ck_json_output args)" and ?report = "JObj (check_report args (abs_text w []) checks)"
  obtain body where body: "read_text_strict (tree w') ?p = Inr body" "json_loads body = Some (sorted_json ?report)"
    using written_json_read [OF finish_check_writes [OF assms(1,2)] assms(3)] by blast
  obtain payload where payload: "sorted_json ?report = JObj payload" by simp
  have "read_json_file (tree w') (Some ?p) = Inr payload"
    using finish_check_writes [OF assms(1,2)] body payload
    by (simp add: read_json_file_def read_json_if_exists_def repo_is_file_def repo_exists_def)
  moreover have "rc = 0 \<longleftrightarrow> failed_checks checks = []" using finish_check_rc [OF assms(1)] by simp
  ultimately show ?thesis using report_accepted [OF payload] by (auto simp: failed_checks_Nil)
qed

definition matching_check :: artifact_check where
  "matching_check = \<lparr>ac_path = ''docs/a.md'', ac_local_exists = True, ac_remote_exists = True,
     ac_local_sha256 = ''5'', ac_remote_sha256 = ''5'', ac_status = ''match''\<rparr>"

definition report_args :: ckargs where
  "report_args = note_args\<lparr>ck_json_output := ''v.json''\<rparr>"

lemma note_report_written: "fst (finish_check report_args [matching_check] note_world) = Inr 0"
  by code_simp

theorem verify_report_accepted_witness:
  "\<exists>w' payload. finish_check report_args [matching_check] note_world = (Inr 0, w') \<and>
     read_json_file (tree w') (Some (key_of note_world ''v.json'')) = Inr payload \<and> artifact_verify_pass payload"
proof -
  obtain w' where run: "finish_check report_args [matching_check] note_world = (Inr 0, w')"
    using note_report_written by (cases "finish_check report_args [matching_check] note_world") auto
  have out: "ck_json_output report_args = ''v.json''" by (simp add: report_args_def)
  have "plain_json (JObj (check_report report_args (abs_text note_world []) [matching_check]))" by code_simp
  then show ?thesis using verify_report_accepted [OF run] run out by auto
qed

end
